(* ===== verification/Prelude.thy ===== *)
theory Prelude
  imports Main "HOL-Library.Multiset" "HOL-Library.Sublist"
begin

text \<open>
  What every component of the operator uses: the byte strings of Go with the few functions of
  package \<open>strings\<close> the sources call, slices with insertion and removal by index, the insertion
  sort that \<open>sort.Slice\<close> runs on short slices, and the error values that the Kubernetes and AWS
  clients and the operator's own \<open>fmt.Errorf\<close> calls produce.
\<close>

named_theorems go_defs \<open>definitions of the model that the component proofs unfold\<close>
named_theorems go_laws \<open>characteristic equations shared by the component proofs\<close>

section \<open>Strings\<close>

type_synonym bytes = string

text \<open>\<open>strings.HasPrefix\<close> and \<open>strings.TrimPrefix\<close>, with Go's argument order.\<close>

fun has_prefix :: "bytes \<Rightarrow> bytes \<Rightarrow> bool" where
  "has_prefix s [] = True"
| "has_prefix [] (p # ps) = False"
| "has_prefix (c # cs) (p # ps) = (c = p \<and> has_prefix cs ps)"

lemma has_prefix_iff: "has_prefix s p \<longleftrightarrow> prefix p s"
  by (induction s p rule: has_prefix.induct) auto

definition trim_prefix :: "bytes \<Rightarrow> bytes \<Rightarrow> bytes" where
  "trim_prefix s p = (if has_prefix s p then drop (length p) s else s)"

lemma trim_prefix_append [simp]: "trim_prefix (p @ s) p = s"
  by (simp add: trim_prefix_def has_prefix_iff)

lemma trim_prefix_id: "\<not> has_prefix s p \<Longrightarrow> trim_prefix s p = s"
  by (simp add: trim_prefix_def)

text \<open>\<open>strings.Contains s sub\<close>.\<close>

fun str_contains :: "bytes \<Rightarrow> bytes \<Rightarrow> bool" where
  "str_contains [] sub = (sub = [])"
| "str_contains (c # cs) sub = (has_prefix (c # cs) sub \<or> str_contains cs sub)"

lemma str_contains_iff: "str_contains s sub \<longleftrightarrow> sublist sub s"
proof (induction s)
  case Nil
  then show ?case by simp
next
  case (Cons c cs)
  then show ?case by (simp add: has_prefix_iff sublist_Cons_right)
qed

lemma str_contains_append [simp]: "str_contains (u @ s @ v) s"
  by (simp add: str_contains_iff)

text \<open>\<open>strings.Join elems sep\<close>.\<close>

fun str_join :: "bytes list \<Rightarrow> bytes \<Rightarrow> bytes" where
  "str_join [] sep = []"
| "str_join [x] sep = x"
| "str_join (x # y # ys) sep = x @ sep @ str_join (y # ys) sep"

lemma str_join_Cons: "str_join (x # xs) sep = (if xs = [] then x else x @ sep @ str_join xs sep)"
  by (cases xs) auto

lemma str_join_append:
  "str_join (xs @ ys) sep =
    (if xs = [] then str_join ys sep else if ys = [] then str_join xs sep
     else str_join xs sep @ sep @ str_join ys sep)"
  by (induction xs) (auto simp: str_join_Cons)

section \<open>Slices\<close>

text \<open>
  The index of the first element that satisfies a predicate, as the loops
  \<open>for i, x := range xs { if p(x) { ...; break } }\<close> of the sources compute it; \<open>None\<close> where they
  leave the marker \<open>-1\<close>.
\<close>

fun first_index :: "('a \<Rightarrow> bool) \<Rightarrow> 'a list \<Rightarrow> nat option" where
  "first_index p [] = None"
| "first_index p (x # xs) = (if p x then Some 0 else map_option Suc (first_index p xs))"

lemma first_index_None: "first_index p xs = None \<longleftrightarrow> (\<forall>x \<in> set xs. \<not> p x)"
  by (induction xs) auto

lemma first_index_SomeD:
  "first_index p xs = Some i \<Longrightarrow> i < length xs \<and> p (xs ! i) \<and> (\<forall>j < i. \<not> p (xs ! j))"
proof (induction xs arbitrary: i)
  case Nil
  then show ?case by simp
next
  case (Cons x xs)
  then show ?case
    by (cases i) (auto simp: nth_Cons' split: if_splits)
qed

lemma first_index_Some_length: "first_index p xs = Some i \<Longrightarrow> i < length xs"
  by (simp add: first_index_SomeD)

text \<open>
  \<open>append(xs[:i], append([]T{x}, xs[i:]...)...)\<close>. The slice expression \<open>xs[i:]\<close> panics when
  \<open>i > len(xs)\<close>; the model then has no value.
\<close>

definition slice_insert :: "'a list \<Rightarrow> nat \<Rightarrow> 'a \<Rightarrow> 'a list option" where
  "slice_insert xs i x = (if i \<le> length xs then Some (take i xs @ x # drop i xs) else None)"

text \<open>\<open>append(xs[:i], xs[i+1:]...)\<close>, which panics when \<open>i >= len(xs)\<close>.\<close>

definition slice_remove :: "'a list \<Rightarrow> nat \<Rightarrow> 'a list option" where
  "slice_remove xs i = (if i < length xs then Some (take i xs @ drop (Suc i) xs) else None)"

lemma mset_slice_insert: "slice_insert xs i x = Some ys \<Longrightarrow> mset ys = add_mset x (mset xs)"
proof -
  assume "slice_insert xs i x = Some ys"
  then have "ys = take i xs @ x # drop i xs"
    by (auto simp: slice_insert_def split: if_splits)
  then have "mset ys = add_mset x (mset (take i xs @ drop i xs))"
    by (simp del: append_take_drop_id)
  then show ?thesis by simp
qed

lemma mset_slice_remove:
  "slice_remove xs i = Some ys \<Longrightarrow> add_mset (xs ! i) (mset ys) = mset xs"
proof -
  assume "slice_remove xs i = Some ys"
  then have i: "i < length xs" and ys: "ys = take i xs @ drop (Suc i) xs"
    by (auto simp: slice_remove_def split: if_splits)
  have "mset xs = mset (take i xs @ xs ! i # drop (Suc i) xs)"
    using i by (simp add: id_take_nth_drop [symmetric])
  with ys show ?thesis by simp
qed

lemma slice_insert_nth:
  "slice_insert xs i x = Some ys \<Longrightarrow>
     length ys = Suc (length xs) \<and> ys ! i = x \<and> take i ys = take i xs"
  by (auto simp: slice_insert_def nth_append split: if_splits)

lemma slice_remove_take:
  "slice_remove xs i = Some ys \<Longrightarrow> j \<le> i \<Longrightarrow>
     Suc (length ys) = length xs \<and> take j ys = take j xs"
  by (auto simp: slice_remove_def min_def split: if_splits)

section \<open>Sorting\<close>

text \<open>
  \<open>sort.Slice\<close> runs \<open>insertionSort_func\<close> on slices of at most twelve elements: element after
  element, swapped to the left while it is less than its left neighbour. Here \<open>lt\<close> compares two
  elements, as the closures of the sources do with two positions.
\<close>

definition insert_left :: "('a \<Rightarrow> 'a \<Rightarrow> bool) \<Rightarrow> 'a list \<Rightarrow> 'a \<Rightarrow> 'a list" where
  "insert_left lt ps x =
     rev (dropWhile (lt x) (rev ps)) @ x # rev (takeWhile (lt x) (rev ps))"

definition sort_slice :: "('a \<Rightarrow> 'a \<Rightarrow> bool) \<Rightarrow> 'a list \<Rightarrow> 'a list" where
  "sort_slice lt xs = foldl (insert_left lt) [] xs"

lemma mset_insert_left: "mset (insert_left lt ps x) = add_mset x (mset ps)"
proof -
  have "mset ps = mset (takeWhile (lt x) (rev ps) @ dropWhile (lt x) (rev ps))"
    by simp
  then show ?thesis
    unfolding insert_left_def by (simp del: takeWhile_dropWhile_id add: union_commute)
qed

lemma mset_foldl_insert_left:
  "mset (foldl (insert_left lt) ps xs) = mset ps + mset xs"
  by (induction xs arbitrary: ps) (simp_all add: mset_insert_left)

lemma mset_sort_slice [simp]: "mset (sort_slice lt xs) = mset xs"
  by (simp add: sort_slice_def mset_foldl_insert_left)

lemma set_sort_slice [simp]: "set (sort_slice lt xs) = set xs"
  by (metis mset_sort_slice set_mset_mset)

lemma length_sort_slice [simp]: "length (sort_slice lt xs) = length xs"
  by (metis mset_sort_slice size_mset)

text \<open>
  The comparators of the sources compare a key: \<open>lt a b\<close> is \<open>key b < key a\<close> (newest first).
  The sorted slice is then non-increasing in the key.
\<close>

lemma insert_left_desc:
  fixes key :: "'a \<Rightarrow> 'k::linorder"
  assumes "sorted_wrt (\<lambda>a b. key b \<le> key a) ps"
  shows "sorted_wrt (\<lambda>a b. key b \<le> key a) (insert_left (\<lambda>a b. key b < key a) ps x)"
proof -
  let ?P = "\<lambda>p. key p < key x"
  let ?t = "takeWhile ?P (rev ps)" and ?d = "dropWhile ?P (rev ps)"
  have split: "ps = rev ?d @ rev ?t"
    by (metis rev_append rev_rev_ident takeWhile_dropWhile_id)
  have low: "\<forall>p \<in> set ?t. key p < key x"
    by (auto dest: set_takeWhileD)
  have srt: "sorted_wrt (\<lambda>a b. key b \<le> key a) (rev ?d @ rev ?t)"
    using assms split by simp
  have high: "\<forall>p \<in> set ?d. key x \<le> key p"
  proof (cases ?d)
    case Nil
    then have "set ?d = {}" by (simp only: list.set)
    then show ?thesis by (simp only: ball_empty)
  next
    case (Cons q qs)
    then have q: "key x \<le> key q"
      by (metis dropWhile_eq_Cons_conv not_less)
    have "sorted_wrt (\<lambda>a b. key b \<le> key a) (rev qs @ [q])"
      using srt Cons by (simp add: sorted_wrt_append)
    then have "\<forall>p \<in> set qs. key q \<le> key p"
      by (simp add: sorted_wrt_append)
    with q have "\<forall>p \<in> set (q # qs). key x \<le> key p"
      by auto
    with Cons show ?thesis by (simp only:)
  qed
  show ?thesis
    using srt low high unfolding insert_left_def
    by (auto simp: sorted_wrt_append intro: less_imp_le)
qed

lemma sort_slice_desc:
  fixes key :: "'a \<Rightarrow> 'k::linorder"
  shows "sorted_wrt (\<lambda>a b. key b \<le> key a) (sort_slice (\<lambda>a b. key b < key a) xs)"
proof -
  have "sorted_wrt (\<lambda>a b. key b \<le> key a) ps \<Longrightarrow>
    sorted_wrt (\<lambda>a b. key b \<le> key a) (foldl (insert_left (\<lambda>a b. key b < key a)) ps xs)" for ps
    by (induction xs arbitrary: ps) (simp_all add: insert_left_desc)
  then show ?thesis by (simp add: sort_slice_def)
qed

section \<open>Errors\<close>

text \<open>
  The error values the sources tell apart. \<open>ErrorString\<close> is what \<open>errors.New\<close> and a
  \<open>fmt.Errorf\<close> without \<open>%w\<close> make, \<open>WrapError\<close> a \<open>fmt.Errorf\<close> whose format ends in \<open>%w\<close>;
  \<open>K8sError\<close> is an \<open>APIStatus\<close> error of the Kubernetes client with its reason, \<open>AwsError\<close> a
  \<open>smithy.APIError\<close> with its code, \<open>AwsOperationError\<close> a \<open>*smithy.OperationError\<close> around another
  error. Each library error carries the text its \<open>Error\<close> method returns.
\<close>

datatype go_error =
    ErrorString bytes
  | WrapError bytes go_error
  | K8sError bytes bytes
  | AwsError bytes bytes
  | AwsOperationError bytes go_error
  | ContextCanceled
  | DeadlineExceeded

text \<open>The method \<open>Error()\<close>.\<close>

fun error_text :: "go_error \<Rightarrow> bytes" where
  "error_text (ErrorString s) = s"
| "error_text (WrapError s e) = s @ error_text e"
| "error_text (K8sError reason text) = text"
| "error_text (AwsError code text) = text"
| "error_text (AwsOperationError text e) = text"
| "error_text ContextCanceled = ''context canceled''"
| "error_text DeadlineExceeded = ''context deadline exceeded''"

text \<open>
  \<open>k8serrors.IsNotFound\<close>, \<open>IsConflict\<close>: the reason of the first API status in the chain of wrapped
  errors. \<open>aws_code\<close> is the \<open>errors.As(err, &apiErr)\<close> of the AWS calls, \<open>is_deadline\<close> is
  \<open>errors.Is(err, context.DeadlineExceeded)\<close>.
\<close>

fun k8s_reason :: "go_error \<Rightarrow> bytes option" where
  "k8s_reason (K8sError reason text) = Some reason"
| "k8s_reason (WrapError s e) = k8s_reason e"
| "k8s_reason (AwsOperationError text e) = k8s_reason e"
| "k8s_reason e = None"

definition is_not_found :: "go_error \<Rightarrow> bool" where
  "is_not_found e \<longleftrightarrow> k8s_reason e = Some ''NotFound''"

definition is_conflict :: "go_error \<Rightarrow> bool" where
  "is_conflict e \<longleftrightarrow> k8s_reason e = Some ''Conflict''"

fun aws_code :: "go_error \<Rightarrow> bytes option" where
  "aws_code (AwsError code text) = Some code"
| "aws_code (WrapError s e) = aws_code e"
| "aws_code (AwsOperationError text e) = aws_code e"
| "aws_code e = None"

fun is_deadline :: "go_error \<Rightarrow> bool" where
  "is_deadline DeadlineExceeded = True"
| "is_deadline (WrapError s e) = is_deadline e"
| "is_deadline (AwsOperationError text e) = is_deadline e"
| "is_deadline e = False"

text \<open>\<open>fmt.Errorf\<close> with the error formatted by \<open>%v\<close> or \<open>%s\<close> at the end.\<close>

definition errorf :: "bytes \<Rightarrow> go_error \<Rightarrow> go_error" where
  "errorf s e = ErrorString (s @ error_text e)"

lemma errorf_text [simp]: "error_text (errorf s e) = s @ error_text e"
  by (simp add: errorf_def)

lemma errorf_forgets [simp]: "k8s_reason (errorf s e) = None" "aws_code (errorf s e) = None"
  by (simp_all add: errorf_def)

lemma wrap_keeps_reason [simp]:
  "is_not_found (WrapError s e) = is_not_found e" "is_conflict (WrapError s e) = is_conflict e"
  by (simp_all add: is_not_found_def is_conflict_def)

text \<open>A call that returns or panics (a nil dereference, an index or a capacity out of range).\<close>

datatype 'a outcome = Returns 'a | Panics bytes

end
