(* ===== verification/Go_Time.thy ===== *)
theory Go_Time
  imports Prelude "HOL-Library.Monad_Syntax"
begin

text \<open>
  The part of Go's package \<open>time\<close> the operator uses: instants and durations in nanoseconds,
  \<open>time.ParseDuration\<close> (the \<open>timeOuts\<close> of the specs), and \<open>time.Parse\<close> and \<open>Format\<close> with the layout
  \<open>time.RFC3339\<close> (the \<open>create-timestamp\<close> tag and EC2's \<open>CreationDate\<close>). The lemmas compute the
  durations the documentation mentions and show that a formatted instant parses back to itself,
  truncated to the second.
\<close>

section \<open>Instants and durations\<close>

text \<open>
  An instant is its distance in nanoseconds from the zero \<open>time.Time\<close>, midnight UTC of 1 January
  of year 1; a duration is an \<open>int64\<close> of nanoseconds.
\<close>

type_synonym time = int
type_synonym duration = int

definition second :: duration where
  "second = 1000000000"

definition zero_time :: time where
  "zero_time = 0"

text \<open>\<open>t.IsZero()\<close>, \<open>t.After(u)\<close>, \<open>t.Add(d)\<close>.\<close>

definition time_is_zero :: "time \<Rightarrow> bool" where
  "time_is_zero t \<longleftrightarrow> t = 0"

definition time_after :: "time \<Rightarrow> time \<Rightarrow> bool" where
  "time_after t u \<longleftrightarrow> u < t"

definition time_add :: "time \<Rightarrow> duration \<Rightarrow> time" where
  "time_add t d = t + d"

text \<open>\<open>t.Sub(u)\<close> saturates at the bounds of \<open>int64\<close>.\<close>

definition time_sub :: "time \<Rightarrow> time \<Rightarrow> duration" where
  "time_sub t u = max (- (2 ^ 63)) (min (2 ^ 63 - 1) (t - u))"

lemmas time_defs = time_is_zero_def time_after_def time_add_def time_sub_def second_def zero_time_def

section \<open>Digits\<close>

definition digit_val :: "char \<Rightarrow> int option" where
  "digit_val c = (let n = of_char c :: int in if 48 \<le> n \<and> n \<le> 57 then Some (n - 48) else None)"

definition is_digit :: "char \<Rightarrow> bool" where
  "is_digit c \<longleftrightarrow> digit_val c \<noteq> None"

definition digit_char :: "int \<Rightarrow> char" where
  "digit_char d = char_of (48 + d)"

lemma digit_val_char [simp]: "0 \<le> d \<Longrightarrow> d < 10 \<Longrightarrow> digit_val (digit_char d) = Some d"
  by (simp add: digit_val_def digit_char_def Let_def of_char_of)

lemma digit_val_range: "digit_val c = Some d \<Longrightarrow> 0 \<le> d \<and> d < 10"
  by (auto simp: digit_val_def Let_def split: if_splits)

lemma digit_char_neq [simp]:
  assumes "0 \<le> d" "d < 10"
  shows "digit_char d \<noteq> CHR ''.''" "digit_char d \<noteq> CHR '',''" "digit_char d \<noteq> CHR ''Z''"
    "digit_char d \<noteq> CHR ''-''" "digit_char d \<noteq> CHR '':''" "digit_char d \<noteq> CHR ''+''"
    "digit_char d \<noteq> CHR ''T''"
  using digit_val_char [OF assms] by (auto simp: digit_val_def)

text \<open>The value of a run of decimal digits, most significant first.\<close>

fun digits_val :: "int \<Rightarrow> bytes \<Rightarrow> int option" where
  "digits_val acc [] = Some acc"
| "digits_val acc (c # cs) =
     (case digit_val c of None \<Rightarrow> None | Some d \<Rightarrow> digits_val (10 * acc + d) cs)"

section \<open>time.ParseDuration\<close>

text \<open>
  \<open>leadingInt\<close>: the digits at the front as an \<open>uint64\<close>, with the two overflow tests of the library.
  The outer \<open>None\<close> is the overflow error.
\<close>

fun leading_int :: "int \<Rightarrow> bytes \<Rightarrow> (int \<times> bytes) option" where
  "leading_int x [] = Some (x, [])"
| "leading_int x (c # cs) =
     (case digit_val c of
        None \<Rightarrow> Some (x, c # cs)
      | Some d \<Rightarrow>
          if x > 2 ^ 63 div 10 then None
          else if 10 * x + d > 2 ^ 63 then None
          else leading_int (10 * x + d) cs)"

text \<open>
  \<open>leadingFraction\<close>: digits after the period and the power of ten they are scaled by; once the
  number no longer fits, the further digits are read and dropped.
\<close>

fun leading_fraction :: "int \<Rightarrow> int \<Rightarrow> bool \<Rightarrow> bytes \<Rightarrow> int \<times> int \<times> bytes" where
  "leading_fraction x scale ovf [] = (x, scale, [])"
| "leading_fraction x scale ovf (c # cs) =
     (case digit_val c of
        None \<Rightarrow> (x, scale, c # cs)
      | Some d \<Rightarrow>
          if ovf then leading_fraction x scale True cs
          else if x > (2 ^ 63 - 1) div 10 then leading_fraction x scale True cs
          else if 10 * x + d > 2 ^ 63 then leading_fraction x scale True cs
          else leading_fraction (10 * x + d) (10 * scale) False cs)"

text \<open>
  \<open>unitMap\<close>, nanoseconds per unit. The two spellings of microsecond with a Greek letter are the
  UTF-8 bytes of U+00B5 and U+03BC.
\<close>

definition unit_map :: "bytes \<Rightarrow> int option" where
  "unit_map u =
     map_of [(''ns'', 1), (''us'', 1000), ([CHR 0xC2, CHR 0xB5, CHR ''s''], 1000),
       ([CHR 0xCE, CHR 0xBC, CHR ''s''], 1000), (''ms'', 1000000), (''s'', 1000000000),
       (''m'', 60000000000), (''h'', 3600000000000)] u"

definition unit_char :: "char \<Rightarrow> bool" where
  "unit_char c \<longleftrightarrow> \<not> is_digit c \<and> c \<noteq> CHR ''.''"

lemma length_leading_int: "leading_int x s = Some (v, r) \<Longrightarrow> length r \<le> length s"
  by (induction x s rule: leading_int.induct) (auto split: option.splits if_splits)

lemma length_leading_fraction: "leading_fraction x sc ovf s = (f, sc', r) \<Longrightarrow> length r \<le> length s"
  by (induction x sc ovf s rule: leading_fraction.induct) (auto split: option.splits if_splits)

text \<open>
  One component, a number with an optional fraction and its unit: the nanoseconds it adds and what
  is left of the input. The library multiplies the fraction in \<open>float64\<close> and truncates; the model
  truncates the exact product, which agrees whenever \<open>unit / scale\<close> is a whole number.
\<close>

definition duration_component :: "bytes \<Rightarrow> (int \<times> bytes) option" where
  "duration_component s = do {
     (v, s1) \<leftarrow> leading_int 0 s;
     let pre = length s1 \<noteq> length s;
     let (f, scale, s2) =
       (case s1 of
          c # r \<Rightarrow> if c = CHR ''.'' then leading_fraction 0 1 False r else (0, 1, s1)
        | [] \<Rightarrow> (0, 1, s1));
     let post = (s1 \<noteq> [] \<and> hd s1 = CHR ''.'' \<and> Suc (length s2) \<noteq> length s1);
     if \<not> pre \<and> \<not> post then None else do {
       let u = takeWhile unit_char s2;
       let rest = dropWhile unit_char s2;
       per \<leftarrow> unit_map u;
       if v > 2 ^ 63 div per then None else do {
         let w = v * per + f * per div scale;
         if w > 2 ^ 63 then None else Some (w, rest)
       }
     }
   }"

lemma unit_map_Nil: "unit_map [] = None"
  by (simp add: unit_map_def)

lemma duration_component_shorter:
  assumes "duration_component s = Some (w, rest)"
  shows "length rest < length s"
proof -
  from assms obtain v s1 where li: "leading_int 0 s = Some (v, s1)"
    unfolding duration_component_def by (cases "leading_int 0 s") auto
  obtain f scale s2 where s2:
    "(case s1 of c # r \<Rightarrow> if c = CHR ''.'' then leading_fraction 0 1 False r else (0, 1, s1)
      | [] \<Rightarrow> (0, 1, s1)) = (f, scale, s2)"
    using prod_cases3 by blast
  then have le: "length s2 \<le> length s1"
    by (auto split: list.splits if_splits dest!: length_leading_fraction)
  from assms li s2 have rest: "rest = dropWhile unit_char s2"
    and u: "unit_map (takeWhile unit_char s2) \<noteq> None"
    unfolding duration_component_def
    by (auto simp: Let_def bind_eq_Some_conv split: if_splits)
  from u have "takeWhile unit_char s2 \<noteq> []"
    using unit_map_Nil by metis
  then have "length rest < length s2"
    unfolding rest by (metis add_less_cancel_right length_append length_greater_0_conv
        less_add_same_cancel2 takeWhile_dropWhile_id)
  also have "\<dots> \<le> length s"
    using le length_leading_int [OF li] by simp
  finally show ?thesis .
qed

text \<open>
  The loop over the components. The accumulator is an \<open>uint64\<close>, so the sum wraps before it is
  tested against \<open>2 ^ 63\<close>.
\<close>

function duration_loop :: "int \<Rightarrow> bytes \<Rightarrow> int option" where
  "duration_loop d s =
     (if s = [] then Some d
      else case duration_component s of
             None \<Rightarrow> None
           | Some (w, rest) \<Rightarrow>
               let d' = (d + w) mod 2 ^ 64
               in if d' > 2 ^ 63 then None else duration_loop d' rest)"
  by pat_completeness auto
termination
  by (relation "measure (\<lambda>(d, s). length s)") (auto simp: duration_component_shorter)

declare duration_loop.simps [simp del]

lemma duration_loop_Nil [simp]: "duration_loop d [] = Some d"
  by (simp add: duration_loop.simps)

lemma duration_loop_bound:
  "0 \<le> d \<Longrightarrow> d \<le> 2 ^ 63 \<Longrightarrow> duration_loop d s = Some r \<Longrightarrow> 0 \<le> r \<and> r \<le> 2 ^ 63"
proof (induction d s rule: duration_loop.induct)
  case (1 d s)
  show ?case
  proof (cases "s = []")
    case True
    with "1.prems" show ?thesis by simp
  next
    case False
    with "1.prems" obtain w rest where c: "duration_component s = Some (w, rest)"
      and le: "0 \<le> (d + w) mod 2 ^ 64" "(d + w) mod 2 ^ 64 \<le> 2 ^ 63"
      and lp: "duration_loop ((d + w) mod 2 ^ 64) rest = Some r"
      by (subst (asm) duration_loop.simps)
        (auto simp: Let_def not_less split: option.splits prod.splits if_splits)
    from "1.IH" [OF False c refl refl] le lp show ?thesis by (simp add: not_less)
  qed
qed

text \<open>\<open>time.ParseDuration\<close>; \<open>None\<close> is the error.\<close>

definition parse_duration :: "bytes \<Rightarrow> duration option" where
  "parse_duration s0 =
     (let neg = (s0 \<noteq> [] \<and> hd s0 = CHR ''-'');
          s = (if s0 \<noteq> [] \<and> (hd s0 = CHR ''-'' \<or> hd s0 = CHR ''+'') then tl s0 else s0)
      in if s = ''0'' then Some 0
         else if s = [] then None
         else case duration_loop 0 s of
                None \<Rightarrow> None
              | Some d \<Rightarrow>
                  if neg then Some (- d)
                  else if d > 2 ^ 63 - 1 then None
                  else Some d)"

text \<open>
  The sources drop the error (\<open>validFor, _ := time.ParseDuration(...)\<close>), which leaves the zero
  duration.
\<close>

definition duration_or_zero :: "bytes \<Rightarrow> duration" where
  "duration_or_zero s = (case parse_duration s of None \<Rightarrow> 0 | Some d \<Rightarrow> d)"

lemma parse_duration_int64: "parse_duration s = Some d \<Longrightarrow> - (2 ^ 63) \<le> d \<and> d < 2 ^ 63"
  unfolding parse_duration_def Let_def
  by (auto split: if_splits option.splits dest!: duration_loop_bound [of 0, simplified])

lemma duration_or_zero_int64: "- (2 ^ 63) \<le> duration_or_zero s \<and> duration_or_zero s < 2 ^ 63"
  by (auto simp: duration_or_zero_def dest: parse_duration_int64 split: option.splits)

section \<open>The calendar\<close>

text \<open>The proleptic Gregorian calendar of package \<open>time\<close>: days since 1 January of year 1.\<close>

definition is_leap :: "int \<Rightarrow> bool" where
  "is_leap y \<longleftrightarrow> y mod 4 = 0 \<and> (y mod 100 \<noteq> 0 \<or> y mod 400 = 0)"

definition days_before_year :: "int \<Rightarrow> int" where
  "days_before_year y = 365 * (y - 1) + (y - 1) div 4 - (y - 1) div 100 + (y - 1) div 400"

definition month_lengths :: "int \<Rightarrow> int list" where
  "month_lengths y =
     [31, if is_leap y then 29 else 28, 31, 30, 31, 30, 31, 31, 30, 31, 30, 31]"

text \<open>\<open>daysIn(month, year)\<close>, the month counted from 1.\<close>

definition days_in :: "int \<Rightarrow> int \<Rightarrow> int" where
  "days_in m y = month_lengths y ! nat (m - 1)"

definition days_of_date :: "int \<Rightarrow> int \<Rightarrow> int \<Rightarrow> int" where
  "days_of_date y m d = days_before_year y + sum_list (take (nat (m - 1)) (month_lengths y)) + (d - 1)"

text \<open>
  The way back: the year by whole cycles of 400, 100, 4 and 1 years (the last cycle of a group is
  one day longer, hence the \<open>min\<close>), the month by walking over the month lengths.
\<close>

definition year_of_days :: "int \<Rightarrow> int \<times> int" where
  "year_of_days n =
     (let a = n div 146097; r = n mod 146097;
          b = min 3 (r div 36524); r = r - 36524 * b;
          c = r div 1461; r = r mod 1461;
          e = min 3 (r div 365); r = r - 365 * e
      in (400 * a + 100 * b + 4 * c + e + 1, r))"

fun month_of_day :: "int list \<Rightarrow> int \<Rightarrow> int \<Rightarrow> int \<times> int" where
  "month_of_day [] m d = (m, d)"
| "month_of_day (l # ls) m d = (if d < l then (m, d + 1) else month_of_day ls (m + 1) (d - l))"

definition date_of_days :: "int \<Rightarrow> int \<times> int \<times> int" where
  "date_of_days n = (let (y, r) = year_of_days n in (y, month_of_day (month_lengths y) 1 r))"

text \<open>The fourth year of a cycle is a leap year, but for the last cycle of the first three centuries.\<close>

lemma cycle_leap:
  assumes "y = 4 * (100 * a + 25 * b + c + 1)" "0 \<le> c" "c \<le> 24" "b = 3 \<or> c \<noteq> 24"
  shows "is_leap y"
proof (cases "c = 24")
  case True
  with assms(4) have "y = 400 * (a + 1)" using assms(1) by simp
  then show ?thesis by (simp add: is_leap_def)
next
  case False
  have "y mod 100 = 4 * (c + 1)"
    by (rule int_mod_pos_eq [where q = "4 * a + b"]) (use False assms in simp_all)
  then have "y mod 100 \<noteq> 0" using assms(2) by simp
  with assms(1) show ?thesis by (simp add: is_leap_def)
qed

lemma year_of_days_inverse:
  assumes "year_of_days n = (y, r)"
  shows "days_before_year y + r = n" "0 \<le> r" "r < sum_list (month_lengths y)"
proof -
  define a where "a = n div 146097"
  define r1 where "r1 = n mod 146097"
  define b where "b = min 3 (r1 div 36524)"
  define r2 where "r2 = r1 - 36524 * b"
  define c where "c = r2 div 1461"
  define r3 where "r3 = r2 mod 1461"
  define e where "e = min 3 (r3 div 365)"
  have "year_of_days n = (400 * a + 100 * b + 4 * c + e + 1, r3 - 365 * e)"
    unfolding year_of_days_def Let_def a_def r1_def b_def r2_def c_def r3_def e_def by (rule refl)
  with assms have y: "y = 400 * a + 100 * b + 4 * c + e + 1" and r: "r = r3 - 365 * e"
    by (simp_all only: prod.inject)
  have r1: "0 \<le> r1" "r1 < 146097" "n = 146097 * a + r1"
    by (simp_all add: r1_def a_def)
  have b: "0 \<le> b" "b \<le> 3" "0 \<le> r2" "r2 \<le> 36524" "b < 3 \<Longrightarrow> r2 < 36524"
    using r1(1,2) unfolding r2_def b_def by (auto simp: min_def split: if_splits)
  have c: "0 \<le> c" "c \<le> 24" "0 \<le> r3" "r3 < 1461" "r2 = 1461 * c + r3"
    using b unfolding c_def r3_def by auto
  have e: "0 \<le> e" "e \<le> 3" "0 \<le> r" "r \<le> 365" "e < 3 \<Longrightarrow> r < 365"
    using c(3,4) unfolding r e_def by (auto simp: min_def split: if_splits)
  have last: "b < 3 \<Longrightarrow> c = 24 \<Longrightarrow> r3 < 1460"
    using b(5) c(5) by linarith
  have q4: "(y - 1) div 4 = 100 * a + 25 * b + c"
    by (rule int_div_pos_eq [where r = e]) (use e(1,2) y in simp_all)
  have q100: "(y - 1) div 100 = 4 * a + b"
    by (rule int_div_pos_eq [where r = "4 * c + e"]) (use c(1,2) e(1,2) y in simp_all)
  have q400: "(y - 1) div 400 = a"
    by (rule int_div_pos_eq [where r = "100 * b + 4 * c + e"])
      (use b(1,2) c(1,2) e(1,2) y in simp_all)
  show "days_before_year y + r = n"
    unfolding days_before_year_def q4 q100 q400 using y r r2_def c(5) r1(3) by simp
  show "0 \<le> r" by (rule e(3))
  have "e = 3 \<Longrightarrow> r = 365 \<Longrightarrow> is_leap y"
  proof -
    assume e3: "e = 3" and r365: "r = 365"
    then have "r3 = 1460" using r by simp
    with last have bc: "b = 3 \<or> c \<noteq> 24" using b(2) by linarith
    show "is_leap y"
      by (rule cycle_leap [of y a b c]) (use y e3 c(1,2) bc in simp_all)
  qed
  then have "r < 365 \<or> is_leap y" using e(2,4,5) by linarith
  then show "r < sum_list (month_lengths y)"
    using e(4) by (auto simp: month_lengths_def)
qed

lemma month_of_day_inverse:
  assumes "month_of_day ls m d = (m', d')" "0 \<le> d" "d < sum_list ls" "\<forall>l \<in> set ls. 0 < l"
  shows "m \<le> m'" "m' < m + int (length ls)" "1 \<le> d'" "d' \<le> ls ! nat (m' - m)"
    "sum_list (take (nat (m' - m)) ls) + (d' - 1) = d"
proof -
  have "m \<le> m' \<and> m' < m + int (length ls) \<and> 1 \<le> d' \<and> d' \<le> ls ! nat (m' - m) \<and>
    sum_list (take (nat (m' - m)) ls) + (d' - 1) = d"
    using assms
  proof (induction ls m d rule: month_of_day.induct)
    case (1 m d)
    then show ?case by simp
  next
    case (2 l ls m d)
    show ?case
    proof (cases "d < l")
      case True
      with 2 show ?thesis by auto
    next
      case False
      with 2 have IH: "m + 1 \<le> m' \<and> m' < m + 1 + int (length ls) \<and> 1 \<le> d' \<and>
        d' \<le> ls ! nat (m' - (m + 1)) \<and> sum_list (take (nat (m' - (m + 1))) ls) + (d' - 1) = d - l"
        by simp
      then have "nat (m' - m) = Suc (nat (m' - (m + 1)))" by linarith
      with IH show ?thesis by simp
    qed
  qed
  then show "m \<le> m'" "m' < m + int (length ls)" "1 \<le> d'" "d' \<le> ls ! nat (m' - m)"
    "sum_list (take (nat (m' - m)) ls) + (d' - 1) = d" by simp_all
qed

lemma date_of_days_inverse:
  assumes "date_of_days n = (y, m, d)"
  shows "days_of_date y m d = n" "1 \<le> m" "m \<le> 12" "1 \<le> d" "d \<le> days_in m y"
proof -
  obtain y' r where yr: "year_of_days n = (y', r)" by fastforce
  with assms have y: "y' = y" and md: "month_of_day (month_lengths y) 1 r = (m, d)"
    by (auto simp: date_of_days_def Let_def)
  note inv = year_of_days_inverse [OF yr [unfolded y]]
  have pos: "\<forall>l \<in> set (month_lengths y). 0 < l" by (simp add: month_lengths_def)
  note mon = month_of_day_inverse [OF md inv(2,3) pos]
  show "1 \<le> m" "1 \<le> d" "d \<le> days_in m y"
    using mon by (simp_all add: days_in_def)
  show "m \<le> 12" using mon(2) by (simp add: month_lengths_def)
  show "days_of_date y m d = n"
    using mon(5) inv(1) by (simp add: days_of_date_def)
qed

section \<open>time.RFC3339\<close>

text \<open>\<open>getnum\<close>: one or two digits, exactly two where the layout is zero-padded.\<close>

fun getnum :: "bool \<Rightarrow> bytes \<Rightarrow> (int \<times> bytes) option" where
  "getnum fixed [] = None"
| "getnum fixed [a] = (if fixed then None else map_option (\<lambda>x. (x, [])) (digit_val a))"
| "getnum fixed (a # b # r) =
     (case digit_val a of
        None \<Rightarrow> None
      | Some x \<Rightarrow>
          (case digit_val b of
             None \<Rightarrow> if fixed then None else Some (x, b # r)
           | Some y \<Rightarrow> Some (10 * x + y, r)))"

fun get_year :: "bytes \<Rightarrow> (int \<times> bytes) option" where
  "get_year (a # b # c # d # r) = map_option (\<lambda>y. (y, r)) (digits_val 0 [a, b, c, d])"
| "get_year s = None"

fun skip_char :: "char \<Rightarrow> bytes \<Rightarrow> bytes option" where
  "skip_char c [] = None"
| "skip_char c (x # r) = (if x = c then Some r else None)"

text \<open>
  The fractional second, absent from the layout but accepted in the value after a period or a
  comma; \<open>parseNanoseconds\<close> keeps nine digits.
\<close>

definition nanos_val :: "bytes \<Rightarrow> int" where
  "nanos_val ds =
     (let ks = take 9 ds
      in (case digits_val 0 ks of None \<Rightarrow> 0 | Some n \<Rightarrow> n) * 10 ^ (9 - length ks))"

fun get_fraction :: "bytes \<Rightarrow> int \<times> bytes" where
  "get_fraction (p # c # r) =
     (if (p = CHR ''.'' \<or> p = CHR '','') \<and> is_digit c
      then (nanos_val (takeWhile is_digit (c # r)), dropWhile is_digit (c # r))
      else (0, p # c # r))"
| "get_fraction s = (0, s)"

text \<open>The zone \<open>Z07:00\<close>: the letter \<open>Z\<close> or a signed offset, in seconds east of UTC.\<close>

definition get_zone :: "bytes \<Rightarrow> (int \<times> bytes) option" where
  "get_zone s =
     (case s of
        [] \<Rightarrow> None
      | z # r0 \<Rightarrow>
          if z = CHR ''Z'' then Some (0, r0)
          else do {
            (hr, r1) \<leftarrow> getnum True r0;
            r2 \<leftarrow> skip_char (CHR '':'') r1;
            (mm, r3) \<leftarrow> getnum True r2;
            if hr > 24 \<or> mm > 60 then None
            else if z = CHR ''+'' then Some ((hr * 60 + mm) * 60, r3)
            else if z = CHR ''-'' then Some (- ((hr * 60 + mm) * 60), r3)
            else None
          })"

text \<open>\<open>time.Date(y, m, d, h, mi, s, ns, UTC)\<close> on fields in range.\<close>

definition make_time :: "int \<Rightarrow> int \<Rightarrow> int \<Rightarrow> int \<Rightarrow> int \<Rightarrow> int \<Rightarrow> int \<Rightarrow> time" where
  "make_time y m d h mi s ns =
     (((days_of_date y m d * 24 + h) * 60 + mi) * 60 + s) * second + ns"

text \<open>\<open>time.Parse(time.RFC3339, s)\<close>; \<open>None\<close> is the parse error.\<close>

definition parse_RFC3339 :: "bytes \<Rightarrow> time option" where
  "parse_RFC3339 s0 = do {
     (y, s) \<leftarrow> get_year s0;
     s \<leftarrow> skip_char (CHR ''-'') s;
     (m, s) \<leftarrow> getnum True s;
     if m < 1 \<or> 12 < m then None else do {
       s \<leftarrow> skip_char (CHR ''-'') s;
       (d, s) \<leftarrow> getnum True s;
       s \<leftarrow> skip_char (CHR ''T'') s;
       (h, s) \<leftarrow> getnum False s;
       if 24 \<le> h then None else do {
         s \<leftarrow> skip_char (CHR '':'') s;
         (mi, s) \<leftarrow> getnum True s;
         if 60 \<le> mi then None else do {
           s \<leftarrow> skip_char (CHR '':'') s;
           (sec, s) \<leftarrow> getnum True s;
           if 60 \<le> sec then None else do {
             let (ns, s) = get_fraction s;
             (off, s) \<leftarrow> get_zone s;
             if s \<noteq> [] \<or> d < 1 \<or> days_in m y < d then None
             else Some (make_time y m d h mi sec ns - off * second)
           }
         }
       }
     }
   }"

definition two_digits :: "int \<Rightarrow> bytes" where
  "two_digits n = [digit_char (n div 10), digit_char (n mod 10)]"

definition four_digits :: "int \<Rightarrow> bytes" where
  "four_digits n = two_digits (n div 100) @ two_digits (n mod 100)"

text \<open>\<open>t.UTC().Format(time.RFC3339)\<close>, for the years 0 to 9999 that the layout has room for.\<close>

definition format_RFC3339 :: "time \<Rightarrow> bytes" where
  "format_RFC3339 t =
     (let n = t div second; (y, m, d) = date_of_days (n div 86400); r = n mod 86400
      in four_digits y @ ''-'' @ two_digits m @ ''-'' @ two_digits d @ ''T'' @
         two_digits (r div 3600) @ '':'' @ two_digits (r div 60 mod 60) @ '':'' @
         two_digits (r mod 60) @ ''Z'')"

lemma getnum_two_digits [simp]:
  "0 \<le> n \<Longrightarrow> n < 100 \<Longrightarrow> getnum b (two_digits n @ r) = Some (n, r)"
  by (simp add: two_digits_def)

lemma get_year_four_digits [simp]:
  assumes "0 \<le> n" "n < 10000"
  shows "get_year (four_digits n @ r) = Some (n, r)"
proof -
  have "n div 100 < 100" "n mod 100 < 100" "0 \<le> n div 100" "0 \<le> n mod 100"
    using assms by simp_all
  moreover have "((10 * (n div 100 div 10) + n div 100 mod 10) * 10 + n mod 100 div 10) * 10 +
    n mod 100 mod 10 = n"
    by presburger
  ultimately show ?thesis
    by (simp add: four_digits_def two_digits_def algebra_simps)
qed

lemma skip_char_Cons [simp]: "skip_char c (c # r) = Some r"
  by simp

lemma days_in_le: "1 \<le> m \<Longrightarrow> m \<le> 12 \<Longrightarrow> days_in m y \<le> 31"
proof -
  assume "1 \<le> m" "m \<le> 12"
  then have "month_lengths y ! nat (m - 1) \<in> set (month_lengths y)"
    by (intro nth_mem) (simp add: month_lengths_def)
  then show ?thesis by (auto simp: days_in_def month_lengths_def split: if_splits)
qed

text \<open>The parser on a zero-padded date in UTC whose fields are in range.\<close>

lemma parse_RFC3339_fields:
  assumes "0 \<le> y" "y < 10000" "1 \<le> m" "m \<le> 12" "1 \<le> d" "d \<le> days_in m y"
    and "0 \<le> h" "h < 24" "0 \<le> mi" "mi < 60" "0 \<le> s" "s < 60"
  shows "parse_RFC3339 (four_digits y @ CHR ''-'' # two_digits m @ CHR ''-'' # two_digits d @
      CHR ''T'' # two_digits h @ CHR '':'' # two_digits mi @ CHR '':'' # two_digits s @ ''Z'') =
    Some (make_time y m d h mi s 0)"
proof -
  have d31: "d < 100" using assms(3-6) days_in_le [of m y] by linarith
  show ?thesis
    unfolding parse_RFC3339_def
    using assms d31 by (simp add: get_zone_def)
qed

lemma radix_sum:
  "(a * 60 + b) * 60 + c = r \<Longrightarrow> n * 86400 + r = (k::int) \<Longrightarrow> ((n * 24 + a) * 60 + b) * 60 + c = k"
  by simp

text \<open>A formatted instant parses to itself, truncated to the second.\<close>

lemma parse_format_RFC3339:
  assumes "date_of_days (t div second div 86400) = (y, m, d)" "0 \<le> y" "y < 10000"
  shows "parse_RFC3339 (format_RFC3339 t) = Some (t div second * second)"
proof -
  define r where "r = t div second mod 86400"
  note dt = date_of_days_inverse [OF assms(1)]
  have "0 \<le> r" "r < 86400" by (simp_all add: r_def)
  then have rng: "0 \<le> r div 3600" "r div 3600 < 24" by simp_all
  have sec: "((t div second div 86400 * 24 + r div 3600) * 60 + r div 60 mod 60) * 60 + r mod 60 =
    t div second"
  proof -
    have "r div 3600 = r div 60 div 60" using zdiv_zmult2_eq [of 60 r 60] by simp
    then have "r div 3600 * 60 + r div 60 mod 60 = r div 60" by simp
    then have "(r div 3600 * 60 + r div 60 mod 60) * 60 + r mod 60 = r" by simp
    moreover have "t div second div 86400 * 86400 + r = t div second" by (simp add: r_def)
    ultimately show ?thesis by (rule radix_sum)
  qed
  have "format_RFC3339 t = four_digits y @ CHR ''-'' # two_digits m @ CHR ''-'' # two_digits d @
      CHR ''T'' # two_digits (r div 3600) @ CHR '':'' # two_digits (r div 60 mod 60) @
      CHR '':'' # two_digits (r mod 60) @ ''Z''"
    by (simp add: format_RFC3339_def Let_def assms(1) flip: r_def)
  then have "parse_RFC3339 (format_RFC3339 t) =
      Some (make_time y m d (r div 3600) (r div 60 mod 60) (r mod 60) 0)"
    using parse_RFC3339_fields [OF assms(2,3) dt(2-5) rng] by simp
  then show ?thesis
    by (simp only: make_time_def dt(1) sec add_0_right)
qed

section \<open>Printing\<close>

fun decimal :: "nat \<Rightarrow> bytes" where
  "decimal n = (if n < 10 then [digit_char (int n)]
     else decimal (n div 10) @ [digit_char (int (n mod 10))])"

declare decimal.simps [simp del]

text \<open>\<open>Duration.String\<close> for a duration of whole seconds that is not negative.\<close>

definition seconds_text :: "duration \<Rightarrow> bytes" where
  "seconds_text d =
     (let s = nat (d div second)
      in if s < 60 then decimal s @ ''s''
         else if s < 3600 then decimal (s div 60) @ ''m'' @ decimal (s mod 60) @ ''s''
         else decimal (s div 3600) @ ''h'' @ decimal (s div 60 mod 60) @ ''m'' @
              decimal (s mod 60) @ ''s'')"

text \<open>\<open>d.Round(time.Second)\<close> for a duration that is not negative.\<close>

definition round_second :: "duration \<Rightarrow> duration" where
  "round_second d =
     (let r = d mod second
      in if r + r < second then d - r else min (2 ^ 63 - 1) (d + (second - r)))"

text \<open>\<open>Time.String\<close> of an instant in UTC: trailing zeros of the fraction are dropped.\<close>

definition fraction_text :: "int \<Rightarrow> bytes" where
  "fraction_text ns =
     (if ns = 0 then ''''
      else CHR ''.'' # rev (dropWhile (\<lambda>c. c = CHR ''0'')
        (rev (drop 1 (decimal (nat (1000000000 + ns)))))))"

definition time_text :: "time \<Rightarrow> bytes" where
  "time_text t =
     (let n = t div second; (y, m, d) = date_of_days (n div 86400); r = n mod 86400
      in four_digits y @ ''-'' @ two_digits m @ ''-'' @ two_digits d @ '' '' @
         two_digits (r div 3600) @ '':'' @ two_digits (r div 60 mod 60) @ '':'' @
         two_digits (r mod 60) @ fraction_text (t mod second) @ '' +0000 UTC'')"

end
