(* ===== verification/Api_Types.thy ===== *)
theory Api_Types
  imports Go_Time "HOL-Library.Word" "HOL-Library.AList"
begin

text \<open>
  The custom resources of \<open>api/ami/v1alpha1\<close>: \<open>PackerBuilder\<close> and \<open>AMIRefresher\<close> with their
  specs and statuses, the condition type they share, and the enumerations. A field of a struct
  carries a short prefix of its struct's name, because record fields are global constants. Slices
  whose \<open>nil\<close> the code tests apart from the empty slice are options; maps are association lists
  with distinct keys (a Go map has no order of its own).
\<close>

section \<open>Enumerations\<close>

text \<open>
  \<open>PackerBuilderState\<close> is a string type and the custom resource accepts any string, so the
  enumeration is completed by the empty string (\<open>StateUnset\<close>) and by all others (\<open>StateUnknown\<close>).
\<close>

datatype pb_state =
    StateUnset
  | StateInitial
  | StateFlightChecks
  | StateJobCreation
  | StateJobRunning
  | StateJobCompleted
  | StateJobFailed
  | StateAMICreated
  | StateError
  | StateUnknown bytes

fun state_text :: "pb_state \<Rightarrow> bytes" where
  "state_text StateUnset = ''''"
| "state_text StateInitial = ''Initial''"
| "state_text StateFlightChecks = ''FlightChecks''"
| "state_text StateJobCreation = ''JobCreation''"
| "state_text StateJobRunning = ''JobRunning''"
| "state_text StateJobCompleted = ''JobCompleted''"
| "state_text StateJobFailed = ''JobFailed''"
| "state_text StateAMICreated = ''AMICreated''"
| "state_text StateError = ''Error''"
| "state_text (StateUnknown s) = s"

datatype job_status = JobStatusUnset | JobStatusCompleted | JobStatusFailed | JobStatusRunning

datatype last_run_status =
  LastRunStatusUnset | LastRunStatusCompleted | LastRunStatusFailed | LastRunStatusRunning

datatype condition_type =
    ConditionTypeAMIUpdated
  | ConditionTypeAMICreated
  | ConditionTypeAMIUpdateFailed
  | ConditionTypeAMIUpdateStarted
  | ConditionTypeAMIUpdateSucceeded
  | ConditionTypeBuildFailed
  | ConditionTypeBuildStarted
  | ConditionTypeBuildSucceeded
  | ConditionTypeCancelled
  | ConditionTypeInitial
  | ConditionTypeCompleted
  | ConditionTypeFailed
  | ConditionTypeFlightCheckFailed
  | ConditionTypeFlightCheckPassed
  | ConditionTypeJobCompleted
  | ConditionTypeInProgress
  | ConditionTypeJobCreated
  | ConditionTypeJobFailed
  | ConditionTypeMaxFailedJobsReached
  | ConditionTypeFlightCheckStarted

text \<open>\<open>corev1.ConditionStatus\<close>.\<close>

datatype condition_status = ConditionTrue | ConditionFalse | ConditionUnknown

text \<open>\<open>OnErrorBehavior\<close> and \<open>ImageType\<close> are printed or compared as strings.\<close>

type_synonym on_error_behavior = bytes
type_synonym image_type = bytes

definition OnErrorCleanup :: on_error_behavior where "OnErrorCleanup = ''cleanup''"
definition OnErrorAbort :: on_error_behavior where "OnErrorAbort = ''abort''"
definition OnErrorIgnore :: on_error_behavior where "OnErrorIgnore = ''ignore''"
definition ImageAMI :: image_type where "ImageAMI = ''ami''"
definition ImageContainer :: image_type where "ImageContainer = ''container''"

type_synonym int32 = "32 word"

section \<open>Shared structs\<close>

record ami_filter =
  flt_Name :: bytes
  flt_Values :: "bytes list"

record time_outs =
  to_ExpiresIn :: bytes
  to_ControllerTimer :: bytes

record opsy_condition =
  oc_Type :: condition_type
  oc_Status :: condition_status
  oc_LastTransitionTime :: time
  oc_Reason :: bytes
  oc_Message :: bytes

text \<open>The part of \<open>metav1.ObjectMeta\<close> the operator reads or writes.\<close>

record object_meta =
  om_Name :: bytes
  om_Namespace :: bytes
  om_DeletionTimestamp :: "time option"
  om_Finalizers :: "bytes list"

text \<open>\<open>client.ObjectKey\<close>: namespace and name.\<close>

type_synonym object_key = "bytes \<times> bytes"

definition object_key :: "object_meta \<Rightarrow> object_key" where
  "object_key m = (om_Namespace m, om_Name m)"

text \<open>\<open>corev1.ObjectReference\<close>, as far as \<open>ref.GetReference\<close> fills it for a job.\<close>

record object_reference =
  or_Kind :: bytes
  or_Namespace :: bytes
  or_Name :: bytes

section \<open>PackerBuilder\<close>

record slack_notifier =
  sl_Channels :: "bytes list option"
  sl_Secret :: bytes

record notify =
  nf_Slack :: slack_notifier

record git_sync =
  gs_Image :: bytes
  gs_Name :: bytes
  gs_Secret :: bytes

record command =
  cmd_Args :: "bytes list"
  cmd_Color :: bool
  cmd_Debug :: bool
  cmd_OnError :: on_error_behavior
  cmd_SubCommand :: bytes
  cmd_Variables :: "(bytes \<times> bytes) list option"
  cmd_VariablesFile :: bytes
  cmd_WorkingDir :: bytes

record builder =
  bld_Branch :: bytes
  bld_Commands :: "command list"
  bld_Debug :: bool
  bld_Dir :: bytes
  bld_Image :: bytes
  bld_ImageType :: image_type
  bld_RepoURL :: bytes
  bld_Secret :: bytes
  bld_JobServiceAccountName :: bytes

record packer_builder_spec =
  sp_AMIFilters :: "ami_filter list option"
  sp_ClusterName :: bytes
  sp_TimeOuts :: time_outs
  sp_GitSync :: git_sync
  sp_Notify :: notify
  sp_Region :: bytes
  sp_Builder :: builder

record packer_builder_status =
  st_Active :: "object_reference list"
  st_BuildID :: bytes
  st_Command :: bytes
  st_Conditions :: "opsy_condition list"
  st_FailedJobCount :: "int32 option"
  st_JobID :: bytes
  st_JobName :: bytes
  st_JobStatus :: job_status
  st_LastRun :: time
  st_LastRunBaseImageID :: bytes
  st_LastRunBuiltImageID :: bytes
  st_LastRunMessage :: bytes
  st_LastRunStatus :: last_run_status
  st_LastRunSecurityGroupID :: bytes
  st_LastRunKeyPair :: bytes
  st_LastTransitionTime :: time
  st_MaxNumberOfFailedJobs :: "int32 option"
  st_State :: pb_state

record packer_builder =
  pb_Meta :: object_meta
  pb_Spec :: packer_builder_spec
  pb_Status :: packer_builder_status

text \<open>\<open>GetConditions\<close>, \<open>SetConditions\<close> and \<open>GetControllerTimer\<close> of \<open>*PackerBuilder\<close>.\<close>

definition pb_GetConditions :: "packer_builder \<Rightarrow> opsy_condition list" where
  "pb_GetConditions pb = st_Conditions (pb_Status pb)"

definition pb_SetConditions :: "opsy_condition list \<Rightarrow> packer_builder \<Rightarrow> packer_builder" where
  "pb_SetConditions cs pb = pb\<lparr>pb_Status := (pb_Status pb)\<lparr>st_Conditions := cs\<rparr>\<rparr>"

definition pb_GetControllerTimer :: "packer_builder \<Rightarrow> bytes" where
  "pb_GetControllerTimer pb = to_ControllerTimer (sp_TimeOuts (pb_Spec pb))"

abbreviation pb_Name :: "packer_builder \<Rightarrow> bytes" where
  "pb_Name pb \<equiv> om_Name (pb_Meta pb)"

abbreviation pb_Namespace :: "packer_builder \<Rightarrow> bytes" where
  "pb_Namespace pb \<equiv> om_Namespace (pb_Meta pb)"

text \<open>Assignments to a field of the status or of the builder section of the spec.\<close>

definition set_status ::
  "(packer_builder_status \<Rightarrow> packer_builder_status) \<Rightarrow> packer_builder \<Rightarrow> packer_builder" where
  "set_status f pb = pb\<lparr>pb_Status := f (pb_Status pb)\<rparr>"

definition set_builder :: "(builder \<Rightarrow> builder) \<Rightarrow> packer_builder \<Rightarrow> packer_builder" where
  "set_builder f pb = pb\<lparr>pb_Spec := (pb_Spec pb)\<lparr>sp_Builder := f (sp_Builder (pb_Spec pb))\<rparr>\<rparr>"

lemma set_status_simps [simp]:
  "pb_Status (set_status f pb) = f (pb_Status pb)"
  "pb_Spec (set_status f pb) = pb_Spec pb"
  "pb_Meta (set_status f pb) = pb_Meta pb"
  by (simp_all add: set_status_def)

lemma set_builder_simps [simp]:
  "pb_Status (set_builder f pb) = pb_Status pb"
  "pb_Meta (set_builder f pb) = pb_Meta pb"
  "sp_Builder (pb_Spec (set_builder f pb)) = f (sp_Builder (pb_Spec pb))"
  "sp_AMIFilters (pb_Spec (set_builder f pb)) = sp_AMIFilters (pb_Spec pb)"
  "sp_ClusterName (pb_Spec (set_builder f pb)) = sp_ClusterName (pb_Spec pb)"
  "sp_TimeOuts (pb_Spec (set_builder f pb)) = sp_TimeOuts (pb_Spec pb)"
  "sp_GitSync (pb_Spec (set_builder f pb)) = sp_GitSync (pb_Spec pb)"
  "sp_Notify (pb_Spec (set_builder f pb)) = sp_Notify (pb_Spec pb)"
  "sp_Region (pb_Spec (set_builder f pb)) = sp_Region (pb_Spec pb)"
  by (simp_all add: set_builder_def)

lemma set_compose [simp]:
  "set_status f (set_status g pb) = set_status (\<lambda>x. f (g x)) pb"
  "set_builder f' (set_builder g' pb) = set_builder (\<lambda>x. f' (g' x)) pb"
  by (simp_all add: set_status_def set_builder_def)

section \<open>AMIRefresher\<close>

record refresh_config =
  rc_Enable :: bool
  rc_Force :: bool
  rc_MaxUnavailable :: "int32 option"
  rc_MaxUnavailablePercentage :: "int32 option"
  rc_WaitForCompletion :: bool

record ami_refresher_spec =
  rs_Region :: bytes
  rs_AMI :: bytes
  rs_AMIFilters :: "ami_filter list"
  rs_ClusterName :: bytes
  rs_Exclude :: "bytes list"
  rs_TimeOuts :: time_outs
  rs_RefreshConfig :: refresh_config

record ami_refresher_status =
  ars_Conditions :: "opsy_condition list"
  ars_LastRun :: time
  ars_LastRunStatus :: last_run_status

record ami_refresher =
  ar_Meta :: object_meta
  ar_Spec :: ami_refresher_spec
  ar_Status :: ami_refresher_status

definition ar_GetConditions :: "ami_refresher \<Rightarrow> opsy_condition list" where
  "ar_GetConditions ar = ars_Conditions (ar_Status ar)"

definition ar_SetConditions :: "opsy_condition list \<Rightarrow> ami_refresher \<Rightarrow> ami_refresher" where
  "ar_SetConditions cs ar = ar\<lparr>ar_Status := (ar_Status ar)\<lparr>ars_Conditions := cs\<rparr>\<rparr>"

section \<open>Objects of Kubernetes and EC2 the operator reads\<close>

text \<open>
  \<open>batchv1.Job\<close> as the managers see it: its conditions, its counters and the metadata they use.
\<close>

datatype job_condition_type = JobComplete | JobFailed | JobOther bytes

record job_condition =
  jc_Type :: job_condition_type
  jc_Status :: condition_status
  jc_Message :: bytes

record job_state =
  js_Succeeded :: int32
  js_Failed :: int32
  js_Conditions :: "job_condition list"

text \<open>\<open>types.Tag\<close> and \<open>types.Image\<close> of the EC2 client; the pointers are options.\<close>

record ec2_tag =
  tag_Key :: "bytes option"
  tag_Value :: "bytes option"

record ec2_image =
  img_ImageId :: "bytes option"
  img_CreationDate :: "bytes option"
  img_Tags :: "ec2_tag list"

text \<open>\<open>types.Filter\<close> of the EC2 client.\<close>

type_synonym ec2_filter = "bytes \<times> bytes list"

section \<open>Results\<close>

text \<open>\<open>status.Result\<close>.\<close>

record check_result =
  res_Success :: bool
  res_Message :: bytes
  res_Name :: bytes
  res_Error :: "go_error option"

definition result_error :: "go_error \<Rightarrow> check_result" where
  "result_error e = \<lparr>res_Success = False, res_Message = '''', res_Name = '''', res_Error = Some e\<rparr>"

definition result_message :: "bool \<Rightarrow> bytes \<Rightarrow> bytes \<Rightarrow> check_result" where
  "result_message ok msg name =
     \<lparr>res_Success = ok, res_Message = msg, res_Name = name, res_Error = None\<rparr>"

lemma result_simps [simp]:
  "res_Success (result_error e) = False" "res_Error (result_error e) = Some e"
  "res_Name (result_error e) = ''''" "res_Message (result_error e) = ''''"
  "res_Success (result_message ok msg name) = ok" "res_Error (result_message ok msg name) = None"
  "res_Name (result_message ok msg name) = name" "res_Message (result_message ok msg name) = msg"
  by (simp_all add: result_error_def result_message_def)

end
