(* ===== verification/Packer_Command.thy ===== *)
theory Packer_Command
  imports Api_Types
begin

text \<open>
  \<open>pkg/manager_packer/command.go\<close> and the methods \<open>String\<close> and \<open>buildFlags\<close> of the API type
  \<open>Command\<close>: how the list of packer sub-commands of a \<open>PackerBuilder\<close> is completed, ordered and
  printed as the shell command of the job. Slice expressions out of range panic, which is \<open>None\<close>
  here; the lemmas show that it never happens and give the resulting list in closed form.

  The iteration order of a Go map is chosen by the runtime. It is the parameter \<open>ord\<close>, any
  rearrangement of the entries (\<open>map_order\<close>).
\<close>

type_synonym map_iteration = "(bytes \<times> bytes) list \<Rightarrow> (bytes \<times> bytes) list"

definition map_order :: "map_iteration \<Rightarrow> bool" where
  "map_order ord \<longleftrightarrow> (\<forall>m. mset (ord m) = mset m)"

lemma map_order_set: "map_order ord \<Longrightarrow> set (ord m) = set m"
  by (metis map_order_def set_mset_mset)

lemma map_order_id [simp]: "map_order (\<lambda>m. m)"
  by (simp add: map_order_def)

lemma map_order_rev [simp]: "map_order rev"
  by (simp add: map_order_def)

section \<open>Printing one command\<close>

definition quote1 :: bytes where
  "quote1 = [CHR 0x27]"

definition buildFlags :: "map_iteration \<Rightarrow> command \<Rightarrow> bytes list" where
  "buildFlags ord pc =
     map (\<lambda>(key, val). ''-var '' @ quote1 @ key @ ''='' @ val @ quote1)
       (case cmd_Variables pc of None \<Rightarrow> [] | Some vs \<Rightarrow> ord vs) @
     (if cmd_VariablesFile pc \<noteq> '''' then [''-var-file='' @ cmd_VariablesFile pc] else []) @
     (if cmd_Debug pc then [''-debug''] else []) @
     (if cmd_OnError pc \<noteq> '''' then [''-on-error='' @ cmd_OnError pc] else []) @
     (if \<not> cmd_Color pc then [''-color=false''] else [])"

definition command_String :: "map_iteration \<Rightarrow> command \<Rightarrow> bytes" where
  "command_String ord pc =
     str_join
       ([''packer'', cmd_SubCommand pc] @ cmd_Args pc @
        (if cmd_SubCommand pc = ''build'' then buildFlags ord pc else []) @
        (if cmd_WorkingDir pc \<noteq> '''' then [cmd_WorkingDir pc] else []))
       '' ''"

section \<open>Completing the list\<close>

text \<open>The composite literal \<open>Command{SubCommand: s}\<close>; every other field is its zero value.\<close>

definition default_command :: "bytes \<Rightarrow> command" where
  "default_command s =
     \<lparr>cmd_Args = [], cmd_Color = False, cmd_Debug = False, cmd_OnError = '''',
      cmd_SubCommand = s, cmd_Variables = None, cmd_VariablesFile = '''', cmd_WorkingDir = ''''\<rparr>"

definition is_sub :: "bytes \<Rightarrow> command \<Rightarrow> bool" where
  "is_sub s c \<longleftrightarrow> cmd_SubCommand c = s"

definition findCommandIndex :: "command list \<Rightarrow> bytes \<Rightarrow> nat option" where
  "findCommandIndex commands subCommand = first_index (is_sub subCommand) commands"

definition moveCommandToIndex :: "command list \<Rightarrow> nat \<Rightarrow> nat \<Rightarrow> command list option" where
  "moveCommandToIndex commands src dst =
     (case slice_remove commands src of
        None \<Rightarrow> None
      | Some rest \<Rightarrow> slice_insert rest dst (commands ! src))"

definition ensureCommandAt :: "command list \<Rightarrow> nat \<Rightarrow> bytes \<Rightarrow> command list option" where
  "ensureCommandAt commands index subCommand =
     (case first_index (is_sub subCommand) commands of
        Some existingIndex \<Rightarrow>
          if existingIndex \<noteq> index then moveCommandToIndex commands existingIndex index
          else Some commands
      | None \<Rightarrow>
          if length commands \<le> index then Some (commands @ [default_command subCommand])
          else slice_insert commands index (default_command subCommand))"

text \<open>\<open>updateCommand(pb, i)\<close> on the command at position \<open>i\<close>.\<close>

definition updateCommand :: "packer_builder \<Rightarrow> command \<Rightarrow> command" where
  "updateCommand pb cmd =
     (let dir = bld_Dir (sp_Builder (pb_Spec pb));
          cmd = (if cmd_WorkingDir cmd = '''' \<and> dir \<noteq> ''''
                 then cmd\<lparr>cmd_WorkingDir := dir @ ''/''\<rparr> else cmd)
      in if cmd_SubCommand cmd = ''build'' \<and> sp_AMIFilters (pb_Spec pb) \<noteq> None
         then let vs = (case cmd_Variables cmd of None \<Rightarrow> [] | Some vs \<Rightarrow> vs);
                  vs = AList.update ''ami_id'' (st_LastRunBaseImageID (pb_Status pb)) vs;
                  vs = AList.update ''region'' (sp_Region (pb_Spec pb)) vs
              in cmd\<lparr>cmd_Variables := Some vs\<rparr>
         else cmd)"

definition ensureDefaultCommands :: "packer_builder \<Rightarrow> packer_builder option" where
  "ensureDefaultCommands pb = do {
     commands \<leftarrow> ensureCommandAt (bld_Commands (sp_Builder (pb_Spec pb))) 0 ''init'';
     commands \<leftarrow> ensureCommandAt commands 1 ''validate'';
     commands \<leftarrow> (case findCommandIndex commands ''build'' of
                    None \<Rightarrow> Some (commands @ [default_command ''build''])
                  | Some buildIndex \<Rightarrow>
                      if buildIndex < 2 then moveCommandToIndex commands buildIndex 2
                      else Some commands);
     Some (set_builder (\<lambda>b. b\<lparr>bld_Commands := map (updateCommand pb) commands\<rparr>) pb)
   }"

text \<open>
  The loop of \<open>ConstructCommand\<close>: a command is printed while no build has been seen, and every
  build is printed.
\<close>

fun construct_loop :: "map_iteration \<Rightarrow> bool \<Rightarrow> command list \<Rightarrow> bytes list" where
  "construct_loop ord seenBuild [] = []"
| "construct_loop ord seenBuild (cmd # cmds) =
     (let seenBuild = (if cmd_SubCommand cmd = ''build'' then True else seenBuild)
      in (if \<not> seenBuild \<or> cmd_SubCommand cmd = ''build'' then [command_String ord cmd] else []) @
         construct_loop ord seenBuild cmds)"

text \<open>\<open>ConstructCommand\<close> up to its call of \<open>Status.Update\<close>.\<close>

definition construct_command :: "map_iteration \<Rightarrow> packer_builder \<Rightarrow> packer_builder option" where
  "construct_command ord pb =
     (case ensureDefaultCommands pb of
        None \<Rightarrow> None
      | Some pb' \<Rightarrow>
          Some (set_status (\<lambda>st. st\<lparr>st_Command :=
            str_join (construct_loop ord False (bld_Commands (sp_Builder (pb_Spec pb')))) '' && ''\<rparr>) pb'))"

section \<open>The list in closed form\<close>

text \<open>
  The reference: the first command with a sub-command or its default, the list without it, and
  what \<open>ensureDefaultCommands\<close> should do with the list.
\<close>

definition pick :: "bytes \<Rightarrow> command list \<Rightarrow> command" where
  "pick s cs = (case find (is_sub s) cs of None \<Rightarrow> default_command s | Some c \<Rightarrow> c)"

fun without_first :: "('a \<Rightarrow> bool) \<Rightarrow> 'a list \<Rightarrow> 'a list" where
  "without_first p [] = []"
| "without_first p (x # xs) = (if p x then xs else x # without_first p xs)"

definition ordered_commands :: "command list \<Rightarrow> command list" where
  "ordered_commands cs =
     (let rest = without_first (is_sub ''validate'') (without_first (is_sub ''init'') cs)
      in pick ''init'' cs # pick ''validate'' cs # rest @
         (if find (is_sub ''build'') cs = None then [default_command ''build''] else []))"

lemma without_first_index:
  "first_index p xs = Some i \<Longrightarrow> without_first p xs = take i xs @ drop (Suc i) xs"
  by (induction xs arbitrary: i) (auto split: if_splits)

lemma without_first_none: "first_index p xs = None \<Longrightarrow> without_first p xs = xs"
  by (induction xs) (auto split: if_splits)

lemma find_first_index:
  "find p xs = (case first_index p xs of None \<Rightarrow> None | Some i \<Rightarrow> Some (xs ! i))"
  by (induction xs) (auto split: option.splits)

lemma find_without_first:
  "s \<noteq> t \<Longrightarrow> find (is_sub s) (without_first (is_sub t) xs) = find (is_sub s) xs"
  by (induction xs) (auto simp: is_sub_def)

lemma is_sub_pick [simp]: "is_sub s (pick s cs)"
  by (auto simp: pick_def is_sub_def default_command_def find_Some_iff split: option.splits)

lemma is_sub_unique: "is_sub s c \<Longrightarrow> s \<noteq> t \<Longrightarrow> \<not> is_sub t c"
  by (simp add: is_sub_def)

lemma moveCommandToIndex_front:
  "first_index p (ks @ cs) = Some i \<Longrightarrow> length ks \<le> i \<Longrightarrow>
     moveCommandToIndex (ks @ cs) i (length ks) =
       Some (ks @ (ks @ cs) ! i # (take (i - length ks) cs @ drop (Suc i - length ks) cs))"
  by (auto simp: moveCommandToIndex_def slice_remove_def slice_insert_def
      dest!: first_index_Some_length)

lemma first_index_append:
  "\<forall>k \<in> set ks. \<not> p k \<Longrightarrow> first_index p (ks @ cs) = map_option (\<lambda>i. length ks + i) (first_index p cs)"
  by (induction ks; cases "first_index p cs") auto

text \<open>
  Ensuring a command directly after a prefix that does not contain it moves it, or its default,
  there.
\<close>

lemma ensureCommandAt_after:
  assumes "\<forall>k \<in> set ks. \<not> is_sub s k"
  shows "ensureCommandAt (ks @ cs) (length ks) s =
    Some (ks @ pick s cs # without_first (is_sub s) cs)"
proof (cases "first_index (is_sub s) cs")
  case None
  with assms show ?thesis
    by (auto simp: ensureCommandAt_def first_index_append pick_def find_first_index
        without_first_none slice_insert_def)
next
  case (Some i)
  then have i: "i < length cs" by (rule first_index_Some_length)
  have fi: "first_index (is_sub s) (ks @ cs) = Some (length ks + i)"
    using assms Some by (simp add: first_index_append)
  have pk: "pick s cs = cs ! i"
    using Some by (simp add: pick_def find_first_index)
  show ?thesis
  proof (cases "i = 0")
    case True
    with i have "cs = cs ! 0 # drop 1 cs"
      by (simp add: Cons_nth_drop_Suc)
    then show ?thesis
      using True fi pk without_first_index [OF Some] by (simp add: ensureCommandAt_def)
  next
    case False
    with fi moveCommandToIndex_front [OF fi] show ?thesis
      by (simp add: ensureCommandAt_def pk without_first_index [OF Some] nth_append)
  qed
qed

lemma first_index_ge2:
  "\<not> p a \<Longrightarrow> \<not> p b \<Longrightarrow> first_index p (a # b # cs) = Some i \<Longrightarrow> 2 \<le> i"
  by (auto split: if_splits)

lemma ensureDefaultCommands_eq:
  "ensureDefaultCommands pb =
     Some (set_builder (\<lambda>b. b\<lparr>bld_Commands :=
       map (updateCommand pb) (ordered_commands (bld_Commands (sp_Builder (pb_Spec pb))))\<rparr>) pb)"
proof -
  let ?cs = "bld_Commands (sp_Builder (pb_Spec pb))"
  let ?c1 = "without_first (is_sub ''init'') ?cs"
  let ?c2 = "without_first (is_sub ''validate'') ?c1"
  let ?i = "pick ''init'' ?cs" and ?v = "pick ''validate'' ?cs"
  have one: "ensureCommandAt ?cs 0 ''init'' = Some (?i # ?c1)"
    using ensureCommandAt_after [of "[]" "''init''" ?cs] by simp
  have "pick ''validate'' ?c1 = ?v"
    by (simp add: pick_def find_without_first)
  moreover have "\<not> is_sub ''validate'' ?i"
    by (rule is_sub_unique [OF is_sub_pick]) simp
  ultimately have two: "ensureCommandAt (?i # ?c1) 1 ''validate'' = Some (?i # ?v # ?c2)"
    using ensureCommandAt_after [of "[?i]" "''validate''" ?c1] by simp
  have nb: "\<not> is_sub ''build'' ?i" "\<not> is_sub ''build'' ?v"
    by (rule is_sub_unique [OF is_sub_pick], simp)+
  have same: "find (is_sub ''build'') ?c2 = find (is_sub ''build'') ?cs"
    by (simp add: find_without_first)
  have three: "(case findCommandIndex (?i # ?v # ?c2) ''build'' of
      None \<Rightarrow> Some ((?i # ?v # ?c2) @ [default_command ''build''])
    | Some b \<Rightarrow> if b < 2 then moveCommandToIndex (?i # ?v # ?c2) b 2 else Some (?i # ?v # ?c2)) =
    Some (ordered_commands ?cs)"
  proof (cases "first_index (is_sub ''build'') (?i # ?v # ?c2)")
    case None
    then have "\<forall>x \<in> set (?i # ?v # ?c2). \<not> is_sub ''build'' x"
      by (simp only: first_index_None)
    then have "find (is_sub ''build'') ?c2 = None"
      by (simp add: find_None_iff)
    with None same show ?thesis
      by (simp add: findCommandIndex_def ordered_commands_def Let_def)
  next
    case (Some b)
    with nb have "2 \<le> b" by (rule first_index_ge2)
    moreover have "find (is_sub ''build'') ?c2 \<noteq> None"
    proof
      assume "find (is_sub ''build'') ?c2 = None"
      then have "\<forall>x \<in> set (?i # ?v # ?c2). \<not> is_sub ''build'' x"
        using nb by (auto simp: find_None_iff)
      then have "first_index (is_sub ''build'') (?i # ?v # ?c2) = None"
        by (simp only: first_index_None)
      with Some show False by (simp only: option.distinct)
    qed
    ultimately show ?thesis
      using Some same by (simp add: findCommandIndex_def ordered_commands_def Let_def)
  qed
  show ?thesis
    unfolding ensureDefaultCommands_def one bind.bind_lunit two three by (rule refl)
qed

lemma set_without_first: "set (without_first p xs) \<subseteq> set xs"
  by (induction xs) auto

lemma mset_without_first:
  "mset xs = (case find p xs of None \<Rightarrow> {#} | Some x \<Rightarrow> {#x#}) + mset (without_first p xs)"
  by (induction xs) (auto split: option.splits)

lemma mset_ordered_commands:
  "mset (ordered_commands cs) = mset cs +
     mset (map default_command (filter (\<lambda>s. find (is_sub s) cs = None)
       [''init'', ''validate'', ''build'']))"
proof -
  let ?c1 = "without_first (is_sub ''init'') cs"
  have "find (is_sub ''validate'') ?c1 = find (is_sub ''validate'') cs"
    by (simp add: find_without_first)
  then show ?thesis
    using mset_without_first [of cs "is_sub ''init''"]
      mset_without_first [of ?c1 "is_sub ''validate''"]
    by (auto simp: ordered_commands_def pick_def Let_def split: option.splits)
qed

lemma ordered_commands_cases:
  obtains i v rest where "ordered_commands cs = i # v # rest"
    "is_sub ''init'' i" "is_sub ''validate'' v" "\<exists>b \<in> set rest. is_sub ''build'' b"
proof -
  let ?rest = "without_first (is_sub ''validate'') (without_first (is_sub ''init'') cs)"
  have "\<exists>b \<in> set (?rest @
      (if find (is_sub ''build'') cs = None then [default_command ''build''] else [])). is_sub ''build'' b"
  proof (cases "find (is_sub ''build'') cs")
    case None
    then show ?thesis by (simp add: is_sub_def default_command_def)
  next
    case (Some b)
    then have "find (is_sub ''build'') ?rest = Some b"
      by (simp add: find_without_first)
    with Some show ?thesis by (auto simp: find_Some_iff)
  qed
  then show thesis
    by (intro that [OF _ is_sub_pick is_sub_pick]) (simp_all only: ordered_commands_def Let_def)
qed

text \<open>\<open>updateCommand\<close> changes the working directory and the variables only, and is idempotent.\<close>

lemma updateCommand_frame [simp]:
  "cmd_SubCommand (updateCommand pb c) = cmd_SubCommand c"
  "cmd_Args (updateCommand pb c) = cmd_Args c"
  "cmd_Color (updateCommand pb c) = cmd_Color c"
  "cmd_Debug (updateCommand pb c) = cmd_Debug c"
  "cmd_OnError (updateCommand pb c) = cmd_OnError c"
  "cmd_VariablesFile (updateCommand pb c) = cmd_VariablesFile c"
  by (simp_all add: updateCommand_def Let_def)

lemma is_sub_updateCommand [simp]: "is_sub s (updateCommand pb c) = is_sub s c"
  by (simp add: is_sub_def)

lemma AList_update_same: "map_of xs k = Some v \<Longrightarrow> AList.update k v xs = xs"
  by (induction xs) auto

lemma AList_update_twice:
  assumes "k \<noteq> l"
  shows "AList.update l w (AList.update k v (AList.update l w (AList.update k v xs))) =
    AList.update l w (AList.update k v xs)"
  using assms by (simp add: AList_update_same update_conv')

lemma updateCommand_idem [simp]: "updateCommand pb (updateCommand pb c) = updateCommand pb c"
proof (cases "cmd_SubCommand c = ''build'' \<and> sp_AMIFilters (pb_Spec pb) \<noteq> None")
  case True
  then show ?thesis
    by (cases "cmd_WorkingDir c = [] \<and> bld_Dir (sp_Builder (pb_Spec pb)) \<noteq> []")
      (simp_all add: updateCommand_def Let_def AList_update_twice)
next
  case False
  then show ?thesis by (auto simp: updateCommand_def Let_def)
qed

lemma updateCommand_builder [simp]:
  "bld_Dir (f (sp_Builder (pb_Spec pb))) = bld_Dir (sp_Builder (pb_Spec pb)) \<Longrightarrow>
     updateCommand (set_builder f pb) c = updateCommand pb c"
  by (auto simp: updateCommand_def Let_def)

lemma pick_first: "is_sub s c \<Longrightarrow> pick s (c # cs) = c"
  by (simp add: pick_def)

lemma ordered_commands_fixed:
  assumes "is_sub ''init'' i" "is_sub ''validate'' v" "\<exists>b \<in> set rest. is_sub ''build'' b"
  shows "ordered_commands (i # v # rest) = i # v # rest"
proof -
  have "\<not> is_sub ''validate'' i" using assms(1) by (rule is_sub_unique) simp
  moreover have "find (is_sub ''build'') (i # v # rest) \<noteq> None"
    using assms(3) unfolding find_None_iff by auto
  ultimately show ?thesis
    using assms(1,2) by (simp only: ordered_commands_def pick_def Let_def find.simps
        without_first.simps option.case if_True if_False append_Nil2 simp_thms)
qed

section \<open>The printed command\<close>

lemma construct_loop_seen:
  "construct_loop ord True cs = map (command_String ord) (filter (is_sub ''build'') cs)"
  by (induction cs) (auto simp: is_sub_def Let_def)

lemma construct_loop_eq:
  "construct_loop ord False cs =
     map (command_String ord)
       (takeWhile (\<lambda>c. \<not> is_sub ''build'' c) cs @ filter (is_sub ''build'') cs)"
proof (induction cs)
  case Nil
  then show ?case by simp
next
  case (Cons c cs)
  show ?case
  proof (cases "is_sub ''build'' c")
    case True
    then show ?thesis by (simp add: construct_loop_seen is_sub_def [abs_def])
  next
    case False
    with Cons show ?thesis by (simp add: is_sub_def)
  qed
qed

text \<open>The flags of a build do not depend on the order in which the runtime visits the variables.\<close>

lemma buildFlags_order:
  "map_order ord \<Longrightarrow> mset (buildFlags ord c) = mset (buildFlags (\<lambda>m. m) c)"
  by (auto simp: buildFlags_def map_order_def split: option.splits)

lemma updateCommand_variables:
  assumes "is_sub ''build'' c" "sp_AMIFilters (pb_Spec pb) \<noteq> None"
  shows "cmd_Variables (updateCommand pb c) =
    Some (AList.update ''region'' (sp_Region (pb_Spec pb))
      (AList.update ''ami_id'' (st_LastRunBaseImageID (pb_Status pb))
        (case cmd_Variables c of None \<Rightarrow> [] | Some vs \<Rightarrow> vs)))"
  using assms by (cases "cmd_WorkingDir c = [] \<and> bld_Dir (sp_Builder (pb_Spec pb)) \<noteq> []")
    (simp_all add: updateCommand_def Let_def is_sub_def)

lemma buildFlags_var:
  assumes "map_order ord" "cmd_Variables c = Some vs" "(k, v) \<in> set vs"
  shows "''-var '' @ quote1 @ k @ ''='' @ v @ quote1 \<in> set (buildFlags ord c)"
proof -
  have "(k, v) \<in> set (ord vs)" using assms(1,3) by (simp add: map_order_set)
  then show ?thesis
    unfolding buildFlags_def assms(2) by (force intro: rev_image_eqI)
qed

lemma Commands_upd: "bld_Commands (b\<lparr>bld_Commands := cs\<rparr>) = cs"
  and Command_upd: "st_Command (st\<lparr>st_Command := c\<rparr>) = c"
  by simp_all

section \<open>Properties\<close>

text \<open>
  \<open>ensureDefaultCommands\<close> never panics on an index, whatever commands the user wrote: the
  branch that would move a build command to position 2 is never taken, and the resulting list is the
  first (or a default) \<open>init\<close>, the first (or a default) \<open>validate\<close>, the remaining commands in the
  user's order, and a default \<open>build\<close> if there was none; no command is lost or duplicated.
\<close>

theorem default_commands_complete:
  "\<exists>pb'. ensureDefaultCommands pb = Some pb' \<and>
     bld_Commands (sp_Builder (pb_Spec pb')) =
       map (updateCommand pb) (ordered_commands (bld_Commands (sp_Builder (pb_Spec pb)))) \<and>
     mset (ordered_commands (bld_Commands (sp_Builder (pb_Spec pb)))) =
       mset (bld_Commands (sp_Builder (pb_Spec pb))) +
       mset (map default_command
         (filter (\<lambda>s. find (is_sub s) (bld_Commands (sp_Builder (pb_Spec pb))) = None)
           [''init'', ''validate'', ''build''])) \<and>
     pb_Status pb' = pb_Status pb \<and> pb_Meta pb' = pb_Meta pb"
  by (simp add: ensureDefaultCommands_eq mset_ordered_commands)

text \<open>
  Completing the commands is idempotent, so a reconciliation that runs again on the commands it
  already completed leaves them as they are.
\<close>

theorem default_commands_idempotent:
  "Option.bind (ensureDefaultCommands pb) ensureDefaultCommands = ensureDefaultCommands pb"
proof -
  let ?cs = "bld_Commands (sp_Builder (pb_Spec pb))"
  obtain i v rest where o: "ordered_commands ?cs = i # v # rest"
    and sub: "is_sub ''init'' i" "is_sub ''validate'' v" "\<exists>b \<in> set rest. is_sub ''build'' b"
    by (rule ordered_commands_cases)
  have "ordered_commands (map (updateCommand pb) (i # v # rest)) = map (updateCommand pb) (i # v # rest)"
    using sub ordered_commands_fixed [of "updateCommand pb i" "updateCommand pb v"
        "map (updateCommand pb) rest"] by simp
  then show ?thesis
    by (simp add: ensureDefaultCommands_eq o comp_def)
qed


text \<open>
  Where the spec has AMI filters, every build command of the job is passed the base AMI found
  by the flight checks and the region, whatever order the runtime visits the variables in.
\<close>

theorem build_variables:
  assumes "map_order ord" "construct_command ord pb = Some pb'"
    and "sp_AMIFilters (pb_Spec pb) \<noteq> None"
    and "c \<in> set (bld_Commands (sp_Builder (pb_Spec pb')))" "is_sub ''build'' c"
  shows "{''-var '' @ quote1 @ ''ami_id='' @ st_LastRunBaseImageID (pb_Status pb) @ quote1,
      ''-var '' @ quote1 @ ''region='' @ sp_Region (pb_Spec pb) @ quote1} \<subseteq> set (buildFlags ord c)"
proof -
  from assms(2,4) obtain c0 where c: "c = updateCommand pb c0"
    by (auto simp: construct_command_def ensureDefaultCommands_eq)
  with assms(5) have "is_sub ''build'' c0" by simp
  note uv = updateCommand_variables [OF this assms(3), folded c]
  then obtain vs where vs: "cmd_Variables c = Some vs" by blast
  with uv have a: "map_of vs ''ami_id'' = Some (st_LastRunBaseImageID (pb_Status pb))"
    and r: "map_of vs ''region'' = Some (sp_Region (pb_Spec pb))"
    by (auto simp: update_conv')
  from buildFlags_var [OF assms(1) vs map_of_SomeD [OF a]]
    buildFlags_var [OF assms(1) vs map_of_SomeD [OF r]] show ?thesis
    by (simp only: append.simps insert_subset empty_subsetI simp_thms)
qed

text \<open>
  With no commands, no working directory and no AMI filters in the spec, the command is exactly
  this one: unlike the documented default \<open>packer init . && packer validate . && packer build
  -color=false .\<close> it names no template directory.
\<close>

theorem default_command_text:
  assumes "bld_Commands (sp_Builder (pb_Spec pb)) = []" "bld_Dir (sp_Builder (pb_Spec pb)) = []"
    and "sp_AMIFilters (pb_Spec pb) = None"
  shows "map_option (\<lambda>pb'. st_Command (pb_Status pb')) (construct_command ord pb) =
    Some ''packer init && packer validate && packer build -color=false''"
  using assms
  by (simp add: construct_command_def ensureDefaultCommands_eq ordered_commands_def pick_def
      default_command_def updateCommand_def Let_def command_String_def buildFlags_def)

definition example_pb :: packer_builder where
  "example_pb =
     \<lparr>pb_Meta = \<lparr>om_Name = ''pb'', om_Namespace = ''ns'', om_DeletionTimestamp = None,
        om_Finalizers = []\<rparr>,
      pb_Spec = \<lparr>sp_AMIFilters = None, sp_ClusterName = ''c'',
        sp_TimeOuts = \<lparr>to_ExpiresIn = ''48h'', to_ControllerTimer = ''5m''\<rparr>,
        sp_GitSync = \<lparr>gs_Image = '''', gs_Name = '''', gs_Secret = ''''\<rparr>,
        sp_Notify = \<lparr>nf_Slack = \<lparr>sl_Channels = None, sl_Secret = ''''\<rparr>\<rparr>, sp_Region = ''us-west-2'',
        sp_Builder = \<lparr>bld_Branch = ''main'', bld_Commands = [], bld_Debug = False, bld_Dir = '''',
          bld_Image = '''', bld_ImageType = '''', bld_RepoURL = '''', bld_Secret = '''',
          bld_JobServiceAccountName = ''''\<rparr>\<rparr>,
      pb_Status = \<lparr>st_Active = [], st_BuildID = ''b1'', st_Command = '''', st_Conditions = [],
        st_FailedJobCount = None, st_JobID = '''', st_JobName = '''', st_JobStatus = JobStatusUnset,
        st_LastRun = 0, st_LastRunBaseImageID = ''ami-1'', st_LastRunBuiltImageID = '''',
        st_LastRunMessage = '''', st_LastRunStatus = LastRunStatusUnset,
        st_LastRunSecurityGroupID = '''', st_LastRunKeyPair = '''', st_LastTransitionTime = 0,
        st_MaxNumberOfFailedJobs = None, st_State = StateInitial\<rparr>\<rparr>"

theorem default_command_text_witness:
  "map_option (\<lambda>pb'. st_Command (pb_Status pb')) (construct_command rev example_pb) =
    Some ''packer init && packer validate && packer build -color=false''"
  by (rule default_command_text) (simp_all add: example_pb_def)


definition example_filtered :: packer_builder where
  "example_filtered = example_pb\<lparr>pb_Spec := (pb_Spec example_pb)\<lparr>sp_AMIFilters := Some []\<rparr>\<rparr>"

theorem build_variables_witness:
  "''-var '' @ quote1 @ ''ami_id=ami-1'' @ quote1
    \<in> set (buildFlags rev (updateCommand example_filtered (default_command ''build'')))"
proof -
  have "updateCommand example_filtered (default_command ''build'')
      \<in> updateCommand example_filtered ` set (ordered_commands [])"
    by (simp add: ordered_commands_def)
  moreover obtain pb' where c: "construct_command rev example_filtered = Some pb'"
    and cs: "bld_Commands (sp_Builder (pb_Spec pb')) =
      map (updateCommand example_filtered) (ordered_commands [])"
    by (simp add: construct_command_def ensureDefaultCommands_eq example_filtered_def example_pb_def)
  ultimately have x: "updateCommand example_filtered (default_command ''build'')
      \<in> set (bld_Commands (sp_Builder (pb_Spec pb')))"
    by simp
  have y: "is_sub ''build'' (updateCommand example_filtered (default_command ''build''))"
    by (simp add: is_sub_def default_command_def)
  have "sp_AMIFilters (pb_Spec example_filtered) \<noteq> None"
    by (simp add: example_filtered_def)
  from build_variables [OF map_order_rev c this x y] show ?thesis
    by (simp add: example_filtered_def example_pb_def)
qed

end
