(* ===== verification/Environment.thy ===== *)
theory Environment
  imports Packer_Command
begin

text \<open>
  Everything the operator calls that is not its own code: the Kubernetes API server and client-go,
  the AWS clients, the Slack client, clock, random identifiers and Go's choice in a \<open>select\<close>. All of
  it is one record of functions over an abstract world, an argument of the definitions that use it.
  A call takes the world and returns its answer with the world it leaves, so that nothing is fixed
  about what other clients do between two calls. Documented behaviour of these calls is stated as
  predicates on the record, hypotheses of the theorems that need it.
\<close>

section \<open>Jobs\<close>

text \<open>\<open>batchv1.Job\<close> with the parts of its template the operator writes.\<close>

datatype env_var = EnvValue bytes bytes | EnvFromSecret bytes bytes bytes

record container =
  co_Name :: bytes
  co_Image :: bytes
  co_Env :: "env_var list"
  co_Command :: "bytes list"
  co_Args :: "bytes list"
  co_WorkingDir :: bytes
  co_VolumeMounts :: "(bytes \<times> bytes) list"
  co_PreStop :: "bytes list"

record job =
  job_Name :: bytes
  job_Namespace :: bytes
  job_Labels :: "(bytes \<times> bytes) list"
  job_Owner :: "object_key option"
  job_PodReplacementPolicy :: bytes
  job_TTLSecondsAfterFinished :: int32
  job_Completions :: int32
  job_BackoffLimit :: int32
  job_TemplateLabels :: "(bytes \<times> bytes) list"
  job_RestartPolicy :: bytes
  job_ServiceAccountName :: bytes
  job_InitContainers :: "container list"
  job_Containers :: "container list"
  job_Volumes :: "bytes list"
  job_State :: job_state

definition job_key :: "job \<Rightarrow> object_key" where
  "job_key j = (job_Namespace j, job_Name j)"

section \<open>Calls\<close>

type_synonym ('w, 'a) call = "'w \<Rightarrow> 'a \<times> 'w"

text \<open>
  What a \<open>select\<close> between a finished operation and its deadline picks: the result; the deadline
  with the context's error; for the packer manager also the error its goroutine sends on \<open>errCh\<close>
  when the context is done, or the closed \<open>errCh\<close>.
\<close>

datatype select_choice =
    PickResult
  | PickDeadline go_error
  | PickErrSent go_error
  | PickErrClosed

text \<open>
  What happens next while \<open>runningBuild\<close> waits: an event of the job watch, a step of the log stream,
  or a case of the loop's \<open>select\<close> that becomes ready.
\<close>

datatype watch_event = WatchJob job_state | WatchOther bytes | WatchClosed

datatype run_choice =
    WatchFails go_error
  | WatchDelivers watch_event
  | PollPods
  | LogLine bytes
  | LogEnd
  | LogFails go_error
  | TakeResult
  | TakeError
  | TickerFires
  | ContextDone

text \<open>
  A pod of a job as the log stream sees it: its phase and, for every container status, the reason of
  the waiting state if the container waits.
\<close>

record pod =
  pod_Name :: bytes
  pod_Namespace :: bytes
  pod_Phase :: bytes
  pod_Waiting :: "bytes option list"

text \<open>\<open>ModifyImageAttributeInput\<close> with the launch permission groups to remove.\<close>

record image_attribute =
  ia_ImageId :: bytes
  ia_OperationType :: bytes
  ia_RemoveGroups :: "bytes list"

text \<open>What \<open>SlackService.Send\<close> posts: channel, fallback text, texts of the blocks and the colour.\<close>

record slack_post =
  po_Token :: bytes
  po_Channel :: bytes
  po_Text :: bytes
  po_Blocks :: "bytes list"
  po_Color :: bytes

record 'w env =
  env_now :: "('w, time) call"
  env_time_error :: "bytes \<Rightarrow> bytes"
  env_uuid :: "('w, bytes) call"
  env_map_order :: "('w, map_iteration) call"
  env_select :: "duration \<Rightarrow> ('w, select_choice) call"
  env_run_choice :: "('w, run_choice) call"
  env_retry :: "('w, go_error option) call \<Rightarrow> ('w, go_error option) call"
  env_get_pb :: "object_key \<Rightarrow> ('w, go_error + packer_builder) call"
  env_update_pb_status :: "packer_builder \<Rightarrow> ('w, go_error option) call"
  env_patch_pb :: "packer_builder \<Rightarrow> packer_builder \<Rightarrow> ('w, go_error + packer_builder) call"
  env_get_ar :: "object_key \<Rightarrow> ('w, go_error + ami_refresher) call"
  env_update_ar_status :: "ami_refresher \<Rightarrow> ('w, go_error option) call"
  env_list_jobs :: "bytes \<Rightarrow> (bytes \<times> bytes) list \<Rightarrow> ('w, go_error + job list) call"
  env_list_pods :: "bytes \<Rightarrow> (bytes \<times> bytes) list \<Rightarrow> ('w, go_error + pod list) call"
  env_get_job :: "object_key \<Rightarrow> ('w, go_error + job) call"
  env_create_job :: "job \<Rightarrow> ('w, go_error option) call"
  env_get_secret :: "object_key \<Rightarrow> ('w, go_error + (bytes \<times> bytes) list) call"
  env_get_reference :: "job \<Rightarrow> ('w, go_error + object_reference) call"
  env_set_controller :: "packer_builder \<Rightarrow> job \<Rightarrow> ('w, go_error + job) call"
  env_record_event :: "object_key \<Rightarrow> bytes \<Rightarrow> bytes \<Rightarrow> bytes \<Rightarrow> ('w, unit) call"
  env_slack_post :: "slack_post \<Rightarrow> ('w, go_error option) call"
  env_aws_config :: "bytes \<Rightarrow> ('w, go_error + bytes) call"
  env_describe_images :: "bytes \<Rightarrow> ec2_filter list \<Rightarrow> ('w, go_error + ec2_image list) call"
  env_create_tags :: "bytes \<Rightarrow> bytes list \<Rightarrow> (bytes \<times> bytes) list \<Rightarrow> ('w, go_error option) call"
  env_modify_image :: "bytes \<Rightarrow> image_attribute \<Rightarrow> ('w, go_error option) call"
  env_describe_key_pairs :: "bytes \<Rightarrow> bytes list \<Rightarrow> ('w, go_error option) call"
  env_delete_key_pair :: "bytes \<Rightarrow> bytes \<Rightarrow> ('w, go_error option) call"
  env_describe_security_groups :: "bytes \<Rightarrow> bytes list \<Rightarrow> ('w, go_error option) call"
  env_delete_security_group :: "bytes \<Rightarrow> bytes \<Rightarrow> ('w, go_error option) call"

section \<open>Sequencing\<close>

text \<open>
  A statement sequence of the code: a state passing function that returns or panics. A panic ends
  the sequence with the world as it is then.
\<close>

type_synonym ('w, 'a) go = "'w \<Rightarrow> 'a outcome \<times> 'w"

definition go_return :: "'a \<Rightarrow> ('w, 'a) go" where
  "go_return x w = (Returns x, w)"

definition go_panic :: "bytes \<Rightarrow> ('w, 'a) go" where
  "go_panic s w = (Panics s, w)"

definition go_call :: "('w, 'a) call \<Rightarrow> ('w, 'a) go" where
  "go_call c w = (let (x, w') = c w in (Returns x, w'))"

definition go_bind :: "('w, 'a) go \<Rightarrow> ('a \<Rightarrow> ('w, 'b) go) \<Rightarrow> ('w, 'b) go" where
  "go_bind m f w =
     (let (r, w') = m w in (case r of Returns x \<Rightarrow> f x w' | Panics s \<Rightarrow> (Panics s, w')))"

text \<open>A dereference of a pointer; \<open>nil\<close> panics.\<close>

definition go_deref :: "'a option \<Rightarrow> ('w, 'a) go" where
  "go_deref p = (case p of None \<Rightarrow> go_panic ''nil pointer dereference'' | Some x \<Rightarrow> go_return x)"

text \<open>
  \<open>if err := m; err != nil { return err }\<close>, and the same for a call with a result; \<open>wrap\<close> is what the
  code makes of the error.
\<close>

definition go_check ::
  "('w, go_error option) go \<Rightarrow> ('w, go_error option) go \<Rightarrow> ('w, go_error option) go" where
  "go_check m k = go_bind m (\<lambda>failed. case failed of Some err \<Rightarrow> go_return (Some err) | None \<Rightarrow> k)"

definition go_try ::
  "(go_error \<Rightarrow> go_error) \<Rightarrow> ('w, go_error + 'a) go \<Rightarrow> ('a \<Rightarrow> ('w, go_error option) go) \<Rightarrow>
   ('w, go_error option) go" where
  "go_try wrap m k =
     go_bind m (\<lambda>answer. case answer of Inl err \<Rightarrow> go_return (Some (wrap err)) | Inr x \<Rightarrow> k x)"

lemma go_bind_return [simp]: "go_bind (go_return x) f = f x"
  by (rule ext) (simp add: go_bind_def go_return_def)

lemma go_bind_panic [simp]: "go_bind (go_panic s) f = go_panic s"
  by (rule ext) (simp add: go_bind_def go_panic_def)

lemma go_bind_assoc: "go_bind (go_bind m f) g = go_bind m (\<lambda>x. go_bind (f x) g)"
  by (rule ext) (auto simp: go_bind_def Let_def split: prod.splits outcome.splits)

lemma go_deref_simps [simp]:
  "go_deref (Some x) = go_return x" "go_deref None = go_panic ''nil pointer dereference''"
  by (simp_all add: go_deref_def)

lemma go_run_simps [go_laws]:
  "go_return x w = (Returns x, w)" "go_panic s w = (Panics s, w)"
  "go_call c w = (Returns (fst (c w)), snd (c w))"
  by (simp_all add: go_return_def go_panic_def go_call_def split_beta)

lemma go_bind_run [go_laws]:
  "go_bind m f w =
     (case fst (m w) of Returns x \<Rightarrow> f x (snd (m w)) | Panics s \<Rightarrow> (Panics s, snd (m w)))"
  by (simp add: go_bind_def split_beta)

lemma go_bind_at: "fst (m s) = Returns r \<Longrightarrow> go_bind m f s = f r (snd (m s))"
  by (simp add: go_bind_run)

text \<open>Rewriting inside the branches of a case.\<close>

lemmas split_cong = option.case_cong sum.case_cong if_cong prod.case_cong

lemma go_bindE:
  assumes "go_bind m f w = (Returns x, w')"
  obtains y v where "m w = (Returns y, v)" "f y v = (Returns x, w')"
  using assms by (cases "m w") (auto simp: go_bind_run split: outcome.splits)

lemma go_run_eq:
  "go_return x w = (r, w') \<longleftrightarrow> r = Returns x \<and> w' = w"
  "go_call c w = (r, w') \<longleftrightarrow> (\<exists>x. r = Returns x \<and> c w = (x, w'))"
  by (auto simp: go_run_simps prod_eq_iff)

lemma go_deref_returns: "go_deref p w = (Returns x, w') \<longleftrightarrow> p = Some x \<and> w' = w"
  by (auto simp: go_deref_def go_run_simps split: option.splits)

lemma go_bind_cong [fundef_cong]:
  "m w = m' w' \<Longrightarrow> (\<And>x. fst (m' w') = Returns x \<Longrightarrow> f x (snd (m' w')) = f' x (snd (m' w'))) \<Longrightarrow>
     w = w' \<Longrightarrow> go_bind m f w = go_bind m' f' w'"
  by (auto simp: go_bind_run split: outcome.splits)

section \<open>Documented behaviour\<close>

text \<open>
  \<open>retry.RetryOnConflict\<close>: the function is run until it returns something other than a conflict,
  or the attempts are used up; the error of the last run is returned.
\<close>

inductive retried :: "('w, go_error option) call \<Rightarrow> 'w \<Rightarrow> go_error option \<Rightarrow> 'w \<Rightarrow> bool"
  for f :: "('w, go_error option) call" where
  last: "f w = (r, w') \<Longrightarrow> retried f w r w'"
| again: "f w = (Some e, w') \<Longrightarrow> is_conflict e \<Longrightarrow> retried f w' r w'' \<Longrightarrow> retried f w r w''"

definition retry_documented :: "'w env \<Rightarrow> bool" where
  "retry_documented E \<longleftrightarrow>
     (\<forall>f w. retried f w (fst (env_retry E f w)) (snd (env_retry E f w)))"

text \<open>No operation with a timeout is cut off: its result always comes first.\<close>

definition never_cut_off :: "'w env \<Rightarrow> bool" where
  "never_cut_off E \<longleftrightarrow> (\<forall>d w. fst (env_select E d w) = PickResult)"

text \<open>A run of \<open>retried\<close> keeps what each attempt keeps.\<close>

lemma retried_invariant:
  "retried f w r w' \<Longrightarrow> (\<And>v. P v \<Longrightarrow> P (snd (f v))) \<Longrightarrow> P w \<Longrightarrow> P w'"
  by (induction rule: retried.induct) (metis snd_conv)+

lemma retried_success:
  "retried f w None w' \<Longrightarrow> \<exists>v. f v = (None, w')"
  by (induction w "None :: go_error option" w' rule: retried.induct) auto

end
