(* ===== verification/Simulation.thy ===== *)
theory Simulation
  imports Environment
begin

text \<open>
  A concrete environment: one stored object of each kind, jobs, images, a clock that ticks with
  every reading, a log of the calls that change something outside, and a list of the calls that are
  to fail. The examples that show the hypotheses of a property can hold run the model on it.
\<close>

datatype effect =
    WrotePB packer_builder_status
  | WroteAR ami_refresher_status
  | CreatedJob bytes
  | TaggedImage bytes "(bytes \<times> bytes) list"
  | ModifiedImage bytes
  | DeletedKeyPair bytes
  | DeletedSecurityGroup bytes
  | PostedToSlack bytes

record sim =
  sim_pb :: "packer_builder option"
  sim_ar :: "ami_refresher option"
  sim_jobs :: "job list"
  sim_pods :: "pod list"
  sim_images :: "ec2_image list"
  sim_secrets :: "(object_key \<times> (bytes \<times> bytes) list) list"
  sim_clock :: time
  sim_runs :: "run_choice list"
  sim_fails :: "(bytes \<times> go_error) list"
  sim_log :: "effect list"

definition not_found_error :: go_error where
  "not_found_error = K8sError ''NotFound'' ''not found''"

text \<open>A call that only reads, and a call with an effect; each may be made to fail by its name.\<close>

definition sim_read :: "bytes \<Rightarrow> (sim \<Rightarrow> go_error + 'a) \<Rightarrow> (sim, go_error + 'a) call" where
  "sim_read name f w =
     (case map_of (sim_fails w) name of Some e \<Rightarrow> (Inl e, w) | None \<Rightarrow> (f w, w))"

definition sim_effect :: "bytes \<Rightarrow> effect \<Rightarrow> (sim \<Rightarrow> sim) \<Rightarrow> (sim, go_error option) call" where
  "sim_effect name ev f w =
     (case map_of (sim_fails w) name of
        Some e \<Rightarrow> (Some e, w)
      | None \<Rightarrow> (None, f (w\<lparr>sim_log := sim_log w @ [ev]\<rparr>)))"

definition sim_check :: "bytes \<Rightarrow> (sim, go_error option) call" where
  "sim_check name w = (map_of (sim_fails w) name, w)"

definition option_found :: "'a option \<Rightarrow> go_error + 'a" where
  "option_found x = (case x of None \<Rightarrow> Inl not_found_error | Some v \<Rightarrow> Inr v)"

definition find_job :: "object_key \<Rightarrow> job list \<Rightarrow> job option" where
  "find_job k js = find (\<lambda>j. job_key j = k) js"

definition store_status :: "packer_builder \<Rightarrow> sim \<Rightarrow> sim" where
  "store_status pb w = w\<lparr>sim_pb := map_option (\<lambda>old. old\<lparr>pb_Status := pb_Status pb\<rparr>) (sim_pb w)\<rparr>"

definition sim_env :: "sim env" where
  "sim_env =
     \<lparr>env_now = (\<lambda>w. (sim_clock w, w\<lparr>sim_clock := sim_clock w + second\<rparr>)),
      env_time_error = (\<lambda>v. ''parsing time '' @ v),
      env_uuid = (\<lambda>w. (''0f3a9c52-build'', w)),
      env_map_order = (\<lambda>w. (\<lambda>m. m, w)),
      env_select = (\<lambda>d w. (PickResult, w)),
      env_run_choice = (\<lambda>w. case sim_runs w of [] \<Rightarrow> (TickerFires, w)
                            | c # cs \<Rightarrow> (c, w\<lparr>sim_runs := cs\<rparr>)),
      env_retry = (\<lambda>f. f),
      env_get_pb = (\<lambda>k. sim_read ''get_pb'' (\<lambda>w. option_found (sim_pb w))),
      env_update_pb_status =
        (\<lambda>pb. sim_effect ''update_pb_status'' (WrotePB (pb_Status pb)) (store_status pb)),
      env_patch_pb = (\<lambda>base pb. sim_read ''patch_pb'' (\<lambda>w. option_found (sim_pb w))),
      env_get_ar = (\<lambda>k. sim_read ''get_ar'' (\<lambda>w. option_found (sim_ar w))),
      env_update_ar_status =
        (\<lambda>ar. sim_effect ''update_ar_status'' (WroteAR (ar_Status ar)) (\<lambda>w. w\<lparr>sim_ar := Some ar\<rparr>)),
      env_list_jobs = (\<lambda>ns ls. sim_read ''list_jobs'' (\<lambda>w. Inr (filter (\<lambda>j. job_Namespace j = ns \<and>
                          set ls \<subseteq> set (job_Labels j)) (sim_jobs w)))),
      env_list_pods = (\<lambda>ns ls. sim_read ''list_pods'' (\<lambda>w. Inr (sim_pods w))),
      env_get_job = (\<lambda>k. sim_read ''get_job'' (\<lambda>w. option_found (find_job k (sim_jobs w)))),
      env_create_job =
        (\<lambda>j. sim_effect ''create_job'' (CreatedJob (job_Name j)) (\<lambda>w. w\<lparr>sim_jobs := sim_jobs w @ [j]\<rparr>)),
      env_get_secret =
        (\<lambda>k. sim_read ''get_secret'' (\<lambda>w. option_found (map_of (sim_secrets w) k))),
      env_get_reference = (\<lambda>j. sim_read ''get_reference''
        (\<lambda>w. Inr \<lparr>or_Kind = ''Job'', or_Namespace = job_Namespace j, or_Name = job_Name j\<rparr>)),
      env_set_controller = (\<lambda>pb j. sim_read ''set_controller''
        (\<lambda>w. Inr (j\<lparr>job_Owner := Some (object_key (pb_Meta pb))\<rparr>))),
      env_record_event = (\<lambda>k t r m w. ((), w)),
      env_slack_post = (\<lambda>p. sim_effect ''slack_post'' (PostedToSlack (po_Channel p)) (\<lambda>w. w)),
      env_aws_config = (\<lambda>region. sim_read ''aws_config'' (\<lambda>w. Inr region)),
      env_describe_images = (\<lambda>region fs. sim_read ''describe_images'' (\<lambda>w. Inr (sim_images w))),
      env_create_tags =
        (\<lambda>region ids tags. sim_effect ''create_tags'' (TaggedImage (concat ids) tags) (\<lambda>w. w)),
      env_modify_image =
        (\<lambda>region ia. sim_effect ''modify_image'' (ModifiedImage (ia_ImageId ia)) (\<lambda>w. w)),
      env_describe_key_pairs = (\<lambda>region names. sim_check ''describe_key_pairs''),
      env_delete_key_pair = (\<lambda>region n. sim_effect ''delete_key_pair'' (DeletedKeyPair n) (\<lambda>w. w)),
      env_describe_security_groups = (\<lambda>region ids. sim_check ''describe_security_groups''),
      env_delete_security_group =
        (\<lambda>region i. sim_effect ''delete_security_group'' (DeletedSecurityGroup i) (\<lambda>w. w))\<rparr>"

text \<open>The environment as simplification rules, one per call.\<close>

lemma sim_calls:
  "env_now sim_env = (\<lambda>w. (sim_clock w, w\<lparr>sim_clock := sim_clock w +
     second\<rparr>))"
  "env_time_error sim_env = (\<lambda>v. ''parsing time '' @ v)"
  "env_uuid sim_env = (\<lambda>w. (''0f3a9c52-build'', w))"
  "env_map_order sim_env = (\<lambda>w. (\<lambda>m. m, w))"
  "env_select sim_env = (\<lambda>d w. (PickResult, w))"
  "env_run_choice sim_env = (\<lambda>w. case sim_runs w of [] \<Rightarrow> (TickerFires, w) | c
     # cs \<Rightarrow> (c, w\<lparr>sim_runs := cs\<rparr>))"
  "env_retry sim_env = (\<lambda>f. f)"
  "env_get_pb sim_env = (\<lambda>k. sim_read ''get_pb'' (\<lambda>w. option_found (sim_pb w)))"
  "env_update_pb_status sim_env = (\<lambda>pb. sim_effect ''update_pb_status'' (WrotePB
     (pb_Status pb)) (store_status pb))"
  "env_patch_pb sim_env = (\<lambda>base pb. sim_read ''patch_pb'' (\<lambda>w. option_found
     (sim_pb w)))"
  "env_get_ar sim_env = (\<lambda>k. sim_read ''get_ar'' (\<lambda>w. option_found (sim_ar w)))"
  "env_update_ar_status sim_env = (\<lambda>ar. sim_effect ''update_ar_status'' (WroteAR
     (ar_Status ar)) (\<lambda>w. w\<lparr>sim_ar := Some ar\<rparr>))"
  "env_list_jobs sim_env = (\<lambda>ns ls. sim_read ''list_jobs'' (\<lambda>w. Inr (filter
     (\<lambda>j. job_Namespace j = ns \<and> set ls \<subseteq> set (job_Labels j)) (sim_jobs
     w))))"
  "env_list_pods sim_env = (\<lambda>ns ls. sim_read ''list_pods'' (\<lambda>w. Inr (sim_pods w)))"
  "env_get_job sim_env = (\<lambda>k. sim_read ''get_job'' (\<lambda>w. option_found (find_job k
     (sim_jobs w))))"
  "env_create_job sim_env = (\<lambda>j. sim_effect ''create_job'' (CreatedJob (job_Name j))
     (\<lambda>w. w\<lparr>sim_jobs := sim_jobs w @ [j]\<rparr>))"
  "env_get_secret sim_env = (\<lambda>k. sim_read ''get_secret'' (\<lambda>w. option_found (map_of
     (sim_secrets w) k)))"
  "env_get_reference sim_env = (\<lambda>j. sim_read ''get_reference'' (\<lambda>w. Inr
     \<lparr>or_Kind = ''Job'', or_Namespace = job_Namespace j, or_Name = job_Name j\<rparr>))"
  "env_set_controller sim_env = (\<lambda>pb j. sim_read ''set_controller'' (\<lambda>w. Inr
     (j\<lparr>job_Owner := Some (object_key (pb_Meta pb))\<rparr>)))"
  "env_record_event sim_env = (\<lambda>k t r m w. ((), w))"
  "env_slack_post sim_env = (\<lambda>p. sim_effect ''slack_post'' (PostedToSlack (po_Channel p))
     (\<lambda>w. w))"
  "env_aws_config sim_env = (\<lambda>region. sim_read ''aws_config'' (\<lambda>w. Inr region))"
  "env_describe_images sim_env = (\<lambda>region fs. sim_read ''describe_images'' (\<lambda>w.
     Inr (sim_images w)))"
  "env_create_tags sim_env = (\<lambda>region ids tags. sim_effect ''create_tags'' (TaggedImage
     (concat ids) tags) (\<lambda>w. w))"
  "env_modify_image sim_env = (\<lambda>region ia. sim_effect ''modify_image'' (ModifiedImage
     (ia_ImageId ia)) (\<lambda>w. w))"
  "env_describe_key_pairs sim_env = (\<lambda>region names. sim_check ''describe_key_pairs'')"
  "env_delete_key_pair sim_env = (\<lambda>region n. sim_effect ''delete_key_pair''
     (DeletedKeyPair n) (\<lambda>w. w))"
  "env_describe_security_groups sim_env = (\<lambda>region ids. sim_check
     ''describe_security_groups'')"
  "env_delete_security_group sim_env = (\<lambda>region i. sim_effect ''delete_security_group''
     (DeletedSecurityGroup i) (\<lambda>w. w))"
  by (simp_all add: sim_env_def)

lemmas sim_run = sim_calls sim_read_def sim_effect_def sim_check_def option_found_def
  store_status_def find_job_def

lemma sim_env_never_cut_off: "never_cut_off sim_env"
  by (simp add: never_cut_off_def sim_calls)

lemma sim_env_retry: "retry_documented sim_env"
  by (auto simp: retry_documented_def sim_calls intro: retried.last)

text \<open>A world with the builder of the examples stored and nothing else.\<close>

definition sim_start :: "packer_builder \<Rightarrow> sim" where
  "sim_start pb =
     \<lparr>sim_pb = Some pb, sim_ar = None, sim_jobs = [], sim_pods = [], sim_images = [], sim_secrets = [],
      sim_clock = 1000 * second, sim_runs = [], sim_fails = [], sim_log = []\<rparr>"

end
