(* ===== verification/Conditions.thy ===== *)
theory Conditions
  imports Simulation
begin

text \<open>
  \<open>pkg/status\<close> and \<open>pkg/cond\<close>: the write of a status with retry on conflict, and the conditions of
  a custom resource. Both are written once for any object with a \<open>Status\<close>; the interface
  \<open>cond.ConditionSetter\<close> is the record \<open>object_ops\<close>, its laws the locale \<open>condition_setter\<close>,
  interpreted for \<open>PackerBuilder\<close> and for \<open>AMIRefresher\<close>.
\<close>

section \<open>Objects with a status\<close>

record ('w, 'o) object_ops =
  oo_Key :: "'o \<Rightarrow> object_key"
  oo_GetConditions :: "'o \<Rightarrow> opsy_condition list"
  oo_SetConditions :: "opsy_condition list \<Rightarrow> 'o \<Rightarrow> 'o"
  oo_CopyStatus :: "'o \<Rightarrow> 'o \<Rightarrow> 'o"
  oo_Get :: "object_key \<Rightarrow> ('w, go_error + 'o) call"
  oo_UpdateStatus :: "'o \<Rightarrow> ('w, go_error option) call"

text \<open>
  The client's calls at the two types, and what reflection copies: the field \<open>Status\<close>.
\<close>

definition pb_ops :: "'w env \<Rightarrow> ('w, packer_builder) object_ops" where
  "pb_ops E =
     \<lparr>oo_Key = (\<lambda>pb. object_key (pb_Meta pb)), oo_GetConditions = pb_GetConditions,
      oo_SetConditions = pb_SetConditions,
      oo_CopyStatus = (\<lambda>obj latest. latest\<lparr>pb_Status := pb_Status obj\<rparr>),
      oo_Get = env_get_pb E, oo_UpdateStatus = env_update_pb_status E\<rparr>"

definition ar_ops :: "'w env \<Rightarrow> ('w, ami_refresher) object_ops" where
  "ar_ops E =
     \<lparr>oo_Key = (\<lambda>ar. object_key (ar_Meta ar)), oo_GetConditions = ar_GetConditions,
      oo_SetConditions = ar_SetConditions,
      oo_CopyStatus = (\<lambda>obj latest. latest\<lparr>ar_Status := ar_Status obj\<rparr>),
      oo_Get = env_get_ar E, oo_UpdateStatus = env_update_ar_status E\<rparr>"

section \<open>Writing a status\<close>

text \<open>The function \<open>Status.Update\<close> hands to \<open>RetryOnConflict\<close>, and \<open>Update\<close>.\<close>

definition Status_attempt :: "('w, 'o) object_ops \<Rightarrow> 'o \<Rightarrow> ('w, go_error option) call" where
  "Status_attempt ops obj w =
     (case oo_Get ops (oo_Key ops obj) w of
        (Inl err, w1) \<Rightarrow>
          (Some (WrapError ''failed to get latest version of object: '' err), w1)
      | (Inr latestObj, w1) \<Rightarrow>
          (case oo_UpdateStatus ops (oo_CopyStatus ops obj latestObj) w1 of
             (None, w2) \<Rightarrow> (None, w2)
           | (Some err, w2) \<Rightarrow>
               if is_conflict err then (Some err, w2)
               else (Some (WrapError ''failed to update object status: '' err), w2)))"

definition Status_Update ::
  "'w env \<Rightarrow> ('w, 'o) object_ops \<Rightarrow> 'o \<Rightarrow> ('w, go_error option) call" where
  "Status_Update E ops obj = env_retry E (Status_attempt ops obj)"

lemma Status_attempt_success:
  "Status_attempt ops obj v = (None, w') \<Longrightarrow>
     \<exists>latest v1. oo_Get ops (oo_Key ops obj) v = (Inr latest, v1) \<and>
       oo_UpdateStatus ops (oo_CopyStatus ops obj latest) v1 = (None, w')"
  by (auto simp: Status_attempt_def split: prod.splits sum.splits option.splits if_splits)

lemma Status_attempt_conflict:
  "Status_attempt ops obj v = (Some e, w') \<Longrightarrow> is_conflict e \<Longrightarrow>
     \<exists>latest v1. oo_Get ops (oo_Key ops obj) v = (Inr latest, v1) \<and>
       oo_UpdateStatus ops (oo_CopyStatus ops obj latest) v1 = (Some e, w') \<or>
     (\<exists>e'. oo_Get ops (oo_Key ops obj) v = (Inl e', w') \<and> is_conflict e')"
  by (auto simp: Status_attempt_def split: prod.splits sum.splits option.splits if_splits)

lemma Status_Update_success:
  assumes "retry_documented E" "Status_Update E ops obj w = (None, w')"
  shows "\<exists>v latest v1. oo_Get ops (oo_Key ops obj) v = (Inr latest, v1) \<and>
    oo_UpdateStatus ops (oo_CopyStatus ops obj latest) v1 = (None, w')"
proof -
  have "retried (Status_attempt ops obj) w None w'"
    using assms unfolding retry_documented_def Status_Update_def by (metis fst_conv snd_conv)
  then show ?thesis
    using retried_success Status_attempt_success by meson
qed

section \<open>Setting a condition\<close>

text \<open>
  The loop over the conditions: the first one of the type is changed in place, with a new
  transition time only when something changes; without one, a new condition is appended.
\<close>

fun upsert_condition ::
  "time \<Rightarrow> condition_type \<Rightarrow> condition_status \<Rightarrow> bytes \<Rightarrow> bytes \<Rightarrow>
   opsy_condition list \<Rightarrow> opsy_condition list" where
  "upsert_condition now t s reason message [] =
     [\<lparr>oc_Type = t, oc_Status = s, oc_LastTransitionTime = now, oc_Reason = reason,
       oc_Message = message\<rparr>]"
| "upsert_condition now t s reason message (c # cs) =
     (if oc_Type c = t
      then (if oc_Status c \<noteq> s \<or> oc_Reason c \<noteq> reason \<or> oc_Message c \<noteq> message
            then c\<lparr>oc_Status := s, oc_LastTransitionTime := now, oc_Reason := reason,
                   oc_Message := message\<rparr>
            else c) # cs
      else c # upsert_condition now t s reason message cs)"

definition sort_conditions :: "opsy_condition list \<Rightarrow> opsy_condition list" where
  "sort_conditions =
     sort_slice (\<lambda>a b. time_after (oc_LastTransitionTime a) (oc_LastTransitionTime b))"

definition SetCondition ::
  "'w env \<Rightarrow> ('w, 'o) object_ops \<Rightarrow> 'o \<Rightarrow> condition_type \<Rightarrow> condition_status \<Rightarrow> bytes \<Rightarrow> bytes \<Rightarrow>
   ('w, go_error option \<times> 'o) call" where
  "SetCondition E ops obj conditionType condStatus reason message w =
     (let (currentTime, w1) = env_now E w;
          conditions = upsert_condition currentTime conditionType condStatus reason message
            (oo_GetConditions ops obj);
          obj' = oo_SetConditions ops (sort_conditions conditions) obj;
          (err, w2) = Status_Update E ops obj' w1
      in ((err, obj'), w2))"

section \<open>Lists of conditions\<close>

definition condition_is ::
  "condition_type \<Rightarrow> condition_status \<Rightarrow> bytes \<Rightarrow> bytes \<Rightarrow> opsy_condition \<Rightarrow> bool" where
  "condition_is t s reason message c \<longleftrightarrow>
     oc_Type c = t \<and> oc_Status c = s \<and> oc_Reason c = reason \<and> oc_Message c = message"

definition newest_first :: "opsy_condition list \<Rightarrow> bool" where
  "newest_first = sorted_wrt (\<lambda>a b. oc_LastTransitionTime b \<le> oc_LastTransitionTime a)"

lemma sort_conditions_simps [simp]:
  "set (sort_conditions cs) = set cs" "mset (sort_conditions cs) = mset cs"
  by (simp_all add: sort_conditions_def)

lemma newest_first_sort [simp]: "newest_first (sort_conditions cs)"
  using sort_slice_desc [of oc_LastTransitionTime cs]
  by (simp add: newest_first_def sort_conditions_def time_after_def)

lemma distinct_sort [simp]:
  "distinct (map oc_Type (sort_conditions cs)) = distinct (map oc_Type cs)"
proof -
  have "mset (map oc_Type (sort_conditions cs)) = mset (map oc_Type cs)" by simp
  then show ?thesis by (rule mset_eq_imp_distinct_iff)
qed

lemma upsert_types:
  "set (map oc_Type (upsert_condition now t s r m cs)) = insert t (set (map oc_Type cs))"
  by (induction cs) auto

lemma upsert_distinct:
  "distinct (map oc_Type cs) \<Longrightarrow> distinct (map oc_Type (upsert_condition now t s r m cs))"
proof (induction cs)
  case Nil
  then show ?case by simp
next
  case (Cons c cs)
  then show ?case using upsert_types [of now t s r m cs] by auto
qed

lemma upsert_others:
  "oc_Type c \<noteq> t \<Longrightarrow> c \<in> set (upsert_condition now t s r m cs) \<longleftrightarrow> c \<in> set cs"
  by (induction cs) auto

lemma upsert_has: "\<exists>c \<in> set (upsert_condition now t s r m cs). condition_is t s r m c"
  by (induction cs) (auto simp: condition_is_def)

lemma upsert_unchanged:
  "distinct (map oc_Type cs) \<Longrightarrow> c \<in> set cs \<Longrightarrow> condition_is t s r m c \<Longrightarrow>
     upsert_condition now t s r m cs = cs"
proof (induction cs)
  case Nil
  then show ?case by simp
next
  case (Cons d cs)
  show ?case
  proof (cases "oc_Type d = t")
    case True
    have "c \<notin> set cs"
      using Cons.prems(1,3) True image_eqI [of _ oc_Type c "set cs"] by (auto simp: condition_is_def)
    then have "d = c" using Cons.prems(2) by simp
    with True Cons.prems show ?thesis by (simp add: condition_is_def)
  next
    case False
    with Cons.prems have "c \<in> set cs" by (auto simp: condition_is_def)
    with False Cons show ?thesis by simp
  qed
qed

lemma upsert_time:
  "c \<in> set (upsert_condition now t s r m cs) \<Longrightarrow> c \<in> set cs \<or> oc_LastTransitionTime c = now"
proof (induction cs)
  case Nil
  then show ?case by simp
next
  case (Cons d cs)
  show ?case
  proof (cases "oc_Type d = t")
    case True
    with Cons.prems show ?thesis by (simp split: if_splits) (elim disjE; simp)+
  next
    case False
    with Cons show ?thesis by auto
  qed
qed

text \<open>Sorting twice is sorting once, as the sort keeps a sorted slice.\<close>

lemma takeWhile_none: "(\<forall>p \<in> set ps. \<not> P p) \<Longrightarrow> takeWhile P ps = [] \<and> dropWhile P ps = ps"
  by (cases ps) auto

lemma insert_left_last:
  "(\<forall>p \<in> set ps. \<not> lt x p) \<Longrightarrow> insert_left lt ps x = ps @ [x]"
  using takeWhile_none [of "rev ps" "lt x"] by (simp add: insert_left_def)

lemma sort_slice_sorted:
  assumes "sorted_wrt (\<lambda>a b. \<not> lt b a) xs"
  shows "sort_slice lt xs = xs"
proof -
  have "sorted_wrt (\<lambda>a b. \<not> lt b a) (ps @ xs) \<Longrightarrow> foldl (insert_left lt) ps xs = ps @ xs" for ps
  proof (induction xs arbitrary: ps)
    case (Cons x xs)
    then have "insert_left lt ps x = ps @ [x]"
      by (intro insert_left_last) (auto simp: sorted_wrt_append)
    with Cons show ?case by simp
  qed simp
  from this [of "[]"] assms show ?thesis by (simp add: sort_slice_def)
qed

lemma sort_conditions_newest_first: "newest_first cs \<Longrightarrow> sort_conditions cs = cs"
  unfolding sort_conditions_def newest_first_def
  by (rule sort_slice_sorted) (simp add: time_after_def not_less)

section \<open>The interface and its implementations\<close>

text \<open>
  What \<open>ConditionManager\<close> relies on: the conditions set are the conditions read, and the status
  copied into the latest object carries them.
\<close>

locale condition_setter =
  fixes ops :: "('w, 'o) object_ops"
  assumes get_set: "oo_GetConditions ops (oo_SetConditions ops cs obj) = cs"
    and set_get: "oo_SetConditions ops (oo_GetConditions ops obj) obj = obj"
    and set_set: "oo_SetConditions ops cs (oo_SetConditions ops ds obj) = oo_SetConditions ops cs obj"
    and key_set: "oo_Key ops (oo_SetConditions ops cs obj) = oo_Key ops obj"
    and copy_conditions:
      "oo_GetConditions ops (oo_CopyStatus ops obj latest) = oo_GetConditions ops obj"
    and copy_key: "oo_Key ops (oo_CopyStatus ops obj latest) = oo_Key ops latest"
begin

lemma SetCondition_object:
  "snd (fst (SetCondition E ops obj t s r m w)) =
     oo_SetConditions ops (sort_conditions
       (upsert_condition (fst (env_now E w)) t s r m (oo_GetConditions ops obj))) obj"
  by (simp add: SetCondition_def Let_def split_beta)

lemma SetCondition_conditions:
  "oo_GetConditions ops (snd (fst (SetCondition E ops obj t s r m w))) =
     sort_conditions (upsert_condition (fst (env_now E w)) t s r m (oo_GetConditions ops obj))"
  by (simp add: SetCondition_object get_set)

lemma SetCondition_props:
  assumes "distinct (map oc_Type (oo_GetConditions ops obj))"
    and new_def: "new = oo_GetConditions ops (snd (fst (SetCondition E ops obj t s r m w)))"
  shows "distinct (map oc_Type new) \<and> newest_first new \<and> (\<exists>c \<in> set new. condition_is t s r m c) \<and>
    (\<forall>c. oc_Type c \<noteq> t \<longrightarrow> (c \<in> set new \<longleftrightarrow> c \<in> set (oo_GetConditions ops obj))) \<and>
    (\<forall>c \<in> set new. c \<in> set (oo_GetConditions ops obj) \<or>
       oc_LastTransitionTime c = fst (env_now E w))"
proof -
  let ?old = "oo_GetConditions ops obj" and ?now = "fst (env_now E w)"
  have new: "new = sort_conditions (upsert_condition ?now t s r m ?old)"
    by (simp only: new_def SetCondition_conditions)
  have "\<forall>c \<in> set new. c \<in> set ?old \<or> oc_LastTransitionTime c = ?now"
    unfolding new sort_conditions_simps by (blast dest: upsert_time)
  moreover have "\<exists>c \<in> set new. condition_is t s r m c"
    unfolding new sort_conditions_simps by (rule upsert_has)
  ultimately show ?thesis
    using assms(1) by (simp add: new upsert_distinct upsert_others)
qed

text \<open>Setting what is set already changes neither the order nor any transition time.\<close>

lemma SetCondition_same:
  assumes "distinct (map oc_Type (oo_GetConditions ops obj))" "newest_first (oo_GetConditions ops obj)"
    and "c \<in> set (oo_GetConditions ops obj)" "condition_is t s r m c"
  shows "snd (fst (SetCondition E ops obj t s r m w)) = obj"
  using assms
  by (simp add: SetCondition_object upsert_unchanged sort_conditions_newest_first set_get)

lemma SetCondition_written:
  assumes "retry_documented E" "SetCondition E ops obj t s r m w = ((None, obj'), w')"
  shows "\<exists>v latest v1. oo_Get ops (oo_Key ops obj) v = (Inr latest, v1) \<and>
    oo_UpdateStatus ops (oo_CopyStatus ops obj' latest) v1 = (None, w') \<and>
    oo_GetConditions ops (oo_CopyStatus ops obj' latest) = oo_GetConditions ops obj'"
proof -
  have obj': "oo_Key ops obj' = oo_Key ops obj"
    using SetCondition_object [of E obj t s r m w] assms(2) by (simp add: key_set)
  have "\<exists>w1. Status_Update E ops obj' w1 = (None, w')"
    using assms(2) by (auto simp: SetCondition_def Let_def split: prod.splits)
  then show ?thesis
    using Status_Update_success [OF assms(1)] obj' by (metis copy_conditions)
qed

end

interpretation pb_cond: condition_setter "pb_ops E" for E :: "'w env"
  by unfold_locales
    (simp_all add: pb_ops_def pb_GetConditions_def pb_SetConditions_def)

interpretation ar_cond: condition_setter "ar_ops E" for E :: "'w env"
  by unfold_locales
    (simp_all add: ar_ops_def ar_GetConditions_def ar_SetConditions_def)

lemma pb_ops_simps [simp]:
  "oo_Key (pb_ops E) pb = object_key (pb_Meta pb)"
  "oo_GetConditions (pb_ops E) = pb_GetConditions" "oo_SetConditions (pb_ops E) = pb_SetConditions"
  "oo_CopyStatus (pb_ops E) pb latest = latest\<lparr>pb_Status := pb_Status pb\<rparr>"
  "oo_Get (pb_ops E) = env_get_pb E" "oo_UpdateStatus (pb_ops E) = env_update_pb_status E"
  by (simp_all add: pb_ops_def)

lemma ar_ops_simps [simp]:
  "oo_Key (ar_ops E) ar = object_key (ar_Meta ar)"
  "oo_GetConditions (ar_ops E) = ar_GetConditions" "oo_SetConditions (ar_ops E) = ar_SetConditions"
  "oo_CopyStatus (ar_ops E) ar latest = latest\<lparr>ar_Status := ar_Status ar\<rparr>"
  "oo_Get (ar_ops E) = env_get_ar E" "oo_UpdateStatus (ar_ops E) = env_update_ar_status E"
  by (simp_all add: ar_ops_def)

text \<open>What \<open>SetCondition\<close> leaves alone in a \<open>PackerBuilder\<close>.\<close>

lemma pb_SetConditions_status:
  "pb_SetConditions cs pb = set_status (\<lambda>s. s\<lparr>st_Conditions := cs\<rparr>) pb"
  by (simp add: pb_SetConditions_def set_status_def)

lemma SetCondition_pb:
  "snd (fst (SetCondition E (pb_ops E') pb t s r m w)) =
     set_status (\<lambda>x. x\<lparr>st_Conditions := sort_conditions
       (upsert_condition (fst (env_now E w)) t s r m (pb_GetConditions pb))\<rparr>) pb"
  by (simp add: pb_cond.SetCondition_object pb_SetConditions_status)

section \<open>Properties\<close>

text \<open>
  C17. Setting a condition of a builder whose conditions have distinct types leaves a list with
  distinct types, sorted by transition time with the newest first, that contains the requested
  condition; conditions of other types are kept as they are, a changed condition carries the time
  the clock showed, and the spec and the rest of the status are untouched, whether or not the write
  to the API server succeeds.
\<close>

theorem set_condition_wf:
  assumes "distinct (map oc_Type (st_Conditions (pb_Status pb)))"
    and "SetCondition E (pb_ops E) pb t s r m w = ((err, pb'), w')"
  shows "distinct (map oc_Type (st_Conditions (pb_Status pb'))) \<and>
    newest_first (st_Conditions (pb_Status pb')) \<and>
    (\<exists>c \<in> set (st_Conditions (pb_Status pb')). condition_is t s r m c) \<and>
    (\<forall>c. oc_Type c \<noteq> t \<longrightarrow>
       (c \<in> set (st_Conditions (pb_Status pb')) \<longleftrightarrow> c \<in> set (st_Conditions (pb_Status pb)))) \<and>
    (\<forall>c \<in> set (st_Conditions (pb_Status pb')).
       c \<in> set (st_Conditions (pb_Status pb)) \<or> oc_LastTransitionTime c = fst (env_now E w)) \<and>
    pb' = set_status (\<lambda>x. x\<lparr>st_Conditions := st_Conditions (pb_Status pb')\<rparr>) pb"
proof -
  have pb': "pb' = snd (fst (SetCondition E (pb_ops E) pb t s r m w))"
    by (simp add: assms(2))
  then have "pb' = set_status (\<lambda>x. x\<lparr>st_Conditions := st_Conditions (pb_Status pb')\<rparr>) pb"
    unfolding SetCondition_pb by simp
  then show ?thesis
    using pb_cond.SetCondition_props [where obj = pb and new = "st_Conditions (pb_Status pb')" and E = E] assms(1) pb'
    by (simp add: pb_GetConditions_def)
qed

theorem set_condition_wf_witness:
  "newest_first (st_Conditions (pb_Status (snd (fst (SetCondition sim_env (pb_ops sim_env) example_pb
     ConditionTypeInitial ConditionTrue ''Starting'' ''m'' (sim_start example_pb))))))"
proof -
  have d: "distinct (map oc_Type (st_Conditions (pb_Status example_pb)))"
    by (simp add: example_pb_def)
  obtain err pb' w' where run: "SetCondition sim_env (pb_ops sim_env) example_pb
      ConditionTypeInitial ConditionTrue ''Starting'' ''m'' (sim_start example_pb) = ((err, pb'), w')"
    by (metis prod.exhaust)
  then have "newest_first (st_Conditions (pb_Status pb'))"
    using set_condition_wf [OF d run] by blast
  then show ?thesis by (simp only: run fst_conv snd_conv)
qed

text \<open>
  Repeating a condition is a no-op on the object: when a builder with distinct condition types
  has a condition set, setting the same type, status, reason and message again, at any later time
  and in any world, changes neither a transition time nor the order of the conditions.
\<close>

theorem set_condition_repeat:
  assumes "distinct (map oc_Type (st_Conditions (pb_Status pb)))"
  shows "snd (fst (SetCondition E (pb_ops E)
      (snd (fst (SetCondition E (pb_ops E) pb t s r m w))) t s r m w')) =
    snd (fst (SetCondition E (pb_ops E) pb t s r m w))"
proof -
  define pb1 where "pb1 = snd (fst (SetCondition E (pb_ops E) pb t s r m w))"
  have "distinct (map oc_Type (oo_GetConditions (pb_ops E) pb))"
    using assms by (simp add: pb_GetConditions_def)
  from pb_cond.SetCondition_props [OF this refl, where E = E and t = t and s = s and r = r
      and m = m and w = w, folded pb1_def]
  obtain c where "distinct (map oc_Type (oo_GetConditions (pb_ops E) pb1))"
    "newest_first (oo_GetConditions (pb_ops E) pb1)"
    "c \<in> set (oo_GetConditions (pb_ops E) pb1)" "condition_is t s r m c"
    by blast
  then show ?thesis
    unfolding pb1_def [symmetric] by (rule pb_cond.SetCondition_same)
qed

theorem set_condition_repeat_witness:
  "snd (fst (SetCondition sim_env (pb_ops sim_env)
      (snd (fst (SetCondition sim_env (pb_ops sim_env) example_pb ConditionTypeInitial ConditionTrue
         ''a'' ''b'' (sim_start example_pb)))) ConditionTypeInitial ConditionTrue ''a'' ''b''
      (sim_start example_pb\<lparr>sim_clock := 5000 * second\<rparr>))) =
   snd (fst (SetCondition sim_env (pb_ops sim_env) example_pb ConditionTypeInitial ConditionTrue
         ''a'' ''b'' (sim_start example_pb)))"
  by (rule set_condition_repeat) (simp add: example_pb_def)

text \<open>
  C35. A status write that succeeds has put the whole status of the caller over the latest stored
  object and nothing else: the object written has the caller's status and the spec and metadata of a
  version read just before, so a concurrent change of the spec survives and a concurrent change of
  the status is overwritten.
\<close>

theorem status_write_merges:
  assumes "retry_documented E"
    and "Status_Update E (pb_ops E) pb w = (None, w')"
  shows "\<exists>v latest v1 written. env_get_pb E (object_key (pb_Meta pb)) v = (Inr latest, v1) \<and>
    env_update_pb_status E written v1 = (None, w') \<and> pb_Status written = pb_Status pb \<and>
    pb_Spec written = pb_Spec latest \<and> pb_Meta written = pb_Meta latest"
proof -
  from Status_Update_success [OF assms] obtain v latest v1 where
    "env_get_pb E (object_key (pb_Meta pb)) v = (Inr latest, v1)"
    "env_update_pb_status E (latest\<lparr>pb_Status := pb_Status pb\<rparr>) v1 = (None, w')"
    by auto
  then show ?thesis
    by (intro exI [of _ v] exI [of _ latest] exI [of _ v1]
        exI [of _ "latest\<lparr>pb_Status := pb_Status pb\<rparr>"]) simp
qed

theorem status_write_merges_witness:
  "\<exists>v latest v1 written. env_get_pb sim_env (object_key (pb_Meta example_pb)) v = (Inr latest, v1) \<and>
    env_update_pb_status sim_env written v1 =
      (None, snd (Status_Update sim_env (pb_ops sim_env) example_pb (sim_start example_pb))) \<and>
    pb_Status written = pb_Status example_pb \<and>
    pb_Spec written = pb_Spec latest \<and> pb_Meta written = pb_Meta latest"
  by (rule status_write_merges [OF sim_env_retry, where w = "sim_start example_pb"])
    (simp add: Status_Update_def Status_attempt_def sim_run sim_start_def)

end
