(* ===== verification/Ami_Manager.thy ===== *)
theory Ami_Manager
  imports Conditions
begin

text \<open>
  \<open>pkg/manager_ami\<close> and \<open>pkg/client\<close>: the queries on images. The manager is its EC2 client, which
  only carries the region; \<open>New\<close> returns \<open>nil\<close> when the AWS configuration cannot be loaded, so a
  manager is an option and its use may panic.
\<close>

section \<open>The manager\<close>

definition ClientAWS :: "'w env \<Rightarrow> bytes \<Rightarrow> ('w, go_error + bytes) call" where
  "ClientAWS E region w =
     (case env_aws_config E region w of
        (Inl err, w') \<Rightarrow> (Inl (errorf ''unable to load SDK config, '' err), w')
      | (Inr cfg, w') \<Rightarrow> (Inr cfg, w'))"

type_synonym manager_ami = "bytes option"

definition ami_New :: "'w env \<Rightarrow> bytes \<Rightarrow> ('w, manager_ami) call" where
  "ami_New E region w =
     (case ClientAWS E region w of (Inl err, w') \<Rightarrow> (None, w') | (Inr cfg, w') \<Rightarrow> (Some cfg, w'))"

record ami_type_check =
  ck_ImageActive :: bool
  ck_ImageCheckPassDefault :: bool
  ck_ImageExist :: bool
  ck_ImageExpired :: bool
  ck_ImageNotFound :: bool

definition PackerBuilderCheck :: ami_type_check where
  "PackerBuilderCheck =
     \<lparr>ck_ImageActive = False, ck_ImageCheckPassDefault = False, ck_ImageExist = False,
      ck_ImageExpired = True, ck_ImageNotFound = True\<rparr>"

definition AMIRefreshCheck :: ami_type_check where
  "AMIRefreshCheck =
     \<lparr>ck_ImageActive = True, ck_ImageCheckPassDefault = False, ck_ImageExist = True,
      ck_ImageExpired = False, ck_ImageNotFound = False\<rparr>"

text \<open>
  \<open>runWithTimeout\<close>: the operation runs in a goroutine and the \<open>select\<close> picks its result or the
  deadline. The operation's effects are those of the calls it made before it returned.
\<close>

definition ami_runWithTimeout ::
  "'w env \<Rightarrow> ('w, check_result) go \<Rightarrow> duration \<Rightarrow> ('w, check_result) go" where
  "ami_runWithTimeout E op timeout =
     go_bind op (\<lambda>result.
     go_bind (go_call (env_select E timeout)) (\<lambda>choice.
       go_return (case choice of PickDeadline err \<Rightarrow> result_error err | _ \<Rightarrow> result)))"

definition calculateRemainingTime :: "'w env \<Rightarrow> time \<Rightarrow> ('w, bytes) call" where
  "calculateRemainingTime E expirationTime w =
     (let (now, w') = env_now E w; duration = time_sub expirationTime now
      in (if duration < 0 then ''Expired'' else seconds_text (round_second duration), w'))"

section \<open>Images\<close>

definition BuildFilters :: "'w env \<Rightarrow> (bytes \<times> bytes) list \<Rightarrow> ('w, ec2_filter list) call" where
  "BuildFilters E tags w =
     (let (order, w') = env_map_order E w
      in (map (\<lambda>(key, value). (''tag:'' @ key, [value])) (order tags), w'))"

definition DescribeImagesWithFilters ::
  "'w env \<Rightarrow> manager_ami \<Rightarrow> ec2_filter list \<Rightarrow> ('w, go_error + ec2_image list) go" where
  "DescribeImagesWithFilters E m filters =
     go_bind (go_deref m) (\<lambda>ec2Client.
     go_bind (go_call (env_describe_images E ec2Client filters)) (\<lambda>answer.
       go_return (case answer of
           Inl err \<Rightarrow> Inl (WrapError ''failed to describe images: '' err)
         | Inr images \<Rightarrow> Inr images)))"

text \<open>
  The timestamp of one image: the tag \<open>create-timestamp\<close>, else the creation date, else the zero
  time. \<open>perr\<close> is the text of the parse error of package \<open>time\<close>.
\<close>

definition image_parse_error :: "bytes \<Rightarrow> bytes \<Rightarrow> bytes \<Rightarrow> go_error" where
  "image_parse_error what i text =
     ErrorString (''failed to parse '' @ what @ '' for AMI '' @ i @ '': '' @ text)"

definition parse_image_time ::
  "(bytes \<Rightarrow> bytes) \<Rightarrow> bytes \<Rightarrow> ec2_image \<Rightarrow> bytes \<Rightarrow> (go_error + time) outcome" where
  "parse_image_time perr what img v =
     (case parse_RFC3339 v of
        Some t \<Rightarrow> Returns (Inr t)
      | None \<Rightarrow>
          (case img_ImageId img of
             None \<Rightarrow> Panics ''nil pointer dereference''
           | Some i \<Rightarrow> Returns (Inl (image_parse_error what i (perr v)))))"

fun tag_timestamp ::
  "(bytes \<Rightarrow> bytes) \<Rightarrow> ec2_image \<Rightarrow> ec2_tag list \<Rightarrow> (go_error + time) outcome" where
  "tag_timestamp perr img [] = Returns (Inr zero_time)"
| "tag_timestamp perr img (tag # tags) =
     (if tag_Key tag = Some ''create-timestamp''
      then (case tag_Value tag of
              None \<Rightarrow> Panics ''nil pointer dereference''
            | Some v \<Rightarrow> parse_image_time perr ''create-timestamp'' img v)
      else tag_timestamp perr img tags)"

definition image_timestamp ::
  "(bytes \<Rightarrow> bytes) \<Rightarrow> ec2_image \<Rightarrow> (go_error + time) outcome" where
  "image_timestamp perr img =
     (case tag_timestamp perr img (img_Tags img) of
        Panics s \<Rightarrow> Panics s
      | Returns (Inl err) \<Rightarrow> Returns (Inl err)
      | Returns (Inr imageTimestamp) \<Rightarrow>
          if time_is_zero imageTimestamp
          then (case img_CreationDate img of
                  None \<Rightarrow> Returns (Inr imageTimestamp)
                | Some v \<Rightarrow> parse_image_time perr ''CreationDate'' img v)
          else Returns (Inr imageTimestamp))"

text \<open>
  The loop of \<open>FindLatestImage\<close>: \<open>best\<close> is the latest img so far with its timestamp, \<open>None\<close>
  before the first iteration.
\<close>

fun latest_loop ::
  "(bytes \<Rightarrow> bytes) \<Rightarrow> (ec2_image \<times> time) option \<Rightarrow> ec2_image list \<Rightarrow>
   (go_error + (ec2_image \<times> time) option) outcome" where
  "latest_loop perr best [] = Returns (Inr best)"
| "latest_loop perr best (img # images) =
     (case image_timestamp perr img of
        Panics s \<Rightarrow> Panics s
      | Returns (Inl err) \<Rightarrow> Returns (Inl err)
      | Returns (Inr t) \<Rightarrow>
          latest_loop perr
            (case best of
               None \<Rightarrow> Some (img, t)
             | Some (latest, created) \<Rightarrow>
                 if time_after t created then Some (img, t) else Some (latest, created))
            images)"

definition FindLatestImage ::
  "(bytes \<Rightarrow> bytes) \<Rightarrow> ec2_image list \<Rightarrow> (go_error + ec2_image \<times> time) outcome" where
  "FindLatestImage perr images =
     (case latest_loop perr None images of
        Panics s \<Rightarrow> Panics s
      | Returns (Inl err) \<Rightarrow> Returns (Inl err)
      | Returns (Inr None) \<Rightarrow> Returns (Inl (ErrorString ''no valid images found''))
      | Returns (Inr (Some latest)) \<Rightarrow> Returns (Inr latest))"

definition IsImageActive :: "ec2_image \<Rightarrow> bool" where
  "IsImageActive img =
     list_ex (\<lambda>tag. tag_Key tag = Some ''status'' \<and> tag_Value tag = Some ''active'') (img_Tags img)"

definition IsImageExpired :: "'w env \<Rightarrow> time \<Rightarrow> duration \<Rightarrow> ('w, bool) call" where
  "IsImageExpired E creationTime duration w =
     (let (now, w') = env_now E w in (time_after now (time_add creationTime duration), w'))"

text \<open>A call that panics inside the goroutine takes the process down.\<close>

definition go_outcome :: "'a outcome \<Rightarrow> ('w, 'a) go" where
  "go_outcome r w = (r, w)"

section \<open>The checks\<close>

definition BaseAMIExists ::
  "'w env \<Rightarrow> manager_ami \<Rightarrow> ami_filter list \<Rightarrow> ('w, check_result) go" where
  "BaseAMIExists E m fltrs =
     ami_runWithTimeout E
       (if fltrs = []
        then go_return (result_message True ''No AMI filters provided; skipping base AMI check'' '''')
        else
          go_bind (DescribeImagesWithFilters E m (map (\<lambda>f. (flt_Name f, flt_Values f)) fltrs))
            (\<lambda>answer. case answer of
               Inl err \<Rightarrow>
                 if str_contains (error_text err) ''no AMIs found matching the provided filters''
                 then go_return (result_message True ''No AMIs found matching the provided tags'' '''')
                 else go_return (result_error err)
             | Inr images \<Rightarrow>
                 go_bind (go_outcome (FindLatestImage (env_time_error E) images)) (\<lambda>found.
                 case found of
                   Inl err \<Rightarrow> go_return (result_error err)
                 | Inr (latestImage, created) \<Rightarrow>
                     go_bind (go_deref (img_ImageId latestImage)) (\<lambda>i.
                       go_return (result_message True
                         (''Latest Base AMI found from filters: '' @ i) i)))))
       (60 * second)"

definition AMIChecks ::
  "'w env \<Rightarrow> manager_ami \<Rightarrow> (bytes \<times> bytes) list \<Rightarrow> duration \<Rightarrow> ami_type_check \<Rightarrow>
   ('w, check_result) go" where
  "AMIChecks E m tags duration checkType =
     ami_runWithTimeout E
       (go_bind (go_call (BuildFilters E tags)) (\<lambda>filters.
        go_bind (DescribeImagesWithFilters E m filters) (\<lambda>answer.
        case answer of
          Inl err \<Rightarrow> go_return (result_error (WrapError ''failed to describe images: '' err))
        | Inr images \<Rightarrow>
            if images = []
            then go_return (result_message (ck_ImageNotFound checkType)
                   ''No AMIs found matching the provided tags'' '''')
            else
              go_bind (go_outcome (FindLatestImage (env_time_error E) images)) (\<lambda>found.
              case found of
                Inl err \<Rightarrow>
                  go_return (result_message (ck_ImageNotFound checkType) ''No AMIs found'' '''')
              | Inr (latestImage, createdTimestamp) \<Rightarrow>
                  go_bind (go_deref (img_ImageId latestImage)) (\<lambda>i.
                  go_bind (go_call (IsImageExpired E createdTimestamp duration)) (\<lambda>expired.
                  if expired
                  then go_return (result_message (ck_ImageExpired checkType)
                         (''Latest Created AMI '' @ i @ '' has expired'') i)
                  else
                    go_bind (go_call (calculateRemainingTime E (time_add createdTimestamp duration)))
                      (\<lambda>timeLeft.
                      if IsImageActive latestImage
                      then go_return (result_message (ck_ImageActive checkType)
                             (''Latest Created AMI '' @ i @ '' is active'') i)
                      else go_return (result_message True
                             (''Valid AMI '' @ i @ '' exist and has not expired,however it is not ACTIVE, created at ''
                                @ time_text createdTimestamp) i))))))))
       (45 * second)"

section \<open>The latest image\<close>

lemma latest_loop_found:
  assumes "latest_loop perr best images = Returns (Inr (Some (img, t)))"
  shows "(best = Some (img, t) \<and> (\<forall>i \<in> set images. \<exists>u. image_timestamp perr i = Returns (Inr u) \<and> u \<le> t)) \<or>
    (\<exists>xs ys. images = xs @ img # ys \<and> image_timestamp perr img = Returns (Inr t) \<and>
       (\<forall>b u. best = Some (b, u) \<longrightarrow> u < t) \<and>
       (\<forall>i \<in> set xs. \<exists>u. image_timestamp perr i = Returns (Inr u) \<and> u < t) \<and>
       (\<forall>i \<in> set ys. \<exists>u. image_timestamp perr i = Returns (Inr u) \<and> u \<le> t))"
  using assms
proof (induction perr best images rule: latest_loop.induct)
  case (1 perr best)
  then show ?case by simp
next
  case (2 perr best i images)
  obtain u where u: "image_timestamp perr i = Returns (Inr u)"
    using 2(2) by (auto split: outcome.splits sum.splits)
  let ?best = "case best of None \<Rightarrow> Some (i, u)
     | Some (latest, created) \<Rightarrow> if time_after u created then Some (i, u) else Some (latest, created)"
  have run: "latest_loop perr ?best images = Returns (Inr (Some (img, t)))"
    using 2(2) u by simp
  from 2(1) [OF u refl run] show ?case
  proof (elim disjE exE conjE)
    assume best: "?best = Some (img, t)"
      and later: "\<forall>i \<in> set images. \<exists>u. image_timestamp perr i = Returns (Inr u) \<and> u \<le> t"
    from best have "(i = img \<and> u = t \<and> (\<forall>b v. best = Some (b, v) \<longrightarrow> v < t)) \<or>
        (best = Some (img, t) \<and> u \<le> t)"
      by (cases best) (auto simp: time_after_def split: if_splits prod.splits)
    then show ?thesis
    proof (elim disjE conjE)
      assume "i = img" "u = t" "\<forall>b v. best = Some (b, v) \<longrightarrow> v < t"
      with u later show ?thesis
        by (intro disjI2 exI [of _ "[]"] exI [of _ images]) simp
    qed (use u later in auto)
  next
    fix xs ys
    assume *: "images = xs @ img # ys" "image_timestamp perr img = Returns (Inr t)"
      "\<forall>b u. ?best = Some (b, u) \<longrightarrow> u < t"
      "\<forall>i \<in> set xs. \<exists>u. image_timestamp perr i = Returns (Inr u) \<and> u < t"
      "\<forall>i \<in> set ys. \<exists>u. image_timestamp perr i = Returns (Inr u) \<and> u \<le> t"
    have "u < t \<and> (\<forall>b v. best = Some (b, v) \<longrightarrow> v < t)"
      using *(3) by (cases best) (auto simp: time_after_def not_less split: if_splits)
    then show ?thesis
      using * u by (intro disjI2 exI [of _ "i # xs"] exI [of _ ys]) auto
  qed
qed

lemma FindLatestImage_found:
  assumes "FindLatestImage perr images = Returns (Inr (img, t))"
  shows "\<exists>xs ys. images = xs @ img # ys \<and> image_timestamp perr img = Returns (Inr t) \<and>
    (\<forall>i \<in> set xs. \<exists>u. image_timestamp perr i = Returns (Inr u) \<and> u < t) \<and>
    (\<forall>i \<in> set ys. \<exists>u. image_timestamp perr i = Returns (Inr u) \<and> u \<le> t)"
proof -
  have "latest_loop perr None images = Returns (Inr (Some (img, t)))"
    using assms by (auto simp: FindLatestImage_def split: outcome.splits sum.splits option.splits)
  from latest_loop_found [OF this] show ?thesis by auto
qed

lemma latest_loop_total:
  "(\<forall>i \<in> set images. \<exists>u. image_timestamp perr i = Returns (Inr u)) \<Longrightarrow>
     \<exists>b. latest_loop perr best images = Returns (Inr b) \<and> (best \<noteq> None \<or> images \<noteq> [] \<longrightarrow> b \<noteq> None)"
proof (induction perr best images rule: latest_loop.induct)
  case (1 perr best)
  then show ?case by simp
next
  case (2 perr best i images)
  then obtain u where u: "image_timestamp perr i = Returns (Inr u)" by auto
  from 2(1) [OF u refl] 2(2) u show ?case
    by (auto split: option.splits prod.splits)
qed

lemma FindLatestImage_total:
  assumes "\<forall>i \<in> set images. \<exists>u. image_timestamp perr i = Returns (Inr u)"
  shows "FindLatestImage perr images =
      Returns (Inl (ErrorString ''no valid images found'')) \<and> images = [] \<or>
    (\<exists>img t. FindLatestImage perr images = Returns (Inr (img, t)))"
proof (cases "images = []")
  case True
  then show ?thesis by (simp add: FindLatestImage_def)
next
  case False
  then show ?thesis
    using latest_loop_total [OF assms, of None] by (auto simp: FindLatestImage_def)
qed

text \<open>
  C20. \<open>FindLatestImage\<close> returns an image of the list whose timestamp (its \<open>create-timestamp\<close> tag,
  or its creation date) no other image exceeds, and the first such image; it never returns one when
  a timestamp of any image does not parse; and it does return one for every non-empty list of images
  whose timestamps parse.
\<close>

theorem find_latest_newest:
  "(FindLatestImage perr images = Returns (Inr (img, t)) \<longrightarrow>
      (\<exists>older later. images = older @ img # later \<and> image_timestamp perr img = Returns (Inr t) \<and>
         (\<forall>i \<in> set older. \<exists>u. image_timestamp perr i = Returns (Inr u) \<and> u < t) \<and>
         (\<forall>i \<in> set later. \<exists>u. image_timestamp perr i = Returns (Inr u) \<and> u \<le> t))) \<and>
   (images \<noteq> [] \<and> (\<forall>i \<in> set images. \<exists>u. image_timestamp perr i = Returns (Inr u)) \<longrightarrow>
      (\<exists>img' t'. FindLatestImage perr images = Returns (Inr (img', t'))))"
  using FindLatestImage_found FindLatestImage_total by blast

definition example_image :: "bytes \<Rightarrow> bytes \<Rightarrow> bytes \<Rightarrow> ec2_image" where
  "example_image i created status =
     \<lparr>img_ImageId = Some i, img_CreationDate = Some created,
      img_Tags = [\<lparr>tag_Key = Some ''status'', tag_Value = Some status\<rparr>]\<rparr>"

definition t2024 :: time where
  "t2024 = make_time 2024 5 1 12 0 0 0"

lemma parse_t2024: "parse_RFC3339 ''2024-05-01T12:00:00Z'' = Some t2024"
  by code_simp

lemma example_timestamp [simp]:
  "image_timestamp perr (example_image i ''2024-05-01T12:00:00Z'' s) = Returns (Inr t2024)"
  by (simp add: image_timestamp_def example_image_def parse_image_time_def parse_t2024
      time_is_zero_def zero_time_def)

lemma FindLatestImage_one:
  "image_timestamp perr img = Returns (Inr t) \<Longrightarrow> FindLatestImage perr [img] = Returns (Inr (img, t))"
  by (simp add: FindLatestImage_def)

theorem find_latest_newest_witness:
  "\<exists>img' t'. FindLatestImage (\<lambda>v. v) [example_image ''ami-1'' ''2024-05-01T12:00:00Z'' ''active''] =
     Returns (Inr (img', t'))"
  using find_latest_newest [of "\<lambda>v. v" "[example_image ''ami-1'' ''2024-05-01T12:00:00Z'' ''active'']"]
  by simp

section \<open>The verdict of the checks\<close>

text \<open>
  What \<open>AMIChecks\<close> decides, as a function of the images found and of the time: the reference the
  two instances of the check are compared with.
\<close>

definition check_verdict ::
  "(bytes \<Rightarrow> bytes) \<Rightarrow> ami_type_check \<Rightarrow> ec2_image list \<Rightarrow> time \<Rightarrow> duration \<Rightarrow> bool" where
  "check_verdict perr ck images now d =
     (if images = [] then ck_ImageNotFound ck
      else case FindLatestImage perr images of
          Panics s \<Rightarrow> False
        | Returns (Inl err) \<Rightarrow> ck_ImageNotFound ck
        | Returns (Inr (img, t)) \<Rightarrow>
            if time_after now (time_add t d) then ck_ImageExpired ck
            else if IsImageActive img then ck_ImageActive ck else True)"

lemma ami_runWithTimeout_result:
  assumes "ami_runWithTimeout E op d w = (Returns r, w')"
    and "never_cut_off E"
  shows "\<exists>w1. op w = (Returns r, w1)"
  using assms
  by (intro exI [of _ "snd (op w)"])
    (auto simp: ami_runWithTimeout_def never_cut_off_def go_laws prod_eq_iff split: outcome.splits)

lemma AMIChecks_verdict:
  assumes "AMIChecks E (Some cfg) tags d ck w = (Returns r, w')"
    and "never_cut_off E"
    and "BuildFilters E tags w = (filters, w1)"
    and "env_describe_images E cfg filters w1 = (Inr images, w2)"
  shows "res_Success r = check_verdict (env_time_error E) ck images (fst (env_now E w2)) d"
proof -
  from ami_runWithTimeout_result [OF assms(1) [unfolded AMIChecks_def] assms(2)] assms(3,4)
  show ?thesis
    by (auto simp: check_verdict_def DescribeImagesWithFilters_def IsImageExpired_def go_laws
        go_outcome_def go_deref_def Let_def split_beta
        split: outcome.splits sum.splits option.splits if_splits)
qed

lemmas check_types = PackerBuilderCheck_def AMIRefreshCheck_def

text \<open>
  C21. A builder's image check passes, and so allows a new build, exactly when there is no latest
  image that is both unexpired and active: no image matches, a timestamp does not parse, the latest
  image is older than the validity, or it is not tagged active. This is for a check that is not cut
  off by its timeout and whose query of the images succeeds.
\<close>

theorem builder_check_verdict:
  assumes "AMIChecks E (Some cfg) tags d PackerBuilderCheck w = (Returns r, w')"
    and "never_cut_off E"
    and "BuildFilters E tags w = (filters, w1)"
    and "env_describe_images E cfg filters w1 = (Inr images, w2)"
  shows "res_Success r \<longleftrightarrow>
    \<not> (\<exists>img t. images \<noteq> [] \<and> FindLatestImage (env_time_error E) images = Returns (Inr (img, t)) \<and>
       fst (env_now E w2) \<le> t + d \<and> IsImageActive img)"
proof -
  have "\<exists>x. images \<noteq> [] \<longrightarrow> FindLatestImage (env_time_error E) images = Returns x"
  proof (rule ccontr)
    assume "\<not> ?thesis"
    then obtain s where "images \<noteq> []" "FindLatestImage (env_time_error E) images = Panics s"
      by (metis outcome.exhaust)
    then show False
      using ami_runWithTimeout_result [OF assms(1) [unfolded AMIChecks_def] assms(2)] assms(3,4)
      by (auto simp: DescribeImagesWithFilters_def go_laws go_outcome_def)
  qed
  then show ?thesis
    using AMIChecks_verdict [OF assms]
    by (auto simp: check_verdict_def check_types time_after_def time_add_def
        split: sum.splits if_splits)
qed

definition example_world :: "ec2_image list \<Rightarrow> sim" where
  "example_world images = (sim_start example_pb)\<lparr>sim_images := images, sim_clock := t2024 + 3600 * second\<rparr>"

lemma second_pos [simp]: "0 < second" "0 \<le> second"
  by (simp_all add: second_def)

lemma example_check_returns:
  "\<exists>r w'. AMIChecks sim_env (Some ''us-west-2'') [] d ck
     (example_world [example_image ''ami-1'' ''2024-05-01T12:00:00Z'' s]) = (Returns r, w')"
proof -
  let ?img = "example_image ''ami-1'' ''2024-05-01T12:00:00Z'' s"
  have i: "img_ImageId ?img = Some ''ami-1''" by (simp add: example_image_def)
  show ?thesis
    by (simp add: AMIChecks_def ami_runWithTimeout_def go_laws sim_run BuildFilters_def
        DescribeImagesWithFilters_def example_world_def sim_start_def FindLatestImage_one
        go_outcome_def i IsImageExpired_def calculateRemainingTime_def Let_def)
qed

lemma example_describe:
  "BuildFilters sim_env [] (example_world images) = ([], example_world images)"
  "env_describe_images sim_env cfg [] (example_world images) = (Inr images, example_world images)"
  "fst (env_now sim_env (example_world images)) = t2024 + 3600 * second"
  by (simp_all add: BuildFilters_def sim_run example_world_def sim_start_def)

lemmas example_facts =
  sim_env_never_cut_off example_describe(1) example_describe(2) [of "''us-west-2''"]

theorem builder_check_verdict_witness:
  "\<exists>r w'. AMIChecks sim_env (Some ''us-west-2'') [] (48 * 3600 * second) PackerBuilderCheck
      (example_world [example_image ''ami-1'' ''2024-05-01T12:00:00Z'' ''active'']) = (Returns r, w') \<and>
    \<not> res_Success r"
proof -
  let ?img = "example_image ''ami-1'' ''2024-05-01T12:00:00Z'' ''active''"
  obtain r w' where run: "AMIChecks sim_env (Some ''us-west-2'') [] (48 * 3600 * second)
      PackerBuilderCheck (example_world [?img]) = (Returns r, w')"
    using example_check_returns by blast
  have "IsImageActive ?img" by (simp add: IsImageActive_def example_image_def)
  then have "\<not> res_Success r"
    using builder_check_verdict [OF run example_facts] FindLatestImage_one [OF example_timestamp]
    by (auto simp: example_describe)
  with run show ?thesis by blast
qed

text \<open>
  The refresher's image check passes exactly when there is a latest image within its validity:
  an image that is not tagged active, a deprecated one for instance, is accepted like an active one.
\<close>

theorem refresher_check_verdict:
  assumes "AMIChecks E (Some cfg) tags d AMIRefreshCheck w = (Returns r, w')"
    and "never_cut_off E"
    and "BuildFilters E tags w = (filters, w1)"
    and "env_describe_images E cfg filters w1 = (Inr images, w2)"
  shows "res_Success r \<longleftrightarrow>
    (\<exists>img t. images \<noteq> [] \<and> FindLatestImage (env_time_error E) images = Returns (Inr (img, t)) \<and>
       fst (env_now E w2) \<le> t + d)"
  using AMIChecks_verdict [OF assms]
  by (auto simp: check_verdict_def check_types time_after_def time_add_def
      split: outcome.splits sum.splits if_splits)

theorem refresher_check_verdict_witness:
  "\<exists>r w'. AMIChecks sim_env (Some ''us-west-2'') [] (48 * 3600 * second) AMIRefreshCheck
      (example_world [example_image ''ami-1'' ''2024-05-01T12:00:00Z'' ''deprecated'']) =
        (Returns r, w') \<and> res_Success r"
proof -
  let ?img = "example_image ''ami-1'' ''2024-05-01T12:00:00Z'' ''deprecated''"
  obtain r w' where run: "AMIChecks sim_env (Some ''us-west-2'') [] (48 * 3600 * second)
      AMIRefreshCheck (example_world [?img]) = (Returns r, w')"
    using example_check_returns by blast
  have "res_Success r"
    using refresher_check_verdict [OF run example_facts] FindLatestImage_one [OF example_timestamp]
    by (auto simp: example_describe)
  with run show ?thesis by blast
qed

text \<open>
  The units the documentation of \<open>expiresIn\<close> gives for days, weeks and years are not units of
  \<open>time.ParseDuration\<close>. The error is dropped, the validity is zero, and an unexpired, active image
  of the past counts as expired: the builder's check passes and a new image is built every cycle.
\<close>

theorem expires_in_days_is_zero:
  assumes "expiresIn \<in> {''1d'', ''1w'', ''1y''}"
    and "AMIChecks E (Some cfg) tags (duration_or_zero expiresIn) PackerBuilderCheck w = (Returns r, w')"
    and "never_cut_off E"
    and "BuildFilters E tags w = (filters, w1)"
    and "env_describe_images E cfg filters w1 = (Inr images, w2)"
    and "FindLatestImage (env_time_error E) images = Returns (Inr (img, t))"
    and "t < fst (env_now E w2)"
  shows "duration_or_zero expiresIn = 0 \<and> res_Success r"
proof -
  have "parse_duration ''1d'' = None" "parse_duration ''1w'' = None" "parse_duration ''1y'' = None"
    by code_simp+
  then have zero: "duration_or_zero expiresIn = 0"
    using assms(1) by (auto simp: duration_or_zero_def)
  show ?thesis
    using AMIChecks_verdict [OF assms(2-5)] assms(6,7) zero
    by (simp add: check_verdict_def check_types time_after_def time_add_def)
qed

theorem expires_in_days_is_zero_witness:
  "\<exists>r w'. AMIChecks sim_env (Some ''us-west-2'') [] (duration_or_zero ''1d'') PackerBuilderCheck
      (example_world [example_image ''ami-1'' ''2024-05-01T12:00:00Z'' ''active'']) = (Returns r, w') \<and>
    res_Success r"
proof -
  let ?img = "example_image ''ami-1'' ''2024-05-01T12:00:00Z'' ''active''"
  obtain r w' where run: "AMIChecks sim_env (Some ''us-west-2'') [] (duration_or_zero ''1d'')
      PackerBuilderCheck (example_world [?img]) = (Returns r, w')"
    using example_check_returns by blast
  have "res_Success r"
    using expires_in_days_is_zero [OF _ run example_facts FindLatestImage_one [OF example_timestamp]]
    by (simp add: example_describe)
  with run show ?thesis by blast
qed

text \<open>
  Base image filters that match no image never count as a pass: the query returns an empty list
  without an error, \<open>FindLatestImage\<close> fails on it, and the message the code looks for to skip the
  check is produced by no call of the operator. A builder without filters skips the check without
  any call, even when the AWS configuration could not be loaded.
\<close>

theorem base_image_missing:
  assumes "fltrs \<noteq> []" "never_cut_off E"
    and "env_describe_images E cfg (map (\<lambda>f. (flt_Name f, flt_Values f)) fltrs) w = (Inr [], w1)"
  shows "fst (BaseAMIExists E (Some cfg) fltrs w) =
      Returns (result_error (ErrorString ''no valid images found'')) \<and>
    fst (BaseAMIExists E m [] w) =
      Returns (result_message True ''No AMI filters provided; skipping base AMI check'' '''')"
  using assms
  by (simp add: BaseAMIExists_def ami_runWithTimeout_def DescribeImagesWithFilters_def go_laws
      go_outcome_def FindLatestImage_def never_cut_off_def)

theorem base_image_missing_witness:
  "fst (BaseAMIExists sim_env (Some ''us-west-2'') [\<lparr>flt_Name = ''name'', flt_Values = [''x'']\<rparr>]
     (example_world [])) = Returns (result_error (ErrorString ''no valid images found''))"
  using base_image_missing [OF _ sim_env_never_cut_off,
      of "[\<lparr>flt_Name = ''name'', flt_Values = [''x'']\<rparr>]" "''us-west-2''" "example_world []"
         "example_world []"]
  by (simp add: sim_run example_world_def sim_start_def)

end
