(* ===== verification/Packer_Manager.thy ===== *)
theory Packer_Manager
  imports Ami_Manager
begin

text \<open>
  \<open>pkg/manager_packer/manager.go\<close>: the check for active builds, the adoption, tagging and
  deprecation of images, and the removal of what a build leaves in AWS. A \<open>*ManagerPacker\<close> is an
  option: \<open>New\<close> returns \<open>nil\<close> when the AWS configuration cannot be loaded. Of its fields only the AWS
  configuration varies; it is represented by its region. Operations that change the builder they are
  given return it changed.
\<close>

section \<open>The manager\<close>

type_synonym manager_packer = "bytes option"

definition packer_New :: "'w env \<Rightarrow> packer_builder \<Rightarrow> ('w, manager_packer) call" where
  "packer_New E packbuilder w =
     (case ClientAWS E (sp_Region (pb_Spec packbuilder)) w of
        (Inl err, w') \<Rightarrow> (None, w')
      | (Inr cfg, w') \<Rightarrow> (Some cfg, w'))"

record filter_options =
  opt_IncludeTimestamp :: bool
  opt_IncludeIdentifiers :: bool
  opt_IncludeBaseAMI :: bool

text \<open>
  \<open>runWithTimeout\<close> of the packer manager. Its goroutine closes \<open>errCh\<close> before \<open>resultCh\<close> when it
  ends, and a closed channel is ready: a \<open>select\<close> that is entered after the goroutine has ended may
  take the nil error of the closed channel instead of the result.
\<close>

definition packer_runWithTimeout ::
  "'w env \<Rightarrow> ('w, check_result \<times> 'p) go \<Rightarrow> duration \<Rightarrow> ('w, check_result \<times> 'p) go" where
  "packer_runWithTimeout E op timeout =
     go_bind op (\<lambda>(result, p).
     go_bind (go_call (env_select E timeout)) (\<lambda>choice.
       go_return
         (case choice of
            PickResult \<Rightarrow> result
          | PickDeadline err \<Rightarrow>
              result_error (WrapError (''operation timed out after '' @ seconds_text timeout @ '': '') err)
          | PickErrSent err \<Rightarrow> result_error (WrapError ''operation failed: '' err)
          | PickErrClosed \<Rightarrow> result_error (ErrorString ''operation failed: %!w(<nil>)''), p)))"

section \<open>Active builds\<close>

fun finished_condition :: "job_condition list \<Rightarrow> bool \<times> job_condition_type option" where
  "finished_condition [] = (False, None)"
| "finished_condition (c # cs) =
     (if (jc_Type c = JobComplete \<or> jc_Type c = JobFailed) \<and> jc_Status c = ConditionTrue
      then (True, Some (jc_Type c))
      else finished_condition cs)"

definition isBuildFinished :: "job \<Rightarrow> bool \<times> job_condition_type option" where
  "isBuildFinished j = finished_condition (js_Conditions (job_State j))"

fun active_loop :: "job list \<Rightarrow> job list \<times> bytes \<Rightarrow> job list \<times> bytes" where
  "active_loop [] acc = acc"
| "active_loop (build # builds) (activeBuilds, activeJobName) =
     (if \<not> fst (isBuildFinished build)
      then active_loop builds (activeBuilds @ [build], job_Name build)
      else active_loop builds (activeBuilds, activeJobName))"

definition getActiveBuilds :: "job list \<Rightarrow> job list \<times> bytes" where
  "getActiveBuilds builds = active_loop builds ([], '''')"

fun active_references :: "'w env \<Rightarrow> job list \<Rightarrow> ('w, object_reference list) call" where
  "active_references E [] w = ([], w)"
| "active_references E (activeJob # jobs) w =
     (case env_get_reference E activeJob w of
        (Inl err, w1) \<Rightarrow> active_references E jobs w1
      | (Inr jobRef, w1) \<Rightarrow>
          (let (refs, w2) = active_references E jobs w1 in (jobRef # refs, w2)))"

definition updatePackerBuilderStatus ::
  "'w env \<Rightarrow> packer_builder \<Rightarrow> job list \<Rightarrow> ('w, go_error option) call" where
  "updatePackerBuilderStatus E pb activeBuilds w =
     (let (refs, w1) = active_references E activeBuilds w
      in case Status_Update E (pb_ops E) (set_status (\<lambda>s. s\<lparr>st_Active := refs\<rparr>) pb) w1 of
           (Some err, w2) \<Rightarrow> (Some (WrapError ''failed to update PackerBuilder status: '' err), w2)
         | (None, w2) \<Rightarrow> (None, w2))"

text \<open>The body of the operation and the whole check; its result carries no changed builder.\<close>

definition active_build_op ::
  "'w env \<Rightarrow> manager_packer \<Rightarrow> bytes \<Rightarrow> bytes \<Rightarrow> ('w, check_result) call" where
  "active_build_op E m namespace name w =
     (if m = None
      then (result_error (ErrorString ''ManagerPacker or its Client is nil''), w)
      else case env_get_pb E (namespace, name) w of
        (Inl err, w1) \<Rightarrow>
          (if is_not_found err
           then (result_message True ''PackerBuilder has been deleted'' '''', w1)
           else (result_error (WrapError ''failed to get latest version of PackerBuilder: '' err), w1))
      | (Inr latestPB, w1) \<Rightarrow>
          (case env_list_jobs E namespace [(''created-by'', name)] w1 of
             (Inl err, w2) \<Rightarrow> (result_error (WrapError ''unable to list jobs: '' err), w2)
           | (Inr builds, w2) \<Rightarrow>
               (let (activeBuilds, activeJobName) = getActiveBuilds builds;
                    (ignored, w3) = updatePackerBuilderStatus E latestPB activeBuilds w2
                in (if activeBuilds = []
                    then result_message True ''No active build found'' ''''
                    else result_message False
                      ''An active build exists, skipping job creation'' activeJobName, w3))))"

definition ActiveBuildCheck ::
  "'w env \<Rightarrow> manager_packer \<Rightarrow> bytes \<Rightarrow> bytes \<Rightarrow> ('w, check_result) go" where
  "ActiveBuildCheck E m namespace name =
     go_bind
       (packer_runWithTimeout E
         (go_bind (go_call (active_build_op E m namespace name)) (\<lambda>r. go_return (r, ())))
         (30 * second))
       (\<lambda>(r, u). go_return r)"

section \<open>Build artifacts\<close>

definition DeleteKeyPair ::
  "'w env \<Rightarrow> manager_packer \<Rightarrow> bytes \<Rightarrow> ('w, go_error option) go" where
  "DeleteKeyPair E m keyPairName =
     go_bind (go_deref m) (\<lambda>cfg.
     go_bind (go_call (env_describe_key_pairs E cfg [keyPairName])) (\<lambda>described.
     case described of
       Some err \<Rightarrow>
         if aws_code err = Some ''InvalidKeyPair.NotFound'' then go_return None
         else go_return (Some err)
     | None \<Rightarrow> go_call (env_delete_key_pair E cfg keyPairName)))"

definition DeleteSecurityGroup ::
  "'w env \<Rightarrow> manager_packer \<Rightarrow> bytes \<Rightarrow> ('w, go_error option) go" where
  "DeleteSecurityGroup E m securityGroupID =
     go_bind (go_deref m) (\<lambda>cfg.
     go_bind (go_call (env_describe_security_groups E cfg [securityGroupID])) (\<lambda>described.
     case described of
       Some err \<Rightarrow>
         if aws_code err = Some ''InvalidGroup.NotFound'' then go_return None
         else go_return (Some err)
     | None \<Rightarrow> go_call (env_delete_security_group E cfg securityGroupID)))"

section \<open>Tags\<close>

definition buildTagsAndFilters ::
  "'w env \<Rightarrow> packer_builder \<Rightarrow> filter_options \<Rightarrow> ('w, (bytes \<times> bytes) list) call" where
  "buildTagsAndFilters E pb options w =
     (let tags =
        [(''brought-to-you-by'', ''opsy-the-ami-operator''),
         (''cluster-name'', sp_ClusterName (pb_Spec pb)),
         (''created-by'', pb_Name pb),
         (''packer-repo'', bld_RepoURL (sp_Builder (pb_Spec pb))),
         (''packer-repo-branch'', bld_Branch (sp_Builder (pb_Spec pb)))] @
        (if opt_IncludeBaseAMI options
         then [(''base-ami'', st_LastRunBaseImageID (pb_Status pb))] else []) @
        (if opt_IncludeIdentifiers options
         then [(''job-id'', st_JobID (pb_Status pb)), (''build-id'', st_BuildID (pb_Status pb))]
         else [])
      in if opt_IncludeTimestamp options
         then (let (now, w') = env_now E w
               in (tags @ [(''create-timestamp'', format_RFC3339 now), (''status'', ''active'')], w'))
         else (tags, w))"

definition tagAMI ::
  "'w env \<Rightarrow> manager_packer \<Rightarrow> bytes \<Rightarrow> packer_builder \<Rightarrow> ('w, go_error option) go" where
  "tagAMI E m amiID pb =
     go_bind (go_deref m) (\<lambda>cfg.
     go_bind (go_call (buildTagsAndFilters E pb
       \<lparr>opt_IncludeTimestamp = True, opt_IncludeIdentifiers = True, opt_IncludeBaseAMI = True\<rparr>)) (\<lambda>tags.
     go_bind (go_call (env_map_order E)) (\<lambda>order.
     go_bind (go_call (env_create_tags E cfg [amiID] (order tags))) (\<lambda>answer.
       go_return
         (case answer of
            None \<Rightarrow> None
          | Some err \<Rightarrow>
              if (case err of AwsOperationError t e \<Rightarrow> str_contains (error_text err) ''InvalidID''
                  | _ \<Rightarrow> False)
              then Some (errorf (''failed to tag AMI '' @ amiID @ '': Invalid AMI ID: '') err)
              else Some (errorf (''failed to tag AMI '' @ amiID @ '': '') err))))))"

fun base_ami_loop :: "ec2_tag list \<Rightarrow> bytes outcome" where
  "base_ami_loop [] = Returns ''''"
| "base_ami_loop (tag # tags) =
     (case tag_Key tag of
        None \<Rightarrow> Panics ''nil pointer dereference''
      | Some key \<Rightarrow>
          if key = ''base-ami''
          then (case tag_Value tag of
                  None \<Rightarrow> Panics ''nil pointer dereference''
                | Some v \<Rightarrow> Returns v)
          else base_ami_loop tags)"

definition getBaseAMIID :: "ec2_image \<Rightarrow> bytes outcome" where
  "getBaseAMIID img = base_ami_loop (img_Tags img)"

section \<open>Deprecation\<close>

definition deprecateAMI :: "'w env \<Rightarrow> bytes \<Rightarrow> bytes \<Rightarrow> ('w, go_error option) call" where
  "deprecateAMI E cfg amiID w =
     (case env_modify_image E cfg
        \<lparr>ia_ImageId = amiID, ia_OperationType = ''add'', ia_RemoveGroups = [''all'']\<rparr> w of
        (Some err, w1) \<Rightarrow> (Some (errorf (''failed to deprecate AMI '' @ amiID @ '': '') err), w1)
      | (None, w1) \<Rightarrow>
          (case env_create_tags E cfg [amiID] [(''status'', ''deprecated'')] w1 of
             (Some err, w2) \<Rightarrow>
               (Some (errorf (''failed to tag AMI '' @ amiID @ '' as deprecated: '') err), w2)
           | (None, w2) \<Rightarrow> (None, w2)))"

fun deprecate_loop ::
  "'w env \<Rightarrow> bytes \<Rightarrow> bytes \<Rightarrow> ec2_image list \<Rightarrow> ('w, go_error option) go" where
  "deprecate_loop E cfg excludeAMI [] = go_return None"
| "deprecate_loop E cfg excludeAMI (img # images) =
     go_bind (go_deref (img_ImageId img)) (\<lambda>i.
       if i = excludeAMI then deprecate_loop E cfg excludeAMI images
       else go_bind (go_call (deprecateAMI E cfg i)) (\<lambda>answer.
         case answer of
           Some err \<Rightarrow> go_return (Some err)
         | None \<Rightarrow> deprecate_loop E cfg excludeAMI images))"

definition deprecateOldAMIs ::
  "'w env \<Rightarrow> manager_packer \<Rightarrow> packer_builder \<Rightarrow> bytes \<Rightarrow> filter_options \<Rightarrow>
   ('w, go_error option) go" where
  "deprecateOldAMIs E m pb excludeAMI options =
     go_bind (go_deref m) (\<lambda>cfg.
     go_bind (go_call (ami_New E cfg)) (\<lambda>ami.
     go_bind (go_call (buildTagsAndFilters E pb options)) (\<lambda>tags.
     go_bind (go_call (BuildFilters E tags)) (\<lambda>filters.
     go_bind (DescribeImagesWithFilters E ami filters) (\<lambda>answer.
     case answer of
       Inl err \<Rightarrow> go_return (Some err)
     | Inr images \<Rightarrow> deprecate_loop E cfg excludeAMI images)))))"

definition base_ami_option :: filter_options where
  "base_ami_option =
     \<lparr>opt_IncludeTimestamp = False, opt_IncludeIdentifiers = False, opt_IncludeBaseAMI = True\<rparr>"

definition no_options :: filter_options where
  "no_options =
     \<lparr>opt_IncludeTimestamp = False, opt_IncludeIdentifiers = False, opt_IncludeBaseAMI = False\<rparr>"

text \<open>The new image is tagged, then the older images of the same base are deprecated.\<close>

definition ami_update_op ::
  "'w env \<Rightarrow> manager_packer \<Rightarrow> packer_builder \<Rightarrow> ('w, check_result) go" where
  "ami_update_op E m pb =
     (let amiID = st_LastRunBuiltImageID (pb_Status pb)
      in go_bind (tagAMI E m amiID pb) (\<lambda>tagged.
         case tagged of
           Some err \<Rightarrow> go_return (result_error err)
         | None \<Rightarrow>
             go_bind (deprecateOldAMIs E m pb amiID base_ami_option) (\<lambda>deprecated.
             case deprecated of
               Some err \<Rightarrow> go_return (result_error err)
             | None \<Rightarrow> go_return (result_message True
                 ''Successfully tagged the new AMI and deprecated old AMIs'' ''''))))"

definition handleAMIUpdates ::
  "'w env \<Rightarrow> manager_packer \<Rightarrow> packer_builder \<Rightarrow> ('w, check_result) go" where
  "handleAMIUpdates E m pb =
     go_bind
       (packer_runWithTimeout E
         (go_bind (ami_update_op E m pb) (\<lambda>r. go_return (r, ()))) (120 * second))
       (\<lambda>(r, u). go_return r)"

section \<open>Adoption\<close>

definition adopt_status ::
  "bytes \<Rightarrow> bytes \<Rightarrow> bytes \<Rightarrow> packer_builder \<Rightarrow> packer_builder" where
  "adopt_status built base buildID =
     set_status (\<lambda>s. s\<lparr>st_LastRunBuiltImageID := built, st_LastRunBaseImageID := base,
       st_BuildID := buildID\<rparr>)"

definition adoptExistingImage ::
  "'w env \<Rightarrow> manager_packer \<Rightarrow> packer_builder \<Rightarrow>
   ('w, (go_error + ec2_image) \<times> packer_builder) go" where
  "adoptExistingImage E m pb =
     go_bind (go_deref m) (\<lambda>cfg.
     go_bind (go_call (ami_New E cfg)) (\<lambda>ami.
     go_bind (go_call (buildTagsAndFilters E pb no_options)) (\<lambda>tags.
     go_bind (go_call (BuildFilters E tags)) (\<lambda>filters.
     go_bind (DescribeImagesWithFilters E ami filters) (\<lambda>answer.
     case answer of
       Inl err \<Rightarrow> go_return (Inl err, pb)
     | Inr images \<Rightarrow>
         go_bind (go_outcome (FindLatestImage (env_time_error E) images)) (\<lambda>found.
         case found of
           Inl err \<Rightarrow> go_return (Inl err, pb)
         | Inr (latestImage, created) \<Rightarrow>
             go_bind (go_deref (img_ImageId latestImage)) (\<lambda>i.
             if \<not> IsImageActive latestImage
             then go_return (Inl (ErrorString (''latest AMI '' @ i @ '' is not active'')), pb)
             else
               go_bind (go_outcome (getBaseAMIID latestImage)) (\<lambda>base.
               go_bind (go_call (env_uuid E)) (\<lambda>buildID.
               let pb' = adopt_status i base buildID pb
               in go_bind (go_call (Status_Update E (pb_ops E) pb')) (\<lambda>updated.
                  case updated of
                    Some err \<Rightarrow>
                      go_return (Inl (errorf ''failed to update PackerBuilder status: '' err), pb')
                  | None \<Rightarrow>
                      go_bind (tagAMI E m i pb') (\<lambda>tagged.
                      case tagged of
                        Some err \<Rightarrow> go_return (Inl (errorf ''failed to tag adopted AMI: '' err), pb')
                      | None \<Rightarrow>
                          go_bind (deprecateOldAMIs E m pb' i base_ami_option) (\<lambda>deprecated.
                          go_return
                            (case deprecated of
                               Some err \<Rightarrow> Inl (errorf ''failed to deprecate old AMIs: '' err)
                             | None \<Rightarrow> Inr latestImage, pb')))))))))))))"

definition adoption_op ::
  "'w env \<Rightarrow> manager_packer \<Rightarrow> packer_builder \<Rightarrow> ('w, check_result \<times> packer_builder) go" where
  "adoption_op E m pb =
     (if st_LastRunBuiltImageID (pb_Status pb) = ''''
      then
        go_bind (go_deref m) (\<lambda>cfg.
        go_bind (adoptExistingImage E m pb) (\<lambda>(adopted, pb').
        case adopted of
          Inl err \<Rightarrow>
            if str_contains (error_text err) ''no AMIs found matching the provided filters'' \<or>
               str_contains (error_text err) ''no valid images found''
            then go_return (result_message True ''No AMIs found matching the provided tags'' '''', pb')
            else go_return (result_error err, pb')
        | Inr adoptedImage \<Rightarrow>
            go_bind (go_deref (img_ImageId adoptedImage)) (\<lambda>i.
              go_return (result_message False (''Adopted existing AMI '' @ i) '''', pb'))))
      else go_return (result_message True ''No adoption needed or adoption successful'' '''', pb))"

definition adoptionProcessor ::
  "'w env \<Rightarrow> manager_packer \<Rightarrow> packer_builder \<Rightarrow> ('w, check_result \<times> packer_builder) go" where
  "adoptionProcessor E m pb = packer_runWithTimeout E (adoption_op E m pb) (45 * second)"

definition LatestAMIDoesNotExistsOrExpired ::
  "'w env \<Rightarrow> manager_packer \<Rightarrow> duration \<Rightarrow> packer_builder \<Rightarrow>
   ('w, check_result \<times> packer_builder) go" where
  "LatestAMIDoesNotExistsOrExpired E m duration pb =
     go_bind (adoptionProcessor E m pb) (\<lambda>(adoptResult, pb').
       if \<not> res_Success adoptResult then go_return (adoptResult, pb')
       else
         go_bind (go_deref m) (\<lambda>cfg.
         go_bind (go_call (ami_New E cfg)) (\<lambda>ami.
         go_bind (go_call (buildTagsAndFilters E pb' no_options)) (\<lambda>tags.
         go_bind (AMIChecks E ami tags duration PackerBuilderCheck) (\<lambda>r.
           go_return (r, pb'))))))"

section \<open>Active builds, decided\<close>

definition job_finished :: "job \<Rightarrow> bool" where
  "job_finished j \<longleftrightarrow> (\<exists>c \<in> set (js_Conditions (job_State j)).
     jc_Type c \<in> {JobComplete, JobFailed} \<and> jc_Status c = ConditionTrue)"

lemma isBuildFinished_iff: "fst (isBuildFinished j) \<longleftrightarrow> job_finished j"
proof -
  have "fst (finished_condition cs) \<longleftrightarrow>
      (\<exists>c \<in> set cs. jc_Type c \<in> {JobComplete, JobFailed} \<and> jc_Status c = ConditionTrue)" for cs
    by (induction cs) auto
  then show ?thesis by (simp add: isBuildFinished_def job_finished_def)
qed

lemma active_loop_eq:
  "fst (active_loop builds acc) = fst acc @ filter (\<lambda>j. \<not> job_finished j) builds"
  by (induction builds acc rule: active_loop.induct) (simp_all add: isBuildFinished_iff)

lemma getActiveBuilds_eq: "fst (getActiveBuilds builds) = filter (\<lambda>j. \<not> job_finished j) builds"
  by (simp add: getActiveBuilds_def active_loop_eq)

lemma packer_runWithTimeout_result:
  assumes "packer_runWithTimeout E op d w = (Returns (r, p), w')" "never_cut_off E"
  shows "\<exists>w1. op w = (Returns (r, p), w1)"
  using assms
  by (intro exI [of _ "snd (op w)"])
    (auto simp: packer_runWithTimeout_def never_cut_off_def go_laws prod_eq_iff
      split: outcome.splits prod.splits)

lemma ActiveBuildCheck_result:
  assumes "never_cut_off E"
  shows "fst (ActiveBuildCheck E m ns n w) = Returns (fst (active_build_op E m ns n w))"
  using assms
  by (simp add: ActiveBuildCheck_def packer_runWithTimeout_def never_cut_off_def go_laws)

text \<open>
  The check for active builds always answers, and passes exactly when the builder has been
  deleted or when its jobs could be listed and every one of them has finished (a condition
  \<open>Complete\<close> or \<open>Failed\<close> that is true). Every other answer of the API server, and a missing AWS
  configuration, counts as an active build.
\<close>

theorem active_build_verdict:
  assumes "never_cut_off E"
  shows "\<exists>r. fst (ActiveBuildCheck E m ns n w) = Returns r \<and>
    (res_Success r \<longleftrightarrow> m \<noteq> None \<and>
       (case env_get_pb E (ns, n) w of
          (Inl err, w1) \<Rightarrow> is_not_found err
        | (Inr latest, w1) \<Rightarrow>
            (case fst (env_list_jobs E ns [(''created-by'', n)] w1) of
               Inl err \<Rightarrow> False
             | Inr builds \<Rightarrow> \<forall>j \<in> set builds. job_finished j)))"
proof -
  have "filter (\<lambda>j. \<not> job_finished j) builds = [] \<longleftrightarrow> (\<forall>j \<in> set builds. job_finished j)" for builds
    by (simp add: filter_empty_conv)
  then show ?thesis
    unfolding ActiveBuildCheck_result [OF assms] active_build_op_def
    by (auto simp: Let_def split_beta getActiveBuilds_eq split: sum.splits prod.splits)
qed

theorem active_build_verdict_witness:
  "\<exists>r. fst (ActiveBuildCheck sim_env (Some ''us-west-2'') ''ns'' ''pb'' (example_world [])) = Returns r \<and>
    res_Success r"
  using active_build_verdict [OF sim_env_never_cut_off,
      of "Some ''us-west-2''" "''ns''" "''pb''" "example_world []"]
  by (simp add: sim_run example_world_def sim_start_def)

section \<open>Deprecation, frame and effect\<close>

text \<open>The environment with every write to one image replaced.\<close>

definition writes_replaced ::
  "bytes \<Rightarrow> ('w, go_error option) call \<Rightarrow> 'w env \<Rightarrow> 'w env" where
  "writes_replaced amiID f E =
     E\<lparr>env_modify_image := (\<lambda>cfg ia. if ia_ImageId ia = amiID then f else env_modify_image E cfg ia),
       env_create_tags := (\<lambda>cfg ids tags. if ids = [amiID] then f else env_create_tags E cfg ids tags)\<rparr>"

lemma deprecateAMI_replaced:
  "i \<noteq> x \<Longrightarrow> deprecateAMI (writes_replaced x f E) cfg i = deprecateAMI E cfg i"
  by (rule ext) (auto simp: deprecateAMI_def writes_replaced_def split: prod.splits option.splits)

lemma deprecate_loop_replaced:
  "deprecate_loop (writes_replaced x f E) cfg x images = deprecate_loop E cfg x images"
proof (induction images)
  case Nil
  then show ?case by simp
next
  case (Cons img images)
  show ?case
    by (rule ext) (auto simp: Cons go_deref_def deprecateAMI_replaced go_laws
        split: option.splits)
qed

lemma reads_replaced:
  "ami_New (writes_replaced x f E) = ami_New E"
  "buildTagsAndFilters (writes_replaced x f E) = buildTagsAndFilters E"
  "BuildFilters (writes_replaced x f E) = BuildFilters E"
  "DescribeImagesWithFilters (writes_replaced x f E) = DescribeImagesWithFilters E"
  by (intro ext; simp add: ami_New_def ClientAWS_def buildTagsAndFilters_def BuildFilters_def
      DescribeImagesWithFilters_def writes_replaced_def Let_def cong: if_cong)+

lemma deprecate_loop_effect:
  "deprecate_loop E cfg x images w = (Returns None, w') \<Longrightarrow>
     \<exists>ids. map img_ImageId images = map Some ids \<and>
       w' = fold (\<lambda>i v. snd (deprecateAMI E cfg i v)) (filter (\<lambda>i. i \<noteq> x) ids) w"
proof (induction images arbitrary: w)
  case Nil
  then show ?case by (simp add: go_laws)
next
  case (Cons img images)
  obtain i where i: "img_ImageId img = Some i"
    using Cons.prems by (cases "img_ImageId img") (simp_all add: go_laws)
  show ?case
  proof (cases "i = x")
    case True
    then have "deprecate_loop E cfg x images w = (Returns None, w')"
      using Cons.prems i by simp
    from Cons.IH [OF this] obtain ids where "map img_ImageId images = map Some ids"
      "w' = fold (\<lambda>i v. snd (deprecateAMI E cfg i v)) (filter (\<lambda>i. i \<noteq> x) ids) w" by blast
    with i True show ?thesis by (intro exI [of _ "i # ids"]) simp
  next
    case False
    then have "fst (deprecateAMI E cfg i w) = None \<and>
        deprecate_loop E cfg x images (snd (deprecateAMI E cfg i w)) = (Returns None, w')"
      using Cons.prems i by (auto simp: go_laws split: option.splits)
    with Cons.IH obtain ids where "map img_ImageId images = map Some ids"
      "w' = fold (\<lambda>i v. snd (deprecateAMI E cfg i v)) (filter (\<lambda>i. i \<noteq> x) ids)
         (snd (deprecateAMI E cfg i w))" by blast
    with i False show ?thesis by (intro exI [of _ "i # ids"]) simp
  qed
qed

text \<open>
  C16. Deprecation spares the new image: whatever a write to the excluded image would do, the run of
  \<open>deprecateOldAMIs\<close> is the same, so that image is never modified or tagged by it, not even when the
  query returns it.
\<close>

theorem deprecation_spares_excluded:
  "deprecateOldAMIs (writes_replaced excludeAMI f E) m pb excludeAMI options =
   deprecateOldAMIs E m pb excludeAMI options"
  by (simp add: deprecateOldAMIs_def reads_replaced deprecate_loop_replaced cong: sum.case_cong)

text \<open>
  C23. A deprecation that reports success has reached every image the query returned: all of them have
  an identifier, and the world it leaves is the one after withdrawing and tagging each of them in the
  order of the query, the excluded image left out.
\<close>

theorem deprecation_effect:
  assumes "deprecateOldAMIs E (Some cfg) pb excludeAMI options w = (Returns None, w')"
    and "ami_New E cfg w = (ami, w1)"
    and "buildTagsAndFilters E pb options w1 = (tags, w2)" "BuildFilters E tags w2 = (filters, w3)"
    and "DescribeImagesWithFilters E ami filters w3 = (Returns (Inr images), w4)"
  shows "\<exists>ids. map img_ImageId images = map Some ids \<and>
    w' = fold (\<lambda>i v. snd (deprecateAMI E cfg i v)) (filter (\<lambda>i. i \<noteq> excludeAMI) ids) w4"
proof (rule deprecate_loop_effect)
  show "deprecate_loop E cfg excludeAMI images w4 = (Returns None, w')"
    using assms by (simp add: deprecateOldAMIs_def go_laws)
qed

theorem deprecation_effect_witness:
  "\<exists>w'. deprecateOldAMIs sim_env (Some ''us-west-2'') example_pb ''ami-2'' base_ami_option
      (example_world [example_image ''ami-1'' ''x'' ''active'', example_image ''ami-2'' ''x'' ''active'']) =
      (Returns None, w') \<and>
    (\<exists>ids. map img_ImageId [example_image ''ami-1'' ''x'' ''active'', example_image ''ami-2'' ''x'' ''active'']
        = map Some ids \<and>
      w' = fold (\<lambda>i v. snd (deprecateAMI sim_env ''us-west-2'' i v)) (filter (\<lambda>i. i \<noteq> ''ami-2'') ids)
        (example_world [example_image ''ami-1'' ''x'' ''active'', example_image ''ami-2'' ''x'' ''active'']))"
proof -
  let ?w = "example_world [example_image ''ami-1'' ''x'' ''active'', example_image ''ami-2'' ''x'' ''active'']"
  note defs = sim_run example_world_def sim_start_def
  have d: "ami_New sim_env ''us-west-2'' ?w = (Some ''us-west-2'', ?w)"
    by (simp add: ami_New_def ClientAWS_def defs)
  obtain tags where t: "buildTagsAndFilters sim_env example_pb base_ami_option ?w = (tags, ?w)"
    by (simp add: buildTagsAndFilters_def base_ami_option_def)
  obtain filters where f: "BuildFilters sim_env tags ?w = (filters, ?w)"
    by (simp add: BuildFilters_def defs)
  have i: "DescribeImagesWithFilters sim_env (Some ''us-west-2'') filters ?w =
      (Returns (Inr [example_image ''ami-1'' ''x'' ''active'', example_image ''ami-2'' ''x'' ''active'']), ?w)"
    by (simp add: DescribeImagesWithFilters_def go_laws defs)
  obtain w' where run: "deprecateOldAMIs sim_env (Some ''us-west-2'') example_pb ''ami-2''
      base_ami_option ?w = (Returns None, w')"
    by (simp add: deprecateOldAMIs_def go_laws d t f i)
      (simp add: example_image_def deprecateAMI_def go_laws defs)
  from deprecation_effect [OF run d t f i] run show ?thesis by blast
qed

lemma buildTagsAndFilters_cong:
  "env_now E = env_now E' \<Longrightarrow> buildTagsAndFilters E = buildTagsAndFilters E'"
  by (intro ext) (simp add: buildTagsAndFilters_def Let_def cong: if_cong)

lemma tagAMI_modify: "tagAMI (E\<lparr>env_modify_image := f\<rparr>) = tagAMI E"
  using buildTagsAndFilters_cong [of "E\<lparr>env_modify_image := f\<rparr>" E]
  by (intro ext) (simp add: tagAMI_def)

lemma packer_runWithTimeout_modify:
  "packer_runWithTimeout (E\<lparr>env_modify_image := f\<rparr>) = packer_runWithTimeout E"
  by (intro ext) (simp add: packer_runWithTimeout_def)

lemma packer_runWithTimeout_cong:
  "op w = op' w \<Longrightarrow> packer_runWithTimeout E op d w = packer_runWithTimeout E op' d w"
  by (simp add: packer_runWithTimeout_def go_bind_def)

text \<open>
  C24. An image whose tagging fails changes nothing else: when the new image cannot be tagged,
  \<open>handleAMIUpdates\<close> runs the same whatever the calls that withdraw an image would do, so no older
  image is withdrawn before the new one carries its tags.
\<close>

theorem tag_before_deprecate:
  assumes "fst (tagAMI E m (st_LastRunBuiltImageID (pb_Status pb)) pb w) = Returns (Some err)"
  shows "handleAMIUpdates (E\<lparr>env_modify_image := f\<rparr>) m pb w = handleAMIUpdates E m pb w"
proof -
  have "ami_update_op (E\<lparr>env_modify_image := f\<rparr>) m pb w = ami_update_op E m pb w"
    using assms by (simp add: ami_update_op_def Let_def tagAMI_modify go_laws)
  then have "go_bind (ami_update_op (E\<lparr>env_modify_image := f\<rparr>) m pb) g w =
      go_bind (ami_update_op E m pb) g w" for g :: "check_result \<Rightarrow> ('a, check_result \<times> unit) go"
    by (simp add: go_bind_def)
  then have "packer_runWithTimeout E (go_bind (ami_update_op (E\<lparr>env_modify_image := f\<rparr>) m pb)
        (\<lambda>r. go_return (r, ()))) (120 * second) w =
      packer_runWithTimeout E (go_bind (ami_update_op E m pb) (\<lambda>r. go_return (r, ()))) (120 * second) w"
    by (rule packer_runWithTimeout_cong)
  then show ?thesis
    by (simp add: handleAMIUpdates_def go_bind_def packer_runWithTimeout_modify)
qed

definition untaggable_world :: sim where
  "untaggable_world = (example_world [])\<lparr>sim_fails := [(''create_tags'', AwsError ''InvalidID'' ''x'')]\<rparr>"

theorem tag_before_deprecate_witness:
  "handleAMIUpdates (sim_env\<lparr>env_modify_image := (\<lambda>cfg ia w. (None, w))\<rparr>) (Some ''us-west-2'')
     example_pb untaggable_world =
   handleAMIUpdates sim_env (Some ''us-west-2'') example_pb untaggable_world"
proof -
  obtain err where "fst (tagAMI sim_env (Some ''us-west-2'')
      (st_LastRunBuiltImageID (pb_Status example_pb)) example_pb untaggable_world) = Returns (Some err)"
    by (simp add: tagAMI_def go_laws sim_run buildTagsAndFilters_def Let_def untaggable_world_def)
  then show ?thesis by (rule tag_before_deprecate)
qed

section \<open>Tags, written and read\<close>

definition to_tag :: "bytes \<times> bytes \<Rightarrow> ec2_tag" where
  "to_tag kv = \<lparr>tag_Key = Some (fst kv), tag_Value = Some (snd kv)\<rparr>"

lemma to_tag_simps [simp]: "tag_Key (to_tag kv) = Some (fst kv)" "tag_Value (to_tag kv) = Some (snd kv)"
  by (simp_all add: to_tag_def)

lemma tag_timestamp_map_of:
  "tag_timestamp perr img (map to_tag ts) =
     (case map_of ts ''create-timestamp'' of
        None \<Rightarrow> Returns (Inr zero_time)
      | Some v \<Rightarrow> parse_image_time perr ''create-timestamp'' img v)"
  by (induction ts) (auto simp: to_tag_def)

lemma base_ami_map_of:
  "base_ami_loop (map to_tag ts) =
     Returns (case map_of ts ''base-ami'' of None \<Rightarrow> '''' | Some v \<Rightarrow> v)"
  by (induction ts) auto

lemma active_map_of:
  "distinct (map fst ts) \<Longrightarrow>
     list_ex (\<lambda>tag. tag_Key tag = Some ''status'' \<and> tag_Value tag = Some ''active'') (map to_tag ts) \<longleftrightarrow>
     map_of ts ''status'' = Some ''active''"
  by (force simp: list_ex_iff)

lemma map_of_order:
  assumes "mset ts = mset tags" "distinct (map fst tags)"
  shows "map_of ts = map_of tags \<and> distinct (map fst ts)"
proof -
  have "mset (map fst ts) = mset (map fst tags)" using assms(1) by simp
  then have "distinct (map fst ts)"
    using assms(2) mset_eq_imp_distinct_iff by blast
  moreover have "set ts = set tags" using assms(1) by (metis set_mset_mset)
  ultimately show ?thesis
    using assms(2) map_of_inject_set by blast
qed

text \<open>
  C18. What \<open>tagAMI\<close> writes is what the operator reads back: an image that carries the tags written
  for a new build at time \<open>now\<close>, in any order, is active, names the builder's base image, and its
  timestamp is \<open>now\<close> truncated to the second, whatever its creation date. The format has room for
  the years 0 to 9999.
\<close>

theorem tags_roundtrip:
  assumes "buildTagsAndFilters E pb \<lparr>opt_IncludeTimestamp = True, opt_IncludeIdentifiers = True,
      opt_IncludeBaseAMI = True\<rparr> w = (tags, w')"
    and "img_Tags img = map to_tag ts" "mset ts = mset tags"
    and "date_of_days (fst (env_now E w) div second div 86400) = (y, m, d)" "0 \<le> y" "y < 10000"
    and "fst (env_now E w) div second \<noteq> 0"
  shows "IsImageActive img \<and> getBaseAMIID img = Returns (st_LastRunBaseImageID (pb_Status pb)) \<and>
    image_timestamp perr img = Returns (Inr (fst (env_now E w) div second * second))"
proof -
  let ?now = "fst (env_now E w)"
  have tags: "tags = [(''brought-to-you-by'', ''opsy-the-ami-operator''),
      (''cluster-name'', sp_ClusterName (pb_Spec pb)), (''created-by'', pb_Name pb),
      (''packer-repo'', bld_RepoURL (sp_Builder (pb_Spec pb))),
      (''packer-repo-branch'', bld_Branch (sp_Builder (pb_Spec pb))),
      (''base-ami'', st_LastRunBaseImageID (pb_Status pb)),
      (''job-id'', st_JobID (pb_Status pb)), (''build-id'', st_BuildID (pb_Status pb)),
      (''create-timestamp'', format_RFC3339 ?now), (''status'', ''active'')]"
    using assms(1) by (simp add: buildTagsAndFilters_def Let_def split_beta)
  have "distinct (map fst tags)" by (simp add: tags)
  from map_of_order [OF assms(3) this]
  have m: "map_of ts = map_of tags" and dist: "distinct (map fst ts)" by auto
  have "map_of tags ''create-timestamp'' = Some (format_RFC3339 ?now)"
    "map_of tags ''base-ami'' = Some (st_LastRunBaseImageID (pb_Status pb))"
    "map_of tags ''status'' = Some ''active''"
    by (simp_all add: tags)
  then show ?thesis
    using parse_format_RFC3339 [OF assms(4-6)] assms(7) dist
    by (simp add: IsImageActive_def getBaseAMIID_def image_timestamp_def assms(2) m active_map_of
        base_ami_map_of tag_timestamp_map_of parse_image_time_def time_is_zero_def second_def)
qed

definition all_options :: filter_options where
  "all_options = \<lparr>opt_IncludeTimestamp = True, opt_IncludeIdentifiers = True, opt_IncludeBaseAMI = True\<rparr>"

theorem tags_roundtrip_witness:
  "\<exists>tags w'. buildTagsAndFilters sim_env example_pb all_options (example_world []) = (tags, w') \<and>
     IsImageActive \<lparr>img_ImageId = None, img_CreationDate = None, img_Tags = map to_tag (rev tags)\<rparr>"
proof -
  obtain tags w' where t: "buildTagsAndFilters sim_env example_pb all_options (example_world []) =
      (tags, w')" by fastforce
  have now: "fst (env_now sim_env (example_world [])) = make_time 2024 5 1 13 0 0 0"
    by (simp add: example_describe t2024_def make_time_def second_def)
  have d: "date_of_days (make_time 2024 5 1 13 0 0 0 div second div 86400) = (2024, 5, 1)"
    by code_simp
  have z: "make_time 2024 5 1 13 0 0 0 div second \<noteq> 0" by code_simp
  have "IsImageActive \<lparr>img_ImageId = None, img_CreationDate = None, img_Tags = map to_tag (rev tags)\<rparr>"
    using tags_roundtrip [OF t [unfolded all_options_def], of
        "\<lparr>img_ImageId = None, img_CreationDate = None, img_Tags = map to_tag (rev tags)\<rparr>" "rev tags"
        2024 5 1] now d z by simp
  with t show ?thesis by blast
qed

section \<open>Adoption and the checks before a build\<close>

text \<open>
  An image that is not active blocks its builder: when a builder that has recorded no built image
  finds a latest image that is not tagged active, the adoption fails, so the whole check fails with
  that error and leaves the builder as it was, at every time, although the expiry check on the same
  images would have allowed a build.
\<close>

theorem inactive_image_blocks_build:
  assumes "never_cut_off E" "st_LastRunBuiltImageID (pb_Status pb) = ''''"
    and "ami_New E cfg w = (ami, w1)" "buildTagsAndFilters E pb no_options w1 = (tags, w2)"
    and "BuildFilters E tags w2 = (filters, w3)"
    and "DescribeImagesWithFilters E ami filters w3 = (Returns (Inr images), w4)"
    and "FindLatestImage (env_time_error E) images = Returns (Inr (img, t))" "images \<noteq> []"
    and "img_ImageId img = Some i" "\<not> IsImageActive img"
    and "\<not> str_contains (''latest AMI '' @ i @ '' is not active'') ''no AMIs found matching the provided filters''"
    and "\<not> str_contains (''latest AMI '' @ i @ '' is not active'') ''no valid images found''"
  shows "fst (LatestAMIDoesNotExistsOrExpired E (Some cfg) d pb w) =
      Returns (result_error (ErrorString (''latest AMI '' @ i @ '' is not active'')), pb) \<and>
    check_verdict (env_time_error E) PackerBuilderCheck images now d"
proof -
  have adopt: "adoptExistingImage E (Some cfg) pb w =
      (Returns (Inl (ErrorString (''latest AMI '' @ i @ '' is not active'')), pb), w4)"
    using assms(3-10) by (simp add: adoptExistingImage_def go_laws go_outcome_def)
  then have "adoption_op E (Some cfg) pb w =
      (Returns (result_error (ErrorString (''latest AMI '' @ i @ '' is not active'')), pb), w4)"
    using assms(2,11,12) by (simp add: adoption_op_def go_laws del: str_contains.simps)
  then show ?thesis
    using assms(1,7,8,10)
    by (simp add: LatestAMIDoesNotExistsOrExpired_def adoptionProcessor_def packer_runWithTimeout_def
        never_cut_off_def go_laws check_verdict_def check_types)
qed

theorem inactive_image_blocks_build_witness:
  "fst (LatestAMIDoesNotExistsOrExpired sim_env (Some ''us-west-2'') 0 example_pb
      (example_world [example_image ''ami-9'' ''2024-05-01T12:00:00Z'' ''deprecated''])) =
    Returns (result_error (ErrorString ''latest AMI ami-9 is not active''), example_pb)"
proof -
  let ?img = "example_image ''ami-9'' ''2024-05-01T12:00:00Z'' ''deprecated''"
  let ?w = "example_world [?img]"
  note defs = sim_run example_world_def sim_start_def
  have a: "ami_New sim_env ''us-west-2'' ?w = (Some ''us-west-2'', ?w)"
    by (simp add: ami_New_def ClientAWS_def defs)
  obtain tags where t: "buildTagsAndFilters sim_env example_pb no_options ?w = (tags, ?w)"
    by (simp add: buildTagsAndFilters_def no_options_def)
  obtain filters where f: "BuildFilters sim_env tags ?w = (filters, ?w)"
    by (simp add: BuildFilters_def defs)
  have i: "DescribeImagesWithFilters sim_env (Some ''us-west-2'') filters ?w =
      (Returns (Inr [?img]), ?w)"
    by (simp add: DescribeImagesWithFilters_def go_laws defs)
  have n: "img_ImageId ?img = Some ''ami-9''" "\<not> IsImageActive ?img"
    "st_LastRunBuiltImageID (pb_Status example_pb) = ''''"
    by (simp_all add: example_image_def IsImageActive_def example_pb_def)
  from inactive_image_blocks_build [OF sim_env_never_cut_off n(3) a t f i
      FindLatestImage_one [OF example_timestamp] _ n(1,2)]
  show ?thesis by simp
qed

text \<open>
  A race in \<open>runWithTimeout\<close> loses results: a builder that has recorded a built image needs no
  adoption, so the adoption step is over at once; when the caller enters the \<open>select\<close> only after the
  goroutine has closed \<open>errCh\<close>, the select may take the closed channel, and the whole image check then
  fails with an error around nil, without having looked at an image.
\<close>

theorem closed_channel_loses_result:
  assumes "st_LastRunBuiltImageID (pb_Status pb) \<noteq> ''''"
    and "env_select E (45 * second) w = (PickErrClosed, w')"
  shows "LatestAMIDoesNotExistsOrExpired E m d pb w =
    (Returns (result_error (ErrorString ''operation failed: %!w(<nil>)''), pb), w')"
  using assms
  by (simp add: LatestAMIDoesNotExistsOrExpired_def adoptionProcessor_def packer_runWithTimeout_def
      adoption_op_def go_laws)

theorem closed_channel_loses_result_witness:
  "\<exists>w'. LatestAMIDoesNotExistsOrExpired (sim_env\<lparr>env_select := (\<lambda>d w. (PickErrClosed, w))\<rparr>) None 0
      (set_status (\<lambda>s. s\<lparr>st_LastRunBuiltImageID := ''ami-1''\<rparr>) example_pb) (example_world []) =
    (Returns (result_error (ErrorString ''operation failed: %!w(<nil>)''),
       set_status (\<lambda>s. s\<lparr>st_LastRunBuiltImageID := ''ami-1''\<rparr>) example_pb), w')"
  using closed_channel_loses_result
    [of "set_status (\<lambda>s. s\<lparr>st_LastRunBuiltImageID := ''ami-1''\<rparr>) example_pb"
      "sim_env\<lparr>env_select := (\<lambda>d w. (PickErrClosed, w))\<rparr>" "example_world []" "example_world []"]
  by auto

section \<open>Removal of build artifacts\<close>

text \<open>
  The removal of a temporary key pair reports success exactly when AWS says that the key pair does
  not exist or its deletion succeeds; the deletion is requested only after AWS has described the key
  pair, and for no other name. The removal of the security group behaves alike.
\<close>

theorem artifact_removal:
  "(fst (DeleteKeyPair E (Some cfg) name w) = Returns None \<longleftrightarrow>
      (case env_describe_key_pairs E cfg [name] w of
         (Some err, w1) \<Rightarrow> aws_code err = Some ''InvalidKeyPair.NotFound''
       | (None, w1) \<Rightarrow> fst (env_delete_key_pair E cfg name w1) = None)) \<and>
   snd (DeleteKeyPair E (Some cfg) name w) =
      (case env_describe_key_pairs E cfg [name] w of
         (Some err, w1) \<Rightarrow> w1
       | (None, w1) \<Rightarrow> snd (env_delete_key_pair E cfg name w1)) \<and>
   (fst (DeleteSecurityGroup E (Some cfg) name w) = Returns None \<longleftrightarrow>
      (case env_describe_security_groups E cfg [name] w of
         (Some err, w1) \<Rightarrow> aws_code err = Some ''InvalidGroup.NotFound''
       | (None, w1) \<Rightarrow> fst (env_delete_security_group E cfg name w1) = None)) \<and>
   snd (DeleteSecurityGroup E (Some cfg) name w) =
      (case env_describe_security_groups E cfg [name] w of
         (Some err, w1) \<Rightarrow> w1
       | (None, w1) \<Rightarrow> snd (env_delete_security_group E cfg name w1))"
  by (auto simp: DeleteKeyPair_def DeleteSecurityGroup_def go_laws split: option.splits prod.splits)

end
