(* ===== verification/Packer_Job.thy ===== *)
theory Packer_Job
  imports Packer_Manager
begin

text \<open>
  \<open>pkg/manager_packer/job.go\<close> and the write that ends \<open>ConstructCommand\<close> of \<open>command.go\<close>: the job
  that runs a build, and the count of the failed jobs of a builder.
\<close>

section \<open>The command\<close>

definition ConstructCommand ::
  "'w env \<Rightarrow> manager_packer \<Rightarrow> packer_builder \<Rightarrow> ('w, go_error option \<times> packer_builder) go" where
  "ConstructCommand E m pb =
     go_bind (go_call (env_map_order E)) (\<lambda>order.
     go_bind (go_deref (construct_command order pb)) (\<lambda>pb'.
     go_bind (go_deref m) (\<lambda>cfg.
     go_bind (go_call (Status_Update E (pb_ops E) pb')) (\<lambda>err. go_return (err, pb')))))"

section \<open>The job\<close>

definition WorkingDir :: bytes where "WorkingDir = ''ami-builder''"
definition WorkingDirRoot :: bytes where "WorkingDirRoot = ''workspace''"

definition init_env_vars :: "packer_builder \<Rightarrow> env_var list" where
  "init_env_vars pb =
     [EnvValue ''GITSYNC_ROOT'' (''/'' @ WorkingDirRoot),
      EnvValue ''GITSYNC_LINK'' (''/'' @ WorkingDirRoot @ ''/'' @ WorkingDir),
      EnvValue ''GITSYNC_REPO'' (bld_RepoURL (sp_Builder (pb_Spec pb))),
      EnvValue ''GITSYNC_REF'' (bld_Branch (sp_Builder (pb_Spec pb))),
      EnvValue ''GITSYNC_ONE_TIME'' ''true'',
      EnvValue ''GITSYNC_WAIT'' ''30'',
      EnvValue ''GITSYNC_DEPTH'' ''1'',
      EnvValue ''GITSYNC_VERBOSE'' ''2'']"

definition git_sync_secret_env :: "packer_builder \<Rightarrow> env_var list" where
  "git_sync_secret_env pb =
     (let s = gs_Secret (sp_GitSync (pb_Spec pb))
      in if s \<noteq> ''''
         then [EnvFromSecret ''GITSYNC_USERNAME'' s ''username'',
               EnvFromSecret ''GITSYNC_PASSWORD'' s ''token'']
         else [])"

definition job_labels :: "packer_builder \<Rightarrow> (bytes \<times> bytes) list" where
  "job_labels pb =
     [(''brought-to-you-by'', ''opsy-the-ami-operator''),
      (''job-name'', st_JobName (pb_Status pb)),
      (''created-by'', pb_Name pb),
      (''cluster'', sp_ClusterName (pb_Spec pb)),
      (''job-id'', st_JobID (pb_Status pb))]"

definition new_job_state :: job_state where
  "new_job_state = \<lparr>js_Succeeded = 0, js_Failed = 0, js_Conditions = []\<rparr>"

text \<open>The job literal, for the variables of the packer container.\<close>

definition build_job :: "packer_builder \<Rightarrow> env_var list \<Rightarrow> job" where
  "build_job pb envVars =
     \<lparr>job_Name = st_JobName (pb_Status pb), job_Namespace = pb_Namespace pb,
      job_Labels = job_labels pb, job_Owner = None,
      job_PodReplacementPolicy = ''Failed'', job_TTLSecondsAfterFinished = 900,
      job_Completions = 1, job_BackoffLimit = 0,
      job_TemplateLabels = job_labels pb, job_RestartPolicy = ''Never'',
      job_ServiceAccountName = bld_JobServiceAccountName (sp_Builder (pb_Spec pb)),
      job_InitContainers =
        [\<lparr>co_Name = gs_Name (sp_GitSync (pb_Spec pb)), co_Image = gs_Image (sp_GitSync (pb_Spec pb)),
          co_Env = init_env_vars pb @ git_sync_secret_env pb, co_Command = [], co_Args = [],
          co_WorkingDir = '''', co_VolumeMounts = [(WorkingDirRoot, ''/'' @ WorkingDirRoot)],
          co_PreStop = []\<rparr>],
      job_Containers =
        [\<lparr>co_Name = ''packer-runner'', co_Image = bld_Image (sp_Builder (pb_Spec pb)),
          co_Env = envVars, co_Command = [''sh'', ''-c''],
          co_Args = [''echo '' @ quote1 @ ''Executing command:'' @ quote1 @ '' && echo '' @ quote1 @
            st_Command (pb_Status pb) @ quote1 @ '' && '' @ st_Command (pb_Status pb)],
          co_WorkingDir = ''/'' @ WorkingDirRoot @ ''/'' @ WorkingDir,
          co_VolumeMounts = [(WorkingDirRoot, ''/'' @ WorkingDirRoot)],
          co_PreStop = [''/bin/sh'', ''-c'', ''kill -TERM 1'']\<rparr>],
      job_Volumes = [WorkingDirRoot], job_State = new_job_state\<rparr>"

definition debug_env :: "packer_builder \<Rightarrow> env_var list" where
  "debug_env pb =
     (if bld_Debug (sp_Builder (pb_Spec pb))
      then [EnvValue ''PACKER_LOG'' ''1'', EnvValue ''AWS_SDK_GO_V2'' ''debug''] else [])"

definition Job ::
  "'w env \<Rightarrow> manager_packer \<Rightarrow> packer_builder \<Rightarrow> ('w, (go_error + job) \<times> packer_builder) go" where
  "Job E m pb0 =
     (let pb = set_builder (\<lambda>b. b\<lparr>bld_Debug := True\<rparr>) pb0;
          secretName = bld_Secret (sp_Builder (pb_Spec pb))
      in if secretName \<noteq> ''''
         then
           go_bind (go_deref m) (\<lambda>cfg.
           go_bind (go_call (env_get_secret E (pb_Namespace pb, secretName))) (\<lambda>answer.
           case answer of
             Inl err \<Rightarrow> go_return (Inl err, pb)
           | Inr data \<Rightarrow>
               go_bind (go_call (env_map_order E)) (\<lambda>order.
                 go_return (Inr (build_job pb (debug_env pb @
                   map (\<lambda>(key, v). EnvFromSecret key secretName key) (order data))), pb))))
         else go_return (Inr (build_job pb (debug_env pb)), pb))"

section \<open>Counting failed jobs\<close>

fun failed_count :: "int32 \<Rightarrow> job list \<Rightarrow> int32" where
  "failed_count n [] = n"
| "failed_count n (j # js) =
     (if 0 < sint (js_Failed (job_State j)) then failed_count (n + 1) js else failed_count n js)"

text \<open>
  The comparison of the stored pointer with the address of a local variable always differs, so the
  status is always written.
\<close>

definition UpdateFailedJobCount ::
  "'w env \<Rightarrow> packer_builder \<Rightarrow> ('w, go_error option \<times> packer_builder) call" where
  "UpdateFailedJobCount E pb w =
     (case env_list_jobs E (pb_Namespace pb)
        [(''brought-to-you-by'', ''opsy-the-ami-operator''), (''packer-builder'', pb_Name pb)] w of
        (Inl err, w1) \<Rightarrow> ((Some err, pb), w1)
      | (Inr items, w1) \<Rightarrow>
          (let pb' = set_status (\<lambda>s. s\<lparr>st_FailedJobCount := Some (failed_count 0 items)\<rparr>) pb;
               (err, w2) = Status_Update E (pb_ops E) pb' w1
           in ((err, pb'), w2)))"

section \<open>Properties\<close>

lemma construct_command_total: "\<exists>pb'. construct_command order pb = Some pb'"
  by (simp add: construct_command_def ensureDefaultCommands_eq)

lemma build_job_simps [simp]:
  "job_Name (build_job pb e) = st_JobName (pb_Status pb)" "job_Namespace (build_job pb e) = pb_Namespace pb"
  "job_Labels (build_job pb e) = job_labels pb" "job_State (build_job pb e) = new_job_state"
  by (simp_all add: build_job_def)

lemma Job_cases:
  assumes "fst (Job E m pb w) = Returns (Inr j, pb')"
  shows "pb' = set_builder (\<lambda>b. b\<lparr>bld_Debug := True\<rparr>) pb \<and>
     (\<exists>data :: (bytes \<times> bytes) list. j = build_job pb' (debug_env pb' @
        map (\<lambda>(key, v). EnvFromSecret key (bld_Secret (sp_Builder (pb_Spec pb))) key) data))"
proof (cases "bld_Secret (sp_Builder (pb_Spec pb)) = ''''")
  case True
  then show ?thesis
    using assms by (auto simp: Job_def Let_def go_laws intro!: exI [of _ "[]"])
next
  case False
  then show ?thesis
    using assms by (auto simp: Job_def Let_def go_laws go_deref_def
        split: sum.splits outcome.splits option.splits)
qed

lemma debug_env_vars:
  "v \<in> set (debug_env pb) \<Longrightarrow> v \<in> {EnvValue ''PACKER_LOG'' ''1'', EnvValue ''AWS_SDK_GO_V2'' ''debug''}"
  by (simp add: debug_env_def split: if_splits)

text \<open>
  A job that \<open>Job\<close> returns is the build of its builder: it has the builder's job name and
  namespace, one attempt and one completion, an unfinished state, and one container whose shell
  command first echoes and then runs the builder's command. Its labels are selected by the list of
  the active build check and never by the list of the failed job count, which asks for a label
  \<open>packer-builder\<close> that no job carries.
\<close>

theorem job_is_build:
  assumes "fst (Job E m pb w) = Returns (Inr j, pb')"
  shows "job_Name j = st_JobName (pb_Status pb) \<and> job_Namespace j = pb_Namespace pb \<and>
    job_BackoffLimit j = 0 \<and> job_Completions j = 1 \<and> job_RestartPolicy j = ''Never'' \<and>
    \<not> job_finished j \<and>
    (\<exists>c. job_Containers j = [c] \<and> co_Command c = [''sh'', ''-c''] \<and>
       (\<exists>p. co_Args c = [p @ '' && '' @ st_Command (pb_Status pb)])) \<and>
    set [(''created-by'', pb_Name pb)] \<subseteq> set (job_Labels j) \<and>
    \<not> set [(''brought-to-you-by'', ''opsy-the-ami-operator''), (''packer-builder'', pb_Name pb)]
        \<subseteq> set (job_Labels j)"
proof -
  from Job_cases [OF assms] obtain vars where j: "j = build_job pb' vars"
    and pb': "pb' = set_builder (\<lambda>b. b\<lparr>bld_Debug := True\<rparr>) pb" by blast
  have "co_Args (hd (job_Containers j)) =
      [(''echo '' @ quote1 @ ''Executing command:'' @ quote1 @ '' && echo '' @ quote1 @
        st_Command (pb_Status pb) @ quote1) @ '' && '' @ st_Command (pb_Status pb)]"
    by (simp add: j pb' build_job_def)
  then have "\<exists>p. co_Args (hd (job_Containers j)) = [p @ '' && '' @ st_Command (pb_Status pb)]"
    by blast
  moreover have "job_BackoffLimit j = 0 \<and> job_Completions j = 1 \<and> job_RestartPolicy j = ''Never'' \<and>
      (\<exists>c. job_Containers j = [c] \<and> co_Command c = [''sh'', ''-c''])"
    by (simp add: j build_job_def)
  ultimately show ?thesis
    by (auto simp: j pb' job_labels_def job_finished_def new_job_state_def)
qed

definition with_secret :: "packer_builder \<Rightarrow> packer_builder" where
  "with_secret = set_builder (\<lambda>b. b\<lparr>bld_Secret := ''aws''\<rparr>)"

definition secret_world :: "(bytes \<times> bytes) list \<Rightarrow> sim" where
  "secret_world data = (example_world [])\<lparr>sim_secrets := [((''ns'', ''aws''), data)]\<rparr>"

lemma example_job:
  "\<exists>j pb'. fst (Job sim_env (Some ''us-west-2'') (with_secret example_pb) (secret_world data)) =
     Returns (Inr j, pb')"
  by (simp add: Job_def with_secret_def Let_def go_laws sim_run secret_world_def example_pb_def
      example_world_def sim_start_def)

theorem job_is_build_witness:
  "\<exists>j pb'. fst (Job sim_env (Some ''us-west-2'') (with_secret example_pb) (secret_world [(''K'', ''v'')])) =
     Returns (Inr j, pb') \<and> job_BackoffLimit j = 0"
proof -
  obtain j pb' where run: "fst (Job sim_env (Some ''us-west-2'') (with_secret example_pb)
      (secret_world [(''K'', ''v'')])) = Returns (Inr j, pb')"
    using example_job by blast
  with job_is_build [OF run] show ?thesis by blast
qed

text \<open>
  C25. No value of a secret enters a job: the packer container's variables are the two fixed debugging
  variables and references to a key of the builder's secret, whatever the secret holds, and the
  init container's are the fixed ones of git-sync and references to the git-sync secret.
\<close>

theorem job_holds_no_secret:
  assumes "fst (Job E m pb w) = Returns (Inr j, pb')"
  shows "(\<forall>c \<in> set (job_Containers j). \<forall>v \<in> set (co_Env c).
      v \<in> {EnvValue ''PACKER_LOG'' ''1'', EnvValue ''AWS_SDK_GO_V2'' ''debug''} \<or>
      (\<exists>key. v = EnvFromSecret key (bld_Secret (sp_Builder (pb_Spec pb))) key)) \<and>
    (\<forall>c \<in> set (job_InitContainers j). \<forall>v \<in> set (co_Env c).
      v \<in> set (init_env_vars pb) \<or>
      (\<exists>name key. v = EnvFromSecret name (gs_Secret (sp_GitSync (pb_Spec pb))) key))"
proof -
  from Job_cases [OF assms] obtain data :: "(bytes \<times> bytes) list" where
    pb': "pb' = set_builder (\<lambda>b. b\<lparr>bld_Debug := True\<rparr>) pb" and
    j: "j = build_job pb' (debug_env pb' @
        map (\<lambda>(key, v). EnvFromSecret key (bld_Secret (sp_Builder (pb_Spec pb))) key) data)"
    by blast
  have "\<forall>c \<in> set (job_Containers j). \<forall>v \<in> set (co_Env c).
      v \<in> {EnvValue ''PACKER_LOG'' ''1'', EnvValue ''AWS_SDK_GO_V2'' ''debug''} \<or>
      (\<exists>key. v = EnvFromSecret key (bld_Secret (sp_Builder (pb_Spec pb))) key)"
    using debug_env_vars [of _ pb'] by (auto simp: j build_job_def)
  moreover have "init_env_vars pb' = init_env_vars pb" "git_sync_secret_env pb' = git_sync_secret_env pb"
    by (simp_all add: pb' init_env_vars_def git_sync_secret_env_def)
  moreover have "\<forall>v \<in> set (git_sync_secret_env pb).
      \<exists>name key. v = EnvFromSecret name (gs_Secret (sp_GitSync (pb_Spec pb))) key"
    by (auto simp: git_sync_secret_env_def Let_def)
  ultimately show ?thesis
    by (simp add: j build_job_def) blast
qed

theorem job_holds_no_secret_witness:
  "\<exists>j pb'. fst (Job sim_env (Some ''us-west-2'') (with_secret example_pb) (secret_world [(''K'', ''v'')])) =
     Returns (Inr j, pb') \<and>
    (\<forall>c \<in> set (job_Containers j). EnvValue ''K'' ''v'' \<notin> set (co_Env c))"
proof -
  obtain j pb' where run: "fst (Job sim_env (Some ''us-west-2'') (with_secret example_pb)
      (secret_world [(''K'', ''v'')])) = Returns (Inr j, pb')"
    using example_job by blast
  have "EnvValue ''K'' ''v'' \<notin> set (co_Env c)" if "c \<in> set (job_Containers j)" for c
    using job_holds_no_secret [OF run] that by auto
  with run show ?thesis by blast
qed

lemma failed_count_eq:
  "failed_count n js = n + word_of_nat (length (filter (\<lambda>j. 0 < sint (js_Failed (job_State j))) js))"
  by (induction n js rule: failed_count.induct) simp_all

text \<open>
  C40. The failed job count is the number of listed jobs with a failed pod, as a signed 32-bit number,
  for lists below the wrap-around; and it is always written to the status when the list succeeds.
\<close>

theorem failed_job_count:
  assumes "fst (env_list_jobs E (pb_Namespace pb) [(''brought-to-you-by'', ''opsy-the-ami-operator''),
      (''packer-builder'', pb_Name pb)] w) = Inr items"
    and "length items < 2 ^ 31"
  shows "\<exists>n. st_FailedJobCount (pb_Status (snd (fst (UpdateFailedJobCount E pb w)))) = Some n \<and>
    sint n = int (length (filter (\<lambda>j. 0 < sint (js_Failed (job_State j))) items))"
proof -
  let ?k = "length (filter (\<lambda>j. 0 < sint (js_Failed (job_State j))) items)"
  have "?k < 2 ^ 31" using assms(2) length_filter_le le_less_trans by blast
  then have "sint (word_of_nat ?k :: int32) = int ?k"
    by (simp add: signed_of_nat signed_take_bit_int_eq_self)
  then show ?thesis
    using assms(1) by (auto simp: UpdateFailedJobCount_def Let_def failed_count_eq split: prod.splits sum.splits)
qed

theorem failed_job_count_witness:
  "\<exists>n. st_FailedJobCount (pb_Status (snd (fst (UpdateFailedJobCount sim_env example_pb (example_world []))))) =
     Some n \<and> sint n = 0"
  using failed_job_count [of sim_env example_pb "example_world []" "[]"]
  by (simp add: sim_run example_world_def sim_start_def)

end
