(* ===== verification/Log_Stream.thy ===== *)
theory Log_Stream
  imports Packer_Manager
begin

text \<open>
  \<open>pkg/manager_packer/logstream.go\<close> and the patterns of \<open>pkg/config\<close>: the lines of the build's log
  are searched for the base image, the built image, the security group and the key pair; when all
  four have been seen, the new image is tagged and the older ones are deprecated.
\<close>

section \<open>Patterns\<close>

text \<open>
  The four regular expressions are sequences of single characters, classes, one repetition
  \<open>+\<close> of a class and fixed repetitions. In each of them the class that is repeated by \<open>+\<close> excludes
  the character that follows, so the leftmost match is found by scanning greedily from each
  position. \<open>Group\<close> encloses the first capture group, the only one the code reads.
\<close>

datatype pattern_item =
    Lit bytes
  | Space
  | Spaces
  | Alnums
  | Hex nat
  | Group "pattern_item list"

definition is_space :: "char \<Rightarrow> bool" where
  "is_space c \<longleftrightarrow> (of_char c :: nat) \<in> set [9, 10, 12, 13, 32]"

definition is_alnum :: "char \<Rightarrow> bool" where
  "is_alnum c =
     (let n = of_char c :: nat
      in (48 \<le> n \<and> n \<le> 57) \<or> (65 \<le> n \<and> n \<le> 90) \<or> (97 \<le> n \<and> n \<le> 122))"

definition is_hex :: "char \<Rightarrow> bool" where
  "is_hex c = (let n = of_char c :: nat in (48 \<le> n \<and> n \<le> 57) \<or> (97 \<le> n \<and> n \<le> 102))"

text \<open>One or more characters of a class, as many as there are.\<close>

definition match_plus :: "(char \<Rightarrow> bool) \<Rightarrow> bytes \<Rightarrow> (bytes \<times> bytes) option" where
  "match_plus p s =
     (if takeWhile p s = [] then None else Some (takeWhile p s, dropWhile p s))"

definition match_times :: "(char \<Rightarrow> bool) \<Rightarrow> nat \<Rightarrow> bytes \<Rightarrow> (bytes \<times> bytes) option" where
  "match_times p n s =
     (if n \<le> length s \<and> list_all p (take n s) then Some (take n s, drop n s) else None)"

text \<open>An item outside a group at the start of a string: the text matched and the rest.\<close>

fun match_item :: "pattern_item \<Rightarrow> bytes \<Rightarrow> (bytes \<times> bytes) option" where
  "match_item (Lit l) s = (if has_prefix s l then Some (l, drop (length l) s) else None)"
| "match_item Space s = match_times is_space 1 s"
| "match_item Spaces s = match_plus is_space s"
| "match_item Alnums s = match_plus is_alnum s"
| "match_item (Hex n) s = match_times is_hex n s"
| "match_item (Group ps) s = None"

fun match_seq :: "pattern_item list \<Rightarrow> bytes \<Rightarrow> (bytes \<times> bytes) option" where
  "match_seq [] s = Some ([], s)"
| "match_seq (p # ps) s =
     (case match_item p s of
        None \<Rightarrow> None
      | Some (m, s1) \<Rightarrow>
          (case match_seq ps s1 of None \<Rightarrow> None | Some (m', s2) \<Rightarrow> Some (m @ m', s2)))"

text \<open>A whole pattern, one group at the top level; the value is the group's text.\<close>

fun match_here :: "pattern_item list \<Rightarrow> bytes \<Rightarrow> bytes option" where
  "match_here [] s = None"
| "match_here (Group g # ps) s =
     (case match_seq g s of
        None \<Rightarrow> None
      | Some (m, s1) \<Rightarrow> (case match_seq ps s1 of None \<Rightarrow> None | Some r \<Rightarrow> Some m))"
| "match_here (p # ps) s =
     (case match_item p s of None \<Rightarrow> None | Some (m, s1) \<Rightarrow> match_here ps s1)"

text \<open>\<open>FindStringSubmatch(line)[1]\<close>; \<open>None\<close> where \<open>MatchString\<close> is false.\<close>

fun find_submatch :: "pattern_item list \<Rightarrow> bytes \<Rightarrow> bytes option" where
  "find_submatch p [] = match_here p []"
| "find_submatch p (c # cs) =
     (case match_here p (c # cs) of Some m \<Rightarrow> Some m | None \<Rightarrow> find_submatch p cs)"

definition BaseAMIPattern :: "pattern_item list" where
  "BaseAMIPattern = [Lit ''Found'', Space, Lit ''Image'', Space, Lit ''ID:'', Spaces,
     Group [Lit ''ami-'', Alnums]]"

definition KeyPairPattern :: "pattern_item list" where
  "KeyPairPattern = [Lit ''Creating'', Space, Lit ''temporary'', Space, Lit ''keypair:'', Space,
     Group [Lit ''packer_'', Hex 8, Lit ''-'', Hex 4, Lit ''-'', Hex 4, Lit ''-'', Hex 4, Lit ''-'',
       Hex 12]]"

definition LastestAMIPattern :: "pattern_item list" where
  "LastestAMIPattern = [Lit ''AMI:'', Spaces, Group [Lit ''ami-'', Alnums]]"

definition SecurityGroupPattern :: "pattern_item list" where
  "SecurityGroupPattern = [Lit ''Found'', Space, Lit ''security'', Space, Lit ''group'', Space,
     Group [Lit ''sg-'', Hex 17]]"

section \<open>Lines\<close>

text \<open>A \<open>RegExsy\<close>: its name stands for the status field its closure sets.\<close>

datatype log_field = BaseAMIID | LatestAMIID | SecurityGroupID | KeyPair

record reg_ex =
  re_Name :: log_field
  re_Pattern :: "pattern_item list"
  re_Found :: bool

fun status_field :: "log_field \<Rightarrow> bytes \<Rightarrow> packer_builder_status \<Rightarrow> packer_builder_status" where
  "status_field BaseAMIID v s = s\<lparr>st_LastRunBaseImageID := v\<rparr>"
| "status_field LatestAMIID v s = s\<lparr>st_LastRunBuiltImageID := v\<rparr>"
| "status_field SecurityGroupID v s = s\<lparr>st_LastRunSecurityGroupID := v\<rparr>"
| "status_field KeyPair v s = s\<lparr>st_LastRunKeyPair := v\<rparr>"

definition getLogPatterns :: "reg_ex list" where
  "getLogPatterns =
     [\<lparr>re_Name = BaseAMIID, re_Pattern = BaseAMIPattern, re_Found = False\<rparr>,
      \<lparr>re_Name = LatestAMIID, re_Pattern = LastestAMIPattern, re_Found = False\<rparr>,
      \<lparr>re_Name = SecurityGroupID, re_Pattern = SecurityGroupPattern, re_Found = False\<rparr>,
      \<lparr>re_Name = KeyPair, re_Pattern = KeyPairPattern, re_Found = False\<rparr>]"

text \<open>The loop over the patterns: their flags and the builder's status after it.\<close>

fun scan_patterns ::
  "bytes \<Rightarrow> reg_ex list \<Rightarrow> packer_builder_status \<Rightarrow> reg_ex list \<times> packer_builder_status" where
  "scan_patterns line [] s = ([], s)"
| "scan_patterns line (p # ps) s =
     (let (p', s') =
        (if re_Found p then (p, s)
         else case find_submatch (re_Pattern p) line of
             None \<Rightarrow> (p, s)
           | Some m \<Rightarrow> (p\<lparr>re_Found := True\<rparr>, status_field (re_Name p) m s));
        (ps', s'') = scan_patterns line ps s'
      in (p' # ps', s''))"

definition processLogLine ::
  "'w env \<Rightarrow> manager_packer \<Rightarrow> bytes \<Rightarrow> reg_ex list \<Rightarrow> packer_builder \<Rightarrow>
   ('w, bool \<times> reg_ex list \<times> packer_builder) go" where
  "processLogLine E m line patterns pb =
     (let (patterns', s) = scan_patterns line patterns (pb_Status pb);
          pb' = set_status (\<lambda>x. s) pb
      in if list_all re_Found patterns'
         then go_bind (handleAMIUpdates E m pb') (\<lambda>amiUpdateResult.
                go_return (res_Success amiUpdateResult, patterns', pb'))
         else go_return (False, patterns', pb'))"

text \<open>
  What a log stream gives the scanner: its lines, each with the error of the context at the moment the
  line is taken (none while the context lives), then the scanner's error and the context's at the end.
\<close>

record log_stream =
  ls_Lines :: "(go_error option \<times> bytes) list"
  ls_ScanErr :: "go_error option"
  ls_CtxErr :: "go_error option"

definition scan_end :: "go_error option \<Rightarrow> go_error option \<Rightarrow> go_error option" where
  "scan_end scan_err ctx_err =
     (case scan_err of
        None \<Rightarrow> None
      | Some ContextCanceled \<Rightarrow> ctx_err
      | Some DeadlineExceeded \<Rightarrow> None
      | Some err \<Rightarrow> Some err)"

text \<open>\<open>processLogStream\<close>: its error, with the builder as the lines have changed it.\<close>

fun process_lines ::
  "'w env \<Rightarrow> manager_packer \<Rightarrow> go_error option \<Rightarrow> (go_error option \<times> bytes) list \<Rightarrow> reg_ex list \<Rightarrow>
   packer_builder \<Rightarrow> ('w, go_error option \<times> packer_builder) go" where
  "process_lines E m fin [] patterns pb = go_return (fin, pb)"
| "process_lines E m fin ((ctx, line) # lines) patterns pb =
     (case ctx of
        Some err \<Rightarrow> go_return (Some err, pb)
      | None \<Rightarrow>
          go_bind (processLogLine E m line patterns pb) (\<lambda>(finished, patterns', pb').
            if finished then go_return (None, pb')
            else process_lines E m fin lines patterns' pb'))"

definition processLogStream ::
  "'w env \<Rightarrow> manager_packer \<Rightarrow> log_stream \<Rightarrow> packer_builder \<Rightarrow>
   ('w, go_error option \<times> packer_builder) go" where
  "processLogStream E m stream pb =
     process_lines E m (scan_end (ls_ScanErr stream) (ls_CtxErr stream)) (ls_Lines stream)
       getLogPatterns pb"

text \<open>\<open>StreamLogs\<close>, with the answer of the API server to the request for the pod's log.\<close>

definition StreamLogs ::
  "'w env \<Rightarrow> manager_packer \<Rightarrow> go_error + log_stream \<Rightarrow> packer_builder \<Rightarrow>
   ('w, go_error option \<times> packer_builder) go" where
  "StreamLogs E m opened pb =
     (case opened of
        Inl err \<Rightarrow> go_return (Some err, pb)
      | Inr stream \<Rightarrow> processLogStream E m stream pb)"

section \<open>What a pattern captures\<close>

lemma match_item_split: "match_item p s = Some (m, r) \<Longrightarrow> s = m @ r"
  by (cases p) (auto simp: match_times_def match_plus_def has_prefix_iff prefix_def split: if_splits)

lemma match_seq_split: "match_seq ps s = Some (m, r) \<Longrightarrow> s = m @ r"
proof (induction ps arbitrary: s m r)
  case Nil
  then show ?case by simp
next
  case (Cons p ps)
  then show ?case
    by (auto split: option.splits dest!: match_item_split)
qed

lemma sublist_end: "sublist m r \<Longrightarrow> sublist m (a @ r)"
  using sublist_append by blast

lemma match_here_group:
  "match_here ps s = Some m \<Longrightarrow> \<exists>g r r'. Group g \<in> set ps \<and> match_seq g r = Some (m, r') \<and> sublist m s"
proof (induction ps arbitrary: s)
  case Nil
  then show ?case by simp
next
  case (Cons p ps)
  show ?case
  proof (cases "\<exists>g. p = Group g")
    case True
    then obtain g where p: "p = Group g" by blast
    with Cons.prems obtain r' where g: "match_seq g s = Some (m, r')"
      by (auto split: option.splits)
    then have "sublist m s" using match_seq_split by fastforce
    with p g show ?thesis by auto
  next
    case False
    then have "match_here (p # ps) s =
        (case match_item p s of None \<Rightarrow> None | Some (x, s1) \<Rightarrow> match_here ps s1)"
      by (cases p) simp_all
    with Cons.prems obtain x s1 where "match_item p s = Some (x, s1)" "match_here ps s1 = Some m"
      by (auto split: option.splits)
    with Cons.IH [of s1] match_item_split [of p s x s1] show ?thesis
      using sublist_end by fastforce
  qed
qed

lemma find_submatch_group:
  "find_submatch ps s = Some m \<Longrightarrow> \<exists>g r r'. Group g \<in> set ps \<and> match_seq g r = Some (m, r') \<and> sublist m s"
proof (induction ps s rule: find_submatch.induct)
  case (1 p)
  then show ?case using match_here_group by fastforce
next
  case (2 p c cs)
  show ?case
  proof (cases "match_here p (c # cs)")
    case None
    with 2 show ?thesis by (simp add: sublist_Cons_right) blast
  next
    case (Some m')
    with 2(2) show ?thesis using match_here_group [of p "c # cs" m] by simp
  qed
qed

definition image_id :: "bytes \<Rightarrow> bool" where
  "image_id m \<longleftrightarrow> (\<exists>x. m = ''ami-'' @ x \<and> x \<noteq> '''' \<and> list_all is_alnum x)"

lemma takeWhile_all: "list_all p (takeWhile p s)"
  by (induction s) simp_all

lemma match_ami: "match_seq [Lit ''ami-'', Alnums] r = Some (m, r') \<Longrightarrow> image_id m"
  by (auto simp: image_id_def match_plus_def takeWhile_all split: option.splits if_splits)

text \<open>
  What the log stream takes for an image is one: every text the patterns of the base image and of
  the built image capture is a part of the line, starts with \<open>ami-\<close>, and goes on with at least one letter
  or digit and nothing else.
\<close>

theorem captured_image_ids:
  assumes "find_submatch p line = Some m" "p \<in> {BaseAMIPattern, LastestAMIPattern}"
  shows "image_id m \<and> sublist m line"
proof -
  from find_submatch_group [OF assms(1)] obtain g r r' where
    "Group g \<in> set p" "match_seq g r = Some (m, r')" "sublist m line" by blast
  moreover from this(1) assms(2) have "g = [Lit ''ami-'', Alnums]"
    by (auto simp: BaseAMIPattern_def LastestAMIPattern_def)
  ultimately show ?thesis using match_ami by blast
qed

definition sample_line :: bytes where
  "sample_line = ''==> amazon-ebs: Found Image ID: ami-0abc12''"

lemma sample_match: "find_submatch BaseAMIPattern sample_line = Some ''ami-0abc12''"
  by code_simp

theorem captured_image_ids_witness: "image_id ''ami-0abc12'' \<and> sublist ''ami-0abc12'' sample_line"
  using captured_image_ids [OF sample_match] by simp

section \<open>Nothing is tagged before everything is found\<close>

lemma scan_patterns_names:
  "map re_Pattern (fst (scan_patterns line ps s)) = map re_Pattern ps"
  by (induction line ps s rule: scan_patterns.induct)
    (auto simp: Let_def split_beta split: option.splits)

lemma scan_patterns_missing:
  assumes "p \<in> set ps" "\<not> re_Found p" "find_submatch (re_Pattern p) line = None"
  shows "p \<in> set (fst (scan_patterns line ps s))"
  using assms(1)
proof (induction ps arbitrary: s)
  case Nil
  then show ?case by simp
next
  case (Cons x ps)
  show ?case
  proof (cases "x = p")
    case True
    with assms(2,3) show ?thesis by (simp add: split_beta)
  next
    case False
    with Cons.prems have "p \<in> set ps" by simp
    with Cons.IH show ?thesis by (simp add: split_beta Let_def)
  qed
qed

lemma processLogLine_missing:
  assumes "p \<in> set ps" "\<not> re_Found p" "find_submatch (re_Pattern p) line = None"
  shows "\<exists>ps' pb'. processLogLine E m line ps pb w = (Returns (False, ps', pb'), w) \<and> p \<in> set ps'"
proof -
  let ?ps = "fst (scan_patterns line ps (pb_Status pb))"
  have p: "p \<in> set ?ps" using scan_patterns_missing [OF assms] .
  with assms(2) have "\<not> list_all re_Found ?ps" by (auto simp: list_all_iff)
  with p show ?thesis
    by (simp add: processLogLine_def Let_def split_beta go_return_def)
qed

lemma process_lines_missing:
  assumes "p \<in> set ps" "\<not> re_Found p" "\<forall>line \<in> set lines. find_submatch (re_Pattern p) (snd line) = None"
  shows "\<exists>err pb'. process_lines E m fin lines ps pb w = (Returns (err, pb'), w) \<and>
    (err = fin \<or> (\<exists>line \<in> set lines. fst line = err))"
  using assms
proof (induction lines arbitrary: ps pb)
  case Nil
  then show ?case by (simp add: go_return_def)
next
  case (Cons x lines)
  obtain ctx line where x: "x = (ctx, line)" by (cases x)
  show ?case
  proof (cases ctx)
    case (Some err)
    then show ?thesis by (auto simp: x go_return_def)
  next
    case None
    obtain ps' pb' where step: "processLogLine E m line ps pb w = (Returns (False, ps', pb'), w)"
      and p: "p \<in> set ps'"
      using processLogLine_missing [of p ps line E m pb w] Cons.prems x by auto
    moreover obtain err pb'' where "process_lines E m fin lines ps' pb' w = (Returns (err, pb''), w)"
      "err = fin \<or> (\<exists>line \<in> set lines. fst line = err)"
      using Cons.IH [OF p, of pb'] Cons.prems by auto
    ultimately show ?thesis using None by (auto simp: x go_bind_run)
  qed
qed

text \<open>
  A log that lacks one of the four values tags nothing: when no line of the stream matches one of the
  patterns, for instance because the build uses an existing key pair, the stream ends without a call,
  so the built image gets no tags and no older image is deprecated. It ends without an error unless
  the scanner or the context reports one.
\<close>

theorem missing_value_tags_nothing:
  assumes "p \<in> set getLogPatterns"
    and "\<forall>line \<in> set (ls_Lines stream). find_submatch (re_Pattern p) (snd line) = None"
  shows "\<exists>err pb'. StreamLogs E m (Inr stream) pb w = (Returns (err, pb'), w) \<and>
    (err = scan_end (ls_ScanErr stream) (ls_CtxErr stream) \<or> (\<exists>line \<in> set (ls_Lines stream). fst line = err))"
proof -
  have "\<not> re_Found p" using assms(1) by (auto simp: getLogPatterns_def)
  from process_lines_missing [OF assms(1) this assms(2)]
  show ?thesis by (simp add: StreamLogs_def processLogStream_def)
qed

theorem missing_value_tags_nothing_witness:
  "\<exists>pb'. StreamLogs sim_env (Some ''us-west-2'')
     (Inr \<lparr>ls_Lines = [(None, sample_line)], ls_ScanErr = Some DeadlineExceeded, ls_CtxErr = None\<rparr>)
     example_pb (example_world []) = (Returns (None, pb'), example_world [])"
proof -
  let ?p = "\<lparr>re_Name = KeyPair, re_Pattern = KeyPairPattern, re_Found = False\<rparr>"
  let ?s = "\<lparr>ls_Lines = [(None, sample_line)], ls_ScanErr = Some DeadlineExceeded, ls_CtxErr = None\<rparr>"
  have "?p \<in> set getLogPatterns" by (simp add: getLogPatterns_def)
  moreover have "find_submatch (re_Pattern ?p) sample_line = None" by code_simp
  then have "\<forall>line \<in> set (ls_Lines ?s). find_submatch (re_Pattern ?p) (snd line) = None" by simp
  ultimately have "\<exists>err pb'. StreamLogs sim_env (Some ''us-west-2'') (Inr ?s) example_pb (example_world []) =
      (Returns (err, pb'), example_world []) \<and>
      (err = scan_end (ls_ScanErr ?s) (ls_CtxErr ?s) \<or> (\<exists>line \<in> set (ls_Lines ?s). fst line = err))"
    by (rule missing_value_tags_nothing)
  then show ?thesis by (auto simp: scan_end_def)
qed

end
