(* ===== verification/Notifier.thy ===== *)
theory Notifier
  imports Simulation
begin

text \<open>
  \<open>pkg/events/events.go\<close> and \<open>pkg/notifier/slack.go\<close>: the event the packer controller records and the
  message it posts on a state change.
\<close>

section \<open>Events\<close>

text \<open>The mutex makes each call of the recorder one step.\<close>

definition RecordEvent ::
  "'w env \<Rightarrow> object_key \<Rightarrow> bytes \<Rightarrow> bytes \<Rightarrow> bytes \<Rightarrow> ('w, unit) call" where
  "RecordEvent E object eventtype reason message = env_record_event E object eventtype reason message"

definition RecordNormalEvent :: "'w env \<Rightarrow> object_key \<Rightarrow> bytes \<Rightarrow> bytes \<Rightarrow> ('w, unit) call" where
  "RecordNormalEvent E object reason message = RecordEvent E object ''Normal'' reason message"

definition RecordWarningEvent :: "'w env \<Rightarrow> object_key \<Rightarrow> bytes \<Rightarrow> bytes \<Rightarrow> ('w, unit) call" where
  "RecordWarningEvent E object reason message = RecordEvent E object ''Warning'' reason message"

lemma RecordNormalEvent_sim [simp]: "RecordNormalEvent sim_env object reason message w = ((), w)"
  by (simp add: RecordNormalEvent_def RecordEvent_def sim_calls)

section \<open>Slack\<close>

record slack_message =
  msg_Name :: bytes
  msg_LatestBaseAMI :: bytes
  msg_LatestBuiltAMI :: bytes
  msg_Message :: bytes
  msg_Status :: bytes

definition newline :: bytes where
  "newline = [char_of (10 :: nat)]"

definition slack_color :: "bytes \<Rightarrow> bytes" where
  "slack_color s =
     (if s = ''Success'' then ''#36a64f''
      else if s = ''Failure'' then ''#ff0000''
      else ''#f2c744'')"

text \<open>The texts of the blocks in their order; the dividers carry none.\<close>

definition slack_blocks :: "bytes \<Rightarrow> slack_message \<Rightarrow> bytes list" where
  "slack_blocks subject m =
     [subject,
      '':gear: *Builder:* '' @ msg_Name m,
      ''*Status:* '' @ msg_Status m,
      ''*Base AMI:*'' @ newline @ msg_LatestBaseAMI m,
      ''*Built AMI:*'' @ newline @ msg_LatestBuiltAMI m,
      ''*Details:*'' @ newline @ msg_Message m]"

text \<open>\<open>NewSlackService(token, channel).Send(ctx, subject, m)\<close>.\<close>

definition Slack_Send ::
  "'w env \<Rightarrow> bytes \<Rightarrow> bytes \<Rightarrow> bytes \<Rightarrow> slack_message \<Rightarrow> ('w, go_error option) call" where
  "Slack_Send E token channel subject m =
     env_slack_post E
       \<lparr>po_Token = token, po_Channel = channel, po_Text = subject,
        po_Blocks = slack_blocks subject m, po_Color = slack_color (msg_Status m)\<rparr>"

end
