(* ===== verification/Opsy_Runner.thy ===== *)
theory Opsy_Runner
  imports Api_Types
begin

text \<open>
  \<open>pkg/opsy\<close>: the in-memory state machine that both decides which handler a reconciliation runs
  and refuses transitions that are not in its table. One runner is shared by all builders and is
  keyed by the build identifier; a mutex makes every call atomic, so concurrent reconciliations are
  sequences of calls. The locale \<open>tracker\<close> states what the controller relies on; it is interpreted
  on the code's operations.
\<close>

section \<open>The runner\<close>

record opsy_runner =
  run_states :: "bytes \<rightharpoonup> pb_state"
  run_transitions :: "pb_state \<rightharpoonup> pb_state list"

definition opsy_New :: opsy_runner where
  "opsy_New =
     \<lparr>run_states = Map.empty,
      run_transitions = map_of
        [(StateInitial, [StateInitial, StateFlightChecks, StateError, StateJobRunning,
            StateJobCompleted, StateJobCreation]),
         (StateFlightChecks, [StateInitial, StateJobCreation, StateJobRunning, StateError]),
         (StateJobCreation, [StateInitial, StateJobRunning, StateError]),
         (StateJobRunning, [StateInitial, StateJobCompleted, StateJobFailed, StateError]),
         (StateJobCompleted, [StateInitial, StateAMICreated, StateError]),
         (StateJobFailed, [StateInitial, StateError]),
         (StateAMICreated, [StateInitial]),
         (StateError, [StateInitial, StateError])]\<rparr>"

fun state_listed :: "pb_state list \<Rightarrow> pb_state \<Rightarrow> bool" where
  "state_listed [] s = False"
| "state_listed (x # xs) s = (x = s \<or> state_listed xs s)"

definition isValidTransition :: "opsy_runner \<Rightarrow> pb_state \<Rightarrow> pb_state \<Rightarrow> bool" where
  "isValidTransition r currentState newState =
     (case run_transitions r currentState of
        None \<Rightarrow> False
      | Some validStates \<Rightarrow> state_listed validStates newState)"

definition GetCurrentState :: "opsy_runner \<Rightarrow> bytes \<Rightarrow> pb_state" where
  "GetCurrentState r i = (case run_states r i of None \<Rightarrow> StateInitial | Some s \<Rightarrow> s)"

definition SetState :: "bytes \<Rightarrow> pb_state \<Rightarrow> opsy_runner \<Rightarrow> go_error option \<times> opsy_runner" where
  "SetState i s r =
     (let currentState = (case run_states r i of None \<Rightarrow> StateInitial | Some c \<Rightarrow> c)
      in if isValidTransition r currentState s
         then (None, r\<lparr>run_states := (run_states r)(i \<mapsto> s)\<rparr>)
         else (Some (ErrorString (''invalid state transition from '' @ state_text currentState @
                '' to '' @ state_text s @ '' for id '' @ i)), r))"

definition DefaultState :: "bytes \<Rightarrow> opsy_runner \<Rightarrow> opsy_runner" where
  "DefaultState i r = r\<lparr>run_states := (run_states r)(i \<mapsto> StateInitial)\<rparr>"

section \<open>The transition graph\<close>

text \<open>The table as a relation; no operation changes it.\<close>

definition opsy_edge :: "pb_state \<Rightarrow> pb_state \<Rightarrow> bool" where
  "opsy_edge a b = isValidTransition opsy_New a b"

definition runner_wf :: "opsy_runner \<Rightarrow> bool" where
  "runner_wf r \<longleftrightarrow> run_transitions r = run_transitions opsy_New"

lemma opsy_edge_iff:
  "opsy_edge a b \<longleftrightarrow>
     (a = StateInitial \<and> b \<in> {StateInitial, StateFlightChecks, StateError, StateJobRunning,
        StateJobCompleted, StateJobCreation}) \<or>
     (a = StateFlightChecks \<and> b \<in> {StateInitial, StateJobCreation, StateJobRunning, StateError}) \<or>
     (a = StateJobCreation \<and> b \<in> {StateInitial, StateJobRunning, StateError}) \<or>
     (a = StateJobRunning \<and> b \<in> {StateInitial, StateJobCompleted, StateJobFailed, StateError}) \<or>
     (a = StateJobCompleted \<and> b \<in> {StateInitial, StateAMICreated, StateError}) \<or>
     (a = StateJobFailed \<and> b \<in> {StateInitial, StateError}) \<or>
     (a = StateAMICreated \<and> b = StateInitial) \<or>
     (a = StateError \<and> b \<in> {StateInitial, StateError})"
  by (cases a) (auto simp: opsy_edge_def isValidTransition_def opsy_New_def)

lemma isValidTransition_wf: "runner_wf r \<Longrightarrow> isValidTransition r = opsy_edge"
  by (intro ext) (simp add: runner_wf_def opsy_edge_def isValidTransition_def)

lemma runner_wf_upd [simp]: "runner_wf (r\<lparr>run_states := m\<rparr>) = runner_wf r"
  by (simp add: runner_wf_def)

lemma runner_wf_New [simp]: "runner_wf opsy_New"
  by (simp add: runner_wf_def)

lemma runner_wf_SetState [simp]: "runner_wf (snd (SetState i s r)) = runner_wf r"
  by (simp add: SetState_def Let_def runner_wf_def)

lemma runner_wf_DefaultState [simp]: "runner_wf (DefaultState i r) = runner_wf r"
  by (simp add: DefaultState_def runner_wf_def)

lemma SetState_wf:
  "runner_wf r \<Longrightarrow> SetState i s r =
     (if opsy_edge (GetCurrentState r i) s
      then (None, r\<lparr>run_states := (run_states r)(i \<mapsto> s)\<rparr>)
      else (Some (ErrorString (''invalid state transition from '' @
                state_text (GetCurrentState r i) @ '' to '' @ state_text s @ '' for id '' @ i)), r))"
  by (simp add: SetState_def Let_def isValidTransition_wf GetCurrentState_def)

lemma GetCurrentState_upd [simp]:
  "GetCurrentState (r\<lparr>run_states := (run_states r)(i \<mapsto> s)\<rparr>) j =
     (if j = i then s else GetCurrentState r j)"
  by (simp add: GetCurrentState_def)

lemma GetCurrentState_New [simp]: "GetCurrentState opsy_New i = StateInitial"
  by (simp add: GetCurrentState_def opsy_New_def)

lemma SetState_current:
  "runner_wf r \<Longrightarrow> GetCurrentState (snd (SetState i s r)) j =
     (if j = i \<and> opsy_edge (GetCurrentState r i) s then s else GetCurrentState r j)"
  by (simp add: SetState_wf)

lemma DefaultState_current:
  "GetCurrentState (DefaultState i r) j = (if j = i then StateInitial else GetCurrentState r j)"
  by (simp add: DefaultState_def)

section \<open>The interface the controller relies on\<close>

text \<open>
  A tracker keeps one state per key. A \<open>put\<close> along an edge succeeds and is read back; any other
  \<open>put\<close> fails and changes nothing; no \<open>put\<close> touches another key.
\<close>

locale tracker =
  fixes inv :: "'r \<Rightarrow> bool"
    and cur :: "'r \<Rightarrow> 'k \<Rightarrow> 's"
    and put :: "'k \<Rightarrow> 's \<Rightarrow> 'r \<Rightarrow> 'e option \<times> 'r"
    and edge :: "'s \<Rightarrow> 's \<Rightarrow> bool"
  assumes put_inv: "inv r \<Longrightarrow> inv (snd (put k s r))"
    and put_ok: "inv r \<Longrightarrow> fst (put k s r) = None \<longleftrightarrow> edge (cur r k) s"
    and put_cur: "inv r \<Longrightarrow> edge (cur r k) s \<Longrightarrow> cur (snd (put k s r)) k = s"
    and put_refused: "inv r \<Longrightarrow> \<not> edge (cur r k) s \<Longrightarrow> snd (put k s r) = r"
    and put_frame: "inv r \<Longrightarrow> j \<noteq> k \<Longrightarrow> cur (snd (put k s r)) j = cur r j"
begin

text \<open>A sequence of calls, of any number of clients in any order.\<close>

fun puts :: "('k \<times> 's) list \<Rightarrow> 'r \<Rightarrow> 'r" where
  "puts [] r = r"
| "puts ((k, s) # cs) r = puts cs (snd (put k s r))"

lemma puts_inv: "inv r \<Longrightarrow> inv (puts cs r)"
  by (induction cs r rule: puts.induct) (simp_all add: put_inv)

lemma puts_append: "puts (cs @ ds) r = puts ds (puts cs r)"
  by (induction cs r rule: puts.induct) simp_all

lemma put_path: "inv r \<Longrightarrow> edge\<^sup>*\<^sup>* (cur r j) (cur (snd (put k s r)) j)"
proof (cases "j = k \<and> edge (cur r k) s")
  case True
  moreover assume "inv r"
  ultimately show ?thesis by (auto simp: put_cur)
next
  case False
  moreover assume "inv r"
  ultimately have "cur (snd (put k s r)) j = cur r j"
    by (cases "j = k") (simp_all add: put_refused put_frame)
  then show ?thesis by simp
qed

text \<open>Whatever calls are made, the state of a key moves along edges only.\<close>

lemma puts_path: "inv r \<Longrightarrow> edge\<^sup>*\<^sup>* (cur r j) (cur (puts cs r) j)"
proof (induction cs r rule: puts.induct)
  case (1 r)
  then show ?case by simp
next
  case (2 k s cs r)
  then show ?case
    by (metis put_inv put_path puts.simps(2) rtranclp_trans)
qed

text \<open>A key is left where it was or in the target of one of the calls.\<close>

lemma puts_target: "inv r \<Longrightarrow> cur (puts cs r) j \<in> insert (cur r j) (snd ` set cs)"
proof (induction cs r rule: puts.induct)
  case (1 r)
  then show ?case by simp
next
  case (2 k s cs r)
  have "cur (snd (put k s r)) j \<in> {cur r j, s}"
    using 2 put_cur [of r k s] put_refused [of r k s] put_frame [of r j k s] by fastforce
  with "2.IH" [OF put_inv [OF "2.prems"]] show ?case by auto
qed

text \<open>
  Interleaving does not matter: the state of a key depends on the calls for that key alone, in
  their order.
\<close>

lemma put_cur_cong:
  "inv r \<Longrightarrow> inv r' \<Longrightarrow> cur r k = cur r' k \<Longrightarrow> cur (snd (put k s r)) k = cur (snd (put k s r')) k"
  by (metis put_cur put_refused)

lemma puts_project:
  "inv r \<Longrightarrow> inv r' \<Longrightarrow> cur r j = cur r' j \<Longrightarrow>
     cur (puts cs r) j = cur (puts (filter (\<lambda>c. fst c = j) cs) r') j"
proof (induction cs arbitrary: r r')
  case Nil
  then show ?case by simp
next
  case (Cons c cs)
  obtain k s where c: "c = (k, s)" by fastforce
  show ?case
  proof (cases "k = j")
    case True
    have "cur (snd (put j s r)) j = cur (snd (put j s r')) j"
      by (rule put_cur_cong [OF Cons.prems])
    from Cons.IH [OF put_inv put_inv this] Cons.prems(1,2) True c show ?thesis by simp
  next
    case False
    then have "cur (snd (put k s r)) j = cur r' j"
      using Cons.prems by (simp add: put_frame)
    from Cons.IH [OF put_inv _ this] Cons.prems(1,2) False c show ?thesis by simp
  qed
qed

end

interpretation runner: tracker runner_wf GetCurrentState SetState opsy_edge
  by unfold_locales (auto simp: SetState_wf)

section \<open>The runner under concurrent use\<close>

text \<open>
  All calls the methods of the runner allow, as steps of the shared object.
\<close>

inductive runner_step :: "opsy_runner \<Rightarrow> opsy_runner \<Rightarrow> bool" where
  set: "runner_step r (snd (SetState i s r))"
| default: "runner_step r (DefaultState i r)"

inductive runner_reachable :: "opsy_runner \<Rightarrow> bool" where
  new: "runner_reachable opsy_New"
| step: "runner_reachable r \<Longrightarrow> runner_step r r' \<Longrightarrow> runner_reachable r'"

inductive_cases runner_stepE: "runner_step r r'"

definition tracked_states :: "pb_state set" where
  "tracked_states = {StateInitial, StateFlightChecks, StateJobCreation, StateJobRunning,
     StateJobCompleted, StateJobFailed, StateAMICreated, StateError}"

lemma opsy_edge_tracked: "opsy_edge a b \<Longrightarrow> a \<in> tracked_states \<and> b \<in> tracked_states"
  by (auto simp: opsy_edge_iff tracked_states_def)

lemma Initial_tracked [simp]: "StateInitial \<in> tracked_states"
  by (simp add: tracked_states_def)

lemma opsy_edge_Initial: "a \<in> tracked_states \<Longrightarrow> opsy_edge a StateInitial"
  by (auto simp: opsy_edge_iff tracked_states_def)

lemma runner_reachable_inv:
  "runner_reachable r \<Longrightarrow> runner_wf r \<and> (\<forall>i. GetCurrentState r i \<in> tracked_states)"
proof (induction rule: runner_reachable.induct)
  case new
  show ?case by simp
next
  case (step r r')
  from \<open>runner_step r r'\<close> step.IH show ?case
    by (cases rule: runner_stepE)
      (auto simp: SetState_current DefaultState_current dest: opsy_edge_tracked)
qed

lemma runner_step_edge:
  assumes "runner_reachable r" "runner_step r r'"
  shows "GetCurrentState r' i = GetCurrentState r i \<or>
    opsy_edge (GetCurrentState r i) (GetCurrentState r' i)"
proof -
  from runner_reachable_inv [OF assms(1)]
  have wf: "runner_wf r" and tr: "GetCurrentState r i \<in> tracked_states" by auto
  from assms(2) show ?thesis
    by (cases rule: runner_stepE)
      (use wf tr in \<open>auto simp: SetState_current DefaultState_current opsy_edge_Initial\<close>)
qed

text \<open>
  The runner shared by all builders never leaves the transition table: after any sequence of
  atomic calls on a fresh runner every build is in one of the eight named states, and one further
  call that moves a build moves it along an edge of the table. In particular \<open>AMICreated\<close> is
  entered from \<open>JobCompleted\<close> only and left to \<open>Initial\<close> only.
\<close>

theorem runner_follows_table:
  assumes "runner_reachable r" "runner_step r r'"
    and "GetCurrentState r' i \<noteq> GetCurrentState r i"
  shows "opsy_edge (GetCurrentState r i) (GetCurrentState r' i) \<and>
    GetCurrentState r i \<in> tracked_states \<and> GetCurrentState r' i \<in> tracked_states \<and>
    (GetCurrentState r' i = StateAMICreated \<longrightarrow> GetCurrentState r i = StateJobCompleted) \<and>
    (GetCurrentState r i = StateAMICreated \<longrightarrow> GetCurrentState r' i = StateInitial)"
proof -
  have e: "opsy_edge (GetCurrentState r i) (GetCurrentState r' i)"
    using runner_step_edge [OF assms(1,2), of i] assms(3) by simp
  then show ?thesis
    using opsy_edge_tracked [OF e] by (auto simp: opsy_edge_iff)
qed

text \<open>
  Concurrent reconciliations do not disturb each other: after any interleaving of \<open>SetState\<close>
  calls for many builds, the state of one build is what its own calls, in their order, would have
  left on a runner that never saw the others.
\<close>

theorem runner_interleaving:
  assumes "runner_reachable r"
  shows "GetCurrentState (runner.puts calls r) i =
    GetCurrentState (runner.puts (filter (\<lambda>c. fst c = i) calls) r) i"
  using runner_reachable_inv [OF assms] by (intro runner.puts_project) simp_all

lemma runner_example_reachable:
  "runner_reachable (snd (SetState ''b1'' StateFlightChecks opsy_New))"
  by (rule runner_reachable.step [OF runner_reachable.new runner_step.set])

theorem runner_follows_table_witness:
  "opsy_edge StateFlightChecks StateJobCreation"
proof -
  let ?r = "snd (SetState ''b1'' StateFlightChecks opsy_New)"
  let ?r' = "snd (SetState ''b1'' StateJobCreation ?r)"
  have r: "GetCurrentState ?r ''b1'' = StateFlightChecks"
    and r': "GetCurrentState ?r' ''b1'' = StateJobCreation"
    by (simp_all add: SetState_wf opsy_edge_iff)
  have "opsy_edge (GetCurrentState ?r ''b1'') (GetCurrentState ?r' ''b1'')"
    using runner_follows_table [OF runner_example_reachable
        runner_step.set [of _ "''b1''" StateJobCreation], of "''b1''"] r r' by simp
  then show ?thesis by (simp only: r r')
qed

theorem runner_interleaving_witness:
  "GetCurrentState (runner.puts [(''b2'', StateError), (''b1'', StateJobRunning)]
     (snd (SetState ''b1'' StateFlightChecks opsy_New))) ''b1'' = StateJobRunning"
  using runner_interleaving [OF runner_example_reachable,
      of "[(''b2'', StateError), (''b1'', StateJobRunning)]" "''b1''"]
  by (simp add: SetState_wf opsy_edge_iff)

end
