(* ===== verification/Packer_Controller.thy ===== *)
theory Packer_Controller
  imports Packer_Job Log_Stream Notifier Opsy_Runner
begin

text \<open>
  \<open>internal/controller/ami/packerbuilder_controller.go\<close>: one reconciliation of a \<open>PackerBuilder\<close>.
  The state is the world outside, the runner all reconciliations share, and the builder object the
  handlers change in memory. Each handler is a sequence of statements over that state that returns
  the controller's result.
\<close>

section \<open>State and results\<close>

record 'w ctx =
  cx_world :: 'w
  cx_runner :: opsy_runner
  cx_pb :: packer_builder

text \<open>\<open>(ctrl.Result, error)\<close>.\<close>

datatype ctrl_result = Done | Requeue | RequeueAfter duration | Failed go_error

text \<open>Statements that only use the world, the builder in memory, or the runner.\<close>

definition on_world :: "('w, 'a) go \<Rightarrow> ('w ctx, 'a) go" where
  "on_world m s = (let (r, w') = m (cx_world s) in (r, s\<lparr>cx_world := w'\<rparr>))"

definition the_pb :: "('w ctx, packer_builder) go" where
  "the_pb s = (Returns (cx_pb s), s)"

definition put_pb :: "packer_builder \<Rightarrow> ('w ctx, unit) go" where
  "put_pb pb s = (Returns (), s\<lparr>cx_pb := pb\<rparr>)"

definition put_status :: "(packer_builder_status \<Rightarrow> packer_builder_status) \<Rightarrow> ('w ctx, unit) go" where
  "put_status f s = (Returns (), s\<lparr>cx_pb := set_status f (cx_pb s)\<rparr>)"

definition runner_state :: "('w ctx, pb_state) go" where
  "runner_state s = (Returns (GetCurrentState (cx_runner s) (st_BuildID (pb_Status (cx_pb s)))), s)"

definition runner_set :: "pb_state \<Rightarrow> ('w ctx, go_error option) go" where
  "runner_set st s =
     (let (err, r) = SetState (st_BuildID (pb_Status (cx_pb s))) st (cx_runner s)
      in (Returns err, s\<lparr>cx_runner := r\<rparr>))"

lemmas ctx_run = on_world_def the_pb_def put_pb_def put_status_def runner_state_def runner_set_def

section \<open>Recording a state change\<close>

text \<open>\<open>isEmpty\<close> of the Slack section: equal to the zero value, a nil slice of channels included.\<close>

definition slack_isEmpty :: "slack_notifier \<Rightarrow> bool" where
  "slack_isEmpty s \<longleftrightarrow> sl_Channels s = None \<and> sl_Secret s = ''''"

definition notify_slack :: "'w env \<Rightarrow> bytes \<Rightarrow> ('w ctx, go_error option) go" where
  "notify_slack E message =
     go_bind the_pb (\<lambda>pb.
     let slack = nf_Slack (sp_Notify (pb_Spec pb)) in
     if st_State (pb_Status pb) \<in> {StateInitial, StateFlightChecks} \<or> slack_isEmpty slack
     then go_return None
     else
       go_bind (on_world (go_call (env_get_secret E (pb_Namespace pb, sl_Secret slack)))) (\<lambda>answer.
       case answer of
         Inl err \<Rightarrow> go_return (Some err)
       | Inr data \<Rightarrow>
           (case map_of data ''token'' of
              None \<Rightarrow> go_return (Some (ErrorString
                (''secret does not contain '' @ quote1 @ ''token'' @ quote1 @ '' key'')))
            | Some token \<Rightarrow>
                on_world (go_call (Slack_Send E token
                  (str_join (case sl_Channels slack of None \<Rightarrow> [] | Some cs \<Rightarrow> cs) '', '')
                  (pb_Name pb)
                  \<lparr>msg_Name = pb_Name pb, msg_LatestBaseAMI = st_LastRunBaseImageID (pb_Status pb),
                   msg_LatestBuiltAMI = st_LastRunBuiltImageID (pb_Status pb),
                   msg_Message = message, msg_Status = ''''\<rparr>)))))"

text \<open>The condition is written with the status before the runner is asked for the transition.\<close>

definition set_condition_pb ::
  "'w env \<Rightarrow> condition_type \<Rightarrow> condition_status \<Rightarrow> bytes \<Rightarrow> bytes \<Rightarrow> ('w ctx, go_error option) go" where
  "set_condition_pb E conditionType conditionStatus reason message =
     go_bind the_pb (\<lambda>pb.
     go_bind (on_world (go_call
       (SetCondition E (pb_ops E) pb conditionType conditionStatus reason message))) (\<lambda>(err, pb').
     go_bind (put_pb pb') (\<lambda>u. go_return err)))"

text \<open>
  \<open>client.MergeFrom(pb.DeepCopy())\<close> takes the copy after all changes, so the patch sent is the
  difference of the object to itself; the answer replaces the object.
\<close>

definition patch_pb :: "'w env \<Rightarrow> ('w ctx, go_error option) go" where
  "patch_pb E =
     go_bind the_pb (\<lambda>pb.
     go_bind (on_world (go_call (env_patch_pb E pb pb))) (\<lambda>answer.
     case answer of
       Inl err \<Rightarrow> go_return (Some err)
     | Inr pb' \<Rightarrow> go_bind (put_pb pb') (\<lambda>u. go_return None)))"

definition reconcileUpdate ::
  "'w env \<Rightarrow> pb_state \<Rightarrow> bytes \<Rightarrow> last_run_status \<Rightarrow> condition_status \<Rightarrow> condition_type \<Rightarrow>
   ('w ctx, go_error option) go" where
  "reconcileUpdate E newState message lastStatus conditionStatus conditionType =
     go_bind (on_world (go_call (env_now E))) (\<lambda>now.
     go_bind (put_status (\<lambda>s. s\<lparr>st_State := newState, st_LastRunStatus := lastStatus,
       st_LastRunMessage := message, st_LastRun := now\<rparr>)) (\<lambda>u.
     go_bind the_pb (\<lambda>pb.
     go_bind (on_world (go_call (RecordNormalEvent E (object_key (pb_Meta pb))
       (state_text newState) message))) (\<lambda>u.
     go_bind (set_condition_pb E conditionType conditionStatus (state_text newState) message) (\<lambda>failed.
     case failed of
       Some err \<Rightarrow> go_return (Some err)
     | None \<Rightarrow>
         go_bind (notify_slack E message) (\<lambda>unsent.
         case unsent of
           Some err \<Rightarrow> go_return (Some err)
         | None \<Rightarrow>
             go_bind (runner_set newState) (\<lambda>refused.
             case refused of
               Some err \<Rightarrow> go_return (Some err)
             | None \<Rightarrow> patch_pb E)))))))"

definition transitionToErrorState :: "'w env \<Rightarrow> bytes \<Rightarrow> ('w ctx, ctrl_result) go" where
  "transitionToErrorState E reason =
     go_bind (reconcileUpdate E StateError reason LastRunStatusFailed ConditionFalse
       ConditionTypeFailed) (\<lambda>failed.
     case failed of Some err \<Rightarrow> go_return (Failed err) | None \<Rightarrow> go_return Requeue)"

text \<open>
  What every handler does with the answer of \<open>reconcileUpdate\<close>: requeue, or go to the error state
  with a reason that ends in the error.
\<close>

definition move_or_error ::
  "'w env \<Rightarrow> bytes \<Rightarrow> ('w ctx, go_error option) go \<Rightarrow> ('w ctx, ctrl_result) go" where
  "move_or_error E what m =
     go_bind m (\<lambda>failed.
     case failed of
       Some err \<Rightarrow> transitionToErrorState E (what @ error_text err)
     | None \<Rightarrow> go_return Requeue)"

section \<open>Handlers\<close>

definition init_build :: "'w env \<Rightarrow> ('w ctx, ctrl_result) go" where
  "init_build E =
     go_bind the_pb (\<lambda>pb0.
     go_bind (put_status (\<lambda>s. s\<lparr>
       st_MaxNumberOfFailedJobs :=
         (case st_MaxNumberOfFailedJobs s of None \<Rightarrow> Some 3 | Some n \<Rightarrow> Some n),
       st_FailedJobCount := (case st_FailedJobCount s of None \<Rightarrow> Some 0 | Some n \<Rightarrow> Some n)\<rparr>)) (\<lambda>u.
     go_bind the_pb (\<lambda>pb.
     go_bind (go_deref (st_FailedJobCount (pb_Status pb))) (\<lambda>failedJobs.
     go_bind (go_deref (st_MaxNumberOfFailedJobs (pb_Status pb))) (\<lambda>maxJobs.
     if sint maxJobs \<le> sint failedJobs
     then go_return (RequeueAfter (duration_or_zero (pb_GetControllerTimer pb)))
     else move_or_error E ''Failed to transition to FlightChecks state: ''
       (reconcileUpdate E StateFlightChecks ''Transitioning to FlightChecks'' LastRunStatusRunning
          ConditionTrue ConditionTypeFlightCheckStarted))))))"

text \<open>The loop over the results: all passed, and the base image that a passed check names.\<close>

fun processFlightCheckResults :: "check_result list \<Rightarrow> packer_builder \<Rightarrow> bool \<times> packer_builder" where
  "processFlightCheckResults [] pb = (True, pb)"
| "processFlightCheckResults (result # results) pb =
     (let pb' = (if res_Success result \<and> str_contains (res_Message result) ''Base AMI''
                 then set_status (\<lambda>s. s\<lparr>st_LastRunBaseImageID := res_Name result\<rparr>) pb else pb);
          (ok, pb'') = processFlightCheckResults results pb'
      in (res_Success result \<and> ok, pb''))"

text \<open>The image type is set to \<open>ami\<close> before the switch on it, so only that case remains.\<close>

definition performFlightChecks :: "'w env \<Rightarrow> duration \<Rightarrow> ('w ctx, bool) go" where
  "performFlightChecks E validFor =
     go_bind the_pb (\<lambda>pb0.
     go_bind (on_world (go_call (ami_New E (sp_Region (pb_Spec pb0))))) (\<lambda>am.
     go_bind (on_world (go_call (packer_New E pb0))) (\<lambda>pm.
     go_bind (put_pb (set_builder (\<lambda>b. b\<lparr>bld_ImageType := ImageAMI\<rparr>) pb0)) (\<lambda>u.
     go_bind the_pb (\<lambda>pb.
     go_bind (on_world (BaseAMIExists E am
       (case sp_AMIFilters (pb_Spec pb) of None \<Rightarrow> [] | Some fs \<Rightarrow> fs))) (\<lambda>baseAMIResult.
     go_bind (on_world (LatestAMIDoesNotExistsOrExpired E pm validFor pb)) (\<lambda>(latestAMIResult, pb').
     let (ok, pb'') = processFlightCheckResults [baseAMIResult, latestAMIResult] pb'
     in go_bind (put_pb pb'') (\<lambda>u. go_return ok))))))))"

definition flightCheck :: "'w env \<Rightarrow> manager_packer \<Rightarrow> ('w ctx, ctrl_result) go" where
  "flightCheck E pm =
     go_bind the_pb (\<lambda>pb.
     go_bind (on_world (ActiveBuildCheck E pm (pb_Namespace pb) (pb_Name pb))) (\<lambda>activeBuild.
     let validFor = duration_or_zero (to_ExpiresIn (sp_TimeOuts (pb_Spec pb)));
         retryAfter = duration_or_zero (pb_GetControllerTimer pb)
     in if \<not> res_Success activeBuild
        then move_or_error E ''Failed to transition to JobRunning state: ''
          (reconcileUpdate E StateJobRunning ''Transitioning to JobRunning since Active Build Exist''
             LastRunStatusRunning ConditionTrue ConditionTypeFlightCheckPassed)
        else
          go_bind (performFlightChecks E validFor) (\<lambda>flightChecksPassed.
          if \<not> flightChecksPassed then go_return (RequeueAfter retryAfter)
          else move_or_error E ''Failed to transition to JobCreation state: ''
            (reconcileUpdate E StateJobCreation ''Transitioning to JobCreation''
               LastRunStatusRunning ConditionTrue ConditionTypeJobCreated))))"

text \<open>\<open>uuid.New().String()[:5]\<close>.\<close>

definition short_id :: "bytes \<Rightarrow> bytes outcome" where
  "short_id u = (if 5 \<le> length u then Returns (take 5 u) else Panics ''slice bounds out of range'')"

definition setupJob :: "'w env \<Rightarrow> manager_packer \<Rightarrow> ('w ctx, go_error option) go" where
  "setupJob E pm =
     go_bind (on_world (go_call (env_uuid E))) (\<lambda>u.
     go_bind (go_outcome (short_id u)) (\<lambda>jobID.
     go_bind the_pb (\<lambda>pb0.
     go_bind (put_status (\<lambda>s. s\<lparr>st_JobID := jobID, st_JobName := pb_Name pb0 @ ''-'' @ jobID,
       st_JobStatus := JobStatusRunning\<rparr>)) (\<lambda>u.
     go_bind the_pb (\<lambda>pb.
     go_bind (on_world (ConstructCommand E pm pb)) (\<lambda>(failed, pb').
     go_bind (put_pb pb') (\<lambda>u.
     case failed of
       Some err \<Rightarrow> go_return (Some err)
     | None \<Rightarrow> on_world (go_call (Status_Update E (pb_ops E) pb')))))))))"

text \<open>
  Creation of the job. The lookup before it uses the key of the builder, not of the job, and only a
  not-found answer leads to a creation; any other error is passed over.
\<close>

definition create_job :: "'w env \<Rightarrow> job \<Rightarrow> ('w ctx, go_error option) go" where
  "create_job E amiBuild =
     go_bind the_pb (\<lambda>pb.
     go_bind (on_world (go_call (env_get_job E (object_key (pb_Meta pb))))) (\<lambda>answer.
     case answer of
       Inl err \<Rightarrow> if is_not_found err then on_world (go_call (env_create_job E amiBuild)) else go_return None
     | Inr existing \<Rightarrow> go_return None))"

definition createBuild :: "'w env \<Rightarrow> manager_packer \<Rightarrow> ('w ctx, ctrl_result) go" where
  "createBuild E pm =
     go_bind (setupJob E pm) (\<lambda>notSetUp.
     case notSetUp of
       Some err \<Rightarrow> transitionToErrorState E (''Failed to setup job: '' @ error_text err)
     | None \<Rightarrow>
         go_bind the_pb (\<lambda>pb.
         go_bind (on_world (Job E pm pb)) (\<lambda>(answer, pb').
         go_bind (put_pb pb') (\<lambda>u.
         case answer of
           Inl err \<Rightarrow> transitionToErrorState E (''Unexpected Job Status: '' @ error_text err)
         | Inr amiBuild \<Rightarrow>
             go_bind (on_world (go_call (env_set_controller E pb' amiBuild))) (\<lambda>owned.
             case owned of
               Inl err \<Rightarrow>
                 transitionToErrorState E (''Failed to set owner reference on job: '' @ error_text err)
             | Inr ownedBuild \<Rightarrow>
                 go_bind (create_job E ownedBuild) (\<lambda>notCreated.
                 case notCreated of
                   Some err \<Rightarrow> transitionToErrorState E (''Unexpect Job Status '' @ error_text err)
                 | None \<Rightarrow>
                     move_or_error E ''Failed to transition to JobRunning state: ''
                       (reconcileUpdate E StateJobRunning ''Transitioning to JobRunning''
                          LastRunStatusRunning ConditionTrue ConditionTypeInProgress)))))))"

definition completeBuild :: "'w env \<Rightarrow> ('w ctx, ctrl_result) go" where
  "completeBuild E =
     move_or_error E ''Failed to transition to AMICreated state: ''
       (reconcileUpdate E StateAMICreated ''Transitioning to AMICreated'' LastRunStatusCompleted
          ConditionTrue ConditionTypeAMICreated)"

definition errorBuild :: "'w env \<Rightarrow> ('w ctx, ctrl_result) go" where
  "errorBuild E =
     move_or_error E ''Failed to transition to Error state: ''
       (reconcileUpdate E StateInitial ''Transitioning to Initializing'' LastRunStatusFailed
          ConditionTrue ConditionTypeInitial)"

text \<open>Key pair first, then security group; each is forgotten once its removal has succeeded.\<close>

definition cleanup_group :: "'w env \<Rightarrow> manager_packer \<Rightarrow> ('w ctx, ctrl_result) go" where
  "cleanup_group E pm =
     go_bind the_pb (\<lambda>pb.
     go_bind (if st_LastRunSecurityGroupID (pb_Status pb) \<noteq> ''''
              then on_world (DeleteSecurityGroup E pm (st_LastRunSecurityGroupID (pb_Status pb)))
              else go_return None) (\<lambda>kept.
     case kept of
       Some err \<Rightarrow> transitionToErrorState E (''Failed to delete Security Group: '' @ error_text err)
     | None \<Rightarrow>
         go_bind (put_status (\<lambda>s. s\<lparr>st_LastRunSecurityGroupID := ''''\<rparr>)) (\<lambda>u.
         move_or_error E ''Failed to transition to Initialize state: ''
           (reconcileUpdate E StateInitial ''Transitioning to Intializing'' LastRunStatusRunning
              ConditionTrue ConditionTypeInitial))))"

definition cleanupBuild :: "'w env \<Rightarrow> manager_packer \<Rightarrow> ('w ctx, ctrl_result) go" where
  "cleanupBuild E pm =
     go_bind the_pb (\<lambda>pb.
     go_bind (if st_LastRunKeyPair (pb_Status pb) \<noteq> ''''
              then on_world (DeleteKeyPair E pm (st_LastRunKeyPair (pb_Status pb)))
              else go_return None) (\<lambda>kept.
     case kept of
       Some err \<Rightarrow> transitionToErrorState E (''Failed to delete KeyPair: '' @ error_text err)
     | None \<Rightarrow>
         go_bind (put_status (\<lambda>s. s\<lparr>st_LastRunKeyPair := ''''\<rparr>)) (\<lambda>u. cleanup_group E pm)))"

section \<open>Watching a running build\<close>

record build_result =
  br_Completed :: bool
  br_Succeeded :: bool
  br_Failed :: bool
  br_Reason :: bytes

definition getJobFailureReason :: "job_state \<Rightarrow> bytes" where
  "getJobFailureReason js =
     (case find (\<lambda>c. jc_Type c = JobFailed) (js_Conditions js) of
        None \<Rightarrow> ''Job failed for unknown reason''
      | Some c \<Rightarrow> ''Job failed: '' @ jc_Message c)"

text \<open>
  The two goroutines and their channels of capacity one: whether the job watch still runs, the log
  stream's patterns while a stream is open, and what the channels hold. A send on a full channel
  blocks, so the step is not taken.
\<close>

datatype streamer = Polling | Streaming "reg_ex list" | Streamed

record run_state =
  rn_watching :: bool
  rn_streamer :: streamer
  rn_result :: "build_result option"
  rn_error :: "go_error option"

definition run_start :: run_state where
  "run_start = \<lparr>rn_watching = True, rn_streamer = Polling, rn_result = None, rn_error = None\<rparr>"

definition send_result :: "build_result \<Rightarrow> run_state \<Rightarrow> run_state" where
  "send_result r rs =
     (if rn_result rs = None then rs\<lparr>rn_result := Some r, rn_watching := False\<rparr> else rs)"

definition send_error :: "go_error \<Rightarrow> (run_state \<Rightarrow> run_state) \<Rightarrow> run_state \<Rightarrow> run_state" where
  "send_error e after rs = (if rn_error rs = None then after (rs\<lparr>rn_error := Some e\<rparr>) else rs)"

text \<open>\<open>watchJobCompletion\<close>, one event.\<close>

definition watchJobCompletion :: "watch_event \<Rightarrow> run_state \<Rightarrow> run_state" where
  "watchJobCompletion ev rs =
     (if \<not> rn_watching rs then rs
      else case ev of
        WatchClosed \<Rightarrow>
          send_error (ErrorString ''job watch channel closed unexpectedly'')
            (\<lambda>x. x\<lparr>rn_watching := False\<rparr>) rs
      | WatchOther t \<Rightarrow>
          send_error (ErrorString (''unexpected object type from watch event: '' @ t)) (\<lambda>x. x) rs
      | WatchJob js \<Rightarrow>
          if 0 < sint (js_Succeeded js)
          then send_result \<lparr>br_Completed = True, br_Succeeded = True, br_Failed = False,
                 br_Reason = ''Job completed successfully''\<rparr> rs
          else if 0 < sint (js_Failed js)
          then send_result \<lparr>br_Completed = True, br_Succeeded = False, br_Failed = True,
                 br_Reason = getJobFailureReason js\<rparr> rs
          else rs)"

text \<open>
  \<open>streamPodLogs\<close>, one step: a poll lists the pods of the job and opens a stream with fresh patterns
  once the first pod is past its initialization; the stream processes its lines, and ends.
  An error that mentions an initializing pod leads to another attempt, any other error is reported;
  a cancelled context is not reported. The lines change the builder the loop works on.
\<close>

definition stream_line ::
  "'w env \<Rightarrow> manager_packer \<Rightarrow> bytes \<Rightarrow> run_state \<Rightarrow> ('w ctx, run_state) go" where
  "stream_line E pm line rs =
     (case rn_streamer rs of
        Streaming patterns \<Rightarrow>
          go_bind the_pb (\<lambda>pb.
          go_bind (on_world (processLogLine E pm line patterns pb)) (\<lambda>(finished, patterns', pb').
          go_bind (put_pb pb') (\<lambda>u.
            go_return (rs\<lparr>rn_streamer := (if finished then Streamed else Streaming patterns')\<rparr>))))
      | _ \<Rightarrow> go_return rs)"

definition stream_fails :: "go_error \<Rightarrow> run_state \<Rightarrow> run_state" where
  "stream_fails err rs =
     (case rn_streamer rs of
        Streamed \<Rightarrow> rs
      | _ \<Rightarrow>
          if str_contains (error_text err) ''PodInitializing'' then rs\<lparr>rn_streamer := Polling\<rparr>
          else if err = ContextCanceled then rs\<lparr>rn_streamer := Streamed\<rparr>
          else send_error (WrapError ''error streaming pod logs: '' err)
                 (\<lambda>x. x\<lparr>rn_streamer := Streamed\<rparr>) rs)"

definition pod_ready :: "pod list \<Rightarrow> bool" where
  "pod_ready pods =
     (case pods of
        [] \<Rightarrow> False
      | pod # rest \<Rightarrow>
          \<not> (pod_Phase pod = ''Pending'' \<and> Some ''PodInitializing'' \<in> set (pod_Waiting pod)))"

definition stream_open ::
  "'w env \<Rightarrow> manager_packer \<Rightarrow> run_state \<Rightarrow> ('w ctx, run_state) go" where
  "stream_open E pm rs =
     (case rn_streamer rs of
        Polling \<Rightarrow>
          go_bind the_pb (\<lambda>pb.
          go_bind (on_world (go_call (env_list_pods E (pb_Namespace pb)
            [(''job-name'', st_JobName (pb_Status pb))]))) (\<lambda>answer.
          case answer of
            Inl err \<Rightarrow> go_return rs
          | Inr pods \<Rightarrow>
              if pod_ready pods
              then go_bind (go_deref pm) (\<lambda>cfg.
                go_return (rs\<lparr>rn_streamer := Streaming getLogPatterns\<rparr>))
              else go_return rs))
      | _ \<Rightarrow> go_return rs)"

definition stream_end :: "run_state \<Rightarrow> run_state" where
  "stream_end rs = (case rn_streamer rs of Streaming ps \<Rightarrow> rs\<lparr>rn_streamer := Streamed\<rparr> | _ \<Rightarrow> rs)"

definition transitionToJobCompletedState :: "'w env \<Rightarrow> ('w ctx, ctrl_result) go" where
  "transitionToJobCompletedState E =
     move_or_error E ''Failed to transition to JobCompleted state: ''
       (reconcileUpdate E StateJobCompleted ''Transitioning to JobCompleted''
          LastRunStatusCompleted ConditionTrue ConditionTypeCompleted)"

text \<open>The ticker: the builder is read again into the object in use, then the job is looked up.\<close>

definition ticker_check :: "'w env \<Rightarrow> ('w ctx, ctrl_result option) go" where
  "ticker_check E =
     go_bind the_pb (\<lambda>pb.
     go_bind (on_world (go_call (env_get_pb E (object_key (pb_Meta pb))))) (\<lambda>answer.
     case answer of
       Inl err \<Rightarrow>
         if is_not_found err then go_return (Some Done)
         else go_bind (transitionToErrorState E ''Failed to verify PackerBuilder existence'')
                (\<lambda>r. go_return (Some r))
     | Inr pb' \<Rightarrow>
         go_bind (put_pb pb') (\<lambda>u.
         go_bind (on_world (go_call (env_get_job E (pb_Namespace pb', st_JobName (pb_Status pb')))))
           (\<lambda>job.
           case job of
             Inl err \<Rightarrow>
               if is_not_found err
               then go_bind (transitionToErrorState E ''Associated Job was deleted'')
                      (\<lambda>r. go_return (Some r))
               else go_bind (transitionToErrorState E ''Failed to verify Job existence'')
                      (\<lambda>r. go_return (Some r))
           | Inr j \<Rightarrow> go_return None))))"

text \<open>A result taken from the channel; an incomplete one, which nothing sends, would be skipped.\<close>

definition take_result :: "'w env \<Rightarrow> build_result \<Rightarrow> ('w ctx, ctrl_result option) go" where
  "take_result E result =
     (if br_Completed result
      then go_bind
        (if br_Succeeded result then transitionToJobCompletedState E
         else transitionToErrorState E (''Job failed: '' @ br_Reason result))
        (\<lambda>r. go_return (Some r))
      else go_return None)"

text \<open>
  The loop of \<open>runningBuild\<close> for at most \<open>n\<close> choices of the environment; \<open>None\<close> while it still runs.
\<close>

fun running_loop ::
  "'w env \<Rightarrow> manager_packer \<Rightarrow> nat \<Rightarrow> run_state \<Rightarrow> ('w ctx, ctrl_result option) go" where
  "running_loop E pm 0 rs = go_return None"
| "running_loop E pm (Suc n) rs =
     go_bind (on_world (go_call (env_run_choice E))) (\<lambda>choice.
     case choice of
       WatchFails err \<Rightarrow>
         running_loop E pm n
           (if rn_watching rs
            then send_error (WrapError ''failed to create job watcher: '' err)
                   (\<lambda>x. x\<lparr>rn_watching := False\<rparr>) rs
            else rs)
     | WatchDelivers ev \<Rightarrow> running_loop E pm n (watchJobCompletion ev rs)
     | PollPods \<Rightarrow> go_bind (stream_open E pm rs) (running_loop E pm n)
     | LogLine line \<Rightarrow> go_bind (stream_line E pm line rs) (running_loop E pm n)
     | LogEnd \<Rightarrow> running_loop E pm n (stream_end rs)
     | LogFails err \<Rightarrow> running_loop E pm n (stream_fails err rs)
     | TakeResult \<Rightarrow>
         (case rn_result rs of
            None \<Rightarrow> running_loop E pm n rs
          | Some result \<Rightarrow>
              go_bind (take_result E result) (\<lambda>answer.
              case answer of
                Some r \<Rightarrow> go_return (Some r)
              | None \<Rightarrow> running_loop E pm n (rs\<lparr>rn_result := None\<rparr>)))
     | TakeError \<Rightarrow>
         (case rn_error rs of
            None \<Rightarrow> running_loop E pm n rs
          | Some err \<Rightarrow>
              go_bind (transitionToErrorState E (''Build watch error: '' @ error_text err))
                (\<lambda>r. go_return (Some r)))
     | TickerFires \<Rightarrow>
         go_bind (ticker_check E) (\<lambda>answer.
         case answer of
           Some r \<Rightarrow> go_return (Some r)
         | None \<Rightarrow> running_loop E pm n rs)
     | ContextDone \<Rightarrow> go_return (Some Done))"

text \<open>\<open>streamPodLogs\<close> makes a manager of its own.\<close>

definition runningBuild :: "'w env \<Rightarrow> nat \<Rightarrow> ('w ctx, ctrl_result option) go" where
  "runningBuild E fuel =
     go_bind the_pb (\<lambda>pb.
     go_bind (on_world (go_call (packer_New E pb))) (\<lambda>pm. running_loop E pm fuel run_start))"

section \<open>The reconciliation\<close>

text \<open>The switch on the runner's state.\<close>

definition dispatch ::
  "'w env \<Rightarrow> nat \<Rightarrow> manager_packer \<Rightarrow> pb_state \<Rightarrow> ('w ctx, ctrl_result option) go" where
  "dispatch E fuel pm st =
     (case st of
        StateInitial \<Rightarrow> go_bind (init_build E) (\<lambda>r. go_return (Some r))
      | StateFlightChecks \<Rightarrow> go_bind (flightCheck E pm) (\<lambda>r. go_return (Some r))
      | StateJobCreation \<Rightarrow> go_bind (createBuild E pm) (\<lambda>r. go_return (Some r))
      | StateJobRunning \<Rightarrow> runningBuild E fuel
      | StateJobCompleted \<Rightarrow> go_bind (completeBuild E) (\<lambda>r. go_return (Some r))
      | StateAMICreated \<Rightarrow> go_bind (cleanupBuild E pm) (\<lambda>r. go_return (Some r))
      | StateError \<Rightarrow> go_bind (errorBuild E) (\<lambda>r. go_return (Some r))
      | _ \<Rightarrow> go_return (Some (Failed (ErrorString (''unknown state: '' @ state_text st)))))"

definition sync_runner :: "'w env \<Rightarrow> ('w ctx, go_error option) go" where
  "sync_runner E =
     go_bind the_pb (\<lambda>pb.
     go_bind runner_state (\<lambda>current.
     if current \<noteq> st_State (pb_Status pb) then runner_set (st_State (pb_Status pb))
     else go_return None))"

definition catchRek :: "'w env \<Rightarrow> nat \<Rightarrow> ('w ctx, ctrl_result option) go" where
  "catchRek E fuel =
     go_bind the_pb (\<lambda>pb.
     go_bind (on_world (go_call (packer_New E pb))) (\<lambda>pm.
     go_bind (sync_runner E) (\<lambda>refused.
     case refused of
       Some err \<Rightarrow>
         go_bind (transitionToErrorState E (''failed to update state: '' @ error_text err))
           (\<lambda>r. go_return (Some r))
     | None \<Rightarrow> go_bind runner_state (dispatch E fuel pm))))"

text \<open>
  \<open>Reconcile\<close>. A build identifier is drawn when there is none; the answer of the first condition is
  ignored; an unset state becomes \<open>Initial\<close>, and only then an error ends the reconciliation.
\<close>

definition first_condition :: "'w env \<Rightarrow> ('w ctx, unit) go" where
  "first_condition E =
     go_bind the_pb (\<lambda>pb.
     if st_Conditions (pb_Status pb) = []
     then go_bind (set_condition_pb E ConditionTypeInitial ConditionTrue ''Starting''
            ''Transitioning to Initializing'') (\<lambda>ignored. go_return ())
     else go_return ())"

definition first_state :: "'w env \<Rightarrow> ('w ctx, go_error option) go" where
  "first_state E =
     go_bind the_pb (\<lambda>pb0.
     if st_State (pb_Status pb0) = StateUnset
     then go_bind (put_status (\<lambda>s. s\<lparr>st_State := StateInitial\<rparr>)) (\<lambda>u.
          go_bind the_pb (\<lambda>pb. on_world (go_call (Status_Update E (pb_ops E) pb))))
     else go_return None)"

definition first_build_id :: "'w env \<Rightarrow> ('w ctx, unit) go" where
  "first_build_id E =
     go_bind the_pb (\<lambda>pb.
     if st_BuildID (pb_Status pb) = ''''
     then go_bind (on_world (go_call (env_uuid E))) (\<lambda>u. put_status (\<lambda>s. s\<lparr>st_BuildID := u\<rparr>))
     else go_return ())"

definition Reconcile :: "'w env \<Rightarrow> nat \<Rightarrow> object_key \<Rightarrow> ('w ctx, ctrl_result option) go" where
  "Reconcile E fuel req =
     go_bind (on_world (go_call (env_get_pb E req))) (\<lambda>answer.
     case answer of
       Inl err \<Rightarrow> go_return (Some (if is_not_found err then Done else Failed err))
     | Inr pb \<Rightarrow>
         go_bind (put_pb pb) (\<lambda>u.
         go_bind (first_build_id E) (\<lambda>u.
         go_bind (first_condition E) (\<lambda>u.
         go_bind (first_state E) (\<lambda>failed.
         case failed of
           Some err \<Rightarrow> go_return (Some (if is_deadline err then Requeue else Failed err))
         | None \<Rightarrow> catchRek E fuel)))))"

end
