(* ===== verification/Relational.thy ===== *)
theory Relational
  imports Packer_Controller
begin

text \<open>
  The proof technique of the controller's frame properties: two runs of the code in environments that
  differ in one call are compared statement by statement. \<open>same I m m' R\<close> says that from every state
  with the invariant \<open>I\<close> the two runs agree, keep \<open>I\<close>, and return a value with \<open>R\<close>.
\<close>

section \<open>Agreeing runs\<close>

definition same ::
  "('s \<Rightarrow> bool) \<Rightarrow> ('s, 'a) go \<Rightarrow> ('s, 'a) go \<Rightarrow> ('a \<Rightarrow> bool) \<Rightarrow> bool" where
  "same I m m' R \<longleftrightarrow>
     (\<forall>s. I s \<longrightarrow> m s = m' s \<and> I (snd (m s)) \<and> (\<forall>x. fst (m s) = Returns x \<longrightarrow> R x))"

abbreviation any :: "'a \<Rightarrow> bool" where
  "any \<equiv> (\<lambda>x. True)"

lemma sameI:
  "(\<And>s. I s \<Longrightarrow> m s = m' s \<and> I (snd (m s)) \<and> (\<forall>x. fst (m s) = Returns x \<longrightarrow> R x)) \<Longrightarrow> same I m m' R"
  unfolding same_def by blast

lemma same_weaken: "same I m m' R \<Longrightarrow> (\<And>x. R x \<Longrightarrow> R' x) \<Longrightarrow> same I m m' R'"
  by (auto simp: same_def)

lemma same_any: "same I m m' R \<Longrightarrow> same I m m' any"
  by (erule same_weaken) simp

lemma same_return: "R x \<Longrightarrow> same I (go_return x) (go_return x) R"
  by (simp add: same_def go_laws)

lemma same_panic: "same I (go_panic t) (go_panic t) R"
  by (simp add: same_def go_laws)

lemma same_deref: "(\<And>x. p = Some x \<Longrightarrow> R x) \<Longrightarrow> same I (go_deref p) (go_deref p) R"
  by (cases p) (simp_all add: same_return same_panic)

lemma same_outcome: "(\<And>x. r = Returns x \<Longrightarrow> R x) \<Longrightarrow> same I (go_outcome r) (go_outcome r) R"
  by (simp add: same_def go_outcome_def)

lemma same_bind:
  "same I m m' R' \<Longrightarrow> (\<And>x. R' x \<Longrightarrow> same I (f x) (f' x) R) \<Longrightarrow>
     same I (go_bind m f) (go_bind m' f') R"
  by (auto simp: same_def go_bind_run split: outcome.splits) metis+

lemma same_option:
  "(p = None \<Longrightarrow> same I a a' R) \<Longrightarrow> (\<And>x. p = Some x \<Longrightarrow> same I (b x) (b' x) R) \<Longrightarrow>
     same I (case p of None \<Rightarrow> a | Some x \<Rightarrow> b x) (case p of None \<Rightarrow> a' | Some x \<Rightarrow> b' x) R"
  by (cases p) simp_all

lemma same_sum:
  "(\<And>x. p = Inl x \<Longrightarrow> same I (a x) (a' x) R) \<Longrightarrow> (\<And>x. p = Inr x \<Longrightarrow> same I (b x) (b' x) R) \<Longrightarrow>
     same I (case p of Inl x \<Rightarrow> a x | Inr x \<Rightarrow> b x) (case p of Inl x \<Rightarrow> a' x | Inr x \<Rightarrow> b' x) R"
  by (cases p) simp_all

lemma same_prod:
  "(\<And>x y. p = (x, y) \<Longrightarrow> same I (a x y) (a' x y) R) \<Longrightarrow>
     same I (case p of (x, y) \<Rightarrow> a x y) (case p of (x, y) \<Rightarrow> a' x y) R"
  by (cases p) simp_all

lemma same_if:
  "(b \<Longrightarrow> same I m m' R) \<Longrightarrow> (\<not> b \<Longrightarrow> same I n n' R) \<Longrightarrow>
     same I (if b then m else n) (if b then m' else n') R"
  by simp

lemma same_let: "(\<And>x. x = v \<Longrightarrow> same I (f x) (f' x) R) \<Longrightarrow> same I (Let v f) (Let v f') R"
  by simp

lemma same_refl: "(\<And>s. I s \<Longrightarrow> I (snd (m s))) \<Longrightarrow> same I m m any"
  by (simp add: same_def)

lemmas same_control = same_option same_sum same_prod same_if same_let same_panic

lemma same_run: "same I m m' R \<Longrightarrow> I s \<Longrightarrow> m s = m' s"
  by (simp add: same_def)

lemma same_keeps: "same I m m' R \<Longrightarrow> I s \<Longrightarrow> I (snd (m s))"
  unfolding same_def by blast

section \<open>Invariants of the builder in memory\<close>

text \<open>An invariant that only looks at the builder in memory.\<close>

definition on_pb :: "(packer_builder \<Rightarrow> bool) \<Rightarrow> 'w ctx \<Rightarrow> bool" where
  "on_pb Q s = Q (cx_pb s)"

lemma same_the_pb: "same (on_pb Q) the_pb the_pb Q"
  by (simp add: same_def on_pb_def the_pb_def)

lemma same_put_pb: "Q pb \<Longrightarrow> same (on_pb Q) (put_pb pb) (put_pb pb) any"
  by (simp add: same_def on_pb_def put_pb_def)

lemma same_put_status:
  "(\<And>pb. Q pb \<Longrightarrow> Q (set_status f pb)) \<Longrightarrow> same (on_pb Q) (put_status f) (put_status f) any"
  by (simp add: same_def on_pb_def put_status_def)

lemma same_runner_state: "same (on_pb Q) runner_state runner_state any"
  by (simp add: same_def on_pb_def runner_state_def)

lemma same_runner_set: "same (on_pb Q) (runner_set st) (runner_set st) any"
  by (simp add: same_def on_pb_def runner_set_def split_beta)

lemma same_on_world:
  "same (\<lambda>w. True) m m' R \<Longrightarrow> same (on_pb Q) (on_world m) (on_world m') R"
  by (auto simp: same_def on_pb_def on_world_def split_beta)

lemma same_on_world_call:
  "(\<And>w. c w = c' w) \<Longrightarrow> (\<And>w. R (fst (c' w))) \<Longrightarrow>
     same (on_pb Q) (on_world (go_call c)) (on_world (go_call c')) R"
  by (auto simp: same_def on_pb_def on_world_def go_laws split_beta)

text \<open>A statement that is the same in both runs.\<close>

lemma same_world_refl: "same (\<lambda>w. True) m m any"
  by (simp add: same_def)

lemma same_bind_refl:
  "(\<And>x. same (\<lambda>w. True) (f x) (f' x) R) \<Longrightarrow> same (\<lambda>w. True) (go_bind m f) (go_bind m f') R"
  by (rule same_bind [OF same_world_refl])

lemma same_on_world_refl: "same (on_pb Q) (on_world m) (on_world m) any"
  by (rule same_on_world [OF same_world_refl])

lemmas same_statements = same_the_pb same_put_pb same_runner_state same_runner_set
  same_on_world_refl same_outcome same_deref same_return

end
