(* ===== verification/Controller_Frame.thy ===== *)
theory Controller_Frame
  imports Relational
begin

text \<open>
  The controller run in an environment and in a variant of it, where the creation of jobs and the
  writes of statuses with certain failed job counts do something else. The locale
  \<open>env_variant\<close> states what makes the variant invisible; its lemmas follow the controller's definitions
  one by one.
\<close>

definition failed_jobs :: "packer_builder \<Rightarrow> int32 option" where
  "failed_jobs pb = st_FailedJobCount (pb_Status pb)"

definition env_variant_of ::
  "'w env \<Rightarrow> (job \<Rightarrow> ('w, go_error option) call) \<Rightarrow> (packer_builder \<Rightarrow> ('w, go_error option) call) \<Rightarrow>
   (int32 option \<Rightarrow> bool) \<Rightarrow> 'w env" where
  "env_variant_of E f g q =
     E\<lparr>env_create_job := f,
       env_update_pb_status := (\<lambda>pb. if q (failed_jobs pb) then env_update_pb_status E pb else g pb)\<rparr>"

lemma variant_fields [simp]:
  "env_create_job (env_variant_of E f g q) = f"
  "env_update_pb_status (env_variant_of E f g q) pb =
     (if q (failed_jobs pb) then env_update_pb_status E pb else g pb)"
  "env_now (env_variant_of E f g q) = env_now E"
  "env_time_error (env_variant_of E f g q) = env_time_error E"
  "env_uuid (env_variant_of E f g q) = env_uuid E"
  "env_map_order (env_variant_of E f g q) = env_map_order E"
  "env_select (env_variant_of E f g q) = env_select E"
  "env_run_choice (env_variant_of E f g q) = env_run_choice E"
  "env_retry (env_variant_of E f g q) = env_retry E"
  "env_get_pb (env_variant_of E f g q) = env_get_pb E"
  "env_patch_pb (env_variant_of E f g q) = env_patch_pb E"
  "env_list_jobs (env_variant_of E f g q) = env_list_jobs E"
  "env_list_pods (env_variant_of E f g q) = env_list_pods E"
  "env_get_job (env_variant_of E f g q) = env_get_job E"
  "env_get_secret (env_variant_of E f g q) = env_get_secret E"
  "env_get_reference (env_variant_of E f g q) = env_get_reference E"
  "env_set_controller (env_variant_of E f g q) = env_set_controller E"
  "env_record_event (env_variant_of E f g q) = env_record_event E"
  "env_slack_post (env_variant_of E f g q) = env_slack_post E"
  "env_aws_config (env_variant_of E f g q) = env_aws_config E"
  "env_describe_images (env_variant_of E f g q) = env_describe_images E"
  "env_create_tags (env_variant_of E f g q) = env_create_tags E"
  "env_modify_image (env_variant_of E f g q) = env_modify_image E"
  "env_describe_key_pairs (env_variant_of E f g q) = env_describe_key_pairs E"
  "env_delete_key_pair (env_variant_of E f g q) = env_delete_key_pair E"
  "env_describe_security_groups (env_variant_of E f g q) = env_describe_security_groups E"
  "env_delete_security_group (env_variant_of E f g q) = env_delete_security_group E"
  by (simp_all add: env_variant_of_def)

text \<open>Functions that use neither of the two calls are the same in the variant.\<close>

lemma variant_reads [simp]:
  "ClientAWS (env_variant_of E f g q) = ClientAWS E"
  "ami_New (env_variant_of E f g q) = ami_New E"
  "packer_New (env_variant_of E f g q) = packer_New E"
  "BuildFilters (env_variant_of E f g q) = BuildFilters E"
  "DescribeImagesWithFilters (env_variant_of E f g q) = DescribeImagesWithFilters E"
  "ami_runWithTimeout (env_variant_of E f g q) = ami_runWithTimeout E"
  "packer_runWithTimeout (env_variant_of E f g q) = packer_runWithTimeout E"
  "buildTagsAndFilters (env_variant_of E f g q) = buildTagsAndFilters E"
  "deprecateAMI (env_variant_of E f g q) = deprecateAMI E"
  "IsImageExpired (env_variant_of E f g q) = IsImageExpired E"
  "calculateRemainingTime (env_variant_of E f g q) = calculateRemainingTime E"
  "DeleteKeyPair (env_variant_of E f g q) = DeleteKeyPair E"
  "DeleteSecurityGroup (env_variant_of E f g q) = DeleteSecurityGroup E"
  "Slack_Send (env_variant_of E f g q) = Slack_Send E"
  "RecordNormalEvent (env_variant_of E f g q) = RecordNormalEvent E"
  "Job (env_variant_of E f g q) = Job E"
  by (intro ext; simp add: ClientAWS_def ami_New_def packer_New_def BuildFilters_def
      DescribeImagesWithFilters_def ami_runWithTimeout_def packer_runWithTimeout_def
      buildTagsAndFilters_def deprecateAMI_def IsImageExpired_def calculateRemainingTime_def
      DeleteKeyPair_def DeleteSecurityGroup_def Slack_Send_def RecordEvent_def RecordNormalEvent_def Job_def Let_def
      cong: split_cong)+

lemma variant_checks [simp]:
  "BaseAMIExists (env_variant_of E f g q) = BaseAMIExists E"
  "AMIChecks (env_variant_of E f g q) = AMIChecks E"
  "tagAMI (env_variant_of E f g q) = tagAMI E"
  by (intro ext; simp add: BaseAMIExists_def AMIChecks_def tagAMI_def cong: split_cong)+

lemma variant_deprecate_loop [simp]:
  "deprecate_loop (env_variant_of E f g q) cfg x images = deprecate_loop E cfg x images"
  by (induction images) (simp_all cong: split_cong)

lemma variant_updates [simp]:
  "deprecateOldAMIs (env_variant_of E f g q) = deprecateOldAMIs E"
  "ami_update_op (env_variant_of E f g q) = ami_update_op E"
  "handleAMIUpdates (env_variant_of E f g q) = handleAMIUpdates E"
  "processLogLine (env_variant_of E f g q) = processLogLine E"
  by (intro ext; simp add: deprecateOldAMIs_def ami_update_op_def handleAMIUpdates_def
      processLogLine_def Let_def cong: split_cong)+

lemma variant_references [simp]:
  "active_references (env_variant_of E f g q) js w = active_references E js w"
  by (induction js arbitrary: w) (auto split: sum.splits prod.splits)

text \<open>The steps before the handlers leave a state other than the unset one as it is.\<close>

definition not_creating :: "packer_builder \<Rightarrow> bool" where
  "not_creating pb \<longleftrightarrow> st_State (pb_Status pb) \<noteq> StateJobCreation"

lemma set_condition_pb_frame:
  "cx_pb (snd (set_condition_pb E t s r m c)) =
     set_status (\<lambda>x. x\<lparr>st_Conditions := st_Conditions (pb_Status (cx_pb (snd (set_condition_pb E t s r m c))))\<rparr>)
       (cx_pb c) \<and>
   cx_runner (snd (set_condition_pb E t s r m c)) = cx_runner c \<and>
   (\<exists>e. fst (set_condition_pb E t s r m c) = Returns e)"
  by (simp add: set_condition_pb_def ctx_run go_laws split_beta SetCondition_pb)

lemma first_build_id_frame:
  "cx_runner (snd (first_build_id E c)) = cx_runner c \<and>
   (\<exists>i. cx_pb (snd (first_build_id E c)) = set_status (\<lambda>s. s\<lparr>st_BuildID := i\<rparr>) (cx_pb c) \<and>
      (st_BuildID (pb_Status (cx_pb c)) \<noteq> '''' \<longrightarrow> i = st_BuildID (pb_Status (cx_pb c)))) \<and>
   fst (first_build_id E c) = Returns ()"
proof (cases "st_BuildID (pb_Status (cx_pb c)) = ''''")
  case True
  then show ?thesis
    by (auto simp: first_build_id_def ctx_run go_laws split_beta)
next
  case False
  then show ?thesis
    by (auto simp: first_build_id_def the_pb_def go_laws set_status_def
        intro!: exI [of _ "st_BuildID (pb_Status (cx_pb c))"])
qed

lemma first_condition_frame:
  "cx_runner (snd (first_condition E c)) = cx_runner c \<and>
   (\<exists>cs. cx_pb (snd (first_condition E c)) = set_status (\<lambda>s. s\<lparr>st_Conditions := cs\<rparr>) (cx_pb c)) \<and>
   fst (first_condition E c) = Returns ()"
proof (cases "st_Conditions (pb_Status (cx_pb c)) = []")
  case True
  then show ?thesis
    using set_condition_pb_frame [of E ConditionTypeInitial ConditionTrue "''Starting''"
        "''Transitioning to Initializing''" c]
    by (auto simp: first_condition_def the_pb_def go_laws)
next
  case False
  then show ?thesis
    by (auto simp: first_condition_def the_pb_def go_laws set_status_def
        intro!: exI [of _ "st_Conditions (pb_Status (cx_pb c))"])
qed

lemma first_state_frame:
  "cx_runner (snd (first_state E c)) = cx_runner c \<and>
   (\<exists>st. cx_pb (snd (first_state E c)) = set_status (\<lambda>s. s\<lparr>st_State := st\<rparr>) (cx_pb c) \<and>
      st = (if st_State (pb_Status (cx_pb c)) = StateUnset then StateInitial
            else st_State (pb_Status (cx_pb c)))) \<and>
   (\<exists>e. fst (first_state E c) = Returns e \<and>
      (st_State (pb_Status (cx_pb c)) \<noteq> StateUnset \<longrightarrow> e = None \<and> snd (first_state E c) = c))"
  by (cases "st_State (pb_Status (cx_pb c)) = StateUnset")
    (simp_all add: first_state_def ctx_run go_laws split_beta set_status_def)

section \<open>The variant is invisible\<close>

locale env_variant =
  fixes E :: "'w env"
    and f :: "job \<Rightarrow> ('w, go_error option) call"
    and g :: "packer_builder \<Rightarrow> ('w, go_error option) call"
    and q :: "int32 option \<Rightarrow> bool"
  assumes q_zero: "q (Some 0)"
    and q_get: "fst (env_get_pb E k w) = Inr pb \<Longrightarrow> q (failed_jobs pb)"
    and q_patch: "fst (env_patch_pb E a b w) = Inr pb \<Longrightarrow> q (failed_jobs pb)"
begin

abbreviation E' :: "'w env" where
  "E' \<equiv> env_variant_of E f g q"

abbreviation Q :: "packer_builder \<Rightarrow> bool" where
  "Q \<equiv> (\<lambda>pb. q (failed_jobs pb))"

abbreviation agree :: "('w ctx, 'a) go \<Rightarrow> ('w ctx, 'a) go \<Rightarrow> bool" where
  "agree m m' \<equiv> same (on_pb Q) m m' any"

lemma status_attempt: "Q pb \<Longrightarrow> Status_attempt (pb_ops E') pb = Status_attempt (pb_ops E) pb"
  by (rule ext) (simp add: Status_attempt_def failed_jobs_def cong: split_cong)

lemma status_update: "Q pb \<Longrightarrow> Status_Update E' (pb_ops E') pb = Status_Update E (pb_ops E) pb"
  by (simp add: Status_Update_def status_attempt)

lemma set_condition:
  "Q pb \<Longrightarrow> SetCondition E' (pb_ops E') pb t s r m = SetCondition E (pb_ops E) pb t s r m"
  by (rule ext) (simp add: SetCondition_def Let_def split_beta status_update failed_jobs_def
      pb_SetConditions_def)

lemma failed_jobs_set_condition:
  "failed_jobs (snd (fst (SetCondition E ops pb t s r m w))) = failed_jobs pb"
  if "ops = pb_ops E"
  using that by (simp add: SetCondition_pb failed_jobs_def)

lemma active_build_op: "active_build_op E' m ns n w = active_build_op E m ns n w"
proof (cases "fst (env_get_pb E (ns, n) w)")
  case (Inl err)
  then show ?thesis by (auto simp: active_build_op_def split: prod.splits)
next
  case (Inr latest)
  then have "Q latest" by (rule q_get)
  then have "updatePackerBuilderStatus E' latest bs v = updatePackerBuilderStatus E latest bs v" for bs v
    by (simp add: updatePackerBuilderStatus_def split_beta Let_def status_update failed_jobs_def)
  with Inr show ?thesis
    by (auto simp: active_build_op_def Let_def split: prod.splits sum.splits)
qed

lemma active_build_check: "ActiveBuildCheck E' = ActiveBuildCheck E"
  by (intro ext) (simp add: ActiveBuildCheck_def active_build_op [abs_def])

lemma adopt_status_failed_jobs [simp]: "failed_jobs (adopt_status a b c pb) = failed_jobs pb"
  by (simp add: adopt_status_def failed_jobs_def)

lemma same_status_update:
  "Q pb \<Longrightarrow> same (\<lambda>w. True) (go_call (Status_Update E' (pb_ops E') pb))
     (go_call (Status_Update E (pb_ops E) pb)) any"
  by (simp add: status_update same_world_refl)

lemma adopt_existing:
  "Q pb \<Longrightarrow> same (\<lambda>w. True) (adoptExistingImage E' m pb) (adoptExistingImage E m pb) (\<lambda>(r, pb'). Q pb')"
  unfolding adoptExistingImage_def variant_fields(3-) variant_reads variant_checks variant_updates
  by (intro same_bind_refl same_control same_return same_bind [OF same_status_update]; simp)

lemma adoption_op:
  "Q pb \<Longrightarrow> same (\<lambda>w. True) (adoption_op E' m pb) (adoption_op E m pb) (\<lambda>(r, pb'). Q pb')"
  unfolding adoption_op_def
  by (intro same_bind_refl same_control same_return same_bind [OF adopt_existing]) auto

lemma adoption:
  "Q pb \<Longrightarrow> same (\<lambda>w. True) (adoptionProcessor E' m pb) (adoptionProcessor E m pb) (\<lambda>(r, pb'). Q pb')"
  unfolding adoptionProcessor_def packer_runWithTimeout_def variant_fields(3-)
  by (intro same_bind [OF adoption_op] same_bind_refl same_control same_return) auto

lemma latest_check:
  "Q pb \<Longrightarrow> same (\<lambda>w. True) (LatestAMIDoesNotExistsOrExpired E' m d pb)
     (LatestAMIDoesNotExistsOrExpired E m d pb) (\<lambda>(r, pb'). Q pb')"
  unfolding LatestAMIDoesNotExistsOrExpired_def variant_reads variant_checks
  by (intro same_bind [OF adoption] same_bind_refl same_control same_return) auto

lemma failed_jobs_construct:
  "construct_command ord pb = Some pb' \<Longrightarrow> failed_jobs pb' = failed_jobs pb"
  by (auto simp: construct_command_def failed_jobs_def ensureDefaultCommands_eq)

lemma construct:
  "Q pb \<Longrightarrow> same (\<lambda>w. True) (ConstructCommand E' m pb) (ConstructCommand E m pb) (\<lambda>(r, pb'). Q pb')"
  unfolding ConstructCommand_def variant_fields(3-)
  by (intro same_bind_refl same_bind [OF same_deref [where R = Q]]
      same_bind [OF same_status_update] same_return)
    (auto simp: failed_jobs_construct)

text \<open>Recording a state change.\<close>

lemma set_condition_agree: "agree (set_condition_pb E' t s r m) (set_condition_pb E t s r m)"
proof (rule sameI)
  fix st :: "'w ctx"
  assume "on_pb Q st"
  then have Q: "Q (cx_pb st)" by (simp add: on_pb_def)
  then show "set_condition_pb E' t s r m st = set_condition_pb E t s r m st \<and>
      on_pb Q (snd (set_condition_pb E' t s r m st)) \<and>
      (\<forall>x. fst (set_condition_pb E' t s r m st) = Returns x \<longrightarrow> True)"
    using failed_jobs_set_condition [OF refl, of "cx_pb st" t s r m "cx_world st"]
    by (simp add: set_condition_pb_def set_condition on_pb_def ctx_run go_laws split_beta)
qed

lemma patch_agree: "agree (patch_pb E') (patch_pb E)"
proof (rule sameI)
  fix st :: "'w ctx"
  assume "on_pb Q st"
  then show "patch_pb E' st = patch_pb E st \<and> on_pb Q (snd (patch_pb E' st)) \<and>
      (\<forall>x. fst (patch_pb E' st) = Returns x \<longrightarrow> True)"
    using q_patch [of "cx_pb st" "cx_pb st" "cx_world st"]
    by (auto simp: patch_pb_def on_pb_def ctx_run go_laws split_beta split: sum.splits)
qed

lemma notify_agree: "agree (notify_slack E' m) (notify_slack E m)"
  unfolding notify_slack_def variant_fields(3-) variant_reads
  by (intro same_bind [OF same_the_pb] same_bind [OF same_on_world_refl] same_control same_return
      same_on_world_refl) auto

lemma set_status_frame:
  "(\<And>s. st_FailedJobCount (h s) = st_FailedJobCount s) \<Longrightarrow> agree (put_status h) (put_status h)"
  by (rule same_put_status) (simp add: failed_jobs_def)

lemma reconcileUpdate_agree: "agree (reconcileUpdate E' n m l cs ct) (reconcileUpdate E n m l cs ct)"
  unfolding reconcileUpdate_def variant_fields(3-) variant_reads
  by (intro same_bind [OF same_on_world_refl] same_bind [OF set_status_frame]
      same_bind [OF same_the_pb] same_bind [OF set_condition_agree] same_bind [OF notify_agree]
      same_bind [OF same_runner_set] same_control same_return patch_agree) auto

lemma error_agree: "agree (transitionToErrorState E' r) (transitionToErrorState E r)"
  unfolding transitionToErrorState_def
  by (intro same_bind [OF reconcileUpdate_agree] same_control same_return) auto

lemma move_agree: "agree m m' \<Longrightarrow> agree (move_or_error E' t m) (move_or_error E t m')"
  unfolding move_or_error_def
  by (intro same_bind [of _ m] same_control same_return error_agree) auto

lemmas move_update = move_agree [OF reconcileUpdate_agree]

text \<open>The handlers.\<close>

lemma init_agree: "agree (init_build E') (init_build E)"
proof -
  have "agree (put_status (\<lambda>s. s\<lparr>
       st_MaxNumberOfFailedJobs :=
         (case st_MaxNumberOfFailedJobs s of None \<Rightarrow> Some 3 | Some n \<Rightarrow> Some n),
       st_FailedJobCount := (case st_FailedJobCount s of None \<Rightarrow> Some 0 | Some n \<Rightarrow> Some n)\<rparr>))
     (put_status (\<lambda>s. s\<lparr>
       st_MaxNumberOfFailedJobs :=
         (case st_MaxNumberOfFailedJobs s of None \<Rightarrow> Some 3 | Some n \<Rightarrow> Some n),
       st_FailedJobCount := (case st_FailedJobCount s of None \<Rightarrow> Some 0 | Some n \<Rightarrow> Some n)\<rparr>))"
    by (rule same_put_status) (auto simp: failed_jobs_def q_zero split: option.splits)
  note put = same_bind [OF this]
  show ?thesis
    unfolding init_build_def
    by (intro put same_bind [OF same_the_pb] same_bind [OF same_deref [where R = any]]
        same_control same_return move_update) auto
qed

lemma end_agree: "agree (errorBuild E') (errorBuild E)" "agree (completeBuild E') (completeBuild E)"
  "agree (transitionToJobCompletedState E') (transitionToJobCompletedState E)"
  unfolding errorBuild_def completeBuild_def transitionToJobCompletedState_def
  by (rule move_update)+

lemma if_world_refl:
  "agree (if b then on_world m else go_return x) (if b then on_world m else go_return x)"
  by (simp add: same_on_world_refl same_return)

lemma cleanup_agree: "agree (cleanupBuild E' pm) (cleanupBuild E pm)"
  unfolding cleanupBuild_def cleanup_group_def variant_reads
  by (intro same_bind [OF same_the_pb] same_bind [OF if_world_refl] same_bind [OF set_status_frame]
      same_option error_agree move_update) auto

lemma flight_results: "failed_jobs (snd (processFlightCheckResults rs pb)) = failed_jobs pb"
  by (induction rs pb rule: processFlightCheckResults.induct)
    (simp_all add: Let_def split_beta failed_jobs_def)

lemma after_checks:
  assumes "case x of (r, pb') \<Rightarrow> Q pb'"
  shows "agree
    (case x of (l, pb') \<Rightarrow> (case processFlightCheckResults [r, l] pb' of
       (ok, pb'') \<Rightarrow> go_bind (put_pb pb'') (\<lambda>u. go_return ok)))
    (case x of (l, pb') \<Rightarrow> (case processFlightCheckResults [r, l] pb' of
       (ok, pb'') \<Rightarrow> go_bind (put_pb pb'') (\<lambda>u. go_return ok)))"
proof (cases x)
  case (Pair l pb')
  then show ?thesis
    using assms flight_results [of "[r, l]" pb']
    by (auto simp: split_beta simp del: processFlightCheckResults.simps
        intro!: same_bind [OF same_put_pb [where Q = Q]] same_return)
qed

lemma perform_agree: "agree (performFlightChecks E' d) (performFlightChecks E d)"
  unfolding performFlightChecks_def variant_reads variant_checks Let_def
  by (intro same_bind [OF same_the_pb] same_bind [OF same_on_world_refl]
      same_bind [OF same_put_pb [where Q = Q]] same_bind [OF same_on_world [OF latest_check]]
      after_checks)
    (simp_all add: failed_jobs_def)

lemma flight_agree: "agree (flightCheck E' pm) (flightCheck E pm)"
  unfolding flightCheck_def active_build_check Let_def
  by (intro same_bind [OF same_the_pb] same_bind [OF same_on_world_refl] same_bind [OF perform_agree]
      same_if same_return move_update) auto

lemma setup_agree: "agree (setupJob E' pm) (setupJob E pm)"
  unfolding setupJob_def variant_fields(3-)
proof (intro same_bind [OF same_on_world_refl] same_bind [OF same_outcome [where R = any]]
    same_bind [OF same_the_pb] same_bind [OF set_status_frame]
    same_bind [OF same_on_world [OF construct]], goal_cases)
  case (4 u i pb0 v pb x)
  then show ?case
    by (cases x) (auto simp: status_update intro!: same_bind [OF same_put_pb [where Q = Q]]
        same_option same_return same_on_world_refl)
qed simp_all

lemma create_job_agree:
  "f = env_create_job E \<Longrightarrow> agree (create_job E' j) (create_job E j)"
  unfolding create_job_def variant_fields
  by (intro same_bind [OF same_the_pb] same_bind [OF same_on_world_refl] same_control same_return)
    (auto intro: same_on_world_refl)

lemma create_agree:
  assumes "f = env_create_job E"
  shows "agree (createBuild E' pm) (createBuild E pm)"
  unfolding createBuild_def variant_reads variant_fields(3-)
proof (intro same_bind [OF setup_agree] same_option error_agree same_bind [OF same_the_pb], goal_cases)
  case (1 x pb)
  have "same (\<lambda>w. True) (Job E pm pb) (Job E pm pb) (\<lambda>(r, pb'). Q pb')"
    using 1 by (auto simp: same_def Job_def failed_jobs_def Let_def go_laws go_deref_def
        split: if_splits sum.splits outcome.splits option.splits)
  note job = same_on_world [OF this]
  show ?case
    by (intro same_bind [OF job])
      (auto intro!: same_bind [OF same_put_pb [where Q = Q]] same_sum error_agree same_option
        same_bind [OF same_on_world_refl] same_bind [OF create_job_agree [OF assms]] move_update)
qed

text \<open>The loop of a running build.\<close>

lemma agree_bind:
  "agree m m' \<Longrightarrow> (\<And>x. agree (h x) (h' x)) \<Longrightarrow> agree (go_bind m h) (go_bind m' h')"
  by (rule same_bind)

lemma wrap_agree: "agree m m' \<Longrightarrow> agree (go_bind m (\<lambda>r. go_return (Some r))) (go_bind m' (\<lambda>r. go_return (Some r)))"
  by (erule agree_bind) (simp add: same_return)

lemma ticker_agree: "agree (ticker_check E') (ticker_check E)"
proof (rule sameI)
  fix s :: "'w ctx"
  assume I: "on_pb Q s"
  note err = wrap_agree [OF error_agree]
  have run: "go_bind (transitionToErrorState E' t) (\<lambda>r. go_return (Some r)) v =
      go_bind (transitionToErrorState E t) (\<lambda>r. go_return (Some r)) v \<and>
      on_pb Q (snd (go_bind (transitionToErrorState E t) (\<lambda>r. go_return (Some r)) v))"
    if "on_pb Q v" for t v
    using err [of t] that unfolding same_def by metis
  show "ticker_check E' s = ticker_check E s \<and> on_pb Q (snd (ticker_check E' s)) \<and>
      (\<forall>x. fst (ticker_check E' s) = Returns x \<longrightarrow> True)"
  proof (cases "fst (env_get_pb E (object_key (pb_Meta (cx_pb s))) (cx_world s))")
    case (Inl e)
    then show ?thesis
      using I run by (auto simp: ticker_check_def ctx_run go_bind_run [of the_pb]
          go_bind_run [of "on_world (go_call c)" for c] go_run_simps split_beta on_pb_def)
  next
    case (Inr pb')
    then have "Q pb'" by (rule q_get)
    with Inr show ?thesis
      using run by (auto simp: ticker_check_def ctx_run go_bind_run [of the_pb]
          go_bind_run [of "on_world (go_call c)" for c] go_bind_run [of "put_pb p" for p]
          go_run_simps split_beta on_pb_def split: sum.splits)
  qed
qed

lemma stream_line_agree: "agree (stream_line E' pm l rs) (stream_line E pm l rs)"
proof (rule sameI)
  fix s :: "'w ctx"
  have eq: "stream_line E' = stream_line E"
    by (intro ext) (simp add: stream_line_def cong: streamer.case_cong)
  have "failed_jobs (set_status (\<lambda>x. snd (scan_patterns line ps (pb_Status pb))) pb) = failed_jobs pb"
    for line ps pb
  proof -
    have "st_FailedJobCount (snd (scan_patterns line ps st)) = st_FailedJobCount st" for st
    proof (induction line ps st rule: scan_patterns.induct)
      case (2 line p ps s)
      have "st_FailedJobCount (status_field k v s) = st_FailedJobCount s" for k v
        by (cases k) simp_all
      with 2 show ?case by (auto simp: split_beta Let_def split: option.splits)
    qed simp
    then show ?thesis by (simp add: failed_jobs_def)
  qed
  then have "fst (processLogLine E pm l ps pb w) = Returns (fin, ps', pb') \<Longrightarrow> failed_jobs pb' = failed_jobs pb"
    for ps pb w fin ps' pb'
    by (auto simp: processLogLine_def Let_def split_beta go_laws split: if_splits outcome.splits)
  moreover assume "on_pb Q s"
  ultimately have "on_pb Q (snd (stream_line E pm l rs s))"
    by (auto simp: stream_line_def ctx_run go_laws split_beta on_pb_def
        split: streamer.splits outcome.splits)
  then show "stream_line E' pm l rs s = stream_line E pm l rs s \<and>
      on_pb Q (snd (stream_line E' pm l rs s)) \<and>
      (\<forall>x. fst (stream_line E' pm l rs s) = Returns x \<longrightarrow> True)"
    by (simp add: eq)
qed

lemma stream_open_agree: "agree (stream_open E' pm rs) (stream_open E pm rs)"
proof -
  have eq: "stream_open E' pm rs = stream_open E pm rs"
    by (simp add: stream_open_def cong: streamer.case_cong)
  have "cx_pb (snd (stream_open E pm rs s)) = cx_pb s" for s
    by (auto simp: stream_open_def ctx_run go_laws go_deref_def split_beta
        split: streamer.splits option.splits sum.splits)
  then show ?thesis
    unfolding eq by (intro same_refl) (simp add: on_pb_def)
qed

lemma take_agree: "agree (take_result E' r) (take_result E r)"
  unfolding take_result_def
  by (intro same_if wrap_agree same_return end_agree error_agree) auto

lemma loop_agree: "agree (running_loop E' pm n rs) (running_loop E pm n rs)"
proof (induction n arbitrary: rs)
  case 0
  then show ?case by (simp add: same_return)
next
  case (Suc n)
  have answer: "agree m m' \<Longrightarrow> agree
      (go_bind m (\<lambda>a. case a of Some r \<Rightarrow> go_return (Some r) | None \<Rightarrow> running_loop E' pm n rs'))
      (go_bind m' (\<lambda>a. case a of Some r \<Rightarrow> go_return (Some r) | None \<Rightarrow> running_loop E pm n rs'))"
    for m m' rs'
    by (erule agree_bind) (auto intro!: same_option same_return Suc.IH)
  show ?case
    unfolding running_loop.simps variant_fields(3-)
    apply (rule agree_bind [OF same_on_world_refl])
    subgoal for choice
      by (cases choice)
        (auto intro!: Suc.IH agree_bind [OF stream_open_agree] agree_bind [OF stream_line_agree]
          answer wrap_agree same_option same_return take_agree ticker_agree error_agree)
    done
qed

text \<open>
  The whole reconciliation. The handler of \<open>JobCreation\<close> is the only one that may tell the two
  environments apart, by the creation of the job.
\<close>

lemma running_agree: "agree (runningBuild E' n) (runningBuild E n)"
  unfolding runningBuild_def variant_reads
  by (intro same_bind [OF same_the_pb] same_bind [OF same_on_world_refl] loop_agree)

lemma dispatch_agree:
  assumes "st \<noteq> StateJobCreation \<or> f = env_create_job E"
  shows "agree (dispatch E' n pm st) (dispatch E n pm st)"
proof (cases "st = StateJobCreation")
  case True
  with assms have "f = env_create_job E" by simp
  from wrap_agree [OF create_agree [OF this]] True show ?thesis
    by (simp only: dispatch_def pb_state.case)
next
  case False
  then show ?thesis
    unfolding dispatch_def
    by (cases st) (auto intro!: wrap_agree init_agree flight_agree running_agree
        end_agree cleanup_agree same_return)
qed

lemma sync_agree: "agree (sync_runner E') (sync_runner E)"
  unfolding sync_runner_def
  by (intro same_bind [OF same_the_pb] same_bind [OF same_runner_state] same_if same_return
      same_runner_set) auto

lemma sync_state:
  "fst (sync_runner E s) = Returns None \<Longrightarrow>
     GetCurrentState (cx_runner (snd (sync_runner E s)))
       (st_BuildID (pb_Status (cx_pb (snd (sync_runner E s))))) = st_State (pb_Status (cx_pb s)) \<and>
     cx_pb (snd (sync_runner E s)) = cx_pb s"
  by (auto simp: sync_runner_def ctx_run go_laws SetState_def Let_def split: if_splits)

lemma sync_returns: "\<exists>r. fst (sync_runner E s) = Returns r"
  by (cases "GetCurrentState (cx_runner s) (st_BuildID (pb_Status (cx_pb s))) = st_State (pb_Status (cx_pb s))")
    (simp_all add: sync_runner_def ctx_run go_laws split_beta)

lemma catchRek_agree:
  assumes "Q (cx_pb s)" "st_State (pb_Status (cx_pb s)) \<noteq> StateJobCreation \<or> f = env_create_job E"
  shows "catchRek E' n s = catchRek E n s \<and> on_pb Q (snd (catchRek E n s))"
proof -
  let ?s1 = "s\<lparr>cx_world := snd (packer_New E (cx_pb s) (cx_world s))\<rparr>"
  let ?pm = "fst (packer_New E (cx_pb s) (cx_world s))"
  have s1: "on_pb Q ?s1" using assms(1) by (simp add: on_pb_def)
  have sync: "sync_runner E' ?s1 = sync_runner E ?s1" and s2: "on_pb Q (snd (sync_runner E ?s1))"
    using sync_agree s1 unfolding same_def by metis+
  have start: "catchRek e n s = go_bind (sync_runner e) (\<lambda>refused.
     case refused of
       Some err \<Rightarrow>
         go_bind (transitionToErrorState e (''failed to update state: '' @ error_text err))
           (\<lambda>r. go_return (Some r))
     | None \<Rightarrow> go_bind runner_state (dispatch e n ?pm)) ?s1" if "packer_New e = packer_New E" for e
    by (simp add: catchRek_def ctx_run go_bind_run [of the_pb] go_bind_run [of "on_world (go_call c)" for c]
        go_run_simps split_beta that cong: option.case_cong)
  obtain r where "fst (sync_runner E ?s1) = Returns r"
    using sync_returns by blast
  note r = this
  let ?s2 = "snd (sync_runner E ?s1)"
  show ?thesis
  proof (cases r)
    case None
    with r have none: "fst (sync_runner E ?s1) = Returns None" by simp
    have st: "runner_state ?s2 = (Returns (st_State (pb_Status (cx_pb s))), ?s2)"
      using conjunct1 [OF sync_state [OF none]] by (simp only: runner_state_def) simp
    have run: "catchRek e n s = dispatch e n ?pm (st_State (pb_Status (cx_pb s))) ?s2"
      if "packer_New e = packer_New E" "sync_runner e ?s1 = sync_runner E ?s1" for e
    proof -
      have "fst (sync_runner e ?s1) = Returns None" using none that(2) by simp
      then show ?thesis
        unfolding start [OF that(1)] by (simp only: go_bind_at option.case that(2)) (simp add: go_bind_at st)
    qed
    show ?thesis
      using dispatch_agree [OF assms(2)] s2 unfolding run [OF variant_reads(3) sync]
        run [OF refl refl] same_def by metis
  next
    case (Some err)
    with r have some: "fst (sync_runner E ?s1) = Returns (Some err)" by simp
    have run: "catchRek e n s = go_bind (transitionToErrorState e
          (''failed to update state: '' @ error_text err)) (\<lambda>r. go_return (Some r)) ?s2"
      if "packer_New e = packer_New E" "sync_runner e ?s1 = sync_runner E ?s1" for e
    proof -
      have "fst (sync_runner e ?s1) = Returns (Some err)" using some that(2) by simp
      then show ?thesis
        unfolding start [OF that(1)] by (simp only: go_bind_at option.case that(2))
    qed
    show ?thesis
      using wrap_agree [OF error_agree] s2 unfolding run [OF variant_reads(3) sync]
        run [OF refl refl] same_def by metis
  qed
qed

lemma first_agree: "agree (first_build_id E') (first_build_id E)"
  "agree (first_condition E') (first_condition E)" "agree (first_state E') (first_state E)"
proof -
  show "agree (first_build_id E') (first_build_id E)"
    unfolding first_build_id_def variant_fields(3-)
    by (intro same_bind [OF same_the_pb] same_if same_bind [OF same_on_world_refl]
        set_status_frame same_return) auto
  show "agree (first_condition E') (first_condition E)"
    unfolding first_condition_def
    by (intro same_bind [OF same_the_pb] same_if same_bind [OF set_condition_agree] same_return) auto
  show "agree (first_state E') (first_state E)"
    unfolding first_state_def
    by (intro same_bind [OF same_the_pb] same_if same_bind [OF set_status_frame] same_return
        same_on_world [OF same_status_update]) auto
qed

text \<open>The steps before the handler leave a builder out of \<open>JobCreation\<close> when it was out of it.\<close>

lemma first_steps_not_creating:
  assumes "not_creating (cx_pb s)"
  shows "not_creating (cx_pb (snd (first_state E (snd (first_condition E (snd (first_build_id E s)))))))"
proof -
  let ?s1 = "snd (first_build_id E s)"
  let ?s2 = "snd (first_condition E ?s1)"
  obtain i where "cx_pb ?s1 = set_status (\<lambda>x. x\<lparr>st_BuildID := i\<rparr>) (cx_pb s)"
    using first_build_id_frame [of E s] by auto
  then have a: "st_State (pb_Status (cx_pb ?s1)) = st_State (pb_Status (cx_pb s))"
    by (simp only: set_status_simps) simp
  obtain cs where "cx_pb ?s2 = set_status (\<lambda>x. x\<lparr>st_Conditions := cs\<rparr>) (cx_pb ?s1)"
    using first_condition_frame [of E ?s1] by blast
  then have b: "st_State (pb_Status (cx_pb ?s2)) = st_State (pb_Status (cx_pb ?s1))"
    by (simp only: set_status_simps) simp
  obtain st where "cx_pb (snd (first_state E ?s2)) = set_status (\<lambda>x. x\<lparr>st_State := st\<rparr>) (cx_pb ?s2)"
    and st: "st = (if st_State (pb_Status (cx_pb ?s2)) = StateUnset then StateInitial
          else st_State (pb_Status (cx_pb ?s2)))"
    using first_state_frame [of E ?s2] by blast
  then have "st_State (pb_Status (cx_pb (snd (first_state E ?s2)))) = st"
    by (simp only: set_status_simps) simp
  with st a b assms show ?thesis
    by (simp only: not_creating_def split: if_splits) auto
qed

lemma Reconcile_agree:
  assumes "\<And>pb. fst (env_get_pb E req (cx_world s)) = Inr pb \<Longrightarrow>
     not_creating pb \<or> f = env_create_job E"
  shows "Reconcile E' n req s = Reconcile E n req s"
proof (cases "fst (env_get_pb E req (cx_world s))")
  case (Inl err)
  then show ?thesis
    by (simp add: Reconcile_def ctx_run go_laws split_beta)
next
  case (Inr pb)
  let ?s0 = "s\<lparr>cx_world := snd (env_get_pb E req (cx_world s)), cx_pb := pb\<rparr>"
  let ?s1 = "snd (first_build_id E ?s0)"
  let ?s2 = "snd (first_condition E ?s1)"
  let ?s3 = "snd (first_state E ?s2)"
  have s0: "on_pb Q ?s0" using q_get [OF Inr] by (simp add: on_pb_def)
  have s1: "first_build_id E' ?s0 = first_build_id E ?s0" "on_pb Q ?s1"
    using first_agree(1) s0 unfolding same_def by metis+
  have s2: "first_condition E' ?s1 = first_condition E ?s1" "on_pb Q ?s2"
    using first_agree(2) s1(2) unfolding same_def by metis+
  have s3: "first_state E' ?s2 = first_state E ?s2" "on_pb Q ?s3"
    using first_agree(3) s2(2) unfolding same_def by metis+
  have "not_creating (cx_pb ?s3) \<or> f = env_create_job E"
    using assms [OF Inr] first_steps_not_creating [of ?s0] by auto
  with s3(2) have last: "catchRek E' n ?s3 = catchRek E n ?s3"
    using catchRek_agree [of ?s3] by (simp add: on_pb_def not_creating_def)
  have start: "Reconcile e n req s =
      go_bind (first_build_id e) (\<lambda>u. go_bind (first_condition e) (\<lambda>u. go_bind (first_state e) (\<lambda>failed.
        case failed of
          Some err \<Rightarrow> go_return (Some (if is_deadline err then Requeue else Failed err))
        | None \<Rightarrow> catchRek e n))) ?s0" if "env_get_pb e = env_get_pb E" for e
    using Inr that
    by (simp add: Reconcile_def go_bind_run [of "on_world (go_call c)" for c] go_bind_run [of "put_pb p" for p]
        ctx_run go_run_simps split_beta)
  obtain r where r: "fst (first_state E ?s2) = Returns r"
    using first_state_frame [of E ?s2] by blast
  have "Reconcile e n req s =
      (case r of Some err \<Rightarrow> go_return (Some (if is_deadline err then Requeue else Failed err))
       | None \<Rightarrow> catchRek e n) ?s3"
    if "env_get_pb e = env_get_pb E" "first_build_id e ?s0 = first_build_id E ?s0"
      "first_condition e ?s1 = first_condition E ?s1" "first_state e ?s2 = first_state E ?s2" for e
    unfolding start [OF that(1)]
    using first_build_id_frame [of E ?s0] first_condition_frame [of E ?s1] r
    by (simp add: go_bind_run that)
  from this [OF variant_fields(10) s1(1) s2(1) s3(1)] this [OF refl refl refl refl] last
  show ?thesis by (cases r) simp_all
qed

end

end
