(* ===== verification/Runner_Moves.thy ===== *)
theory Runner_Moves
  imports Controller_Frame
begin

text \<open>
  Which moves of the shared runner the handlers of the controller can make. \<open>moves T m\<close> says that a
  statement sequence reaches the runner by calls of \<open>SetState\<close> with targets in \<open>T\<close> only; it is
  proved handler by handler, and gives the refinement of the lifecycle below by a reconciliation.
\<close>

section \<open>Moves of the runner\<close>

definition moves :: "pb_state set \<Rightarrow> ('w ctx, 'a) go \<Rightarrow> bool" where
  "moves T m \<longleftrightarrow>
     (\<forall>s. \<exists>calls. cx_runner (snd (m s)) = runner.puts calls (cx_runner s) \<and> snd ` set calls \<subseteq> T)"

lemma moves_frame: "(\<And>s. cx_runner (snd (m s)) = cx_runner s) \<Longrightarrow> moves T m"
  by (auto simp: moves_def intro!: exI [of _ "[]"])

lemma moves_calls:
  "moves T m \<Longrightarrow>
     \<exists>cs. cx_runner (snd (m s)) = runner.puts cs (cx_runner s) \<and> snd ` set cs \<subseteq> T"
  unfolding moves_def by (rule spec)

lemma moves_basic:
  "moves T (on_world m)" "moves T the_pb" "moves T (put_pb pb)"
  "moves T (put_status h)" "moves T runner_state" "moves T (go_return x)"
  "moves T (go_panic t)" "moves T (go_outcome r)" "moves T (go_deref p)"
  by (rule moves_frame; simp add: ctx_run go_laws go_outcome_def go_deref_def split_beta
      split: option.splits)+

lemma moves_set: "st \<in> T \<Longrightarrow> moves T (runner_set st)"
  unfolding moves_def
proof
  fix s :: "'a ctx"
  assume "st \<in> T"
  then show "\<exists>calls. cx_runner (snd (runner_set st s)) = runner.puts calls (cx_runner s) \<and>
      snd ` set calls \<subseteq> T"
    by (intro exI [of _ "[(st_BuildID (pb_Status (cx_pb s)), st)]"])
      (simp add: runner_set_def split_beta)
qed

lemma moves_bind:
  assumes "moves T m" "\<And>x. moves T (h x)"
  shows "moves T (go_bind m h)"
  unfolding moves_def
proof
  fix s
  obtain cs where m: "cx_runner (snd (m s)) = runner.puts cs (cx_runner s)" "snd ` set cs \<subseteq> T"
    using moves_calls [OF assms(1)] by blast
  show "\<exists>calls. cx_runner (snd (go_bind m h s)) = runner.puts calls (cx_runner s) \<and>
      snd ` set calls \<subseteq> T"
  proof (cases "fst (m s)")
    case (Returns x)
    obtain ds where "cx_runner (snd (h x (snd (m s)))) = runner.puts ds (cx_runner (snd (m s)))"
      "snd ` set ds \<subseteq> T"
      using moves_calls [OF assms(2)] by blast
    with Returns m show ?thesis
      by (intro exI [of _ "cs @ ds"]) (simp add: go_bind_run runner.puts_append image_Un)
  next
    case (Panics t)
    with m show ?thesis by (auto simp: go_bind_run intro: exI [of _ cs])
  qed
qed

lemma moves_cases:
  "moves T a \<Longrightarrow> (\<And>x. moves T (b x)) \<Longrightarrow> moves T (case p of None \<Rightarrow> a | Some x \<Rightarrow> b x)"
  "(\<And>x. moves T (c x)) \<Longrightarrow> (\<And>x. moves T (d x)) \<Longrightarrow>
     moves T (case q of Inl x \<Rightarrow> c x | Inr x \<Rightarrow> d x)"
  "(\<And>x y. moves T (e x y)) \<Longrightarrow> moves T (case r of (x, y) \<Rightarrow> e x y)"
  "moves T m \<Longrightarrow> moves T m' \<Longrightarrow> moves T (if t then m else m')"
  "(\<And>x. moves T (e' x)) \<Longrightarrow> moves T (Let v e')"
  by (simp_all split: option.split sum.split prod.split)

lemmas moves_rules = moves_bind moves_basic moves_cases

lemma moves_update: "n \<in> T \<Longrightarrow> moves T (reconcileUpdate E n m l cs ct)"
  unfolding reconcileUpdate_def set_condition_pb_def notify_slack_def patch_pb_def
  by (intro moves_rules moves_set)

lemma moves_error: "StateError \<in> T \<Longrightarrow> moves T (transitionToErrorState E t)"
  unfolding transitionToErrorState_def by (intro moves_rules moves_update)

lemma moves_move: "moves T m \<Longrightarrow> StateError \<in> T \<Longrightarrow> moves T (move_or_error E t m)"
  unfolding move_or_error_def by (intro moves_rules moves_error)

lemmas moves_steps = moves_rules moves_error moves_move moves_update

text \<open>A move changes a build to one of the targets or not at all.\<close>

lemma moves_current:
  assumes "moves T m" "runner_wf (cx_runner s)"
  shows "GetCurrentState (cx_runner (snd (m s))) i \<in> insert (GetCurrentState (cx_runner s) i) T"
proof -
  obtain cs where "cx_runner (snd (m s)) = runner.puts cs (cx_runner s)" "snd ` set cs \<subseteq> T"
    using moves_calls [OF assms(1)] by blast
  with runner.puts_target [OF assms(2), of cs i] show ?thesis by auto
qed

section \<open>The lifecycle of a build\<close>

text \<open>
  What a reconciliation is meant to do with a build, as an abstract state machine: the normal path,
  the way back from an error, and the failure of any handler.
\<close>

inductive lifecycle :: "pb_state \<Rightarrow> pb_state \<Rightarrow> bool" where
  start: "lifecycle StateInitial StateFlightChecks"
| active: "lifecycle StateFlightChecks StateJobRunning"
| cleared: "lifecycle StateFlightChecks StateJobCreation"
| created: "lifecycle StateJobCreation StateJobRunning"
| finished: "lifecycle StateJobRunning StateJobCompleted"
| published: "lifecycle StateJobCompleted StateAMICreated"
| cleaned: "lifecycle StateAMICreated StateInitial"
| recovered: "lifecycle StateError StateInitial"
| failed: "st \<in> {StateInitial, StateFlightChecks, StateJobCreation, StateJobRunning,
    StateJobCompleted, StateAMICreated, StateError} \<Longrightarrow> lifecycle st StateError"

inductive_simps lifecycle_iff: "lifecycle a b"

lemmas lifecycle_targets = CollectI lifecycle.intros

lemma moves_handlers:
  "moves {n. lifecycle StateInitial n} (init_build E)"
  "moves {n. lifecycle StateFlightChecks n} (flightCheck E pm)"
  "moves {n. lifecycle StateJobCreation n} (createBuild E pm)"
  "moves {n. lifecycle StateJobCompleted n} (completeBuild E)"
  "moves {n. lifecycle StateAMICreated n} (cleanupBuild E pm)"
  "moves {n. lifecycle StateError n} (errorBuild E)"
  unfolding init_build_def flightCheck_def performFlightChecks_def createBuild_def setupJob_def
    create_job_def completeBuild_def errorBuild_def cleanupBuild_def cleanup_group_def
  by (intro moves_steps; simp add: lifecycle_iff)+

lemma moves_running:
  "moves {n. lifecycle StateJobRunning n} (transitionToJobCompletedState E)"
  "moves {n. lifecycle StateJobRunning n} (ticker_check E)"
  "moves {n. lifecycle StateJobRunning n} (take_result E r)"
  unfolding transitionToJobCompletedState_def ticker_check_def take_result_def
  by (intro moves_steps; simp add: lifecycle_iff)+

lemma moves_stream:
  "moves T (stream_line E pm l rs)" "moves T (stream_open E pm rs)"
  by (cases "rn_streamer rs"; simp add: stream_line_def stream_open_def; intro moves_rules)+

lemma moves_loop: "moves {n. lifecycle StateJobRunning n} (running_loop E pm n rs)"
proof (induction n arbitrary: rs)
  case 0
  then show ?case by (simp add: moves_basic)
next
  case (Suc n)
  show ?case
    unfolding running_loop.simps
    apply (rule moves_bind [OF moves_basic(1)])
    subgoal for choice
      by (cases choice; simp only: run_choice.case; intro moves_rules moves_error Suc.IH moves_stream
          moves_running; simp add: lifecycle_iff)
    done
qed

lemma moves_dispatch: "moves {n. lifecycle st n} (dispatch E n pm st)"
  unfolding dispatch_def runningBuild_def
  by (cases st; simp only: pb_state.case; intro moves_rules moves_handlers moves_loop)

lemma moves_weaken: "moves T m \<Longrightarrow> moves UNIV m"
  by (auto simp: moves_def)

lemma moves_Reconcile: "moves UNIV (Reconcile E n req)"
  unfolding Reconcile_def catchRek_def sync_runner_def first_build_id_def first_condition_def
    first_state_def set_condition_pb_def
  by (intro moves_rules moves_set moves_error moves_weaken [OF moves_dispatch] UNIV_I)

lemma puts_reachable: "runner_reachable r \<Longrightarrow> runner_reachable (runner.puts calls r)"
proof (induction calls arbitrary: r)
  case Nil
  then show ?case by simp
next
  case (Cons c calls)
  obtain k st where "c = (k, st)" by fastforce
  with Cons show ?case
    using runner_reachable.step [OF Cons.prems runner_step.set [of r k st]] by simp
qed


definition start_ctx :: "packer_builder \<Rightarrow> sim ctx" where
  "start_ctx pb = \<lparr>cx_world = sim_start pb, cx_runner = opsy_New, cx_pb = example_pb\<rparr>"



text \<open>The example builder in a state, and the process with the runner in another.\<close>

definition in_state :: "pb_state \<Rightarrow> packer_builder" where
  "in_state st = set_status (\<lambda>s. s\<lparr>st_State := st, st_LastRunKeyPair := ''packer_k''\<rparr>) example_pb"

definition process_in :: "pb_state \<Rightarrow> pb_state \<Rightarrow> (bytes \<times> go_error) list \<Rightarrow> sim ctx" where
  "process_in current stored fails =
     \<lparr>cx_world = (sim_start (in_state stored))\<lparr>sim_fails := fails\<rparr>,
      cx_runner = opsy_New\<lparr>run_states := [''b1'' \<mapsto> current]\<rparr>, cx_pb = in_state stored\<rparr>"

lemma process_in_simps [simp]:
  "runner_wf (cx_runner (process_in current stored fails))"
  "GetCurrentState (cx_runner (process_in current stored fails)) ''b1'' = current"
  "cx_pb (process_in current stored fails) = in_state stored"
  "st_BuildID (pb_Status (in_state stored)) = ''b1''"
  "st_LastRunKeyPair (pb_Status (in_state stored)) = ''packer_k''" "st_State (pb_Status (in_state stored)) = stored"
  "sim_fails (cx_world (process_in current stored fails)) = fails"
  "sim_pb (cx_world (process_in current stored fails)) = Some (in_state stored)"
  by (simp_all add: process_in_def in_state_def example_pb_def GetCurrentState_def sim_start_def)

section \<open>From a reconciliation to its handler\<close>

lemma Reconcile_to_catchRek:
  assumes "fst (env_get_pb E req (cx_world s)) = Inr pb"
    and "st_State (pb_Status pb) \<noteq> StateUnset" "st_BuildID (pb_Status pb) \<noteq> ''''"
  shows "\<exists>s3. Reconcile E n req s = catchRek E n s3 \<and> cx_runner s3 = cx_runner s \<and>
    st_State (pb_Status (cx_pb s3)) = st_State (pb_Status pb) \<and>
    st_BuildID (pb_Status (cx_pb s3)) = st_BuildID (pb_Status pb) \<and> pb_Spec (cx_pb s3) = pb_Spec pb"
proof -
  let ?s0 = "s\<lparr>cx_world := snd (env_get_pb E req (cx_world s)), cx_pb := pb\<rparr>"
  let ?s2 = "snd (first_condition E ?s0)"
  have id: "first_build_id E ?s0 = (Returns (), ?s0)"
    using assms(3) by (simp add: first_build_id_def ctx_run go_laws)
  note c = first_condition_frame [of E ?s0]
  obtain cs where cs: "cx_pb ?s2 = set_status (\<lambda>x. x\<lparr>st_Conditions := cs\<rparr>) pb" using c by auto
  have state: "first_state E ?s2 = (Returns None, ?s2)"
    using assms(2) cs by (simp add: first_state_def ctx_run go_laws)
  have "Reconcile E n req s = catchRek E n ?s2"
    using assms(1) id c state
    by (simp add: Reconcile_def go_bind_run [of "on_world (go_call c)" for c]
        go_bind_run [of "put_pb p" for p] ctx_run go_run_simps split_beta go_bind_at)
  moreover have "cx_runner ?s2 = cx_runner s" using c by simp
  moreover have "st_State (pb_Status (cx_pb ?s2)) = st_State (pb_Status pb)"
    "st_BuildID (pb_Status (cx_pb ?s2)) = st_BuildID (pb_Status pb)" "pb_Spec (cx_pb ?s2) = pb_Spec pb"
    unfolding cs by simp_all
  ultimately show ?thesis by blast
qed

lemma catchRek_at:
  "catchRek E n s =
     go_bind (sync_runner E) (\<lambda>refused.
     case refused of
       Some err \<Rightarrow>
         go_bind (transitionToErrorState E (''failed to update state: '' @ error_text err))
           (\<lambda>r. go_return (Some r))
     | None \<Rightarrow> go_bind runner_state (dispatch E n (fst (packer_New E (cx_pb s) (cx_world s)))))
     (s\<lparr>cx_world := snd (packer_New E (cx_pb s) (cx_world s))\<rparr>)"
  by (simp add: catchRek_def ctx_run go_bind_run [of the_pb] go_bind_run [of "on_world (go_call c)" for c]
      go_run_simps split_beta cong: option.case_cong)

lemma reconcile_moves:
  assumes "runner_wf (cx_runner s)" "fst (env_get_pb E req (cx_world s)) = Inr pb"
    and "st_State (pb_Status pb) \<noteq> StateUnset" "st_BuildID (pb_Status pb) \<noteq> ''''"
    and "GetCurrentState (cx_runner s) (st_BuildID (pb_Status pb)) = st_State (pb_Status pb)"
    and "GetCurrentState (cx_runner (snd (Reconcile E fuel req s))) i \<noteq> GetCurrentState (cx_runner s) i"
  shows "lifecycle (st_State (pb_Status pb)) (GetCurrentState (cx_runner (snd (Reconcile E fuel req s))) i)"
proof -
  obtain s3 where s3: "Reconcile E fuel req s = catchRek E fuel s3" "cx_runner s3 = cx_runner s"
    "st_State (pb_Status (cx_pb s3)) = st_State (pb_Status pb)"
    "st_BuildID (pb_Status (cx_pb s3)) = st_BuildID (pb_Status pb)"
    using Reconcile_to_catchRek [OF assms(2-4)] by blast
  let ?s4 = "s3\<lparr>cx_world := snd (packer_New E (cx_pb s3) (cx_world s3))\<rparr>"
  have "catchRek E fuel s3 = dispatch E fuel (fst (packer_New E (cx_pb s3) (cx_world s3)))
      (st_State (pb_Status pb)) ?s4"
    using s3 assms(5) by (simp add: catchRek_at sync_runner_def ctx_run go_laws)
  moreover have "runner_wf (cx_runner ?s4)" "cx_runner ?s4 = cx_runner s" using assms(1) s3 by simp_all
  ultimately show ?thesis
    using moves_current [OF moves_dispatch, of ?s4 E fuel _ "st_State (pb_Status pb)" i] s3(1) assms(6)
    by (simp only: insert_iff mem_Collect_eq) blast
qed

text \<open>
  C1. A reconciliation refines the lifecycle: whatever the API server, AWS and Slack answer, for a
  builder whose runner agrees with its stored state, every build whose state in the runner has changed
  afterwards is in a state that is one step of the lifecycle away from the stored state. So a build
  reaches \<open>AMICreated\<close> only from a completed job, \<open>JobCompleted\<close> only from a running one, and
  \<open>JobCreation\<close> only from the flight checks, although the table has shorter edges.
\<close>

theorem reconcile_refines_lifecycle:
  assumes "runner_wf (cx_runner s)" "fst (env_get_pb E req (cx_world s)) = Inr pb"
    and "st_State (pb_Status pb) \<noteq> StateUnset" "st_BuildID (pb_Status pb) \<noteq> ''''"
    and "GetCurrentState (cx_runner s) (st_BuildID (pb_Status pb)) = st_State (pb_Status pb)"
    and "GetCurrentState (cx_runner (snd (Reconcile E fuel req s))) i \<noteq> GetCurrentState (cx_runner s) i"
  shows "lifecycle (st_State (pb_Status pb)) (GetCurrentState (cx_runner (snd (Reconcile E fuel req s))) i)"
  by (rule reconcile_moves [OF assms])

theorem reconcile_refines_lifecycle_witness:
  "GetCurrentState (cx_runner (snd (Reconcile sim_env 3 (''ns'', ''pb'')
      (process_in StateError StateError [])))) ''b1'' \<in> {StateError, StateInitial}"
proof (cases "GetCurrentState (cx_runner (snd (Reconcile sim_env 3 (''ns'', ''pb'')
      (process_in StateError StateError [])))) ''b1'' = StateError")
  case False
  have "lifecycle StateError (GetCurrentState (cx_runner (snd (Reconcile sim_env 3 (''ns'', ''pb'')
      (process_in StateError StateError [])))) ''b1'')"
    using reconcile_refines_lifecycle [of "process_in StateError StateError []" sim_env
        "(''ns'', ''pb'')" "in_state StateError" 3 "''b1''"] False
    by (simp add: sim_run)
  then show ?thesis by (auto simp: lifecycle_iff)
qed simp

text \<open>
  The table has an edge for every step of the lifecycle but one: a failure in \<open>AMICreated\<close> cannot be
  recorded.
\<close>

theorem table_misses_one_step:
  assumes "lifecycle a b"
  shows "isValidTransition opsy_New a b \<longleftrightarrow> \<not> (a = StateAMICreated \<and> b = StateError)"
  using assms by (auto simp: lifecycle_iff isValidTransition_def opsy_New_def)

theorem table_misses_one_step_witness: "\<not> isValidTransition opsy_New StateAMICreated StateError"
  using table_misses_one_step [OF lifecycle.failed [of StateAMICreated]] by simp

section \<open>No second build\<close>

lemma moves_flight_check:
  assumes "fst (ActiveBuildCheck E pm (pb_Namespace (cx_pb s)) (pb_Name (cx_pb s)) (cx_world s)) =
    Returns r" "\<not> res_Success r"
  shows "\<exists>m s'. flightCheck E pm s = m s' \<and> cx_runner s' = cx_runner s \<and>
    moves {StateJobRunning, StateError} m"
proof (intro exI conjI)
  show "flightCheck E pm s =
      move_or_error E ''Failed to transition to JobRunning state: ''
        (reconcileUpdate E StateJobRunning ''Transitioning to JobRunning since Active Build Exist''
           LastRunStatusRunning ConditionTrue ConditionTypeFlightCheckPassed)
        (s\<lparr>cx_world := snd (ActiveBuildCheck E pm (pb_Namespace (cx_pb s)) (pb_Name (cx_pb s)) (cx_world s))\<rparr>)"
    using assms
    by (simp add: flightCheck_def go_bind_run [of the_pb] go_bind_run [of "on_world m" for m]
        the_pb_def on_world_def split_beta Let_def)
next
  show "moves {StateJobRunning, StateError} (move_or_error E ''Failed to transition to JobRunning state: ''
      (reconcileUpdate E StateJobRunning ''Transitioning to JobRunning since Active Build Exist''
         LastRunStatusRunning ConditionTrue ConditionTypeFlightCheckPassed))"
    by (intro moves_move moves_update) simp_all
qed simp

text \<open>
  C7. No second build is started: while the API server lists a job of the builder that has not
  finished, the flight checks never clear the builder for a job, however the check is cut off; a build
  whose state they change goes to \<open>JobRunning\<close>, or to \<open>Error\<close> when that move fails.
\<close>

theorem active_build_blocks_creation:
  assumes "runner_wf (cx_runner s)"
    and "env_get_pb E (pb_Namespace (cx_pb s), pb_Name (cx_pb s)) (cx_world s) = (Inr latest, w1)"
    and "fst (env_list_jobs E (pb_Namespace (cx_pb s)) [(''created-by'', pb_Name (cx_pb s))] w1) = Inr builds"
    and "j \<in> set builds" "\<not> job_finished j"
    and "GetCurrentState (cx_runner (snd (flightCheck E pm s))) i \<noteq> GetCurrentState (cx_runner s) i"
  shows "GetCurrentState (cx_runner (snd (flightCheck E pm s))) i \<in> {StateJobRunning, StateError}"
proof -
  have "filter (\<lambda>j. \<not> job_finished j) builds \<noteq> []" using assms(4,5) by (auto simp: filter_empty_conv)
  then have "\<not> res_Success (fst (active_build_op E pm (pb_Namespace (cx_pb s)) (pb_Name (cx_pb s)) (cx_world s)))"
    using assms(2,3) by (auto simp: active_build_op_def Let_def split_beta getActiveBuilds_eq
        split: sum.splits prod.splits)
  then obtain r where "fst (ActiveBuildCheck E pm (pb_Namespace (cx_pb s)) (pb_Name (cx_pb s)) (cx_world s)) =
      Returns r" "\<not> res_Success r"
    by (auto simp: ActiveBuildCheck_def packer_runWithTimeout_def go_laws split: select_choice.splits)
  from moves_flight_check [OF this] obtain m s' where "flightCheck E pm s = m s'"
    "cx_runner s' = cx_runner s" "moves {StateJobRunning, StateError} m"
    by blast
  with moves_current [of "{StateJobRunning, StateError}" m s' i] assms(1,6) show ?thesis by auto
qed

text \<open>The process of the examples with an unfinished job of the builder.\<close>

definition building_process :: "sim ctx" where
  "building_process =
     \<lparr>cx_world = (sim_start (in_state StateFlightChecks))\<lparr>sim_jobs := [build_job example_pb []]\<rparr>,
      cx_runner = opsy_New\<lparr>run_states := [''b1'' \<mapsto> StateFlightChecks]\<rparr>,
      cx_pb = in_state StateFlightChecks\<rparr>"

theorem active_build_blocks_creation_witness:
  "GetCurrentState (cx_runner (snd (flightCheck sim_env (Some ''us-west-2'') building_process))) ''b1''
     \<in> {StateFlightChecks, StateJobRunning, StateError}"
proof (cases "GetCurrentState (cx_runner (snd (flightCheck sim_env (Some ''us-west-2'')
    building_process))) ''b1'' = StateFlightChecks")
  case False
  have "\<not> job_finished (build_job example_pb [])"
    by (simp add: job_finished_def new_job_state_def)
  moreover have "runner_wf (cx_runner building_process)"
    "GetCurrentState (cx_runner building_process) ''b1'' = StateFlightChecks"
    "fst (env_list_jobs sim_env (pb_Namespace (cx_pb building_process))
      [(''created-by'', pb_Name (cx_pb building_process))] (cx_world building_process)) =
      Inr [build_job example_pb []]"
    by (simp_all add: building_process_def GetCurrentState_def sim_run sim_start_def in_state_def
        example_pb_def build_job_def job_labels_def)
  moreover have "env_get_pb sim_env (pb_Namespace (cx_pb building_process), pb_Name (cx_pb building_process))
      (cx_world building_process) = (Inr (in_state StateFlightChecks), cx_world building_process)"
    by (simp add: building_process_def sim_run sim_start_def)
  ultimately show ?thesis
    using active_build_blocks_creation [of building_process sim_env "in_state StateFlightChecks"
        "cx_world building_process" "[build_job example_pb []]" "build_job example_pb []"
        "Some ''us-west-2''" "''b1''"] False
    by auto
qed simp

end
