(* ===== verification/Requeue.thy ===== *)
theory Requeue
  imports Runner_Moves
begin

text \<open>
  Which reconciliations are followed by another one. \<open>SetupWithManager\<close> says which events of which
  objects start a reconciliation; its result says whether the object is put into the queue again. A
  builder whose result does not ask for another run and for which no event passes the filter is
  never looked at again.
\<close>

section \<open>Registration\<close>

text \<open>
  What \<open>SetupWithManager\<close> of the two controllers registers: the reconciled kind, the owned kinds, the
  event filter and the number of workers. \<open>predicate.GenerationChangedPredicate\<close> is library code, a
  parameter. An event of an update carries the generations before and after; a write through the
  status subresource does not change the generation of an object.
\<close>

datatype object_event =
    ObjectCreated
  | ObjectUpdated int int
  | ObjectDeleted
  | ObjectGeneric

record controller_setup =
  cs_For :: bytes
  cs_Owns :: "bytes list"
  cs_EventFilter :: "(object_event \<Rightarrow> bool) option"
  cs_MaxConcurrentReconciles :: nat

definition Packer_SetupWithManager :: "(object_event \<Rightarrow> bool) \<Rightarrow> controller_setup" where
  "Packer_SetupWithManager generationChanged =
     \<lparr>cs_For = ''PackerBuilder'', cs_Owns = [''Job''], cs_EventFilter = Some generationChanged,
      cs_MaxConcurrentReconciles = 10\<rparr>"

text \<open>Without options the controller has one worker.\<close>

definition Refresher_SetupWithManager :: controller_setup where
  "Refresher_SetupWithManager =
     \<lparr>cs_For = ''AMIRefresher'', cs_Owns = [], cs_EventFilter = None,
      cs_MaxConcurrentReconciles = 1\<rparr>"

definition event_passes :: "controller_setup \<Rightarrow> object_event \<Rightarrow> bool" where
  "event_passes cs ev = (case cs_EventFilter cs of None \<Rightarrow> True | Some f \<Rightarrow> f ev)"

text \<open>
  The documented meaning of a result: an error and \<open>Requeue\<close> put the object into the queue again, and
  so does a positive \<open>RequeueAfter\<close>; the zero result does not, and \<open>RequeueAfter: 0\<close> is the zero
  result.
\<close>

fun asks_again :: "ctrl_result \<Rightarrow> bool" where
  "asks_again Done = False"
| "asks_again Requeue = True"
| "asks_again (RequeueAfter d) = (0 < d)"
| "asks_again (Failed e) = True"

text \<open>Whether an object is looked at again after a result and a sequence of events.\<close>

definition woken :: "controller_setup \<Rightarrow> ctrl_result \<Rightarrow> object_event list \<Rightarrow> bool" where
  "woken cs r events \<longleftrightarrow> asks_again r \<or> (\<exists>ev \<in> set events. event_passes cs ev)"

section \<open>Results of the handlers\<close>

lemma sync_keeps: "cx_pb (snd (sync_runner E s)) = cx_pb s"
  by (simp add: sync_runner_def ctx_run go_laws split_beta)

lemma first_steps_keep:
  assumes "\<And>f pb. P pb \<Longrightarrow> P (set_status f pb)"
  shows "P (cx_pb s) \<Longrightarrow> P (cx_pb (snd (first_build_id E s)))"
    "P (cx_pb s) \<Longrightarrow> P (cx_pb (snd (first_condition E s)))"
    "P (cx_pb s) \<Longrightarrow> P (cx_pb (snd (first_state E s)))"
  using first_build_id_frame [of E s] first_condition_frame [of E s] first_state_frame [of E s] assms
  by metis+

text \<open>\<open>results R m\<close>: what a statement sequence returns satisfies \<open>R\<close>.\<close>

definition results :: "('a \<Rightarrow> bool) \<Rightarrow> ('s, 'a) go \<Rightarrow> bool" where
  "results R m \<longleftrightarrow> (\<forall>s x. fst (m s) = Returns x \<longrightarrow> R x)"

lemma resultsD: "results R m \<Longrightarrow> m s = (Returns x, s') \<Longrightarrow> R x"
  by (metis fst_conv results_def)

lemma results_return: "R x \<Longrightarrow> results R (go_return x)"
  by (simp add: results_def go_run_simps)

lemma results_panic: "results R (go_panic t)"
  by (simp add: results_def go_run_simps)

lemma results_bind: "(\<And>x. results R (f x)) \<Longrightarrow> results R (go_bind m f)"
  by (auto simp: results_def go_bind_run split: outcome.splits)

lemma results_bind_given:
  "results P m \<Longrightarrow> (\<And>x. P x \<Longrightarrow> results R (f x)) \<Longrightarrow> results R (go_bind m f)"
  unfolding results_def by (auto simp: go_bind_run split: outcome.splits) metis

lemma results_call: "(\<And>w. R (fst (c w))) \<Longrightarrow> results R (on_world (go_call c))"
  by (auto simp: results_def on_world_def go_run_simps split_beta)

lemma results_cases:
  "results R a \<Longrightarrow> (\<And>x. results R (b x)) \<Longrightarrow> results R (case p of None \<Rightarrow> a | Some x \<Rightarrow> b x)"
  "(\<And>x. results R (c x)) \<Longrightarrow> (\<And>x. results R (d x)) \<Longrightarrow>
     results R (case q of Inl x \<Rightarrow> c x | Inr x \<Rightarrow> d x)"
  "(\<And>x y. r = (x, y) \<Longrightarrow> results R (e x y)) \<Longrightarrow> results R (case r of (x, y) \<Rightarrow> e x y)"
  "results R m \<Longrightarrow> results R m' \<Longrightarrow> results R (if t then m else m')"
  "(\<And>x. results R (e' x)) \<Longrightarrow> results R (Let v e')"
  by (simp_all split: option.split sum.split prod.split)

lemmas results_rules = results_cases results_return results_panic results_bind

text \<open>The same for a sequence that starts with a builder in memory that satisfies \<open>P\<close>.\<close>

definition answers :: "(packer_builder \<Rightarrow> bool) \<Rightarrow> ('a \<Rightarrow> bool) \<Rightarrow> ('w ctx, 'a) go \<Rightarrow> bool" where
  "answers P R m \<longleftrightarrow> (\<forall>s x. P (cx_pb s) \<longrightarrow> fst (m s) = Returns x \<longrightarrow> R x)"

lemma answersD: "answers P R m \<Longrightarrow> P (cx_pb s) \<Longrightarrow> m s = (Returns x, s') \<Longrightarrow> R x"
  by (metis answers_def fst_conv)

lemma answers_results: "results R m \<Longrightarrow> answers P R m"
  by (simp add: answers_def results_def)

lemma answers_the_pb: "(\<And>pb. P pb \<Longrightarrow> answers P R (f pb)) \<Longrightarrow> answers P R (go_bind the_pb f)"
  by (simp add: answers_def go_bind_run the_pb_def)

lemma answers_bind:
  "(\<And>s. P (cx_pb s) \<Longrightarrow> P (cx_pb (snd (m s)))) \<Longrightarrow> (\<And>x. answers P R (f x)) \<Longrightarrow> answers P R (go_bind m f)"
  unfolding answers_def by (auto simp: go_bind_run split: outcome.splits)

lemma answers_put_pb:
  assumes "P pb" "\<And>u. answers P R (m u)"
  shows "results R (go_bind (put_pb pb) m)"
  unfolding results_def
proof (intro allI impI)
  fix s x
  assume "fst (go_bind (put_pb pb) m s) = Returns x"
  then have "fst (m () (s\<lparr>cx_pb := pb\<rparr>)) = Returns x"
    by (simp add: go_bind_run put_pb_def)
  then show "R x"
    by (intro answersD [OF assms(2), where s = "s\<lparr>cx_pb := pb\<rparr>"
          and s' = "snd (m () (s\<lparr>cx_pb := pb\<rparr>))"]) (simp_all add: assms(1) prod_eq_iff)
qed

text \<open>A predicate on the result of a reconciliation that may still be running.\<close>

fun if_done :: "(ctrl_result \<Rightarrow> bool) \<Rightarrow> ctrl_result option \<Rightarrow> bool" where
  "if_done Q None = True"
| "if_done Q (Some r) = Q r"

text \<open>
  What the environment has to do with a predicate \<open>Q\<close> on results: every builder it returns satisfies
  \<open>P\<close>, the timer of such a builder makes a result with \<open>Q\<close>, and so does the zero result if a builder
  may be gone or the process may be stopped.
\<close>

definition serves :: "'w env \<Rightarrow> (packer_builder \<Rightarrow> bool) \<Rightarrow> (ctrl_result \<Rightarrow> bool) \<Rightarrow> bool" where
  "serves E P Q \<longleftrightarrow> (\<forall>pb f. P pb \<longrightarrow> P (set_status f pb)) \<and>
     (\<forall>pb. P pb \<longrightarrow> Q (RequeueAfter (duration_or_zero (pb_GetControllerTimer pb)))) \<and>
     (\<forall>k w. case fst (env_get_pb E k w) of Inl e \<Rightarrow> is_not_found e \<longrightarrow> Q Done | Inr pb \<Rightarrow> P pb) \<and>
     (\<forall>w. fst (env_run_choice E w) = ContextDone \<longrightarrow> Q Done)"

lemma servesD:
  assumes "serves E P Q"
  shows "P pb \<Longrightarrow> P (set_status f pb)"
    "P pb \<Longrightarrow> Q (RequeueAfter (duration_or_zero (pb_GetControllerTimer pb)))"
    "results (\<lambda>r. case r of Inl e \<Rightarrow> is_not_found e \<longrightarrow> Q Done | Inr pb \<Rightarrow> P pb) (on_world (go_call (env_get_pb E k)))"
    "results (\<lambda>c. c = ContextDone \<longrightarrow> Q Done) (on_world (go_call (env_run_choice E)))"
  using assms unfolding serves_def by (auto intro!: results_call simp del: split_paired_All)

text \<open>
  A predicate that holds for errors and for \<open>Requeue\<close>, the results of every handler except for a timer
  and for the end of a watch.
\<close>

locale verdict =
  fixes Q :: "ctrl_result \<Rightarrow> bool"
  assumes requeue: "Q Requeue" and failed: "Q (Failed e)"
begin

lemma error_verdict: "results Q (transitionToErrorState E t)"
  unfolding transitionToErrorState_def by (intro results_rules requeue failed)

lemma move_verdict: "results Q (move_or_error E t m)"
  unfolding move_or_error_def by (intro results_rules error_verdict requeue)

lemma handlers_verdict:
  "results Q (completeBuild E)" "results Q (errorBuild E)"
  "results Q (cleanupBuild E pm)" "results Q (createBuild E pm)"
  "results Q (transitionToJobCompletedState E)"
  unfolding completeBuild_def errorBuild_def cleanupBuild_def cleanup_group_def createBuild_def
    transitionToJobCompletedState_def
  by (intro results_rules error_verdict move_verdict)+

lemma results_some: "results Q m \<Longrightarrow> results (if_done Q) (go_bind m (\<lambda>r. go_return (Some r)))"
  by (rule results_bind_given [where P = Q]) (simp_all add: results_return)

lemma answers_some: "answers P Q m \<Longrightarrow> answers P (if_done Q) (go_bind m (\<lambda>r. go_return (Some r)))"
  by (auto simp: answers_def go_bind_run go_run_simps split: outcome.splits)

lemma ticker_verdict:
  assumes "serves E P Q"
  shows "results (if_done Q) (ticker_check E)"
  unfolding ticker_check_def
  by (intro results_bind results_bind_given [OF servesD(3) [OF assms]])
    (auto split: sum.splits intro!: results_rules results_some error_verdict)

lemma take_verdict: "results (if_done Q) (take_result E r)"
  unfolding take_result_def
  by (auto intro!: results_rules results_some error_verdict handlers_verdict)

lemma running_verdict:
  assumes "serves E P Q"
  shows "results (if_done Q) (running_loop E pm n rs)"
proof (induction n arbitrary: rs)
  case 0
  then show ?case by (simp add: results_return)
next
  case (Suc n)
  have next_round: "results (if_done Q) (go_bind m (\<lambda>answer. case answer of
      Some r \<Rightarrow> go_return (Some r) | None \<Rightarrow> running_loop E pm n rs'))"
    if "results (if_done Q) m" for m rs'
    by (rule results_bind_given [OF that]) (auto split: option.split intro: results_return Suc.IH)
  show ?case
    unfolding running_loop.simps(2)
    apply (rule results_bind_given [OF servesD(4) [OF assms]])
    subgoal for choice
      by (cases choice; simp only: run_choice.case simp_thms; intro results_cases results_bind
          next_round results_some error_verdict take_verdict ticker_verdict [OF assms] Suc.IH
          results_return; simp?)
    done
qed

lemma runningBuild_verdict: "serves E P Q \<Longrightarrow> results (if_done Q) (runningBuild E fuel)"
  unfolding runningBuild_def by (intro results_bind running_verdict)

text \<open>The two handlers whose result holds the timer of the builder they start with.\<close>

lemma init_verdict:
  assumes "serves E P Q"
  shows "answers P Q (init_build E)"
  unfolding init_build_def
  by (intro answers_the_pb answers_bind [of _ "put_status f" for f] answers_results results_rules move_verdict)
    (simp_all add: put_status_def servesD [OF assms])

lemma flight_verdict:
  assumes "serves E P Q"
  shows "answers P Q (flightCheck E pm)"
  unfolding flightCheck_def Let_def
  by (intro answers_the_pb answers_results results_rules move_verdict servesD(2) [OF assms])

lemma dispatch_verdict: "serves E P Q \<Longrightarrow> answers P (if_done Q) (dispatch E fuel pm st)"
  unfolding dispatch_def
  by (cases st) (simp_all add: answers_some init_verdict flight_verdict answers_results results_some
      handlers_verdict runningBuild_verdict results_return failed)

lemma catchRek_verdict: "serves E P Q \<Longrightarrow> answers P (if_done Q) (catchRek E fuel)"
  unfolding catchRek_def
  apply (rule answers_the_pb, rule answers_bind, simp add: on_world_def split_beta)
  apply (rule answers_bind, simp add: sync_keeps)
  apply (split option.split, intro conjI allI impI)
   apply (rule answers_bind, simp add: runner_state_def, erule dispatch_verdict)
  apply (rule answers_results, rule results_some, rule error_verdict)
  done

lemma prepared_verdict:
  assumes "serves E P Q"
  shows "answers P (if_done Q)
    (go_bind (first_build_id E) (\<lambda>u. go_bind (first_condition E) (\<lambda>u. go_bind (first_state E) (\<lambda>failed.
       case failed of
         Some err \<Rightarrow> go_return (Some (if is_deadline err then Requeue else Failed err))
       | None \<Rightarrow> catchRek E fuel))))"
  apply (rule answers_bind, rule first_steps_keep(1) [where P = P], rule servesD(1) [OF assms], assumption, assumption)
  apply (rule answers_bind, rule first_steps_keep(2) [where P = P], rule servesD(1) [OF assms], assumption, assumption)
  apply (rule answers_bind, rule first_steps_keep(3) [where P = P], rule servesD(1) [OF assms], assumption, assumption)
  apply (split option.split, intro conjI allI impI, rule catchRek_verdict [OF assms])
  apply (rule answers_results, rule results_return, simp add: requeue failed)
  done

lemma Reconcile_verdict:
  assumes "serves E P Q"
  shows "results (if_done Q) (Reconcile E fuel req)"
  unfolding Reconcile_def
proof (rule results_bind_given [OF servesD(3) [OF assms]])
  fix answer
  assume "case answer of Inl e \<Rightarrow> is_not_found e \<longrightarrow> Q Done | Inr pb \<Rightarrow> P pb"
  then show "results (if_done Q) (case answer of
       Inl err \<Rightarrow> go_return (Some (if is_not_found err then Done else Failed err))
     | Inr pb \<Rightarrow>
         go_bind (put_pb pb) (\<lambda>u.
         go_bind (first_build_id E) (\<lambda>u. go_bind (first_condition E) (\<lambda>u. go_bind (first_state E) (\<lambda>failed.
         case failed of
           Some err \<Rightarrow> go_return (Some (if is_deadline err then Requeue else Failed err))
         | None \<Rightarrow> catchRek E fuel)))))"
    by (cases answer) (simp_all add: results_return failed answers_put_pb [OF _ prepared_verdict [OF assms]])
qed

end

section \<open>Builders with and without a timer\<close>

text \<open>The timer of the spec is a duration longer than zero.\<close>

definition timed :: "packer_builder \<Rightarrow> bool" where
  "timed pb \<longleftrightarrow> 0 < duration_or_zero (pb_GetControllerTimer pb)"

lemma timed_set_status [simp]: "timed (set_status f pb) = timed pb"
  by (simp add: timed_def pb_GetControllerTimer_def)

interpretation asking: verdict asks_again
  by unfold_locales simp_all

text \<open>The results that a builder without a timer gets when it has nothing to do.\<close>

definition no_delay :: "ctrl_result \<Rightarrow> bool" where
  "no_delay r \<longleftrightarrow> (\<forall>d. r = RequeueAfter d \<longrightarrow> d \<le> 0)"

interpretation sleeping: verdict no_delay
  by unfold_locales (simp_all add: no_delay_def)

text \<open>
  An environment in which the builder exists with a timer whenever it is read, and the context of the
  process is not cancelled; and one in which no builder has a timer.
\<close>

definition lasting :: "'w env \<Rightarrow> bool" where
  "lasting E \<longleftrightarrow> (\<forall>k w. case fst (env_get_pb E k w) of Inl e \<Rightarrow> \<not> is_not_found e | Inr pb \<Rightarrow> timed pb) \<and>
     (\<forall>w. fst (env_run_choice E w) \<noteq> ContextDone)"

definition timerless :: "'w env \<Rightarrow> bool" where
  "timerless E \<longleftrightarrow> (\<forall>k w pb. fst (env_get_pb E k w) = Inr pb \<longrightarrow> \<not> timed pb)"

lemma lasting_serves: "lasting E \<Longrightarrow> serves E timed asks_again"
  by (auto simp: lasting_def serves_def timed_def pb_GetControllerTimer_def split: sum.splits
      simp del: split_paired_All)

lemma timerless_serves: "timerless E \<Longrightarrow> serves E (\<lambda>pb. \<not> timed pb) no_delay"
  by (auto simp: timerless_def serves_def no_delay_def timed_def pb_GetControllerTimer_def
      split: sum.splits simp del: split_paired_All)

text \<open>
  C13. A builder with a timer is looked at again: while it exists and the process is not being stopped,
  every reconciliation of it that ends, with whatever answers of the API server, AWS and Slack, either
  fails or asks for another run, at once or after its positive timer. So its build never waits for an
  event from outside, such as the end of its job.
\<close>

theorem builder_asks_again:
  assumes "lasting E" "Reconcile E fuel req s = (Returns (Some r), s')"
  shows "asks_again r"
  using resultsD [OF asking.Reconcile_verdict [OF lasting_serves [OF assms(1)]] assms(2)] by simp

text \<open>
  The simulated API server with a fixed builder; in the second one the builder has no timer and as many
  failed jobs as it may have.
\<close>

definition fixed_env :: "packer_builder \<Rightarrow> sim env" where
  "fixed_env pb = sim_env\<lparr>env_get_pb := (\<lambda>k w. (Inr pb, w)), env_run_choice := (\<lambda>w. (TakeResult, w))\<rparr>"

definition exhausted_pb :: packer_builder where
  "exhausted_pb = set_status (\<lambda>s. s\<lparr>st_FailedJobCount := Some 3, st_MaxNumberOfFailedJobs := Some 3,
     st_Conditions := [\<lparr>oc_Type = ConditionTypeInitial, oc_Status = ConditionTrue, oc_LastTransitionTime = 0,
       oc_Reason = '''', oc_Message = ''''\<rparr>]\<rparr>) example_pb"

definition without_timer :: "packer_builder \<Rightarrow> packer_builder" where
  "without_timer pb = pb\<lparr>pb_Spec := (pb_Spec pb)\<lparr>sp_TimeOuts := (sp_TimeOuts (pb_Spec pb))\<lparr>to_ControllerTimer := ''''\<rparr>\<rparr>\<rparr>"

lemma timers: "duration_or_zero ''5m'' = 300 * second" "duration_or_zero '''' = 0"
  by code_simp+

lemma fixed_run:
  assumes "st_State (pb_Status pb) = StateInitial" "st_Conditions (pb_Status pb) \<noteq> []"
    and "st_BuildID (pb_Status pb) \<noteq> ''''"
    and "st_FailedJobCount (pb_Status pb) = Some 3" "st_MaxNumberOfFailedJobs (pb_Status pb) = Some 3"
  shows "\<exists>s'. Reconcile (fixed_env pb) fuel req \<lparr>cx_world = w, cx_runner = opsy_New, cx_pb = pb\<rparr> =
    (Returns (Some (RequeueAfter (duration_or_zero (pb_GetControllerTimer pb)))), s')"
proof -
  let ?E = "fixed_env pb" and ?s = "\<lparr>cx_world = w, cx_runner = opsy_New, cx_pb = pb\<rparr>"
  let ?v = "?s\<lparr>cx_world := snd (packer_New ?E pb w)\<rparr>"
  have get: "env_get_pb ?E req w = (Inr pb, w)"
    by (simp add: fixed_env_def)
  have initial: "GetCurrentState opsy_New i = StateInitial" for i
    by (simp add: opsy_New_def GetCurrentState_def)
  have first: "first_build_id ?E ?s = (Returns (), ?s)" "first_condition ?E ?s = (Returns (), ?s)"
    "first_state ?E ?s = (Returns None, ?s)"
    using assms(1-3) by (simp_all add: first_build_id_def first_condition_def first_state_def ctx_run go_laws)
  have sync: "sync_runner ?E ?v = (Returns None, ?v)" "runner_state ?v = (Returns StateInitial, ?v)"
    using assms(1) initial by (simp_all add: sync_runner_def ctx_run go_laws)
  have "init_build ?E ?v = (Returns (RequeueAfter (duration_or_zero (pb_GetControllerTimer pb))),
      ?v\<lparr>cx_pb := set_status (\<lambda>s. s\<lparr>st_MaxNumberOfFailedJobs :=
         (case st_MaxNumberOfFailedJobs s of None \<Rightarrow> Some 3 | Some n \<Rightarrow> Some n),
       st_FailedJobCount := (case st_FailedJobCount s of None \<Rightarrow> Some 0 | Some n \<Rightarrow> Some n)\<rparr>) pb\<rparr>)"
    using assms(4,5) by (simp add: init_build_def ctx_run go_laws pb_GetControllerTimer_def)
  then have "\<exists>s'. catchRek ?E fuel ?s =
      (Returns (Some (RequeueAfter (duration_or_zero (pb_GetControllerTimer pb)))), s')"
    unfolding catchRek_at using sync by (simp add: go_bind_at dispatch_def go_return_def)
  moreover have "Reconcile ?E fuel req ?s = catchRek ?E fuel ?s"
    using get first by (simp add: Reconcile_def go_bind_at go_bind_run [of "on_world m" for m]
        on_world_def go_run_simps put_pb_def)
  ultimately show ?thesis by simp
qed

lemma exhausted_runs:
  "\<exists>s'. Reconcile (fixed_env exhausted_pb) fuel req \<lparr>cx_world = w, cx_runner = opsy_New, cx_pb = exhausted_pb\<rparr> =
    (Returns (Some (RequeueAfter (300 * second))), s')"
  "\<exists>s'. Reconcile (fixed_env (without_timer exhausted_pb)) fuel req
      \<lparr>cx_world = w, cx_runner = opsy_New, cx_pb = without_timer exhausted_pb\<rparr> =
    (Returns (Some (RequeueAfter 0)), s')"
  using fixed_run [of exhausted_pb fuel req w] fixed_run [of "without_timer exhausted_pb" fuel req w]
  by (simp_all add: exhausted_pb_def without_timer_def example_pb_def pb_GetControllerTimer_def
      set_status_def timers)

theorem builder_asks_again_witness:
  "\<exists>s'. Reconcile (fixed_env exhausted_pb) 0 (''ns'', ''pb'')
      \<lparr>cx_world = sim_start exhausted_pb, cx_runner = opsy_New, cx_pb = exhausted_pb\<rparr> =
      (Returns (Some (RequeueAfter (300 * second))), s') \<and> asks_again (RequeueAfter (300 * second))"
proof -
  have "lasting (fixed_env exhausted_pb)"
    by (simp add: lasting_def fixed_env_def timed_def exhausted_pb_def example_pb_def
        pb_GetControllerTimer_def set_status_def timers second_def)
  from builder_asks_again [OF this] exhausted_runs(1) show ?thesis by blast
qed



end
