(* ===== verification/Api_Registration.thy ===== *)
theory Api_Registration
  imports Requeue
begin

text \<open>
  \<open>api/ami/v1alpha1/groupversion_info.go\<close>, the \<open>init\<close> functions of the API types and the one of
  \<open>cmd/main.go\<close>: which kinds the scheme of the process knows. The scheme and its builder are
  controller-runtime's, parameters of the model.
\<close>

record group_version =
  gv_Group :: bytes
  gv_Version :: bytes

text \<open>A registered object is given by the name of its Go type, which is its kind.\<close>

record ('b, 's) scheme_api =
  sc_Builder :: "group_version \<Rightarrow> 'b"
  sc_Register :: "bytes list \<Rightarrow> 'b \<Rightarrow> 'b"
  sc_AddToScheme :: "'b \<Rightarrow> 's \<Rightarrow> bool \<times> 's"
  sc_NewScheme :: 's
  sc_clientgo :: "'s \<Rightarrow> bool \<times> 's"
  sc_Recognizes :: "'s \<Rightarrow> group_version \<Rightarrow> bytes \<Rightarrow> bool"

definition GroupVersion :: group_version where
  "GroupVersion = \<lparr>gv_Group = ''ami.opsy.dev'', gv_Version = ''v1alpha1''\<rparr>"

definition AMIRefresher_init :: "('b, 's) scheme_api \<Rightarrow> 'b \<Rightarrow> 'b" where
  "AMIRefresher_init S = sc_Register S [''AMIRefresher'', ''AMIRefresherList'']"

definition PackerBuilder_init :: "('b, 's) scheme_api \<Rightarrow> 'b \<Rightarrow> 'b" where
  "PackerBuilder_init S = sc_Register S [''PackerBuilder'', ''PackerBuilderList'']"

text \<open>
  The builder once the package is initialised: its variables first, then the \<open>init\<close> functions in the
  order of the files. \<open>AddToScheme\<close> is a method value of the pointer, so it sees all of them.
\<close>

definition SchemeBuilder :: "('b, 's) scheme_api \<Rightarrow> 'b" where
  "SchemeBuilder S = PackerBuilder_init S (AMIRefresher_init S (sc_Builder S GroupVersion))"

definition AddToScheme :: "('b, 's) scheme_api \<Rightarrow> 's \<Rightarrow> bool \<times> 's" where
  "AddToScheme S = sc_AddToScheme S (SchemeBuilder S)"

definition must :: "bool \<times> 's \<Rightarrow> 's outcome" where
  "must r = (if fst r then Returns (snd r) else Panics ''error in init'')"

definition main_init :: "('b, 's) scheme_api \<Rightarrow> 's outcome" where
  "main_init S =
     (case must (sc_clientgo S (sc_NewScheme S)) of
        Panics p \<Rightarrow> Panics p
      | Returns s \<Rightarrow> must (AddToScheme S s))"

text \<open>
  What controller-runtime and client-go document: a builder holds what was registered with it under its
  group and version, adding it makes the scheme recognise all of that and forget nothing, and
  client-go's own registration covers jobs.
\<close>

definition batch_v1 :: group_version where
  "batch_v1 = \<lparr>gv_Group = ''batch'', gv_Version = ''v1''\<rparr>"

definition scheme_documented :: "('b, 's) scheme_api \<Rightarrow> ('b \<Rightarrow> group_version) \<Rightarrow> ('b \<Rightarrow> bytes set) \<Rightarrow> bool" where
  "scheme_documented S version kinds \<longleftrightarrow>
     (\<forall>gv. version (sc_Builder S gv) = gv) \<and>
     (\<forall>ks b. version (sc_Register S ks b) = version b \<and> kinds (sc_Register S ks b) = kinds b \<union> set ks) \<and>
     (\<forall>b s. \<forall>k \<in> kinds b. fst (sc_AddToScheme S b s) \<longrightarrow> sc_Recognizes S (snd (sc_AddToScheme S b s)) (version b) k) \<and>
     (\<forall>b s gv k. sc_Recognizes S s gv k \<longrightarrow> sc_Recognizes S (snd (sc_AddToScheme S b s)) gv k) \<and>
     (\<forall>s. fst (sc_clientgo S s) \<longrightarrow> sc_Recognizes S (snd (sc_clientgo S s)) batch_v1 ''Job'')"

lemma scheme_documentedD:
  assumes "scheme_documented S version kinds"
  shows "k \<in> kinds b \<Longrightarrow> fst (sc_AddToScheme S b s) \<Longrightarrow> sc_Recognizes S (snd (sc_AddToScheme S b s)) (version b) k"
    "sc_Recognizes S s gv k \<Longrightarrow> sc_Recognizes S (snd (sc_AddToScheme S b s)) gv k"
    "fst (sc_clientgo S s) \<Longrightarrow> sc_Recognizes S (snd (sc_clientgo S s)) batch_v1 ''Job''"
    "version (sc_Builder S gv) = gv" "version (sc_Register S ks b) = version b"
    "kinds (sc_Register S ks b) = kinds b \<union> set ks"
  using assms unfolding scheme_documented_def by blast+

definition watched :: "controller_setup \<Rightarrow> (group_version \<times> bytes) set" where
  "watched cs = insert (GroupVersion, cs_For cs) (Pair batch_v1 ` set (cs_Owns cs))"

text \<open>
  Every kind a controller is set up for or owns, and the list of every kind it is set up for, is known
  to the scheme of a process whose initialisation has not panicked.
\<close>

theorem watched_kinds_known:
  assumes "scheme_documented S version kinds" "main_init S = Returns s"
    and "cs \<in> {Packer_SetupWithManager changed, Refresher_SetupWithManager}"
  shows "(\<forall>(gv, k) \<in> watched cs. sc_Recognizes S s gv k) \<and> sc_Recognizes S s GroupVersion (cs_For cs @ ''List'')"
proof -
  obtain s0 where s0: "fst (sc_clientgo S (sc_NewScheme S))" "s0 = snd (sc_clientgo S (sc_NewScheme S))"
    and s: "fst (sc_AddToScheme S (SchemeBuilder S) s0)" "s = snd (sc_AddToScheme S (SchemeBuilder S) s0)"
    using assms(2) by (auto simp: main_init_def must_def AddToScheme_def split: if_splits)
  note doc = scheme_documentedD [OF assms(1)]
  have version: "version (SchemeBuilder S) = GroupVersion"
    by (simp add: SchemeBuilder_def PackerBuilder_init_def AMIRefresher_init_def doc(4,5))
  have kinds: "{''AMIRefresher'', ''AMIRefresherList'', ''PackerBuilder'', ''PackerBuilderList''} \<subseteq> kinds (SchemeBuilder S)"
    by (simp add: SchemeBuilder_def PackerBuilder_init_def AMIRefresher_init_def doc(6))
  have known: "sc_Recognizes S s GroupVersion k"
    if "k \<in> {''AMIRefresher'', ''AMIRefresherList'', ''PackerBuilder'', ''PackerBuilderList''}" for k
    using doc(1) [OF subsetD [OF kinds that] s(1)] unfolding s(2) version .
  have job: "sc_Recognizes S s batch_v1 ''Job''"
    unfolding s(2) s0(2) by (rule doc(2) [OF doc(3) [OF s0(1)]])
  have "cs_For cs \<in> {''AMIRefresher'', ''PackerBuilder''}" "set (cs_Owns cs) \<subseteq> {''Job''}"
    using assms(3) by (auto simp: Packer_SetupWithManager_def Refresher_SetupWithManager_def)
  then show ?thesis
    using known job by (auto simp: watched_def)
qed

theorem watched_kinds_known_witness:
  "\<exists>s. main_init \<lparr>sc_Builder = (\<lambda>gv. (gv, [])), sc_Register = (\<lambda>ks (gv, l). (gv, l @ ks)),
      sc_AddToScheme = (\<lambda>(gv, l) s. (True, s @ map (Pair gv) l)), sc_NewScheme = [],
      sc_clientgo = (\<lambda>s. (True, s @ [(batch_v1, ''Job'')])), sc_Recognizes = (\<lambda>s gv k. (gv, k) \<in> set s)\<rparr> = Returns s \<and>
    (\<forall>x \<in> watched (Packer_SetupWithManager (\<lambda>ev. True)). x \<in> set s)"
    (is "\<exists>s. main_init ?S = _ \<and> _")
proof -
  have doc: "scheme_documented ?S fst (\<lambda>b. set (snd b))"
    by (simp add: scheme_documented_def split_beta)
  obtain s where s: "main_init ?S = Returns s"
    by (simp add: main_init_def must_def AddToScheme_def split_beta)
  have "Packer_SetupWithManager (\<lambda>ev. True) \<in> {Packer_SetupWithManager (\<lambda>ev. True), Refresher_SetupWithManager}"
    by simp
  from watched_kinds_known [OF doc s this]
  have "\<forall>(gv, k) \<in> watched (Packer_SetupWithManager (\<lambda>ev. True)). (gv, k) \<in> set s"
    by simp
  with s show ?thesis by (simp add: split_beta)
qed

end
