(* ===== verification/Packer_Safety.thy ===== *)
theory Packer_Safety
  imports Runner_Moves
begin

text \<open>
  The properties of a reconciliation: when it creates a job, what it writes, how it recovers from
  errors, and where it gets stuck.
\<close>

section \<open>When a job is created\<close>

interpretation creation: env_variant E f "env_update_pb_status E" "\<lambda>n. True" for E :: "'w env" and f
  by unfold_locales simp_all

lemma creation_variant:
  "env_variant_of E f (env_update_pb_status E) (\<lambda>n. True) = E\<lparr>env_create_job := f\<rparr>"
  by (cases E) (simp add: env_variant_of_def)

text \<open>
  C6. A job is created in state \<open>JobCreation\<close> only: when the stored builder is in any other state, or
  cannot be read, the whole reconciliation, with all its effects, is the same whatever the creation
  of a job would do.
\<close>

theorem creation_only_in_JobCreation:
  assumes "\<And>pb. fst (env_get_pb E req (cx_world s)) = Inr pb \<Longrightarrow>
    st_State (pb_Status pb) \<noteq> StateJobCreation"
  shows "Reconcile (E\<lparr>env_create_job := f\<rparr>) fuel req s = Reconcile E fuel req s"
  using creation.Reconcile_agree [of E req s f fuel] assms
  by (simp add: creation_variant not_creating_def)

theorem creation_only_in_JobCreation_witness:
  "Reconcile (sim_env\<lparr>env_create_job := (\<lambda>j w. (Some ContextCanceled, w))\<rparr>) 5 (''ns'', ''pb'')
     (start_ctx example_pb) = Reconcile sim_env 5 (''ns'', ''pb'') (start_ctx example_pb)"
  by (rule creation_only_in_JobCreation)
    (simp add: sim_run start_ctx_def sim_start_def example_pb_def)

text \<open>
  The lookup before a creation: only a not-found answer for a job with the builder's own name
  leads to a creation. A job of that name, or any other error, skips the creation and is passed over,
  so that \<open>createBuild\<close> goes on as if the job existed.
\<close>

theorem lookup_decides_creation:
  "create_job E j s =
     (case env_get_job E (object_key (pb_Meta (cx_pb s))) (cx_world s) of
        (Inr existing, w) \<Rightarrow> (Returns None, s\<lparr>cx_world := w\<rparr>)
      | (Inl err, w) \<Rightarrow>
          if is_not_found err
          then (Returns (fst (env_create_job E j w)), s\<lparr>cx_world := snd (env_create_job E j w)\<rparr>)
          else (Returns None, s\<lparr>cx_world := w\<rparr>))"
  by (simp add: create_job_def ctx_run go_laws split_beta split: sum.split)

section \<open>The count of failed jobs\<close>

lemma failed_jobs_variant:
  "env_variant_of E (env_create_job E) g q =
     E\<lparr>env_update_pb_status := (\<lambda>pb. if q (failed_jobs pb) then env_update_pb_status E pb else g pb)\<rparr>"
proof -
  have "E\<lparr>env_create_job := env_create_job E\<rparr> = E" by (cases E) simp
  then show ?thesis by (simp only: env_variant_of_def)
qed

text \<open>
  C31. No reconciliation counts a failed job: as long as the builders read from the API server have no
  failed job count or a count of zero, every status a reconciliation writes has none or zero too (it
  runs the same whatever the write of any other status would do), also after a failed build.
\<close>

theorem failed_jobs_never_counted:
  assumes "\<And>k w pb. fst (env_get_pb E k w) = Inr pb \<Longrightarrow> failed_jobs pb \<in> {None, Some 0}"
    and "\<And>a b w pb. fst (env_patch_pb E a b w) = Inr pb \<Longrightarrow> failed_jobs pb \<in> {None, Some 0}"
  shows "Reconcile (E\<lparr>env_update_pb_status := (\<lambda>pb. if failed_jobs pb \<in> {None, Some 0}
        then env_update_pb_status E pb else g pb)\<rparr>) fuel req s =
    Reconcile E fuel req s"
proof -
  have "env_variant E (\<lambda>n. n \<in> {None, Some 0})"
    using assms by unfold_locales simp_all
  from env_variant.Reconcile_agree [OF this, of req s "env_create_job E" g fuel]
  show ?thesis by (simp only: failed_jobs_variant simp_thms)
qed

text \<open>An environment that always answers with the example builder.\<close>

definition steady_env :: "sim env" where
  "steady_env = sim_env\<lparr>env_get_pb := (\<lambda>k w. (Inr example_pb, w)),
     env_update_pb_status := (\<lambda>pb w. (None, w)), env_patch_pb := (\<lambda>base pb w. (Inr example_pb, w))\<rparr>"

theorem failed_jobs_never_counted_witness:
  "Reconcile (steady_env\<lparr>env_update_pb_status := (\<lambda>pb. if failed_jobs pb \<in> {None, Some 0}
        then env_update_pb_status steady_env pb else (\<lambda>w. (Some ContextCanceled, w)))\<rparr>)
     5 (''ns'', ''pb'') (start_ctx example_pb) =
   Reconcile steady_env 5 (''ns'', ''pb'') (start_ctx example_pb)"
  by (rule failed_jobs_never_counted) (auto simp: steady_env_def failed_jobs_def example_pb_def)

text \<open>
  The guard of \<open>init\<close>: with a failed job count at or above the maximum (three when unset), as
  signed 32-bit numbers, the handler requeues after the controller timer without any call and without
  a move of the runner.
\<close>

theorem init_guard:
  assumes "failed = (case st_FailedJobCount (pb_Status (cx_pb s)) of None \<Rightarrow> 0 | Some n \<Rightarrow> n)"
    and "maximum = (case st_MaxNumberOfFailedJobs (pb_Status (cx_pb s)) of None \<Rightarrow> 3 | Some n \<Rightarrow> n)"
    and "sint maximum \<le> sint failed"
  shows "\<exists>s'. init_build E s =
      (Returns (RequeueAfter (duration_or_zero (pb_GetControllerTimer (cx_pb s)))), s') \<and>
    cx_world s' = cx_world s \<and> cx_runner s' = cx_runner s"
  using assms
  by (auto simp: init_build_def ctx_run go_laws pb_GetControllerTimer_def split: option.splits)

theorem init_guard_witness:
  "\<exists>s'. init_build sim_env (start_ctx example_pb\<lparr>cx_pb :=
       set_status (\<lambda>x. x\<lparr>st_FailedJobCount := Some 7\<rparr>) example_pb\<rparr>) =
     (Returns (RequeueAfter (duration_or_zero ''5m'')), s')"
  using init_guard [of 7 "start_ctx example_pb\<lparr>cx_pb :=
       set_status (\<lambda>x. x\<lparr>st_FailedJobCount := Some 7\<rparr>) example_pb\<rparr>" 3 sim_env]
  by (auto simp: example_pb_def pb_GetControllerTimer_def)

section \<open>Recording a state change\<close>

text \<open>
  The parts of \<open>reconcileUpdate\<close> in their order: the status in memory, the event, the condition with
  the write of the status, Slack, the runner, the patch.
\<close>

definition update_status ::
  "pb_state \<Rightarrow> last_run_status \<Rightarrow> bytes \<Rightarrow> time \<Rightarrow> packer_builder \<Rightarrow> packer_builder" where
  "update_status n l m now = set_status (\<lambda>s. s\<lparr>st_State := n, st_LastRunStatus := l,
     st_LastRunMessage := m, st_LastRun := now\<rparr>)"

definition after_event :: "'w env \<Rightarrow> pb_state \<Rightarrow> bytes \<Rightarrow> last_run_status \<Rightarrow> 'w ctx \<Rightarrow> 'w ctx" where
  "after_event E n m l s =
     (let pb = update_status n l m (fst (env_now E (cx_world s))) (cx_pb s)
      in s\<lparr>cx_pb := pb, cx_world := snd (RecordNormalEvent E (object_key (pb_Meta pb))
             (state_text n) m (snd (env_now E (cx_world s))))\<rparr>)"

definition after_condition ::
  "'w env \<Rightarrow> pb_state \<Rightarrow> bytes \<Rightarrow> last_run_status \<Rightarrow> condition_status \<Rightarrow> condition_type \<Rightarrow>
   'w ctx \<Rightarrow> go_error option outcome \<times> 'w ctx" where
  "after_condition E n m l cs ct s = set_condition_pb E ct cs (state_text n) m (after_event E n m l s)"

lemma reconcileUpdate_run:
  "reconcileUpdate E n m l cs ct s =
     (let s1 = snd (after_condition E n m l cs ct s)
      in case fst (after_condition E n m l cs ct s) of
           Panics t \<Rightarrow> (Panics t, s1)
         | Returns (Some err) \<Rightarrow> (Returns (Some err), s1)
         | Returns None \<Rightarrow>
             go_bind (notify_slack E m) (\<lambda>unsent.
               case unsent of
                 Some err \<Rightarrow> go_return (Some err)
               | None \<Rightarrow>
                   go_bind (runner_set n) (\<lambda>refused.
                     case refused of Some err \<Rightarrow> go_return (Some err) | None \<Rightarrow> patch_pb E)) s1)"
  by (simp add: reconcileUpdate_def after_condition_def after_event_def update_status_def Let_def
      go_bind_run [of "on_world (go_call c)" for c] go_bind_run [of "put_status h" for h]
      go_bind_run [of the_pb] go_bind_run [of "set_condition_pb E' t st r x" for E' t st r x]
      ctx_run go_run_simps split_beta go_return_def split: outcome.split option.split)

lemma after_condition_frame:
  "cx_runner (snd (after_condition E n m l cs ct s)) = cx_runner s"
  "st_BuildID (pb_Status (cx_pb (snd (after_condition E n m l cs ct s)))) = st_BuildID (pb_Status (cx_pb s))"
  "st_State (pb_Status (cx_pb (snd (after_condition E n m l cs ct s)))) = n"
  "pb_Spec (cx_pb (snd (after_condition E n m l cs ct s))) = pb_Spec (cx_pb s)"
  "\<exists>e. fst (after_condition E n m l cs ct s) = Returns e"
proof -
  let ?s0 = "after_event E n m l s" and ?s1 = "snd (after_condition E n m l cs ct s)"
  note f = set_condition_pb_frame [of E ct cs "state_text n" m ?s0, folded after_condition_def]
  have s0: "cx_runner ?s0 = cx_runner s" "st_State (pb_Status (cx_pb ?s0)) = n"
    "st_BuildID (pb_Status (cx_pb ?s0)) = st_BuildID (pb_Status (cx_pb s))"
    "pb_Spec (cx_pb ?s0) = pb_Spec (cx_pb s)"
    by (simp_all add: after_event_def update_status_def Let_def)
  obtain x where x: "cx_pb ?s1 = set_status (\<lambda>y. y\<lparr>st_Conditions := x\<rparr>) (cx_pb ?s0)"
    using f by blast
  show "cx_runner ?s1 = cx_runner s" using f s0 by simp
  show "st_BuildID (pb_Status (cx_pb ?s1)) = st_BuildID (pb_Status (cx_pb s))"
    unfolding x using s0 by simp
  show "st_State (pb_Status (cx_pb ?s1)) = n" unfolding x using s0 by simp
  show "pb_Spec (cx_pb ?s1) = pb_Spec (cx_pb s)" unfolding x using s0 by simp
  show "\<exists>e. fst (after_condition E n m l cs ct s) = Returns e" using f by blast
qed

lemma notify_frame:
  "cx_runner (snd (notify_slack E m s)) = cx_runner s \<and> cx_pb (snd (notify_slack E m s)) = cx_pb s \<and>
   (\<exists>e. fst (notify_slack E m s) = Returns e)"
proof -
  let ?slack = "nf_Slack (sp_Notify (pb_Spec (cx_pb s)))"
  show ?thesis
  proof (cases "st_State (pb_Status (cx_pb s)) \<in> {StateInitial, StateFlightChecks} \<or> slack_isEmpty ?slack")
    case True
    have "notify_slack E m s = (Returns None, s)"
      unfolding notify_slack_def Let_def go_bind_run [of the_pb] the_pb_def fst_conv snd_conv outcome.case
      by (simp only: if_P [OF True] go_return_def)
    then show ?thesis by simp
  next
    case False
    then show ?thesis
      by (auto simp: notify_slack_def ctx_run go_laws split_beta Let_def
          split: sum.splits option.splits)
  qed
qed

text \<open>When the table has no edge to the new state, the update fails and the runner stays.\<close>

lemma reconcileUpdate_refused:
  assumes "runner_wf (cx_runner s)"
    and "\<not> opsy_edge (GetCurrentState (cx_runner s) (st_BuildID (pb_Status (cx_pb s)))) n"
  shows "\<exists>err s'. reconcileUpdate E n m l cs ct s = (Returns (Some err), s') \<and>
    cx_runner s' = cx_runner s \<and> st_State (pb_Status (cx_pb s')) = n \<and>
    st_BuildID (pb_Status (cx_pb s')) = st_BuildID (pb_Status (cx_pb s))"
proof -
  let ?s1 = "snd (after_condition E n m l cs ct s)"
  note f = after_condition_frame [of E n m l cs ct s]
  obtain e where e: "fst (after_condition E n m l cs ct s) = Returns e" using f(5) by blast
  show ?thesis
  proof (cases e)
    case (Some err)
    with e f show ?thesis by (simp add: reconcileUpdate_run Let_def)
  next
    case None
    note nf = notify_frame [of E m ?s1]
    let ?s2 = "snd (notify_slack E m ?s1)"
    obtain u where u: "fst (notify_slack E m ?s1) = Returns u" using nf by blast
    have refused: "\<exists>err. runner_set n ?s2 = (Returns (Some err), ?s2)"
      using assms nf f(1,2) by (simp add: runner_set_def SetState_wf)
    then obtain err where r: "runner_set n ?s2 = (Returns (Some err), ?s2)" by blast
    have "reconcileUpdate E n m l cs ct s =
        (case u of Some e \<Rightarrow> (Returns (Some e), ?s2) | None \<Rightarrow> (Returns (Some err), ?s2))"
      using e None u r by (simp add: reconcileUpdate_run Let_def go_bind_at go_return_def
          split: option.split)
    then show ?thesis
      using nf f(1-3) by (cases u) auto
  qed
qed



section \<open>Where a builder gets stuck\<close>

lemma error_refused:
  assumes "runner_wf (cx_runner s)"
    and "\<not> opsy_edge (GetCurrentState (cx_runner s) (st_BuildID (pb_Status (cx_pb s)))) StateError"
  shows "\<exists>err s'. transitionToErrorState E t s = (Returns (Failed err), s') \<and>
    cx_runner s' = cx_runner s \<and> st_State (pb_Status (cx_pb s')) = StateError \<and>
    st_BuildID (pb_Status (cx_pb s')) = st_BuildID (pb_Status (cx_pb s))"
proof -
  obtain err s' where "reconcileUpdate E StateError t LastRunStatusFailed ConditionFalse
      ConditionTypeFailed s = (Returns (Some err), s')" and f: "cx_runner s' = cx_runner s"
    "st_State (pb_Status (cx_pb s')) = StateError"
    "st_BuildID (pb_Status (cx_pb s')) = st_BuildID (pb_Status (cx_pb s))"
    using reconcileUpdate_refused [OF assms] by blast
  then show ?thesis
    by (intro exI [of _ err] exI [of _ s']) (simp add: transitionToErrorState_def go_bind_at go_return_def)
qed

text \<open>A stored state that the table does not let the runner follow leads to the error state.\<close>

lemma sync_refused:
  assumes "runner_wf (cx_runner s)"
    and "GetCurrentState (cx_runner s) (st_BuildID (pb_Status (cx_pb s))) \<noteq> st_State (pb_Status (cx_pb s))"
    and "\<not> opsy_edge (GetCurrentState (cx_runner s) (st_BuildID (pb_Status (cx_pb s)))) (st_State (pb_Status (cx_pb s)))"
  shows "\<exists>t. catchRek E fuel s = go_bind (transitionToErrorState E t) (\<lambda>r. go_return (Some r))
    (s\<lparr>cx_world := snd (packer_New E (cx_pb s) (cx_world s))\<rparr>)"
proof -
  let ?s1 = "s\<lparr>cx_world := snd (packer_New E (cx_pb s) (cx_world s))\<rparr>"
  obtain e where "sync_runner E ?s1 = (Returns (Some e), ?s1)"
    using assms by (auto simp: sync_runner_def ctx_run go_laws SetState_wf)
  then show ?thesis
    unfolding catchRek_at by (simp only: go_bind_at fst_conv snd_conv option.case) blast
qed

text \<open>
  C28. A builder whose runner is in \<open>AMICreated\<close> while its stored state is anything but \<open>AMICreated\<close> or
  \<open>Initial\<close> is stuck: every reconciliation, whatever the API server, AWS and Slack answer, ends with an
  error and leaves the runner where it was, so the next one starts in the same place. Only a change of
  the stored status from outside or a new process ends this.
\<close>

theorem ami_created_wedge:
  assumes "runner_wf (cx_runner s)" "fst (env_get_pb E req (cx_world s)) = Inr pb"
    and "st_BuildID (pb_Status pb) \<noteq> ''''"
    and "GetCurrentState (cx_runner s) (st_BuildID (pb_Status pb)) = StateAMICreated"
    and "st_State (pb_Status pb) \<notin> {StateUnset, StateInitial, StateAMICreated}"
  shows "\<exists>err s'. Reconcile E fuel req s = (Returns (Some (Failed err)), s') \<and>
    cx_runner s' = cx_runner s"
proof -
  obtain s3 where run: "Reconcile E fuel req s = catchRek E fuel s3" and s3: "cx_runner s3 = cx_runner s"
    "st_State (pb_Status (cx_pb s3)) = st_State (pb_Status pb)"
    "st_BuildID (pb_Status (cx_pb s3)) = st_BuildID (pb_Status pb)"
    using Reconcile_to_catchRek [OF assms(2) _ assms(3)] assms(5) by blast
  let ?s4 = "s3\<lparr>cx_world := snd (packer_New E (cx_pb s3) (cx_world s3))\<rparr>"
  have at: "runner_wf (cx_runner s3)" "GetCurrentState (cx_runner s3) (st_BuildID (pb_Status (cx_pb s3))) = StateAMICreated"
    "\<not> opsy_edge StateAMICreated (st_State (pb_Status (cx_pb s3)))" "\<not> opsy_edge StateAMICreated StateError"
    using assms(1,4,5) s3 by (auto simp: opsy_edge_iff)
  then obtain t where sync: "catchRek E fuel s3 = go_bind (transitionToErrorState E t) (\<lambda>r. go_return (Some r)) ?s4"
    using sync_refused [of s3 E fuel] assms(5) s3(2) by auto
  obtain err s' where "transitionToErrorState E t ?s4 = (Returns (Failed err), s')" "cx_runner s' = cx_runner ?s4"
    using error_refused [of ?s4 E t] at by auto
  with run sync s3(1) show ?thesis by (simp add: go_bind_at go_return_def)
qed

theorem ami_created_wedge_witness:
  "\<exists>err s'. Reconcile sim_env 3 (''ns'', ''pb'') (process_in StateAMICreated StateError []) =
     (Returns (Some (Failed err)), s') \<and>
    cx_runner s' = cx_runner (process_in StateAMICreated StateError [])"
  by (rule ami_created_wedge [where pb = "in_state StateError"])
    (simp_all add: sim_run)

text \<open>
  C29. A failed removal of the key pair leads there: in \<open>AMICreated\<close> the handler then ends with an error,
  the builder's state becomes \<open>Error\<close>, and the runner stays in \<open>AMICreated\<close>, because the table has no
  edge from \<open>AMICreated\<close> to \<open>Error\<close>.
\<close>

theorem cleanup_failure_sticks:
  assumes "runner_wf (cx_runner s)"
    and "GetCurrentState (cx_runner s) (st_BuildID (pb_Status (cx_pb s))) = StateAMICreated"
    and "st_LastRunKeyPair (pb_Status (cx_pb s)) \<noteq> ''''"
    and "DeleteKeyPair E pm (st_LastRunKeyPair (pb_Status (cx_pb s))) (cx_world s) = (Returns (Some err), w')"
  shows "\<exists>err' s'. cleanupBuild E pm s = (Returns (Failed err'), s') \<and> cx_runner s' = cx_runner s \<and>
    st_State (pb_Status (cx_pb s')) = StateError"
proof -
  let ?s1 = "s\<lparr>cx_world := w'\<rparr>"
  have "\<not> opsy_edge StateAMICreated StateError" by (simp add: opsy_edge_iff)
  then obtain err' s' where t: "transitionToErrorState E (''Failed to delete KeyPair: '' @ error_text err) ?s1 =
      (Returns (Failed err'), s')" and f: "cx_runner s' = cx_runner s" "st_State (pb_Status (cx_pb s')) = StateError"
    using error_refused [of ?s1 E "''Failed to delete KeyPair: '' @ error_text err"] assms(1,2) by auto
  have "on_world (DeleteKeyPair E pm (st_LastRunKeyPair (pb_Status (cx_pb s)))) s =
      (Returns (Some err), ?s1)"
    using assms(4) by (simp add: on_world_def)
  then have "cleanupBuild E pm s =
      transitionToErrorState E (''Failed to delete KeyPair: '' @ error_text err) ?s1"
    using assms(3) by (simp only: cleanupBuild_def go_bind_run [of the_pb] the_pb_def fst_conv snd_conv
        outcome.case if_True simp_thms go_bind_at option.case)
  with t f show ?thesis by simp
qed

theorem cleanup_failure_sticks_witness:
  "\<exists>err' s'. cleanupBuild sim_env (Some ''us-west-2'') (process_in StateAMICreated StateAMICreated
      [(''delete_key_pair'', AwsError ''RequestLimitExceeded'' ''slow down'')]) = (Returns (Failed err'), s') \<and>
    cx_runner s' = cx_runner (process_in StateAMICreated StateAMICreated
      [(''delete_key_pair'', AwsError ''RequestLimitExceeded'' ''slow down'')]) \<and>
    st_State (pb_Status (cx_pb s')) = StateError"
proof -
  let ?s = "process_in StateAMICreated StateAMICreated
      [(''delete_key_pair'', AwsError ''RequestLimitExceeded'' ''slow down'')]"
  have "DeleteKeyPair sim_env (Some ''us-west-2'') (st_LastRunKeyPair (pb_Status (cx_pb ?s))) (cx_world ?s) =
      (Returns (Some (AwsError ''RequestLimitExceeded'' ''slow down'')), cx_world ?s)"
    by (simp add: DeleteKeyPair_def go_laws sim_run)
  from cleanup_failure_sticks [OF _ _ _ this] show ?thesis by simp
qed

end
