(* ===== verification/Build_Watch.thy ===== *)
theory Build_Watch
  imports Packer_Controller
begin

text \<open>
  The concurrency of \<open>runningBuild\<close> in the PackerBuilder controller: the two goroutines that
  \<open>watchBuild\<close> starts, their channels of capacity one, the context, and the cleanup that cancels the
  goroutines, waits for them for ten seconds and lets a third goroutine close the channels. The steps
  of all of them interleave freely. The loop of \<open>running_loop\<close> is an abstraction of this system: what
  its channels hold is what the system's channels hold.
\<close>

section \<open>The system\<close>

text \<open>
  The job watch: before its call, in its loop, at a send on the error channel (and whether it returns
  afterwards), at the send of the result, returned.
\<close>

datatype watcher =
    WatcherStarts
  | WatcherLoops
  | WatcherSendsError go_error bool
  | WatcherSendsResult build_result
  | WatcherEnded

datatype log_streamer = LogsRun | LogsSendsError go_error | LogsEnded

text \<open>The goroutine that waits for the group and closes \<open>done\<close> and the channels, in this order.\<close>

datatype closer = CloserIdle | CloserWaits | ClosesResults | ClosesErrors | CloserEnded

datatype cleanup_phase = NotCleaning | CleanupWaits | CleanedUp | CleanupTimedOut

record watch_build =
  wb_watcher :: watcher
  wb_logs :: log_streamer
  wb_result :: "build_result option"
  wb_error :: "go_error option"
  wb_results_closed :: bool
  wb_errors_closed :: bool
  wb_done :: bool
  wb_cancelled :: bool
  wb_closer :: closer
  wb_cleanup :: cleanup_phase
  wb_panicked :: bool

definition watchBuild :: watch_build where
  "watchBuild = \<lparr>wb_watcher = WatcherStarts, wb_logs = LogsRun, wb_result = None, wb_error = None,
     wb_results_closed = False, wb_errors_closed = False, wb_done = False, wb_cancelled = False,
     wb_closer = CloserIdle, wb_cleanup = NotCleaning, wb_panicked = False\<rparr>"

text \<open>
  One step of one of them. \<open>Cancel\<close> is the end of the reconciliation's own context; \<open>LoopTakes\<close> are
  the receives of \<open>runningBuild\<close>.
\<close>

datatype watch_action =
    WatchStarts "go_error option"
  | WatchEvent watch_event
  | WatcherSeesCancel
  | WatcherSends
  | LogsReturn "go_error option"
  | LogsSend
  | LoopTakesResult
  | LoopTakesError
  | Cancel
  | CleanupStarts
  | CloserRuns
  | CleanupSeesDone
  | CleanupTimesOut

text \<open>What the watch does with an event: nothing, or a send.\<close>

definition job_result :: "job_state \<Rightarrow> build_result" where
  "job_result js =
     (if 0 < sint (js_Succeeded js)
      then \<lparr>br_Completed = True, br_Succeeded = True, br_Failed = False,
             br_Reason = ''Job completed successfully''\<rparr>
      else \<lparr>br_Completed = True, br_Succeeded = False, br_Failed = True,
             br_Reason = getJobFailureReason js\<rparr>)"

definition watcher_event :: "watch_event \<Rightarrow> watcher" where
  "watcher_event ev =
     (case ev of
        WatchClosed \<Rightarrow>
          WatcherSendsError (ErrorString ''job watch channel closed unexpectedly'') True
      | WatchOther t \<Rightarrow>
          WatcherSendsError (ErrorString (''unexpected object type from watch event: '' @ t)) False
      | WatchJob js \<Rightarrow>
          if 0 < sint (js_Succeeded js) \<or> 0 < sint (js_Failed js)
          then WatcherSendsResult (job_result js) else WatcherLoops)"

text \<open>A send: a panic on a closed channel, no step on a full one.\<close>

definition chan_send_error :: "go_error \<Rightarrow> watch_build \<Rightarrow> watch_build option" where
  "chan_send_error e b =
     (if wb_errors_closed b then Some (b\<lparr>wb_panicked := True\<rparr>)
      else if wb_error b = None then Some (b\<lparr>wb_error := Some e\<rparr>)
      else None)"

definition chan_send_result :: "build_result \<Rightarrow> watch_build \<Rightarrow> watch_build option" where
  "chan_send_result r b =
     (if wb_results_closed b then Some (b\<lparr>wb_panicked := True\<rparr>)
      else if wb_result b = None then Some (b\<lparr>wb_result := Some r\<rparr>)
      else None)"

definition watcher_sends :: "watch_build \<Rightarrow> watch_build option" where
  "watcher_sends b =
     (case wb_watcher b of
        WatcherSendsError e ends \<Rightarrow>
          map_option (wb_watcher_update (\<lambda>x. if ends then WatcherEnded else WatcherLoops))
            (chan_send_error e b)
      | WatcherSendsResult r \<Rightarrow>
          map_option (wb_watcher_update (\<lambda>x. WatcherEnded)) (chan_send_result r b)
      | _ \<Rightarrow> None)"

text \<open>
  The end of \<open>streamPodLogs\<close>; it never returns an error that mentions an initializing pod, because it
  tries again. A cancelled context is not reported.
\<close>

definition logs_return :: "go_error option \<Rightarrow> watch_build \<Rightarrow> watch_build option" where
  "logs_return failed b =
     (if wb_logs b \<noteq> LogsRun then None
      else case failed of
        None \<Rightarrow> Some (b\<lparr>wb_logs := LogsEnded\<rparr>)
      | Some err \<Rightarrow>
          if str_contains (error_text err) ''PodInitializing'' then None
          else if err = ContextCanceled then Some (b\<lparr>wb_logs := LogsEnded\<rparr>)
          else Some (b\<lparr>wb_logs := LogsSendsError err\<rparr>))"

definition logs_send :: "watch_build \<Rightarrow> watch_build option" where
  "logs_send b =
     (case wb_logs b of
        LogsSendsError err \<Rightarrow>
          map_option (wb_logs_update (\<lambda>x. LogsEnded))
            (chan_send_error (WrapError ''error streaming pod logs: '' err) b)
      | _ \<Rightarrow> None)"

text \<open>The waiting and the three closes of the goroutine that the cleanup starts.\<close>

definition closer_runs :: "watch_build \<Rightarrow> watch_build option" where
  "closer_runs b =
     (case wb_closer b of
        CloserWaits \<Rightarrow>
          if wb_watcher b = WatcherEnded \<and> wb_logs b = LogsEnded
          then Some (b\<lparr>wb_done := True, wb_closer := ClosesResults\<rparr>) else None
      | ClosesResults \<Rightarrow>
          Some (b\<lparr>wb_panicked := wb_panicked b \<or> wb_results_closed b,
                  wb_results_closed := True, wb_closer := ClosesErrors\<rparr>)
      | ClosesErrors \<Rightarrow>
          Some (b\<lparr>wb_panicked := wb_panicked b \<or> wb_errors_closed b,
                  wb_errors_closed := True, wb_closer := CloserEnded\<rparr>)
      | _ \<Rightarrow> None)"

fun watch_act :: "watch_action \<Rightarrow> watch_build \<Rightarrow> watch_build option" where
  "watch_act (WatchStarts failed) b =
     (if wb_watcher b = WatcherStarts
      then Some (b\<lparr>wb_watcher := (case failed of
             None \<Rightarrow> WatcherLoops
           | Some err \<Rightarrow> WatcherSendsError (WrapError ''failed to create job watcher: '' err) True)\<rparr>)
      else None)"
| "watch_act (WatchEvent ev) b =
     (if wb_watcher b = WatcherLoops then Some (b\<lparr>wb_watcher := watcher_event ev\<rparr>) else None)"
| "watch_act WatcherSeesCancel b =
     (if wb_watcher b = WatcherLoops \<and> wb_cancelled b then Some (b\<lparr>wb_watcher := WatcherEnded\<rparr>)
      else None)"
| "watch_act WatcherSends b = watcher_sends b"
| "watch_act (LogsReturn failed) b = logs_return failed b"
| "watch_act LogsSend b = logs_send b"
| "watch_act LoopTakesResult b =
     (if wb_cleanup b = NotCleaning \<and> wb_result b \<noteq> None then Some (b\<lparr>wb_result := None\<rparr>) else None)"
| "watch_act LoopTakesError b =
     (if wb_cleanup b = NotCleaning \<and> wb_error b \<noteq> None then Some (b\<lparr>wb_error := None\<rparr>) else None)"
| "watch_act Cancel b = Some (b\<lparr>wb_cancelled := True\<rparr>)"
| "watch_act CleanupStarts b =
     (if wb_cleanup b = NotCleaning
      then Some (b\<lparr>wb_cancelled := True, wb_cleanup := CleanupWaits, wb_closer := CloserWaits\<rparr>)
      else None)"
| "watch_act CloserRuns b = closer_runs b"
| "watch_act CleanupSeesDone b =
     (if wb_cleanup b = CleanupWaits \<and> wb_done b then Some (b\<lparr>wb_cleanup := CleanedUp\<rparr>) else None)"
| "watch_act CleanupTimesOut b =
     (if wb_cleanup b = CleanupWaits then Some (b\<lparr>wb_cleanup := CleanupTimedOut\<rparr>) else None)"

fun watch_run :: "watch_action list \<Rightarrow> watch_build \<Rightarrow> watch_build option" where
  "watch_run [] b = Some b"
| "watch_run (a # as) b = Option.bind (watch_act a b) (watch_run as)"

lemma watch_run_append: "watch_run (as @ bs) b = Option.bind (watch_run as b) (watch_run bs)"
  by (induction as b rule: watch_run.induct) (auto split: Option.bind_splits)

text \<open>What every step keeps holds after a run.\<close>

lemma watch_run_keeps:
  assumes "\<And>a b b'. watch_act a b = Some b' \<Longrightarrow> I b \<Longrightarrow> I b'"
  shows "watch_run as b = Some b' \<Longrightarrow> I b \<Longrightarrow> I b'"
  by (induction as arbitrary: b) (auto simp: bind_eq_Some_conv dest: assms)

lemmas watch_acts = watcher_sends_def chan_send_error_def chan_send_result_def logs_return_def
  logs_send_def closer_runs_def

section \<open>No send on a closed channel\<close>

definition watch_inv :: "watch_build \<Rightarrow> bool" where
  "watch_inv b \<longleftrightarrow> \<not> wb_panicked b \<and>
     (wb_cleanup b = NotCleaning \<longleftrightarrow> wb_closer b = CloserIdle) \<and>
     (wb_cleanup b \<noteq> NotCleaning \<longrightarrow> wb_cancelled b) \<and>
     (wb_closer b \<notin> {CloserIdle, CloserWaits} \<longrightarrow>
        wb_watcher b = WatcherEnded \<and> wb_logs b = LogsEnded) \<and>
     (wb_done b \<longleftrightarrow> wb_closer b \<notin> {CloserIdle, CloserWaits}) \<and>
     (wb_results_closed b \<longleftrightarrow> wb_closer b \<in> {ClosesErrors, CloserEnded}) \<and>
     (wb_errors_closed b \<longleftrightarrow> wb_closer b = CloserEnded) \<and>
     (wb_cleanup b = CleanedUp \<longrightarrow> wb_closer b \<notin> {CloserIdle, CloserWaits}) \<and>
     (wb_watcher b \<noteq> WatcherEnded \<longrightarrow> wb_result b = None)"

lemma watch_inv_start: "watch_inv watchBuild"
  by (simp add: watch_inv_def watchBuild_def)

lemma watcher_sends_inv: "watcher_sends b = Some b' \<Longrightarrow> watch_inv b \<Longrightarrow> watch_inv b'"
  unfolding watcher_sends_def chan_send_error_def chan_send_result_def
  by (simp split: watcher.split_asm if_split_asm; clarify; cases "wb_closer b"; simp add: watch_inv_def)

lemma logs_return_inv: "logs_return failed b = Some b' \<Longrightarrow> watch_inv b \<Longrightarrow> watch_inv b'"
  unfolding logs_return_def
  by (simp split: option.split_asm if_split_asm; clarify; cases "wb_closer b"; simp add: watch_inv_def)

lemma logs_send_inv: "logs_send b = Some b' \<Longrightarrow> watch_inv b \<Longrightarrow> watch_inv b'"
  unfolding logs_send_def chan_send_error_def
  by (simp split: log_streamer.split_asm if_split_asm; clarify; cases "wb_closer b"; simp add: watch_inv_def)

lemma closer_runs_inv: "closer_runs b = Some b' \<Longrightarrow> watch_inv b \<Longrightarrow> watch_inv b'"
  unfolding closer_runs_def
  by (simp split: closer.split_asm if_split_asm; clarify; cases "wb_closer b"; simp add: watch_inv_def)

lemma watch_inv_step: "watch_act a b = Some b' \<Longrightarrow> watch_inv b \<Longrightarrow> watch_inv b'"
proof (induction a b rule: watch_act.induct)
  case 4
  then show ?case by (simp add: watcher_sends_inv)
next
  case 5
  then show ?case by (simp add: logs_return_inv)
next
  case 6
  then show ?case by (simp add: logs_send_inv)
next
  case 11
  then show ?case by (simp add: closer_runs_inv)
qed (simp split: if_split_asm; clarify; cases "wb_closer b"; simp add: watch_inv_def)+

lemma watch_inv_run: "watch_run as b = Some b' \<Longrightarrow> watch_inv b \<Longrightarrow> watch_inv b'"
  by (rule watch_run_keeps [where I = watch_inv]) (auto dest: watch_inv_step)

text \<open>
  C12. No schedule of the goroutines, of the loop and of the cleanup makes the operator panic: nothing is
  sent on a closed channel and no channel is closed twice. A result can always be sent at once,
  because the watch sends one result only, to a channel with room for it.
\<close>

theorem watch_never_panics:
  assumes "watch_run as watchBuild = Some b"
  shows "\<not> wb_panicked b \<and>
    (\<forall>r. wb_watcher b = WatcherSendsResult r \<longrightarrow>
       watch_act WatcherSends b = Some (b\<lparr>wb_result := Some r, wb_watcher := WatcherEnded\<rparr>))"
proof -
  have inv: "watch_inv b" by (rule watch_inv_run [OF assms watch_inv_start])
  then have "\<not> wb_panicked b" by (simp add: watch_inv_def)
  moreover have "watch_act WatcherSends b = Some (b\<lparr>wb_result := Some r, wb_watcher := WatcherEnded\<rparr>)"
    if "wb_watcher b = WatcherSendsResult r" for r
    using inv that by (auto simp: watch_inv_def watcher_sends_def chan_send_result_def)
  ultimately show ?thesis by blast
qed

text \<open>A run in which the watch reports an unexpected object and a succeeded job, up to its end.\<close>

definition graceful_run :: "watch_action list" where
  "graceful_run =
     [WatchStarts None, WatchEvent (WatchOther ''*v1.Status''), WatcherSends,
      WatchEvent (WatchJob \<lparr>js_Succeeded = 1, js_Failed = 0, js_Conditions = []\<rparr>), WatcherSends,
      LoopTakesResult, CleanupStarts, LogsReturn (Some ContextCanceled), CloserRuns, CleanupSeesDone,
      CloserRuns, CloserRuns]"

theorem watch_never_panics_witness:
  "\<exists>b. watch_run graceful_run watchBuild = Some b \<and> \<not> wb_panicked b \<and> wb_errors_closed b"
proof -
  obtain b where b: "watch_run graceful_run watchBuild = Some b" "wb_errors_closed b"
    by (simp add: graceful_run_def watch_acts watcher_event_def watchBuild_def)
  with watch_never_panics [OF b(1)] show ?thesis by blast
qed

section \<open>When the goroutines end\<close>

text \<open>The errors that wait to be sent, and the room for them once the loop has stopped receiving.\<close>

definition pending_errors :: "watch_build \<Rightarrow> nat" where
  "pending_errors b =
     (case wb_watcher b of WatcherSendsError e ends \<Rightarrow> 1 | _ \<Rightarrow> 0) +
     (case wb_logs b of LogsSendsError e \<Rightarrow> 1 | _ \<Rightarrow> 0)"

definition error_room :: "watch_build \<Rightarrow> nat" where
  "error_room b = (if wb_error b = None then 1 else 0)"

text \<open>More errors than room: this is stable, because nobody receives any more.\<close>

definition wedged :: "watch_build \<Rightarrow> bool" where
  "wedged b \<longleftrightarrow> wb_cleanup b \<noteq> NotCleaning \<and> error_room b < pending_errors b"

definition live_inv :: "watch_build \<Rightarrow> bool" where
  "live_inv b \<longleftrightarrow> watch_inv b \<and> wedged b"

lemma wedged_open:
  assumes "live_inv b"
  shows "\<not> wb_errors_closed b" "\<not> wb_results_closed b" "\<not> wb_done b" "wb_cleanup b \<noteq> CleanedUp"
    "\<not> (wb_watcher b = WatcherEnded \<and> wb_logs b = LogsEnded)" "wb_closer b = CloserWaits"
  using assms by (cases "wb_closer b"; auto simp: live_inv_def watch_inv_def wedged_def pending_errors_def)+

lemma wedged_step:
  assumes "watch_act a b = Some b'" "live_inv b"
  shows "live_inv b'"
proof -
  note opened = wedged_open [OF assms(2)]
  have "watch_inv b'" by (rule watch_inv_step [OF assms(1)]) (use assms(2) in \<open>simp add: live_inv_def\<close>)
  moreover have "wb_cleanup b \<noteq> NotCleaning" "error_room b < pending_errors b"
    using assms(2) by (simp_all add: live_inv_def wedged_def)
  then have "wedged b'"
    using assms(1) opened
    by (cases a; cases "wb_watcher b"; cases "wb_logs b")
      (auto simp: wedged_def pending_errors_def error_room_def watch_acts
        split: if_split_asm option.split_asm)
  ultimately show ?thesis by (simp add: live_inv_def)
qed

lemma wedged_forever:
  "watch_run as b = Some b' \<Longrightarrow> live_inv b \<Longrightarrow> live_inv b'"
  by (rule watch_run_keeps [where I = live_inv]) (auto dest: wedged_step)

text \<open>Otherwise each goroutine can be brought to its end.\<close>

definition ending_watcher :: "watcher \<Rightarrow> watch_action list" where
  "ending_watcher x =
     (case x of
        WatcherStarts \<Rightarrow> [WatchStarts None, WatcherSeesCancel]
      | WatcherLoops \<Rightarrow> [WatcherSeesCancel]
      | WatcherSendsError e ends \<Rightarrow> (if ends then [WatcherSends] else [WatcherSends, WatcherSeesCancel])
      | WatcherSendsResult r \<Rightarrow> [WatcherSends]
      | WatcherEnded \<Rightarrow> [])"

definition ending_logs :: "log_streamer \<Rightarrow> watch_action list" where
  "ending_logs x =
     (case x of
        LogsRun \<Rightarrow> [LogsReturn None]
      | LogsSendsError e \<Rightarrow> [LogsSend]
      | LogsEnded \<Rightarrow> [])"

definition ending_closer :: "closer \<Rightarrow> watch_action list" where
  "ending_closer x =
     (case x of
        CloserWaits \<Rightarrow> [CloserRuns, CloserRuns, CloserRuns]
      | ClosesResults \<Rightarrow> [CloserRuns, CloserRuns]
      | ClosesErrors \<Rightarrow> [CloserRuns]
      | _ \<Rightarrow> [])"

lemma watcher_can_end:
  assumes "watch_inv b" "wb_cleanup b \<noteq> NotCleaning" "pending_errors b \<le> error_room b"
  shows "\<exists>b'. watch_run (ending_watcher (wb_watcher b)) b = Some b' \<and> watch_inv b' \<and>
    wb_watcher b' = WatcherEnded \<and> wb_cleanup b' = wb_cleanup b \<and> pending_errors b' \<le> error_room b'"
proof -
  have "\<not> wb_errors_closed b \<and> \<not> wb_results_closed b \<and> wb_result b = None" if "wb_watcher b \<noteq> WatcherEnded"
    using assms(1) that by (cases "wb_closer b") (auto simp: watch_inv_def)
  moreover have "wb_cancelled b" using assms(1,2) by (simp add: watch_inv_def)
  ultimately obtain b' where b': "watch_run (ending_watcher (wb_watcher b)) b = Some b'"
    "wb_watcher b' = WatcherEnded" "wb_cleanup b' = wb_cleanup b" "pending_errors b' \<le> error_room b'"
    using assms(3) by (cases "wb_watcher b")
      (auto simp: ending_watcher_def watch_acts pending_errors_def error_room_def split: if_splits log_streamer.splits)
  with watch_inv_run [OF b'(1) assms(1)] show ?thesis by blast
qed

lemma logs_can_end:
  assumes "watch_inv b" "wb_cleanup b \<noteq> NotCleaning" "wb_watcher b = WatcherEnded"
    "pending_errors b \<le> error_room b"
  shows "\<exists>b'. watch_run (ending_logs (wb_logs b)) b = Some b' \<and> watch_inv b' \<and>
    wb_watcher b' = WatcherEnded \<and> wb_logs b' = LogsEnded \<and> wb_cleanup b' = wb_cleanup b"
proof -
  have "\<not> wb_errors_closed b" if "wb_logs b \<noteq> LogsEnded"
    using assms(1) that by (cases "wb_closer b") (auto simp: watch_inv_def)
  then obtain b' where b': "watch_run (ending_logs (wb_logs b)) b = Some b'"
    "wb_watcher b' = WatcherEnded" "wb_logs b' = LogsEnded" "wb_cleanup b' = wb_cleanup b"
    using assms(3,4) by (cases "wb_logs b")
      (auto simp: ending_logs_def watch_acts pending_errors_def error_room_def split: if_splits)
  with watch_inv_run [OF b'(1) assms(1)] show ?thesis by blast
qed

lemma closer_can_end:
  assumes "watch_inv b" "wb_cleanup b \<noteq> NotCleaning" "wb_watcher b = WatcherEnded" "wb_logs b = LogsEnded"
  shows "\<exists>b'. watch_run (ending_closer (wb_closer b)) b = Some b' \<and> wb_errors_closed b' \<and> wb_results_closed b'"
  using assms by (cases "wb_closer b") (auto simp: ending_closer_def watch_acts watch_inv_def)

text \<open>
  C11. The cleanup of a finished reconciliation lets both goroutines end and closes the channels in some
  schedule exactly when the error channel has room for the errors that wait to be sent. Otherwise both
  channels stay open in every schedule, a goroutine is blocked in its send for good, and the cleanup
  ends by its timeout only.
\<close>

theorem cleanup_ends_unless_wedged:
  assumes "watch_run as watchBuild = Some b" "wb_cleanup b \<noteq> NotCleaning"
  shows "if pending_errors b \<le> error_room b
    then \<exists>bs b'. watch_run bs b = Some b' \<and> wb_errors_closed b' \<and> wb_results_closed b'
    else (\<forall>bs b'. watch_run bs b = Some b' \<longrightarrow> \<not> wb_errors_closed b' \<and> \<not> wb_results_closed b' \<and>
       wb_cleanup b' \<noteq> CleanedUp \<and> \<not> (wb_watcher b' = WatcherEnded \<and> wb_logs b' = LogsEnded))"
proof -
  have inv: "watch_inv b" by (rule watch_inv_run [OF assms(1) watch_inv_start])
  show ?thesis
  proof (cases "pending_errors b \<le> error_room b")
    case True
    obtain b1 where 1: "watch_run (ending_watcher (wb_watcher b)) b = Some b1" "watch_inv b1"
      "wb_watcher b1 = WatcherEnded" "wb_cleanup b1 \<noteq> NotCleaning" "pending_errors b1 \<le> error_room b1"
      using watcher_can_end [OF inv assms(2) True] assms(2) by auto
    obtain b2 where 2: "watch_run (ending_logs (wb_logs b1)) b1 = Some b2" "watch_inv b2"
      "wb_watcher b2 = WatcherEnded" "wb_logs b2 = LogsEnded" "wb_cleanup b2 \<noteq> NotCleaning"
      using logs_can_end [OF 1(2,4,3,5)] 1(4) by auto
    obtain b3 where 3: "watch_run (ending_closer (wb_closer b2)) b2 = Some b3"
      "wb_errors_closed b3" "wb_results_closed b3"
      using closer_can_end [OF 2(2,5,3,4)] by blast
    have "watch_run (ending_watcher (wb_watcher b) @ ending_logs (wb_logs b1) @ ending_closer (wb_closer b2)) b = Some b3"
      using 1(1) 2(1) 3(1) by (simp add: watch_run_append)
    with 3 True show ?thesis by auto
  next
    case False
    then have "live_inv b" using inv assms(2) by (simp add: live_inv_def wedged_def)
    from wedged_forever [OF _ this] have "live_inv b'" if "watch_run bs b = Some b'" for bs b'
      using that by blast
    with False show ?thesis by (auto dest: wedged_open)
  qed
qed

text \<open>
  Such a schedule: the loop takes the first unexpected object, the second fills the channel while the
  error is recorded, the third waits when the cleanup begins.
\<close>

definition wedging_run :: "watch_action list" where
  "wedging_run =
     [WatchStarts None, WatchEvent (WatchOther ''*v1.Status''), WatcherSends, LoopTakesError,
      WatchEvent (WatchOther ''*v1.Status''), WatcherSends, WatchEvent (WatchOther ''*v1.Status''),
      CleanupStarts, LogsReturn (Some ContextCanceled)]"

theorem cleanup_ends_unless_wedged_witness:
  "\<exists>b. watch_run wedging_run watchBuild = Some b \<and>
    (\<forall>bs b'. watch_run bs b = Some b' \<longrightarrow> \<not> wb_errors_closed b' \<and> wb_cleanup b' \<noteq> CleanedUp)"
proof -
  obtain b where b: "watch_run wedging_run watchBuild = Some b" "wb_cleanup b \<noteq> NotCleaning"
    "\<not> pending_errors b \<le> error_room b"
    by (simp add: wedging_run_def watch_acts watcher_event_def watchBuild_def pending_errors_def error_room_def)
  from cleanup_ends_unless_wedged [OF b(1,2)] b(1,3) show ?thesis by auto
qed

section \<open>The loop's view of the goroutines\<close>

text \<open>The choices of \<open>running_loop\<close> that only move the goroutines.\<close>

fun loop_choice :: "run_choice \<Rightarrow> run_state \<Rightarrow> run_state option" where
  "loop_choice (WatchFails err) rs =
     Some (if rn_watching rs
       then send_error (WrapError ''failed to create job watcher: '' err) (\<lambda>x. x\<lparr>rn_watching := False\<rparr>) rs
       else rs)"
| "loop_choice (WatchDelivers ev) rs = Some (watchJobCompletion ev rs)"
| "loop_choice LogEnd rs = Some (stream_end rs)"
| "loop_choice (LogFails err) rs = Some (stream_fails err rs)"
| "loop_choice c rs = None"

fun loop_choices :: "run_choice list \<Rightarrow> run_state \<Rightarrow> run_state option" where
  "loop_choices [] rs = Some rs"
| "loop_choices (c # cs) rs = Option.bind (loop_choice c rs) (loop_choices cs)"

lemma loop_choices_append:
  "loop_choices (cs @ ds) rs = Option.bind (loop_choices cs rs) (loop_choices ds)"
  by (induction cs rs rule: loop_choices.induct) (auto split: Option.bind_splits)

text \<open>The environment makes these choices, one after the other.\<close>

fun env_chooses :: "'w env \<Rightarrow> run_choice list \<Rightarrow> 'w \<Rightarrow> 'w \<Rightarrow> bool" where
  "env_chooses E [] w w' \<longleftrightarrow> w' = w"
| "env_chooses E (c # cs) w w' \<longleftrightarrow>
     fst (env_run_choice E w) = c \<and> env_chooses E cs (snd (env_run_choice E w)) w'"

lemma running_loop_choice:
  assumes "loop_choice c rs = Some rs'" "fst (env_run_choice E w) = c"
  shows "running_loop E pm (Suc n) rs (s\<lparr>cx_world := w\<rparr>) =
    running_loop E pm n rs' (s\<lparr>cx_world := snd (env_run_choice E w)\<rparr>)"
  using assms by (cases c) (auto simp: go_bind_run [of "on_world (go_call c)" for c] ctx_run
      go_run_simps split_beta simp del: running_loop.simps(1) if_split)

lemma running_loop_choices:
  assumes "loop_choices cs rs = Some rs'" "env_chooses E cs w w'"
  shows "running_loop E pm (length cs + n) rs (s\<lparr>cx_world := w\<rparr>) =
    running_loop E pm n rs' (s\<lparr>cx_world := w'\<rparr>)"
  using assms
proof (induction cs arbitrary: rs w)
  case Nil
  then show ?case by simp
next
  case (Cons c cs)
  then obtain rs1 where "loop_choice c rs = Some rs1" "loop_choices cs rs1 = Some rs'"
    by (auto simp: bind_eq_Some_conv)
  with Cons.prems(2) Cons.IH [of rs1 "snd (env_run_choice E w)"]
    running_loop_choice [of c rs rs1 E w pm "length cs + n" s]
  show ?case by (simp del: running_loop.simps)
qed

text \<open>
  The simulation: the channels hold the same, and what still runs in the system still runs for the
  loop. A send that waits has not happened for the loop, so its event is still to come.
\<close>

definition pending_event :: "watcher \<Rightarrow> bool" where
  "pending_event x \<longleftrightarrow>
     (case x of
        WatcherSendsError e ends \<Rightarrow>
          (\<exists>err. ends \<and> e = WrapError ''failed to create job watcher: '' err) \<or>
          (\<exists>ev. watcher_event ev = x)
      | WatcherSendsResult r \<Rightarrow> (\<exists>js. watcher_event (WatchJob js) = x)
      | _ \<Rightarrow> True)"

definition watch_sim :: "watch_build \<Rightarrow> run_state \<Rightarrow> bool" where
  "watch_sim b rs \<longleftrightarrow> rn_result rs = wb_result b \<and> rn_error rs = wb_error b \<and>
     (wb_watcher b \<noteq> WatcherEnded \<longrightarrow> rn_watching rs) \<and>
     (wb_logs b \<noteq> LogsEnded \<longrightarrow> rn_streamer rs \<noteq> Streamed) \<and>
     pending_event (wb_watcher b) \<and>
     (\<forall>e. wb_logs b = LogsSendsError e \<longrightarrow>
        \<not> str_contains (error_text e) ''PodInitializing'' \<and> e \<noteq> ContextCanceled)"

lemma watch_sim_start: "watch_sim watchBuild run_start"
  by (auto simp: watch_sim_def watchBuild_def run_start_def pending_event_def)

lemma watcher_event_result:
  "watcher_event ev = WatcherSendsResult r \<longleftrightarrow>
     (\<exists>js. ev = WatchJob js \<and> (0 < sint (js_Succeeded js) \<or> 0 < sint (js_Failed js)) \<and> r = job_result js)"
  by (cases ev) (auto simp: watcher_event_def)

lemma watcher_event_error:
  "watcher_event ev = WatcherSendsError e ends \<longleftrightarrow>
     (ev = WatchClosed \<and> ends \<and> e = ErrorString ''job watch channel closed unexpectedly'') \<or>
     (\<exists>t. ev = WatchOther t \<and> \<not> ends \<and> e = ErrorString (''unexpected object type from watch event: '' @ t))"
  by (cases ev) (auto simp: watcher_event_def)

lemma watcher_event_pending: "pending_event (watcher_event ev)"
proof (cases "watcher_event ev")
  case (WatcherSendsResult r)
  then obtain js where "ev = WatchJob js" by (auto simp: watcher_event_result)
  with WatcherSendsResult show ?thesis unfolding pending_event_def by auto
qed (auto simp: pending_event_def)

text \<open>What the loop does with the event whose message has now been sent.\<close>

lemma sent_error:
  assumes "rn_watching rs" "rn_error rs = None" "pending_event (WatcherSendsError e ends)"
  shows "\<exists>c. loop_choice c rs =
    Some (rs\<lparr>rn_error := Some e, rn_watching := \<not> ends\<rparr>)"
proof -
  consider err where "ends" "e = WrapError ''failed to create job watcher: '' err"
    | ev where "watcher_event ev = WatcherSendsError e ends"
    using assms(3) by (auto simp: pending_event_def)
  then show ?thesis
  proof cases
    case 1
    with assms(1,2) show ?thesis
      by (intro exI [of _ "WatchFails err"]) (simp add: send_error_def)
  next
    case 2
    with assms(1,2) show ?thesis
      by (intro exI [of _ "WatchDelivers ev"])
        (auto simp: watcher_event_error watchJobCompletion_def send_error_def)
  qed
qed

lemma sent_result:
  assumes "rn_watching rs" "rn_result rs = None" "pending_event (WatcherSendsResult r)"
  shows "\<exists>c. loop_choice c rs = Some (rs\<lparr>rn_result := Some r, rn_watching := False\<rparr>)"
proof -
  obtain js where "0 < sint (js_Succeeded js) \<or> 0 < sint (js_Failed js)" "r = job_result js"
    using assms(3) by (auto simp: pending_event_def watcher_event_result)
  with assms(1,2) show ?thesis
    by (intro exI [of _ "WatchDelivers (WatchJob js)"])
      (auto simp: watchJobCompletion_def send_result_def job_result_def)
qed

lemma sent_logs:
  assumes "rn_streamer rs \<noteq> Streamed" "rn_error rs = None"
    and "\<not> str_contains (error_text e) ''PodInitializing''" "e \<noteq> ContextCanceled"
  shows "\<exists>c. loop_choice c rs = Some (rs\<lparr>rn_error := Some (WrapError ''error streaming pod logs: '' e),
    rn_streamer := Streamed\<rparr>)"
  using assms by (intro exI [of _ "LogFails e"]) (cases "rn_streamer rs"; simp add: stream_fails_def send_error_def)

definition loop_takes :: "watch_action \<Rightarrow> bool" where
  "loop_takes a \<longleftrightarrow> a = LoopTakesResult \<or> a = LoopTakesError"

text \<open>Every other step leaves what the loop sees as it is.\<close>

lemma watch_sim_stutter:
  assumes "watch_act a b = Some b'" "watch_sim b rs" "\<not> loop_takes a" "a \<noteq> WatcherSends" "a \<noteq> LogsSend"
  shows "watch_sim b' rs"
proof (cases a)
  case (WatchStarts failed)
  then show ?thesis
    using assms(1,2) by (auto simp: watch_sim_def pending_event_def split: if_split_asm option.splits)
next
  case (LogsReturn failed)
  then show ?thesis
    using assms(1,2) by (auto simp: watch_sim_def logs_return_def split: if_split_asm option.split_asm)
next
  case CloserRuns
  then show ?thesis
    using assms(1,2) by (auto simp: watch_sim_def closer_runs_def split: if_split_asm closer.split_asm)
qed (use assms in \<open>auto simp: watch_sim_def watcher_event_pending pending_event_def [of WatcherEnded]
  loop_takes_def split: if_split_asm\<close>)

lemma watch_sim_watcher:
  assumes "watcher_sends b = Some b'" "watch_inv b" "watch_sim b rs"
  shows "\<exists>c rs'. loop_choice c rs = Some rs' \<and> watch_sim b' rs'"
proof (cases "wb_watcher b")
  case (WatcherSendsError e ends)
  have "\<not> wb_errors_closed b"
    using assms(2) WatcherSendsError by (cases "wb_closer b") (auto simp: watch_inv_def)
  then have b': "wb_error b = None"
    "b' = b\<lparr>wb_error := Some e, wb_watcher := if ends then WatcherEnded else WatcherLoops\<rparr>"
    using assms(1) WatcherSendsError
    by (auto simp: watcher_sends_def chan_send_error_def split: if_split_asm)
  obtain c where "loop_choice c rs = Some (rs\<lparr>rn_error := Some e, rn_watching := \<not> ends\<rparr>)"
    using sent_error [of rs e ends] assms(3) WatcherSendsError b'(1) by (auto simp: watch_sim_def)
  moreover have "watch_sim b' (rs\<lparr>rn_error := Some e, rn_watching := \<not> ends\<rparr>)"
    using assms(3) b' WatcherSendsError by (auto simp: watch_sim_def pending_event_def)
  ultimately show ?thesis by blast
next
  case (WatcherSendsResult r)
  have "\<not> wb_results_closed b"
    using assms(2) WatcherSendsResult by (cases "wb_closer b") (auto simp: watch_inv_def)
  then have b': "wb_result b = None" "b' = b\<lparr>wb_result := Some r, wb_watcher := WatcherEnded\<rparr>"
    using assms(1) WatcherSendsResult
    by (auto simp: watcher_sends_def chan_send_result_def split: if_split_asm)
  obtain c where "loop_choice c rs = Some (rs\<lparr>rn_result := Some r, rn_watching := False\<rparr>)"
    using sent_result [of rs r] assms(3) WatcherSendsResult b'(1) by (auto simp: watch_sim_def)
  moreover have "watch_sim b' (rs\<lparr>rn_result := Some r, rn_watching := False\<rparr>)"
    using assms(3) b' WatcherSendsResult by (auto simp: watch_sim_def pending_event_def)
  ultimately show ?thesis by blast
qed (use assms(1) in \<open>auto simp: watcher_sends_def\<close>)

lemma watch_sim_logs:
  assumes "logs_send b = Some b'" "watch_inv b" "watch_sim b rs"
  shows "\<exists>c rs'. loop_choice c rs = Some rs' \<and> watch_sim b' rs'"
proof -
  obtain e where e: "wb_logs b = LogsSendsError e"
    using assms(1) by (auto simp: logs_send_def split: log_streamer.split_asm)
  have "\<not> wb_errors_closed b"
    using assms(2) e by (cases "wb_closer b") (auto simp: watch_inv_def)
  with e have b': "wb_error b = None"
    "b' = b\<lparr>wb_error := Some (WrapError ''error streaming pod logs: '' e), wb_logs := LogsEnded\<rparr>"
    using assms(1) by (auto simp: logs_send_def chan_send_error_def split: if_split_asm)
  let ?rs = "rs\<lparr>rn_error := Some (WrapError ''error streaming pod logs: '' e), rn_streamer := Streamed\<rparr>"
  obtain c where "loop_choice c rs = Some ?rs"
    using sent_logs [of rs e] assms(3) e b'(1) by (auto simp: watch_sim_def)
  moreover have "watch_sim b' ?rs"
    using assms(3) b' e by (auto simp: watch_sim_def)
  ultimately show ?thesis by blast
qed

lemma watch_sim_step:
  assumes "watch_act a b = Some b'" "watch_inv b" "watch_sim b rs" "\<not> loop_takes a"
  shows "\<exists>cs rs'. loop_choices cs rs = Some rs' \<and> watch_sim b' rs'"
proof (cases "a = WatcherSends \<or> a = LogsSend")
  case True
  then obtain c rs' where "loop_choice c rs = Some rs'" "watch_sim b' rs'"
    using watch_sim_watcher watch_sim_logs assms(1-3) by fastforce
  then show ?thesis by (intro exI [of _ "[c]"] exI [of _ rs']) simp
next
  case False
  then have "watch_sim b' rs" using watch_sim_stutter assms(1,3,4) by blast
  then show ?thesis by (intro exI [of _ "[]"] exI [of _ rs]) simp
qed

lemma watch_sim_run:
  assumes "watch_run as b = Some b'" "watch_inv b" "watch_sim b rs" "list_all (\<lambda>a. \<not> loop_takes a) as"
  shows "\<exists>cs rs'. loop_choices cs rs = Some rs' \<and> watch_sim b' rs'"
  using assms
proof (induction as arbitrary: b rs)
  case Nil
  then have "loop_choices [] rs = Some rs \<and> watch_sim b' rs" by simp
  then show ?case by blast
next
  case (Cons a as)
  then obtain b1 where b1: "watch_act a b = Some b1" "watch_run as b1 = Some b'"
    by (auto simp: bind_eq_Some_conv)
  then obtain cs rs1 where 1: "loop_choices cs rs = Some rs1" "watch_sim b1 rs1"
    using watch_sim_step [OF b1(1) Cons.prems(2,3)] Cons.prems(4) by auto
  obtain ds rs' where "loop_choices ds rs1 = Some rs'" "watch_sim b' rs'"
    using Cons.IH [OF b1(2) watch_inv_step [OF b1(1)] 1(2)] Cons.prems by auto
  then have "loop_choices (cs @ ds) rs = Some rs' \<and> watch_sim b' rs'"
    using 1(1) by (simp add: loop_choices_append)
  then show ?case by blast
qed

text \<open>
  C10. The loop is a sound view of the concurrent system: whatever the goroutines have done until the loop
  first receives, there are choices of the environment after which \<open>running_loop\<close>, with as much fuel
  as choices, finds the same contents in its two channels.
\<close>

theorem loop_sees_channels:
  assumes "watch_run as watchBuild = Some b" "list_all (\<lambda>a. \<not> loop_takes a) as"
  shows "\<exists>cs rs. rn_result rs = wb_result b \<and> rn_error rs = wb_error b \<and>
    (\<forall>(E :: 'w env) pm n s w w'. env_chooses E cs w w' \<longrightarrow>
       running_loop E pm (length cs + n) run_start (s\<lparr>cx_world := w\<rparr>) =
       running_loop E pm n rs (s\<lparr>cx_world := w'\<rparr>))"
proof -
  obtain cs rs where "loop_choices cs run_start = Some rs" "watch_sim b rs"
    using watch_sim_run [OF assms(1) watch_inv_start watch_sim_start assms(2)] by blast
  then show ?thesis
    by (intro exI [of _ cs] exI [of _ rs]) (simp add: watch_sim_def running_loop_choices)
qed

theorem loop_sees_channels_witness:
  "\<exists>cs rs. rn_result rs = Some (job_result \<lparr>js_Succeeded = 0, js_Failed = 1, js_Conditions = []\<rparr>) \<and>
    rn_error rs = None \<and> (\<forall>(E :: sim env) pm n s w w'. env_chooses E cs w w' \<longrightarrow>
       running_loop E pm (length cs + n) run_start (s\<lparr>cx_world := w\<rparr>) =
       running_loop E pm n rs (s\<lparr>cx_world := w'\<rparr>))"
proof -
  let ?js = "\<lparr>js_Succeeded = 0, js_Failed = 1, js_Conditions = []\<rparr> :: job_state"
  let ?as = "[WatchStarts None, WatchEvent (WatchJob ?js), WatcherSends]"
  obtain b where b: "watch_run ?as watchBuild = Some b" "wb_result b = Some (job_result ?js)" "wb_error b = None"
    by (simp add: watch_acts watcher_event_def watchBuild_def)
  have "list_all (\<lambda>a. \<not> loop_takes a) ?as" by (simp add: loop_takes_def)
  from loop_sees_channels [OF b(1) this] show ?thesis unfolding b(2,3) by blast
qed

section \<open>The log stream line by line\<close>

text \<open>The steps of the loop over the lines of an open stream and its end.\<close>

fun stream_lines ::
  "'w env \<Rightarrow> manager_packer \<Rightarrow> bytes list \<Rightarrow> run_state \<Rightarrow> ('w ctx, run_state) go" where
  "stream_lines E pm [] rs = go_return (stream_end rs)"
| "stream_lines E pm (line # lines) rs = go_bind (stream_line E pm line rs) (stream_lines E pm lines)"

lemma stream_lines_streamed:
  "rn_streamer rs = Streamed \<Longrightarrow> stream_lines E pm lines rs s = (Returns rs, s)"
  by (induction lines arbitrary: rs s)
    (simp_all add: stream_end_def stream_line_def go_return_def go_bind_run)

lemma process_lines_steps:
  assumes "process_lines E pm None (map (Pair None) lines) ps (cx_pb s) (cx_world s) =
      (Returns (err, pb'), w')"
  shows "stream_lines E pm lines (rs\<lparr>rn_streamer := Streaming ps\<rparr>) s =
    (Returns (rs\<lparr>rn_streamer := Streamed\<rparr>), s\<lparr>cx_pb := pb', cx_world := w'\<rparr>)"
  using assms
proof (induction lines arbitrary: ps s)
  case Nil
  then show ?case by (auto simp: stream_end_def go_return_def)
next
  case (Cons line lines)
  obtain r w1 where r: "processLogLine E pm line ps (cx_pb s) (cx_world s) = (r, w1)" by fastforce
  obtain finished ps' pb1 where v: "r = Returns (finished, ps', pb1)"
    using Cons.prems r by (cases r) (auto simp: go_bind_run)
  let ?s1 = "s\<lparr>cx_pb := pb1, cx_world := w1\<rparr>"
  let ?rs1 = "rs\<lparr>rn_streamer := (if finished then Streamed else Streaming ps')\<rparr>"
  have step: "stream_line E pm line (rs\<lparr>rn_streamer := Streaming ps\<rparr>) s = (Returns ?rs1, ?s1)"
    using r v by (simp add: stream_line_def ctx_run go_laws)
  show ?case
  proof (cases finished)
    case True
    with Cons.prems r v have "?s1 = s\<lparr>cx_pb := pb', cx_world := w'\<rparr>" by (simp add: go_bind_run go_return_def)
    with True step show ?thesis by (simp add: go_bind_run stream_lines_streamed)
  next
    case False
    with Cons.prems r v have "process_lines E pm None (map (Pair None) lines) ps' (cx_pb ?s1) (cx_world ?s1) =
        (Returns (err, pb'), w')" by (simp add: go_bind_run)
    from Cons.IH [OF this] False step show ?thesis by (simp add: go_bind_run)
  qed
qed



end
