(* ===== verification/Packer_Progress.thy ===== *)
theory Packer_Progress
  imports Packer_Safety Build_Watch
begin

text \<open>
  What a builder reaches when the API server accepts its writes: the moves of the handlers, what a
  restart of the operator costs, and the end of a running build.
\<close>

section \<open>Progress\<close>

text \<open>An API server that accepts every status and answers a patch with the object it was sent.\<close>

definition cooperative :: "'w env \<Rightarrow> bool" where
  "cooperative E \<longleftrightarrow> (\<forall>pb w. fst (Status_Update E (pb_ops E) pb w) = None) \<and>
     (\<forall>base pb w. fst (env_patch_pb E base pb w) = Inr pb)"

definition quiet_slack :: "packer_builder \<Rightarrow> bool" where
  "quiet_slack pb \<longleftrightarrow> slack_isEmpty (nf_Slack (sp_Notify (pb_Spec pb)))"

text \<open>What an accepted update does: the builder in memory is \<open>update_status\<close> up to its conditions.\<close>

lemma reconcileUpdate_accepted:
  assumes "cooperative E" "runner_wf (cx_runner s)" "quiet_slack (cx_pb s)"
    and "opsy_edge (GetCurrentState (cx_runner s) (st_BuildID (pb_Status (cx_pb s)))) n"
  shows "\<exists>s' now cds. reconcileUpdate E n m l cs ct s = (Returns None, s') \<and>
    cx_runner s' = snd (SetState (st_BuildID (pb_Status (cx_pb s))) n (cx_runner s)) \<and>
    cx_pb s' = set_status (\<lambda>x. x\<lparr>st_Conditions := cds\<rparr>) (update_status n l m now (cx_pb s))"
proof -
  let ?s0 = "after_event E n m l s"
  let ?s1 = "snd (after_condition E n m l cs ct s)"
  note f = after_condition_frame [of E n m l cs ct s]
  obtain cds where pb1: "cx_pb ?s1 = set_status (\<lambda>x. x\<lparr>st_Conditions := cds\<rparr>) (cx_pb ?s0)"
    using set_condition_pb_frame [of E ct cs "state_text n" m ?s0, folded after_condition_def] by blast
  have pb0: "cx_pb ?s0 = update_status n l m (fst (env_now E (cx_world s))) (cx_pb s)"
    by (simp add: after_event_def Let_def)
  have ok: "fst (after_condition E n m l cs ct s) = Returns None"
    using assms(1) by (simp add: after_condition_def set_condition_pb_def ctx_run go_laws split_beta
        SetCondition_def Let_def cooperative_def)
  have slack: "notify_slack E m ?s1 = (Returns None, ?s1)"
  proof -
    have "slack_isEmpty (nf_Slack (sp_Notify (pb_Spec (cx_pb ?s1))))"
      using assms(3) f(4) by (simp add: quiet_slack_def)
    then show ?thesis
      by (simp add: notify_slack_def go_bind_run [of the_pb] the_pb_def Let_def go_return_def)
  qed
  have set: "runner_set n ?s1 = (Returns None, ?s1\<lparr>cx_runner :=
      snd (SetState (st_BuildID (pb_Status (cx_pb s))) n (cx_runner s))\<rparr>)"
    using assms(2,4) f(1,2) by (simp add: runner_set_def SetState_wf)
  let ?s2 = "?s1\<lparr>cx_runner := snd (SetState (st_BuildID (pb_Status (cx_pb s))) n (cx_runner s))\<rparr>"
  let ?w = "snd (env_patch_pb E (cx_pb ?s1) (cx_pb ?s1) (cx_world ?s1))"
  have "patch_pb E ?s2 = (Returns None, ?s2\<lparr>cx_world := ?w\<rparr>)"
    using assms(1) by (simp add: patch_pb_def ctx_run go_laws split_beta cooperative_def)
  then have "reconcileUpdate E n m l cs ct s = (Returns None, ?s2\<lparr>cx_world := ?w\<rparr>)"
    using ok slack set by (simp add: reconcileUpdate_run Let_def go_bind_at)
  moreover have "cx_pb (?s2\<lparr>cx_world := ?w\<rparr>) = set_status (\<lambda>x. x\<lparr>st_Conditions := cds\<rparr>)
      (update_status n l m (fst (env_now E (cx_world s))) (cx_pb s))"
    by (simp add: pb1 pb0)
  ultimately show ?thesis
    by (intro exI [of _ "?s2\<lparr>cx_world := ?w\<rparr>"] exI [of _ "fst (env_now E (cx_world s))"] exI [of _ cds]) simp
qed

text \<open>What a handler's move leaves: the state of the builder and of the runner, and what stays.\<close>

definition moved :: "pb_state \<Rightarrow> 'w ctx \<Rightarrow> 'w ctx \<Rightarrow> bool" where
  "moved n s s' \<longleftrightarrow> st_State (pb_Status (cx_pb s')) = n \<and>
     st_BuildID (pb_Status (cx_pb s')) = st_BuildID (pb_Status (cx_pb s)) \<and>
     GetCurrentState (cx_runner s') (st_BuildID (pb_Status (cx_pb s))) = n \<and>
     (\<forall>j. j \<noteq> st_BuildID (pb_Status (cx_pb s)) \<longrightarrow>
        GetCurrentState (cx_runner s') j = GetCurrentState (cx_runner s) j) \<and>
     st_LastRunKeyPair (pb_Status (cx_pb s')) = st_LastRunKeyPair (pb_Status (cx_pb s)) \<and>
     st_LastRunSecurityGroupID (pb_Status (cx_pb s')) = st_LastRunSecurityGroupID (pb_Status (cx_pb s)) \<and>
     pb_Spec (cx_pb s') = pb_Spec (cx_pb s) \<and>
     (runner_wf (cx_runner s) \<longrightarrow> runner_wf (cx_runner s'))"

lemma update_accepted:
  assumes "cooperative E" "runner_wf (cx_runner s)" "quiet_slack (cx_pb s)"
    and "opsy_edge (GetCurrentState (cx_runner s) (st_BuildID (pb_Status (cx_pb s)))) n"
  shows "\<exists>s'. reconcileUpdate E n m l cs ct s = (Returns None, s') \<and> moved n s s'"
proof -
  obtain s' now cds where r: "reconcileUpdate E n m l cs ct s = (Returns None, s')"
    and f: "cx_runner s' = snd (SetState (st_BuildID (pb_Status (cx_pb s))) n (cx_runner s))"
    and p: "cx_pb s' = set_status (\<lambda>x. x\<lparr>st_Conditions := cds\<rparr>) (update_status n l m now (cx_pb s))"
    using reconcileUpdate_accepted [OF assms] by blast
  have "moved n s s'"
    unfolding moved_def f p using assms(2,4)
    by (simp add: SetState_current update_status_def)
  with r show ?thesis by blast
qed

lemma move_accepted:
  assumes "cooperative E" "runner_wf (cx_runner s)" "quiet_slack (cx_pb s)"
    and "opsy_edge (GetCurrentState (cx_runner s) (st_BuildID (pb_Status (cx_pb s)))) n"
  shows "\<exists>s'. move_or_error E t (reconcileUpdate E n m l cs ct) s = (Returns Requeue, s') \<and> moved n s s'"
  using update_accepted [OF assms, of m l cs ct]
  by (auto simp: move_or_error_def go_bind_at go_return_def)

lemma error_accepted:
  assumes "cooperative E" "runner_wf (cx_runner s)" "quiet_slack (cx_pb s)"
    and "opsy_edge (GetCurrentState (cx_runner s) (st_BuildID (pb_Status (cx_pb s)))) StateError"
  shows "\<exists>s'. transitionToErrorState E t s = (Returns Requeue, s') \<and> moved StateError s s'"
  using update_accepted [OF assms, of t LastRunStatusFailed ConditionFalse ConditionTypeFailed]
  by (auto simp: transitionToErrorState_def go_bind_at go_return_def)

lemma moved_world: "moved n (s\<lparr>cx_world := w\<rparr>) s' = moved n s s'"
  by (simp add: moved_def)

lemma dispatched:
  assumes "GetCurrentState (cx_runner s) (st_BuildID (pb_Status (cx_pb s))) = st_State (pb_Status (cx_pb s))"
  shows "catchRek E fuel s = dispatch E fuel (fst (packer_New E (cx_pb s) (cx_world s)))
    (st_State (pb_Status (cx_pb s))) (s\<lparr>cx_world := snd (packer_New E (cx_pb s) (cx_world s))\<rparr>)"
proof -
  let ?s1 = "s\<lparr>cx_world := snd (packer_New E (cx_pb s) (cx_world s))\<rparr>"
  have "sync_runner E ?s1 = (Returns None, ?s1)"
    using assms by (simp add: sync_runner_def ctx_run go_laws)
  moreover have "runner_state ?s1 = (Returns (st_State (pb_Status (cx_pb s))), ?s1)"
    using assms by (simp add: runner_state_def)
  ultimately show ?thesis
    unfolding catchRek_at by (simp add: go_bind_at)
qed

text \<open>The handlers that only record a state change, with the state they lead to.\<close>

definition next_state :: "packer_builder_status \<Rightarrow> pb_state option" where
  "next_state st =
     (case st_State st of
        StateInitial \<Rightarrow>
          if sint (case st_MaxNumberOfFailedJobs st of None \<Rightarrow> 3 | Some n \<Rightarrow> n)
             \<le> sint (case st_FailedJobCount st of None \<Rightarrow> 0 | Some n \<Rightarrow> n)
          then None else Some StateFlightChecks
      | StateJobCompleted \<Rightarrow> Some StateAMICreated
      | StateAMICreated \<Rightarrow>
          if st_LastRunKeyPair st = '''' \<and> st_LastRunSecurityGroupID st = '''' then Some StateInitial
          else None
      | StateError \<Rightarrow> Some StateInitial
      | _ \<Rightarrow> None)"

text \<open>Each of these handlers accepts its move, from any state of the process that meets its guard.\<close>

lemma init_accepted:
  assumes "cooperative E" "runner_wf (cx_runner s)" "quiet_slack (cx_pb s)"
    and "GetCurrentState (cx_runner s) (st_BuildID (pb_Status (cx_pb s))) = StateInitial"
    and "\<not> sint (case st_MaxNumberOfFailedJobs (pb_Status (cx_pb s)) of None \<Rightarrow> 3 | Some n \<Rightarrow> n)
        \<le> sint (case st_FailedJobCount (pb_Status (cx_pb s)) of None \<Rightarrow> 0 | Some n \<Rightarrow> n)"
  shows "\<exists>s'. init_build E s = (Returns Requeue, s') \<and> moved StateFlightChecks s s'"
proof -
  let ?v = "s\<lparr>cx_pb := set_status (\<lambda>x. x\<lparr>
     st_MaxNumberOfFailedJobs := (case st_MaxNumberOfFailedJobs x of None \<Rightarrow> Some 3 | Some n \<Rightarrow> Some n),
     st_FailedJobCount := (case st_FailedJobCount x of None \<Rightarrow> Some 0 | Some n \<Rightarrow> Some n)\<rparr>) (cx_pb s)\<rparr>"
  have "init_build E s = move_or_error E ''Failed to transition to FlightChecks state: ''
     (reconcileUpdate E StateFlightChecks ''Transitioning to FlightChecks'' LastRunStatusRunning
        ConditionTrue ConditionTypeFlightCheckStarted) ?v"
    using assms(5) by (auto simp: init_build_def go_bind_run [of the_pb] go_bind_run [of "put_status h" for h]
        ctx_run split: option.splits)
  moreover have "moved StateFlightChecks ?v s' = moved StateFlightChecks s s'" for s'
    by (simp add: moved_def)
  ultimately show ?thesis
    using move_accepted [OF assms(1), of ?v StateFlightChecks] assms(2-4) by (simp add: opsy_edge_iff quiet_slack_def)
qed

lemma cleanup_accepted:
  assumes "cooperative E" "runner_wf (cx_runner s)" "quiet_slack (cx_pb s)"
    and "GetCurrentState (cx_runner s) (st_BuildID (pb_Status (cx_pb s))) = StateAMICreated"
    and "st_LastRunKeyPair (pb_Status (cx_pb s)) = ''''"
    and "st_LastRunSecurityGroupID (pb_Status (cx_pb s)) = ''''"
  shows "\<exists>s'. cleanupBuild E pm s = (Returns Requeue, s') \<and> moved StateInitial s s'"
proof -
  let ?v = "s\<lparr>cx_pb := set_status (\<lambda>x. x\<lparr>st_LastRunKeyPair := '''',
     st_LastRunSecurityGroupID := ''''\<rparr>) (cx_pb s)\<rparr>"
  have "cleanupBuild E pm s = move_or_error E ''Failed to transition to Initialize state: ''
     (reconcileUpdate E StateInitial ''Transitioning to Intializing'' LastRunStatusRunning
        ConditionTrue ConditionTypeInitial) ?v"
    using assms(5,6) by (simp add: cleanupBuild_def cleanup_group_def go_bind_run [of the_pb]
        go_bind_run [of "put_status h" for h] ctx_run)
  moreover have "moved StateInitial ?v s' = moved StateInitial s s'" for s'
    using assms(5,6) by (simp add: moved_def)
  ultimately show ?thesis
    using move_accepted [OF assms(1), of ?v StateInitial] assms(2-4) by (simp add: opsy_edge_iff quiet_slack_def)
qed

lemma moving_accepted:
  assumes "cooperative E" "runner_wf (cx_runner s)" "quiet_slack (cx_pb s)"
  shows "GetCurrentState (cx_runner s) (st_BuildID (pb_Status (cx_pb s))) = StateJobCompleted \<Longrightarrow>
      \<exists>s'. completeBuild E s = (Returns Requeue, s') \<and> moved StateAMICreated s s'"
    and "GetCurrentState (cx_runner s) (st_BuildID (pb_Status (cx_pb s))) = StateError \<Longrightarrow>
      \<exists>s'. errorBuild E s = (Returns Requeue, s') \<and> moved StateInitial s s'"
  by (simp_all add: completeBuild_def errorBuild_def move_accepted [OF assms] opsy_edge_iff)

lemma catchRek_moves:
  assumes "GetCurrentState (cx_runner s) (st_BuildID (pb_Status (cx_pb s))) = st_State (pb_Status (cx_pb s))"
    and "\<And>pm v. cx_runner v = cx_runner s \<Longrightarrow> cx_pb v = cx_pb s \<Longrightarrow> \<exists>s'. H pm v = (Returns Requeue, s') \<and> moved n v s'"
    and "\<And>pm. dispatch E fuel pm (st_State (pb_Status (cx_pb s))) =
      go_bind (H pm) (\<lambda>r. go_return (Some r))"
  shows "\<exists>s'. catchRek E fuel s = (Returns (Some Requeue), s') \<and> moved n s s'"
  using assms(2) [of "s\<lparr>cx_world := snd (packer_New E (cx_pb s) (cx_world s))\<rparr>"
      "fst (packer_New E (cx_pb s) (cx_world s))"]
  by (auto simp: dispatched [OF assms(1)] assms(3) go_bind_at go_return_def moved_world)

lemma reconcile_step:
  assumes "cooperative E" "runner_wf (cx_runner s)" "quiet_slack (cx_pb s)"
    and "GetCurrentState (cx_runner s) (st_BuildID (pb_Status (cx_pb s))) = st_State (pb_Status (cx_pb s))"
    and "next_state (pb_Status (cx_pb s)) = Some n"
  shows "\<exists>s'. catchRek E fuel s = (Returns (Some Requeue), s') \<and> moved n s s'"
proof (cases "st_State (pb_Status (cx_pb s))")
  case StateInitial
  then show ?thesis
    using assms(3-5) by (intro catchRek_moves [where H = "\<lambda>pm. init_build E"])
      (simp_all add: next_state_def dispatch_def init_accepted [OF assms(1)] assms(2) split: if_splits)
next
  case StateJobCompleted
  then show ?thesis
    using assms(3-5) by (intro catchRek_moves [where H = "\<lambda>pm. completeBuild E"])
      (simp_all add: next_state_def dispatch_def moving_accepted [OF assms(1)] assms(2))
next
  case StateError
  then show ?thesis
    using assms(3-5) by (intro catchRek_moves [where H = "\<lambda>pm. errorBuild E"])
      (simp_all add: next_state_def dispatch_def moving_accepted [OF assms(1)] assms(2))
next
  case StateAMICreated
  then show ?thesis
    using assms(3-5) by (intro catchRek_moves [where H = "cleanupBuild E"])
      (simp_all add: next_state_def dispatch_def cleanup_accepted [OF assms(1)] assms(2) split: if_splits)
qed (use assms(5) in \<open>simp_all add: next_state_def\<close>)

text \<open>
  Progress: with an API server that accepts the writes and no Slack channel configured, a builder
  whose runner agrees with its state always moves on. \<open>Initial\<close> goes to \<open>FlightChecks\<close> unless the
  failed job guard holds, \<open>JobCompleted\<close> to \<open>AMICreated\<close>, \<open>AMICreated\<close> without artifacts to
  \<open>Initial\<close>, and \<open>Error\<close> back to \<open>Initial\<close>; each reconciliation asks to be run again, the runner
  agrees with the new state, and no other build is touched.
\<close>

theorem reconcile_progress:
  assumes "cooperative E" "runner_wf (cx_runner s)" "quiet_slack (cx_pb s)"
    and "GetCurrentState (cx_runner s) (st_BuildID (pb_Status (cx_pb s))) = st_State (pb_Status (cx_pb s))"
    and "next_state (pb_Status (cx_pb s)) = Some n"
  shows "\<exists>s'. catchRek E fuel s = (Returns (Some Requeue), s') \<and> moved n s s'"
  by (rule reconcile_step [OF assms])


text \<open>An environment that accepts everything, over the simulated world.\<close>

definition obliging_env :: "sim env" where
  "obliging_env = sim_env\<lparr>env_get_pb := (\<lambda>k w. (Inr example_pb, w)),
     env_update_pb_status := (\<lambda>pb w. (None, w)), env_patch_pb := (\<lambda>base pb w. (Inr pb, w))\<rparr>"

lemma obliging_cooperative: "cooperative obliging_env"
  by (simp add: cooperative_def Status_Update_def Status_attempt_def obliging_env_def sim_calls)

lemma in_state_quiet: "quiet_slack (in_state st)"
  by (simp add: quiet_slack_def in_state_def example_pb_def slack_isEmpty_def)

theorem reconcile_progress_witness:
  "\<exists>s'. catchRek obliging_env 0 (process_in StateJobCompleted StateJobCompleted []) =
     (Returns (Some Requeue), s') \<and>
    moved StateAMICreated (process_in StateJobCompleted StateJobCompleted []) s'"
  by (rule reconcile_progress [OF obliging_cooperative])
    (simp_all add: in_state_quiet next_state_def)

text \<open>
  After a restart the runner is empty and follows the stored state where the table lets it leave
  \<open>Initial\<close>. It does not for \<open>AMICreated\<close>: such a builder goes to \<open>Error\<close> instead of its
  cleanup, and the name of the key pair that should have been deleted stays in its status.
\<close>

theorem restart_skips_cleanup:
  assumes "cooperative E" "runner_wf (cx_runner s)" "quiet_slack (cx_pb s)"
    and "GetCurrentState (cx_runner s) (st_BuildID (pb_Status (cx_pb s))) = StateInitial"
    and "st_State (pb_Status (cx_pb s)) = StateAMICreated"
  shows "\<exists>s'. catchRek E fuel s = (Returns (Some Requeue), s') \<and> moved StateError s s'"
proof -
  let ?s1 = "s\<lparr>cx_world := snd (packer_New E (cx_pb s) (cx_world s))\<rparr>"
  obtain t where sync: "catchRek E fuel s = go_bind (transitionToErrorState E t) (\<lambda>r. go_return (Some r)) ?s1"
    using sync_refused [of s E fuel] assms(2,4,5) by (auto simp: opsy_edge_iff)
  obtain s' where "transitionToErrorState E t ?s1 = (Returns Requeue, s')" "moved StateError ?s1 s'"
    using error_accepted [OF assms(1), of ?s1 t] assms(2-4) by (auto simp: opsy_edge_iff)
  with sync show ?thesis by (auto simp: go_bind_at go_return_def moved_world)
qed

theorem restart_skips_cleanup_witness:
  "\<exists>s'. catchRek obliging_env 0 (process_in StateInitial StateAMICreated []) =
     (Returns (Some Requeue), s') \<and>
    moved StateError (process_in StateInitial StateAMICreated []) s'"
  by (rule restart_skips_cleanup [OF obliging_cooperative]) (simp_all add: in_state_quiet)

section \<open>A running build\<close>

text \<open>The state that the result of a finished job leads to.\<close>

definition job_verdict :: "job_state \<Rightarrow> pb_state" where
  "job_verdict js = (if 0 < sint (js_Succeeded js) then StateJobCompleted else StateError)"

lemma watch_finished:
  "0 < sint (js_Succeeded js) \<or> 0 < sint (js_Failed js) \<Longrightarrow>
    watchJobCompletion (WatchJob js) run_start = run_start\<lparr>rn_result := Some (job_result js), rn_watching := False\<rparr>"
  by (auto simp: watchJobCompletion_def run_start_def send_result_def job_result_def)

lemma result_taken:
  assumes "cooperative E" "runner_wf (cx_runner v)" "quiet_slack (cx_pb v)"
    and "GetCurrentState (cx_runner v) (st_BuildID (pb_Status (cx_pb v))) = StateJobRunning"
  shows "\<exists>s'. take_result E (job_result js) v = (Returns (Some Requeue), s') \<and> moved (job_verdict js) v s'"
proof (cases "0 < sint (js_Succeeded js)")
  case True
  have "\<exists>s'. transitionToJobCompletedState E v = (Returns Requeue, s') \<and> moved StateJobCompleted v s'"
    unfolding transitionToJobCompletedState_def
    by (rule move_accepted [OF assms(1)]) (use assms(2-4) in \<open>simp_all add: opsy_edge_iff\<close>)
  with True show ?thesis by (auto simp: take_result_def job_result_def job_verdict_def go_bind_at go_return_def)
next
  case False
  have "\<exists>s'. transitionToErrorState E (''Job failed: '' @ getJobFailureReason js) v =
      (Returns Requeue, s') \<and> moved StateError v s'"
    by (rule error_accepted [OF assms(1)]) (use assms(2-4) in \<open>simp_all add: opsy_edge_iff\<close>)
  with False show ?thesis
    by (auto simp: take_result_def job_result_def job_verdict_def go_bind_at go_return_def simp del: append.simps)
qed

text \<open>One iteration of the loop for the two choices of the watch and of the result.\<close>

lemma running_loop_delivers:
  assumes "env_run_choice E w = (WatchDelivers ev, w')" "watchJobCompletion ev rs = rs'"
  shows "running_loop E pm (Suc k) rs (s\<lparr>cx_world := w\<rparr>) = running_loop E pm k rs' (s\<lparr>cx_world := w'\<rparr>)"
  using assms unfolding running_loop.simps(2)
  by (simp add: go_bind_run [of "on_world (go_call c)" for c] ctx_run go_run_simps
      del: running_loop.simps if_split)

lemma running_loop_takes:
  assumes "fst (env_run_choice E w) = TakeResult" "rn_result rs = Some r"
    and "take_result E r (s\<lparr>cx_world := snd (env_run_choice E w)\<rparr>) = (Returns (Some v), s')"
  shows "running_loop E pm (Suc k) rs (s\<lparr>cx_world := w\<rparr>) = (Returns (Some v), s')"
  using assms(1,3) unfolding running_loop.simps(2) assms(2)
  by (simp add: go_bind_run [of "on_world (go_call c)" for c] ctx_run go_run_simps split_beta
      go_bind_at go_return_def del: if_split)

lemma finished_job_run:
  assumes "cooperative E" "runner_wf (cx_runner s)" "quiet_slack (cx_pb s)"
    and "GetCurrentState (cx_runner s) (st_BuildID (pb_Status (cx_pb s))) = StateJobRunning"
    and "packer_New E (cx_pb s) (cx_world s) = (pm, w0)"
    and "env_run_choice E w0 = (WatchDelivers (WatchJob js), w1)" "fst (env_run_choice E w1) = TakeResult"
    and "0 < sint (js_Succeeded js) \<or> 0 < sint (js_Failed js)"
  shows "\<exists>s'. runningBuild E (Suc (Suc k)) s = (Returns (Some Requeue), s') \<and>
    moved (if 0 < sint (js_Succeeded js) then StateJobCompleted else StateError) s s'"
proof -
  let ?rs = "run_start\<lparr>rn_result := Some (job_result js), rn_watching := False\<rparr>"
  obtain s' where t: "take_result E (job_result js) (s\<lparr>cx_world := snd (env_run_choice E w1)\<rparr>) =
      (Returns (Some Requeue), s')" "moved (job_verdict js) s s'"
    using result_taken [OF assms(1), of "s\<lparr>cx_world := snd (env_run_choice E w1)\<rparr>" js] assms(2-4)
    by (auto simp: moved_world)
  have "running_loop E pm (Suc (Suc k)) run_start (s\<lparr>cx_world := w0\<rparr>) =
      running_loop E pm (Suc k) ?rs (s\<lparr>cx_world := w1\<rparr>)"
    by (rule running_loop_delivers [OF assms(6) watch_finished [OF assms(8)]])
  also have "\<dots> = (Returns (Some Requeue), s')"
    by (rule running_loop_takes [OF assms(7) _ t(1)]) simp
  finally have "runningBuild E (Suc (Suc k)) s = (Returns (Some Requeue), s')"
    using assms(5) by (simp add: runningBuild_def go_bind_run [of the_pb] go_bind_run [of "on_world (go_call c)" for c]
        ctx_run go_run_simps del: running_loop.simps)
  with t(2) show ?thesis by (auto simp: job_verdict_def)
qed



text \<open>
  The ticker forgets what the log has told: every check that finds the builder and its job replaces
  the builder in memory by the stored one, so a key pair, a security group or an image identifier that
  the log stream has written to its status, and that nothing has persisted, is lost.
\<close>

theorem ticker_replaces_builder:
  assumes "env_get_pb E (object_key (pb_Meta (cx_pb s))) (cx_world s) = (Inr stored, w1)"
    and "env_get_job E (pb_Namespace stored, st_JobName (pb_Status stored)) w1 = (Inr j, w2)"
  shows "ticker_check E s = (Returns None, s\<lparr>cx_world := w2, cx_pb := stored\<rparr>)"
  using assms by (simp add: ticker_check_def ctx_run go_laws)

theorem ticker_replaces_builder_witness:
  "\<exists>s'. ticker_check (sim_env\<lparr>env_get_job := (\<lambda>k w. (Inr (build_job example_pb []), w))\<rparr>)
      ((process_in StateJobRunning StateJobRunning [])\<lparr>cx_world := sim_start example_pb\<rparr>) =
      (Returns None, s') \<and>
    st_LastRunKeyPair (pb_Status (in_state StateJobRunning)) = ''packer_k'' \<and>
    st_LastRunKeyPair (pb_Status (cx_pb s')) = ''''"
proof -
  let ?E = "sim_env\<lparr>env_get_job := (\<lambda>k w. (Inr (build_job example_pb []), w))\<rparr>"
  let ?s = "(process_in StateJobRunning StateJobRunning [])\<lparr>cx_world := sim_start example_pb\<rparr>"
  have "env_get_pb ?E (object_key (pb_Meta (cx_pb ?s))) (cx_world ?s) = (Inr example_pb, cx_world ?s)"
    by (simp add: sim_run sim_start_def)
  from ticker_replaces_builder [OF this] show ?thesis
    by (simp add: example_pb_def)
qed

end
