(* ===== verification/Build_Cycle.thy ===== *)
theory Build_Cycle
  imports Packer_Progress
begin

text \<open>
  A whole build: in an environment in which everything succeeds, the reconciliations take a builder
  from \<open>Initial\<close> through the flight checks and the creation of the job to \<open>JobRunning\<close>, and from
  there, once the job has succeeded, to \<open>AMICreated\<close> and back to \<open>Initial\<close>.
\<close>

section \<open>A favourable environment\<close>

text \<open>
  Every write is accepted, no operation is cut off, AWS is configured and has no image of the builder
  yet, the API server returns the builder and its secret, lists only finished jobs, has no job under
  the builder's own name, and creates every job.
\<close>

definition favourable :: "'w env \<Rightarrow> bool" where
  "favourable E \<longleftrightarrow> cooperative E \<and> never_cut_off E \<and>
     (\<forall>region w. \<exists>cfg. fst (env_aws_config E region w) = Inr cfg) \<and>
     (\<forall>cfg fs w. fst (env_describe_images E cfg fs w) = Inr []) \<and>
     (\<forall>k w. \<exists>pb. fst (env_get_pb E k w) = Inr pb) \<and>
     (\<forall>ns ls w. \<exists>js. fst (env_list_jobs E ns ls w) = Inr js \<and> (\<forall>j \<in> set js. job_finished j)) \<and>
     (\<forall>k w. \<exists>d. fst (env_get_secret E k w) = Inr d) \<and>
     (\<forall>w. 5 \<le> length (fst (env_uuid E w))) \<and>
     (\<forall>pb j w. fst (env_set_controller E pb j w) = Inr (j\<lparr>job_Owner := Some (object_key (pb_Meta pb))\<rparr>)) \<and>
     (\<forall>k w. \<exists>err. fst (env_get_job E k w) = Inl err \<and> is_not_found err) \<and>
     (\<forall>j w. fst (env_create_job E j w) = None)"

lemma favourableD:
  assumes "favourable E"
  shows "cooperative E" "never_cut_off E"
    "\<exists>cfg. fst (env_aws_config E region w) = Inr cfg"
    "fst (env_describe_images E c fs w) = Inr []"
    "\<exists>pb. fst (env_get_pb E k w) = Inr pb"
    "\<exists>js. fst (env_list_jobs E ns ls w) = Inr js \<and> (\<forall>j \<in> set js. job_finished j)"
    "\<exists>d. fst (env_get_secret E k w) = Inr d"
    "5 \<le> length (fst (env_uuid E w))"
    "fst (env_set_controller E pb j w) = Inr (j\<lparr>job_Owner := Some (object_key (pb_Meta pb))\<rparr>)"
    "\<exists>err. fst (env_get_job E k w) = Inl err \<and> is_not_found err"
    "fst (env_create_job E j w) = None"
  using assms by (simp_all add: favourable_def del: split_paired_All)

text \<open>The builder and the runner are in a state together, and no Slack channel is configured.\<close>

definition settled :: "pb_state \<Rightarrow> 'w ctx \<Rightarrow> bool" where
  "settled n s \<longleftrightarrow> runner_wf (cx_runner s) \<and> quiet_slack (cx_pb s) \<and> st_State (pb_Status (cx_pb s)) = n \<and>
     GetCurrentState (cx_runner s) (st_BuildID (pb_Status (cx_pb s))) = n"

lemma moved_settled: "moved n s s' \<Longrightarrow> runner_wf (cx_runner s) \<Longrightarrow> quiet_slack (cx_pb s) \<Longrightarrow> settled n s'"
  by (simp add: moved_def settled_def quiet_slack_def)

section \<open>The flight checks pass\<close>

lemma managers_configured:
  assumes "favourable E"
  shows "fst (ami_New E r w) \<noteq> None" "fst (packer_New E pb w) \<noteq> None"
  using favourableD(3) [OF assms, of r w] favourableD(3) [OF assms, of "sp_Region (pb_Spec pb)" w]
  by (auto simp: ami_New_def packer_New_def ClientAWS_def split_beta)

lemma base_check_skipped:
  assumes "favourable E"
  shows "fst (BaseAMIExists E am [] w) =
    Returns (result_message True ''No AMI filters provided; skipping base AMI check'' '''')"
  using favourableD(2) [OF assms]
  by (simp add: BaseAMIExists_def ami_runWithTimeout_def never_cut_off_def go_laws split: select_choice.split)

lemma no_image_adopted:
  assumes "favourable E"
  shows "fst (adoptExistingImage E (Some cfg) pb w) = Returns (Inl (ErrorString ''no valid images found''), pb)"
  using managers_configured(1) [OF assms, of cfg w] favourableD(4) [OF assms]
  by (auto simp: adoptExistingImage_def DescribeImagesWithFilters_def FindLatestImage_def go_outcome_def
      go_laws split_beta)

lemma adoption_passes:
  assumes "favourable E"
  shows "\<exists>msg. fst (adoptionProcessor E (Some cfg) pb w) = Returns (result_message True msg '''', pb) \<and>
    msg \<in> {''No AMIs found matching the provided tags'', ''No adoption needed or adoption successful''}"
  using no_image_adopted [OF assms, of cfg pb] favourableD(2) [OF assms]
  by (auto simp: adoptionProcessor_def packer_runWithTimeout_def adoption_op_def never_cut_off_def go_laws)

lemma image_check_passes:
  assumes "favourable E"
  shows "\<exists>msg. fst (AMIChecks E (Some cfg) tags d PackerBuilderCheck w) = Returns (result_message True msg '''') \<and>
    \<not> str_contains msg ''Base AMI''"
proof -
  have "fst (AMIChecks E (Some cfg) tags d PackerBuilderCheck w) =
      Returns (result_message True ''No AMIs found matching the provided tags'' '''')"
    using favourableD(2,4) [OF assms]
    by (simp add: AMIChecks_def ami_runWithTimeout_def DescribeImagesWithFilters_def never_cut_off_def
        PackerBuilderCheck_def go_laws split_beta)
  then show ?thesis
    by (intro exI [of _ "''No AMIs found matching the provided tags''"]) simp
qed

lemma latest_check_passes:
  assumes "favourable E"
  shows "\<exists>r. fst (LatestAMIDoesNotExistsOrExpired E (Some cfg) d pb w) = Returns (r, pb) \<and>
    res_Success r \<and> \<not> str_contains (res_Message r) ''Base AMI''"
proof -
  obtain msg where a: "fst (adoptionProcessor E (Some cfg) pb w) = Returns (result_message True msg '''', pb)"
    using adoption_passes [OF assms] by blast
  let ?w1 = "snd (adoptionProcessor E (Some cfg) pb w)"
  obtain c where c: "fst (ami_New E cfg ?w1) = Some c"
    using managers_configured(1) [OF assms] by blast
  let ?w2 = "snd (ami_New E cfg ?w1)"
  let ?tags = "fst (buildTagsAndFilters E pb no_options ?w2)" and ?w3 = "snd (buildTagsAndFilters E pb no_options ?w2)"
  obtain m where "fst (AMIChecks E (Some c) ?tags d PackerBuilderCheck ?w3) = Returns (result_message True m '''')"
    "\<not> str_contains m ''Base AMI''"
    using image_check_passes [OF assms] by blast
  then show ?thesis
    using a c by (simp add: LatestAMIDoesNotExistsOrExpired_def go_laws result_message_def)
qed

definition no_base_filters :: "packer_builder \<Rightarrow> bool" where
  "no_base_filters pb \<longleftrightarrow> sp_AMIFilters (pb_Spec pb) \<in> {None, Some []}"

lemma flight_checks_pass:
  assumes "favourable E" "no_base_filters (cx_pb s)"
  shows "\<exists>w. performFlightChecks E d s =
    (Returns True, s\<lparr>cx_pb := set_builder (\<lambda>b. b\<lparr>bld_ImageType := ImageAMI\<rparr>) (cx_pb s), cx_world := w\<rparr>)"
proof -
  let ?pb = "set_builder (\<lambda>b. b\<lparr>bld_ImageType := ImageAMI\<rparr>) (cx_pb s)"
  let ?w1 = "snd (ami_New E (sp_Region (pb_Spec (cx_pb s))) (cx_world s))"
  let ?am = "fst (ami_New E (sp_Region (pb_Spec (cx_pb s))) (cx_world s))"
  let ?w2 = "snd (packer_New E (cx_pb s) ?w1)"
  obtain cfg where cfg: "fst (packer_New E (cx_pb s) ?w1) = Some cfg"
    using managers_configured(2) [OF assms(1)] by blast
  have fs: "(case sp_AMIFilters (pb_Spec ?pb) of None \<Rightarrow> [] | Some fs \<Rightarrow> fs) = []"
    using assms(2) by (auto simp: no_base_filters_def)
  have base: "fst (BaseAMIExists E ?am [] ?w2) =
      Returns (result_message True ''No AMI filters provided; skipping base AMI check'' '''')"
    by (rule base_check_skipped [OF assms(1)])
  let ?w3 = "snd (BaseAMIExists E ?am [] ?w2)"
  obtain r where "fst (LatestAMIDoesNotExistsOrExpired E (Some cfg) d ?pb ?w3) = Returns (r, ?pb)"
    "res_Success r" "\<not> str_contains (res_Message r) ''Base AMI''"
    using latest_check_passes [OF assms(1)] by blast
  then have "performFlightChecks E d s = (Returns True, s\<lparr>cx_pb := ?pb,
      cx_world := snd (LatestAMIDoesNotExistsOrExpired E (Some cfg) d ?pb ?w3)\<rparr>)"
    using cfg base fs by (simp add: performFlightChecks_def ctx_run go_laws split_beta Let_def result_message_def)
  then show ?thesis by blast
qed

lemma no_active_build:
  assumes "favourable E"
  shows "\<exists>r. fst (ActiveBuildCheck E (Some cfg) ns n w) = Returns r \<and> res_Success r"
proof -
  obtain pb w1 where pb: "env_get_pb E (ns, n) w = (Inr pb, w1)"
    using favourableD(5) [OF assms, of "(ns, n)" w] by (metis prod.collapse)
  obtain js where "fst (env_list_jobs E ns [(''created-by'', n)] w1) = Inr js" "\<forall>j \<in> set js. job_finished j"
    using favourableD(6) [OF assms] by blast
  with pb show ?thesis
    using active_build_verdict [OF favourableD(2) [OF assms], of "Some cfg" ns n w] by auto
qed

lemma flightCheck_accepted:
  assumes "favourable E" "settled StateFlightChecks s" "no_base_filters (cx_pb s)"
  shows "\<exists>s'. flightCheck E (Some cfg) s = (Returns Requeue, s') \<and> settled StateJobCreation s' \<and>
    st_BuildID (pb_Status (cx_pb s')) = st_BuildID (pb_Status (cx_pb s))"
proof -
  obtain r where r: "fst (ActiveBuildCheck E (Some cfg) (pb_Namespace (cx_pb s)) (pb_Name (cx_pb s)) (cx_world s)) =
      Returns r" "res_Success r"
    using no_active_build [OF assms(1)] by blast
  let ?v = "s\<lparr>cx_world := snd (ActiveBuildCheck E (Some cfg) (pb_Namespace (cx_pb s)) (pb_Name (cx_pb s)) (cx_world s))\<rparr>"
  let ?d = "duration_or_zero (to_ExpiresIn (sp_TimeOuts (pb_Spec (cx_pb s))))"
  let ?pb = "set_builder (\<lambda>b. b\<lparr>bld_ImageType := ImageAMI\<rparr>) (cx_pb s)"
  obtain w where checks: "performFlightChecks E ?d ?v = (Returns True, ?v\<lparr>cx_pb := ?pb, cx_world := w\<rparr>)"
    using flight_checks_pass [OF assms(1), of ?v ?d] assms(3) by auto
  let ?u = "?v\<lparr>cx_pb := ?pb, cx_world := w\<rparr>"
  let ?move = "move_or_error E ''Failed to transition to JobCreation state: ''
      (reconcileUpdate E StateJobCreation ''Transitioning to JobCreation'' LastRunStatusRunning
        ConditionTrue ConditionTypeJobCreated)"
  have "flightCheck E (Some cfg) s = ?move ?u"
    using r checks by (simp add: flightCheck_def go_bind_run [of the_pb] go_bind_run [of "on_world m" for m]
        go_bind_run [of "performFlightChecks E d" for d] the_pb_def on_world_def split_beta Let_def)
  moreover have "runner_wf (cx_runner ?u)" "quiet_slack (cx_pb ?u)"
    "opsy_edge (GetCurrentState (cx_runner ?u) (st_BuildID (pb_Status (cx_pb ?u)))) StateJobCreation"
    using assms(2) by (simp_all add: settled_def quiet_slack_def opsy_edge_iff)
  moreover from move_accepted [OF favourableD(1) [OF assms(1)] this] obtain s' where
    "?move ?u = (Returns Requeue, s')" "moved StateJobCreation ?u s'" by blast
  ultimately have "flightCheck E (Some cfg) s = (Returns Requeue, s')" "settled StateJobCreation s'"
    "st_BuildID (pb_Status (cx_pb s')) = st_BuildID (pb_Status (cx_pb s))"
    using moved_settled [of StateJobCreation ?u s'] by (simp_all add: moved_def)
  then show ?thesis by blast
qed

section \<open>The job is created\<close>

lemma construct_command_frame:
  assumes "construct_command ord pb = Some pb'"
  shows "\<exists>c. pb_Status pb' = (pb_Status pb)\<lparr>st_Command := c\<rparr>" "sp_Notify (pb_Spec pb') = sp_Notify (pb_Spec pb)"
    "pb_Meta pb' = pb_Meta pb"
  using assms by (auto simp: construct_command_def ensureDefaultCommands_eq)

lemma setupJob_accepted:
  assumes "favourable E"
  shows "\<exists>s'. setupJob E (Some cfg) s = (Returns None, s') \<and> cx_runner s' = cx_runner s \<and>
    (\<exists>c. pb_Status (cx_pb s') = (pb_Status (cx_pb s))\<lparr>st_JobID := take 5 (fst (env_uuid E (cx_world s))),
       st_JobName := pb_Name (cx_pb s) @ ''-'' @ take 5 (fst (env_uuid E (cx_world s))),
       st_JobStatus := JobStatusRunning, st_Command := c\<rparr>) \<and>
    sp_Notify (pb_Spec (cx_pb s')) = sp_Notify (pb_Spec (cx_pb s)) \<and> pb_Meta (cx_pb s') = pb_Meta (cx_pb s)"
proof -
  let ?u = "fst (env_uuid E (cx_world s))" and ?w1 = "snd (env_uuid E (cx_world s))"
  let ?pb = "set_status (\<lambda>x. x\<lparr>st_JobID := take 5 ?u, st_JobName := pb_Name (cx_pb s) @ ''-'' @ take 5 ?u,
      st_JobStatus := JobStatusRunning\<rparr>) (cx_pb s)"
  have id: "short_id ?u = Returns (take 5 ?u)"
    using favourableD(8) [OF assms] by (simp add: short_id_def)
  obtain pb' where pb': "construct_command (fst (env_map_order E ?w1)) ?pb = Some pb'"
    using construct_command_total by blast
  have "fst (Status_Update E (pb_ops E) p w) = None" for p w
    using favourableD(1) [OF assms] by (simp add: cooperative_def)
  then have "\<exists>w. setupJob E (Some cfg) s = (Returns None, s\<lparr>cx_pb := pb', cx_world := w\<rparr>)"
    using id pb' by (simp add: setupJob_def ConstructCommand_def ctx_run go_laws go_outcome_def split_beta) blast
  moreover obtain c where "pb_Status pb' = (pb_Status ?pb)\<lparr>st_Command := c\<rparr>"
    "sp_Notify (pb_Spec pb') = sp_Notify (pb_Spec (cx_pb s))" "pb_Meta pb' = pb_Meta (cx_pb s)"
    using construct_command_frame [OF pb'] by auto
  ultimately show ?thesis by fastforce
qed

lemma Job_built:
  assumes "favourable E"
  shows "\<exists>env. fst (Job E (Some cfg) pb w) =
    Returns (Inr (build_job (set_builder (\<lambda>b. b\<lparr>bld_Debug := True\<rparr>) pb) env), set_builder (\<lambda>b. b\<lparr>bld_Debug := True\<rparr>) pb)"
  using favourableD(7) [OF assms, of "(pb_Namespace pb, bld_Secret (sp_Builder (pb_Spec pb)))" w]
  by (auto simp: Job_def Let_def go_laws split_beta)

text \<open>
  A creation that has been recorded: the call that creates job \<open>j\<close> has succeeded, and the update to
  \<open>JobRunning\<close> has run in the world that the call left.
\<close>

definition job_created :: "'w env \<Rightarrow> job \<Rightarrow> 'w ctx \<Rightarrow> bool" where
  "job_created E j s' \<longleftrightarrow>
     (\<exists>v u. fst (env_create_job E j v) = None \<and> cx_world u = snd (env_create_job E j v) \<and>
        reconcileUpdate E StateJobRunning ''Transitioning to JobRunning'' LastRunStatusRunning
          ConditionTrue ConditionTypeInProgress u = (Returns None, s'))"

lemma create_job_called:
  assumes "favourable E"
  shows "\<exists>v. create_job E j s = (Returns None, s\<lparr>cx_world := snd (env_create_job E j v)\<rparr>)"
proof -
  obtain err where "fst (env_get_job E (object_key (pb_Meta (cx_pb s))) (cx_world s)) = Inl err" "is_not_found err"
    using favourableD(10) [OF assms] by blast
  then show ?thesis
    using favourableD(11) [OF assms] by (auto simp: create_job_def ctx_run go_laws)
qed

lemma createBuild_accepted:
  assumes "favourable E" "settled StateJobCreation s"
  shows "\<exists>j s'. createBuild E (Some cfg) s = (Returns Requeue, s') \<and> settled StateJobRunning s' \<and>
    st_BuildID (pb_Status (cx_pb s')) = st_BuildID (pb_Status (cx_pb s)) \<and> job_created E j s' \<and>
    job_Name j = pb_Name (cx_pb s) @ ''-'' @ take 5 (fst (env_uuid E (cx_world s))) \<and>
    job_Namespace j = pb_Namespace (cx_pb s)"
proof -
  obtain s1 c where s1: "setupJob E (Some cfg) s = (Returns None, s1)" "cx_runner s1 = cx_runner s"
    "sp_Notify (pb_Spec (cx_pb s1)) = sp_Notify (pb_Spec (cx_pb s))" "pb_Meta (cx_pb s1) = pb_Meta (cx_pb s)"
    and st: "pb_Status (cx_pb s1) = (pb_Status (cx_pb s))\<lparr>st_JobID := take 5 (fst (env_uuid E (cx_world s))),
       st_JobName := pb_Name (cx_pb s) @ ''-'' @ take 5 (fst (env_uuid E (cx_world s))),
       st_JobStatus := JobStatusRunning, st_Command := c\<rparr>"
    using setupJob_accepted [OF assms(1)] by blast
  let ?pb = "set_builder (\<lambda>b. b\<lparr>bld_Debug := True\<rparr>) (cx_pb s1)"
  obtain vars where job: "fst (Job E (Some cfg) (cx_pb s1) (cx_world s1)) = Returns (Inr (build_job ?pb vars), ?pb)"
    using Job_built [OF assms(1)] by blast
  let ?j = "build_job ?pb vars\<lparr>job_Owner := Some (object_key (pb_Meta ?pb))\<rparr>"
  let ?w2 = "snd (Job E (Some cfg) (cx_pb s1) (cx_world s1))"
  let ?s3 = "s1\<lparr>cx_pb := ?pb, cx_world := snd (env_set_controller E ?pb (build_job ?pb vars) ?w2)\<rparr>"
  obtain v where v: "create_job E ?j ?s3 = (Returns None, ?s3\<lparr>cx_world := snd (env_create_job E ?j v)\<rparr>)"
    using create_job_called [OF assms(1)] by blast
  let ?u = "?s3\<lparr>cx_world := snd (env_create_job E ?j v)\<rparr>"
  let ?update = "reconcileUpdate E StateJobRunning ''Transitioning to JobRunning'' LastRunStatusRunning
      ConditionTrue ConditionTypeInProgress"
  have "createBuild E (Some cfg) s = move_or_error E ''Failed to transition to JobRunning state: '' ?update ?u"
    using s1(1) job v favourableD(9) [OF assms(1)]
    by (simp add: createBuild_def go_bind_run [of "setupJob E pm" for pm] go_bind_run [of the_pb]
        go_bind_run [of "on_world m" for m] go_bind_run [of "put_pb p" for p]
        go_bind_run [of "create_job E j" for j] ctx_run go_run_simps split_beta)
  moreover have "runner_wf (cx_runner ?u)" "quiet_slack (cx_pb ?u)"
    "opsy_edge (GetCurrentState (cx_runner ?u) (st_BuildID (pb_Status (cx_pb ?u)))) StateJobRunning"
    using assms(2) s1(2,3) st by (simp_all add: settled_def quiet_slack_def opsy_edge_iff)
  moreover from update_accepted [OF favourableD(1) [OF assms(1)] this] obtain s' where
    s': "?update ?u = (Returns None, s')" "moved StateJobRunning ?u s'" by blast
  ultimately have "createBuild E (Some cfg) s = (Returns Requeue, s')" "settled StateJobRunning s'"
    "st_BuildID (pb_Status (cx_pb s')) = st_BuildID (pb_Status (cx_pb s))"
    using moved_settled [OF s'(2)] st
    by (simp_all add: move_or_error_def go_bind_at go_return_def moved_def)
  moreover have "job_created E ?j s'"
    unfolding job_created_def using s'(1) favourableD(11) [OF assms(1)] by (intro exI [of _ v] exI [of _ ?u]) simp
  moreover have "job_Name ?j = pb_Name (cx_pb s) @ ''-'' @ take 5 (fst (env_uuid E (cx_world s)))"
    "job_Namespace ?j = pb_Namespace (cx_pb s)"
    using st s1(4) by simp_all
  ultimately show ?thesis by blast
qed

section \<open>The build starts\<close>

text \<open>A reconciliation of a settled builder runs its handler with a configured manager.\<close>

lemma catchRek_settled:
  assumes "favourable E" "settled n s"
    and "\<And>pm. dispatch E fuel pm n = go_bind (H pm) (\<lambda>r. go_return (Some r))"
    and "\<And>cfg v. cx_runner v = cx_runner s \<Longrightarrow> cx_pb v = cx_pb s \<Longrightarrow>
      \<exists>s'. H (Some cfg) v = (Returns Requeue, s') \<and> P s'"
  shows "\<exists>s'. catchRek E fuel s = (Returns (Some Requeue), s') \<and> P s'"
proof -
  obtain cfg where "fst (packer_New E (cx_pb s) (cx_world s)) = Some cfg"
    using managers_configured(2) [OF assms(1)] by blast
  then show ?thesis
    using assms(2) assms(4) [of "s\<lparr>cx_world := snd (packer_New E (cx_pb s) (cx_world s))\<rparr>" cfg]
    by (auto simp: dispatched settled_def assms(3) go_bind_at go_return_def)
qed

lemma settled_same: "settled n s \<Longrightarrow> cx_runner v = cx_runner s \<Longrightarrow> cx_pb v = cx_pb s \<Longrightarrow> settled n v"
  by (simp add: settled_def)

text \<open>
  A build starts: in a favourable environment three reconciliations take a builder without base image
  filters, whose failed job guard does not hold, from \<open>Initial\<close> through \<open>FlightChecks\<close> and
  \<open>JobCreation\<close> to \<open>JobRunning\<close>, each working on the builder that the one before has left. Each asks to
  be run again, the runner agrees with the builder after each of them, the build identifier stays, and the last one has created a job that is named after the
  builder, in its namespace.
\<close>

theorem build_starts:
  assumes "favourable E" "settled StateInitial s" "no_base_filters (cx_pb s)"
    and "next_state (pb_Status (cx_pb s)) = Some StateFlightChecks"
  shows "\<exists>s1 s2 s3 j i. catchRek E fuel s = (Returns (Some Requeue), s1) \<and> settled StateFlightChecks s1 \<and>
    catchRek E fuel s1 = (Returns (Some Requeue), s2) \<and> settled StateJobCreation s2 \<and>
    catchRek E fuel s2 = (Returns (Some Requeue), s3) \<and> settled StateJobRunning s3 \<and>
    st_BuildID (pb_Status (cx_pb s3)) = st_BuildID (pb_Status (cx_pb s)) \<and>
    job_created E j s3 \<and> job_Name j = pb_Name (cx_pb s2) @ ''-'' @ i \<and> length i = 5 \<and>
    job_Namespace j = pb_Namespace (cx_pb s2)"
proof -
  note E = favourableD(1) [OF assms(1)]
  obtain s1 where 1: "catchRek E fuel s = (Returns (Some Requeue), s1)" "moved StateFlightChecks s s1"
    using reconcile_step [OF E, of s StateFlightChecks fuel] assms(2,4) by (auto simp: settled_def)
  then have s1: "settled StateFlightChecks s1" "no_base_filters (cx_pb s1)"
    using moved_settled [OF 1(2)] assms(2,3) by (simp_all add: settled_def moved_def no_base_filters_def)
  let ?P2 = "\<lambda>s2. settled StateJobCreation s2 \<and> st_BuildID (pb_Status (cx_pb s2)) = st_BuildID (pb_Status (cx_pb s1))"
  have "\<exists>s2. catchRek E fuel s1 = (Returns (Some Requeue), s2) \<and> ?P2 s2"
  proof (rule catchRek_settled [OF assms(1) s1(1), where H = "flightCheck E"])
    show "dispatch E fuel pm StateFlightChecks = go_bind (flightCheck E pm) (\<lambda>r. go_return (Some r))" for pm
      by (simp add: dispatch_def)
    show "\<exists>s'. flightCheck E (Some cfg) v = (Returns Requeue, s') \<and> ?P2 s'"
      if "cx_runner v = cx_runner s1" "cx_pb v = cx_pb s1" for cfg v
      using flightCheck_accepted [OF assms(1) settled_same [OF s1(1) that]] s1(2) that by auto
  qed
  then obtain s2 where 2: "catchRek E fuel s1 = (Returns (Some Requeue), s2)" "?P2 s2" by blast
  let ?P3 = "\<lambda>s3. \<exists>j i. settled StateJobRunning s3 \<and> st_BuildID (pb_Status (cx_pb s3)) = st_BuildID (pb_Status (cx_pb s2)) \<and>
      job_created E j s3 \<and> job_Name j = pb_Name (cx_pb s2) @ ''-'' @ i \<and> length i = 5 \<and>
      job_Namespace j = pb_Namespace (cx_pb s2)"
  have "\<exists>s3. catchRek E fuel s2 = (Returns (Some Requeue), s3) \<and> ?P3 s3"
  proof (rule catchRek_settled [OF assms(1) conjunct1 [OF 2(2)], where H = "createBuild E"])
    show "dispatch E fuel pm StateJobCreation = go_bind (createBuild E pm) (\<lambda>r. go_return (Some r))" for pm
      by (simp add: dispatch_def)
    show "\<exists>s'. createBuild E (Some cfg) v = (Returns Requeue, s') \<and> ?P3 s'"
      if v: "cx_runner v = cx_runner s2" "cx_pb v = cx_pb s2" for cfg v
    proof -
      have "length (take 5 (fst (env_uuid E (cx_world v)))) = 5"
        using favourableD(8) [OF assms(1)] by simp
      with createBuild_accepted [OF assms(1) settled_same [OF conjunct1 [OF 2(2)] v], of cfg] v
      show ?thesis by metis
    qed
  qed
  then obtain s3 where "catchRek E fuel s2 = (Returns (Some Requeue), s3)" "?P3 s3" by blast
  with 1 s1 2 show ?thesis by (simp add: moved_def)
qed

text \<open>An environment in which every call succeeds.\<close>

definition favourable_env :: "sim env" where
  "favourable_env = obliging_env\<lparr>
     env_aws_config := (\<lambda>region w. (Inr region, w)),
     env_describe_images := (\<lambda>cfg fs w. (Inr [], w)),
     env_list_jobs := (\<lambda>ns ls w. (Inr [], w)),
     env_get_secret := (\<lambda>k w. (Inr [], w)),
     env_set_controller := (\<lambda>pb j w. (Inr (j\<lparr>job_Owner := Some (object_key (pb_Meta pb))\<rparr>), w)),
     env_get_job := (\<lambda>k w. (Inl not_found_error, w)),
     env_create_job := (\<lambda>j w. (None, w\<lparr>sim_jobs := sim_jobs w @ [j]\<rparr>))\<rparr>"

lemma favourable_example: "favourable favourable_env"
  by (simp add: favourable_def cooperative_def never_cut_off_def favourable_env_def obliging_env_def
      Status_Update_def Status_attempt_def sim_calls not_found_error_def is_not_found_def)

lemma process_settled: "settled n (process_in n n [])"
  by (simp add: settled_def in_state_quiet)

theorem build_starts_witness:
  "\<exists>s1 s2 s3. catchRek favourable_env 0 (process_in StateInitial StateInitial []) = (Returns (Some Requeue), s1) \<and>
    catchRek favourable_env 0 s1 = (Returns (Some Requeue), s2) \<and>
    catchRek favourable_env 0 s2 = (Returns (Some Requeue), s3) \<and> settled StateJobRunning s3"
proof -
  have "no_base_filters (cx_pb (process_in StateInitial StateInitial []))"
    by (simp add: no_base_filters_def in_state_def example_pb_def)
  moreover have "next_state (pb_Status (cx_pb (process_in StateInitial StateInitial []))) = Some StateFlightChecks"
    by (simp add: next_state_def) (simp add: in_state_def example_pb_def)
  ultimately show ?thesis
    using build_starts [OF favourable_example process_settled, of 0] by blast
qed

section \<open>The build ends\<close>

text \<open>
  A build ends: three more reconciliations take a running builder, whose job's success the watch
  delivers and the loop receives, through \<open>JobCompleted\<close> and \<open>AMICreated\<close> back to \<open>Initial\<close> when
  the log has named no temporary key pair or security group to remove; the identifier of the build
  stays the same.
\<close>

theorem build_ends:
  assumes "cooperative E" "settled StateJobRunning s"
    and "st_LastRunKeyPair (pb_Status (cx_pb s)) = ''''" "st_LastRunSecurityGroupID (pb_Status (cx_pb s)) = ''''"
    and "packer_New E (cx_pb s) (cx_world s) = (pm, w)" "packer_New E (cx_pb s) w = (pm', w0)"
    and "env_run_choice E w0 = (WatchDelivers (WatchJob js), w1)" "fst (env_run_choice E w1) = TakeResult"
    and "0 < sint (js_Succeeded js)"
  shows "\<exists>s1 s2 s3. catchRek E (Suc (Suc k)) s = (Returns (Some Requeue), s1) \<and> settled StateJobCompleted s1 \<and>
    catchRek E (Suc (Suc k)) s1 = (Returns (Some Requeue), s2) \<and> settled StateAMICreated s2 \<and>
    catchRek E (Suc (Suc k)) s2 = (Returns (Some Requeue), s3) \<and> settled StateInitial s3 \<and>
    st_BuildID (pb_Status (cx_pb s3)) = st_BuildID (pb_Status (cx_pb s))"
proof -
  let ?v = "s\<lparr>cx_world := w\<rparr>"
  note s = assms(2) [unfolded settled_def]
  have "catchRek E (Suc (Suc k)) s = runningBuild E (Suc (Suc k)) ?v"
    using dispatched [of s E "Suc (Suc k)"] s assms(5) by (simp add: dispatch_def)
  moreover obtain s1 where "runningBuild E (Suc (Suc k)) ?v = (Returns (Some Requeue), s1)" "moved StateJobCompleted ?v s1"
    using finished_job_run [OF assms(1), of ?v pm' w0 js w1 k] s assms(6-9) by auto
  ultimately have 1: "catchRek E (Suc (Suc k)) s = (Returns (Some Requeue), s1)" "moved StateJobCompleted s s1"
    by (simp_all add: moved_world)
  have s1: "settled StateJobCompleted s1" using moved_settled [OF 1(2)] s by simp
  obtain s2 where 2: "catchRek E (Suc (Suc k)) s1 = (Returns (Some Requeue), s2)" "moved StateAMICreated s1 s2"
    using reconcile_step [OF assms(1), of s1 StateAMICreated "Suc (Suc k)"] s1 by (auto simp: settled_def next_state_def)
  have s2: "settled StateAMICreated s2" using moved_settled [OF 2(2)] s1 by (simp add: settled_def)
  have "st_LastRunKeyPair (pb_Status (cx_pb s2)) = ''''" "st_LastRunSecurityGroupID (pb_Status (cx_pb s2)) = ''''"
    using 1(2) 2(2) assms(3,4) by (simp_all add: moved_def)
  then obtain s3 where 3: "catchRek E (Suc (Suc k)) s2 = (Returns (Some Requeue), s3)" "moved StateInitial s2 s3"
    using reconcile_step [OF assms(1), of s2 StateInitial "Suc (Suc k)"] s2 by (auto simp: settled_def next_state_def)
  have "settled StateInitial s3" using moved_settled [OF 3(2)] s2 by (simp add: settled_def)
  with 1 2 3 s1 s2 show ?thesis by (simp add: moved_def)
qed

theorem build_ends_witness:
  "\<exists>E s. \<exists>s1 s2 s3. catchRek (E :: sim env) 2 s = (Returns (Some Requeue), s1) \<and>
    catchRek E 2 s1 = (Returns (Some Requeue), s2) \<and> catchRek E 2 s2 = (Returns (Some Requeue), s3) \<and>
    settled StateJobRunning s \<and> settled StateInitial s3"
proof -
  let ?E = "favourable_env\<lparr>env_run_choice := (\<lambda>w. case sim_runs w of [] \<Rightarrow> (TakeResult, w)
        | c # cs \<Rightarrow> (c, w\<lparr>sim_runs := cs\<rparr>))\<rparr>"
  let ?js = "\<lparr>js_Succeeded = 1, js_Failed = 0, js_Conditions = []\<rparr>"
  let ?pb = "set_status (\<lambda>x. x\<lparr>st_State := StateJobRunning\<rparr>) example_pb"
  let ?w = "(sim_start ?pb)\<lparr>sim_runs := [WatchDelivers (WatchJob ?js)]\<rparr>"
  let ?s = "\<lparr>cx_world = ?w, cx_runner = opsy_New\<lparr>run_states := [''b1'' \<mapsto> StateJobRunning]\<rparr>, cx_pb = ?pb\<rparr>"
  have coop: "cooperative ?E"
    by (simp add: cooperative_def Status_Update_def Status_attempt_def favourable_env_def obliging_env_def sim_calls)
  have settled: "settled StateJobRunning ?s"
    by (simp add: settled_def quiet_slack_def example_pb_def slack_isEmpty_def GetCurrentState_def)
  have pm: "packer_New ?E (cx_pb ?s) ?w = (Some ''us-west-2'', ?w)"
    by (simp add: packer_New_def ClientAWS_def favourable_env_def example_pb_def)
  have c1: "env_run_choice ?E ?w = (WatchDelivers (WatchJob ?js), sim_start ?pb)"
    and c2: "fst (env_run_choice ?E (sim_start ?pb)) = TakeResult"
    by (simp_all add: sim_start_def)
  have none: "st_LastRunKeyPair (pb_Status (cx_pb ?s)) = ''''" "st_LastRunSecurityGroupID (pb_Status (cx_pb ?s)) = ''''"
    by (simp_all add: example_pb_def)
  have "packer_New ?E (cx_pb ?s) (cx_world ?s) = (Some ''us-west-2'', ?w)" using pm by simp
  from build_ends [OF coop settled none this pm c1 c2, of 0] settled
  show ?thesis by (simp add: numeral_2_eq_2) blast
qed

end
