(* ===== verification/Cluster.thy ===== *)
theory Cluster
  imports Build_Cycle
begin

text \<open>
  An API server that keeps what it is given. The other liveness theorems speak of calls that succeed;
  here the world holds the stored builder and the jobs, a status write replaces the stored status and
  nothing else, a patch without changes answers with the stored builder, and a created job is listed
  from then on. Whole calls of \<open>Reconcile\<close>, each starting with a read, are composed over it. The
  locale states the laws; it is interpreted on the simulated environment.
\<close>

section \<open>Laws\<close>

lemma retried_none: "retried f w r w' \<Longrightarrow> f w = (None, v) \<Longrightarrow> r = None \<and> w' = v"
  by (erule retried.cases) auto

text \<open>A move changes the state and what is said about the last run, nothing else of the status.\<close>

definition only_moved :: "pb_state \<Rightarrow> packer_builder_status \<Rightarrow> packer_builder_status \<Rightarrow> bool" where
  "only_moved n st st' \<longleftrightarrow> (\<exists>l m now cds. st' = st\<lparr>st_State := n, st_LastRunStatus := l,
     st_LastRunMessage := m, st_LastRun := now, st_Conditions := cds\<rparr>)"

lemma only_movedD:
  "only_moved n st st' \<Longrightarrow> st_State st' = n \<and> st_BuildID st' = st_BuildID st \<and> st_JobName st' = st_JobName st \<and>
     st_FailedJobCount st' = st_FailedJobCount st \<and> st_MaxNumberOfFailedJobs st' = st_MaxNumberOfFailedJobs st"
  by (auto simp: only_moved_def)

text \<open>
  \<open>inc p js w\<close>: in the world \<open>w\<close> the stored builder is \<open>p\<close> and the jobs are \<open>js\<close>. AWS is configured and has
  no image of the builder, writes are accepted, and no operation is cut off.
\<close>

definition idle_for :: "packer_builder \<Rightarrow> job list \<Rightarrow> bool" where
  "idle_for p js \<longleftrightarrow> (\<forall>j \<in> set js. job_Namespace j = pb_Namespace p \<longrightarrow>
     (''created-by'', pb_Name p) \<in> set (job_Labels j) \<longrightarrow> job_finished j)"

text \<open>No listed job has the builder's own name or the name that the next job is to get.\<close>

definition names_free :: "'w env \<Rightarrow> (packer_builder \<Rightarrow> job list \<Rightarrow> 'w \<Rightarrow> bool) \<Rightarrow> packer_builder \<Rightarrow> job list \<Rightarrow> bool" where
  "names_free E inc p js \<longleftrightarrow> (\<forall>x w. inc (p\<lparr>pb_Status := x\<rparr>) js w \<longrightarrow> (\<forall>j \<in> set js. job_key j \<notin>
     {object_key (pb_Meta p), (pb_Namespace p, pb_Name p @ ''-'' @ take 5 (fst (env_uuid E w)))}))"

text \<open>
  The stored builder is the applied one in state \<open>n\<close> with identifier \<open>i\<close>, and the copy in memory is
  the stored one; the runner agrees.
\<close>

abbreviation stored_in ::
  "(packer_builder \<Rightarrow> job list \<Rightarrow> 'w \<Rightarrow> bool) \<Rightarrow> pb_state \<Rightarrow> bytes \<Rightarrow> packer_builder \<Rightarrow> job list \<Rightarrow> 'w ctx \<Rightarrow> bool" where
  "stored_in inc n i p js s \<equiv> inc (cx_pb s) js (cx_world s) \<and>
     pb_Meta (cx_pb s) = pb_Meta p \<and> pb_Spec (cx_pb s) = pb_Spec p \<and>
     st_State (pb_Status (cx_pb s)) = n \<and> st_BuildID (pb_Status (cx_pb s)) = i \<and> i \<noteq> '''' \<and>
     runner_wf (cx_runner s) \<and> GetCurrentState (cx_runner s) i = n"

text \<open>The job a builder owns: in its namespace, with its label, its name and an identifier of five bytes, unfinished.\<close>

abbreviation owned_job :: "packer_builder \<Rightarrow> job \<Rightarrow> bytes \<Rightarrow> bool" where
  "owned_job p j n \<equiv> (\<exists>k. length k = 5 \<and> n = pb_Name p @ ''-'' @ k) \<and> job_key j = (pb_Namespace p, n) \<and>
     job_Owner j = Some (object_key (pb_Meta p)) \<and> (''created-by'', pb_Name p) \<in> set (job_Labels j) \<and> \<not> job_finished j"

text \<open>The counter of failed jobs is below its limit; unset, they are 0 and 3.\<close>

definition may_fail :: "packer_builder \<Rightarrow> bool" where
  "may_fail p \<longleftrightarrow> sint (case st_FailedJobCount (pb_Status p) of None \<Rightarrow> 0 | Some n \<Rightarrow> n) <
     sint (case st_MaxNumberOfFailedJobs (pb_Status p) of None \<Rightarrow> 3 | Some n \<Rightarrow> n)"

locale cluster =
  fixes E :: "'w env"
    and inc :: "packer_builder \<Rightarrow> job list \<Rightarrow> 'w \<Rightarrow> bool"
  assumes retry: "retry_documented E"
    and uncut: "never_cut_off E"
    and now: "inc p js w \<Longrightarrow> inc p js (snd (env_now E w))"
    and order: "inc p js w \<Longrightarrow> inc p js (snd (env_map_order E w))"
    and select: "inc p js w \<Longrightarrow> inc p js (snd (env_select E d w))"
    and event: "inc p js w \<Longrightarrow> inc p js (snd (env_record_event E k t r m w))"
    and uuid: "inc p js w \<Longrightarrow> inc p js (snd (env_uuid E w)) \<and> 5 \<le> length (fst (env_uuid E w))"
    and config: "inc p js w \<Longrightarrow> inc p js (snd (env_aws_config E region w)) \<and>
      (\<exists>cfg. fst (env_aws_config E region w) = Inr cfg)"
    and images: "inc p js w \<Longrightarrow> inc p js (snd (env_describe_images E c fs w)) \<and>
      fst (env_describe_images E c fs w) = Inr []"
    and get: "inc p js w \<Longrightarrow> k = object_key (pb_Meta p) \<Longrightarrow>
      inc p js (snd (env_get_pb E k w)) \<and> fst (env_get_pb E k w) = Inr p"
    and stores: "inc p js w \<Longrightarrow> object_key (pb_Meta b) = object_key (pb_Meta p) \<Longrightarrow>
      inc (p\<lparr>pb_Status := pb_Status b\<rparr>) js (snd (env_update_pb_status E b w)) \<and>
      fst (env_update_pb_status E b w) = None"
    and patch: "inc p js w \<Longrightarrow> object_key (pb_Meta b) = object_key (pb_Meta p) \<Longrightarrow>
      inc p js (snd (env_patch_pb E b b w)) \<and> fst (env_patch_pb E b b w) = Inr p"
    and list_jobs: "inc p js w \<Longrightarrow> inc p js (snd (env_list_jobs E ns ls w)) \<and>
      fst (env_list_jobs E ns ls w) =
        Inr (filter (\<lambda>j. job_Namespace j = ns \<and> set ls \<subseteq> set (job_Labels j)) js)"
    and reference: "inc p js w \<Longrightarrow> inc p js (snd (env_get_reference E j w))"
    and get_job: "inc p js w \<Longrightarrow> \<forall>j \<in> set js. job_key j \<noteq> k \<Longrightarrow>
      inc p js (snd (env_get_job E k w)) \<and> (\<exists>e. fst (env_get_job E k w) = Inl e \<and> is_not_found e)"
    and create: "inc p js w \<Longrightarrow> \<forall>i \<in> set js. job_key i \<noteq> job_key j \<Longrightarrow>
      inc p (js @ [j]) (snd (env_create_job E j w)) \<and> fst (env_create_job E j w) = None"
    and owner: "inc p js w \<Longrightarrow> inc p js (snd (env_set_controller E b j w)) \<and>
      fst (env_set_controller E b j w) = Inr (j\<lparr>job_Owner := Some (object_key (pb_Meta b))\<rparr>)"
begin

lemma selected: "fst (env_select E d w) = PickResult"
  using uncut by (simp add: never_cut_off_def)

section \<open>Status writes\<close>

lemma status_written:
  assumes "inc p js w" "object_key (pb_Meta b) = object_key (pb_Meta p)"
  shows "fst (Status_Update E (pb_ops E) b w) = None \<and>
    inc (p\<lparr>pb_Status := pb_Status b\<rparr>) js (snd (Status_Update E (pb_ops E) b w))"
proof -
  let ?w1 = "snd (env_get_pb E (object_key (pb_Meta b)) w)"
  have g: "fst (env_get_pb E (object_key (pb_Meta b)) w) = Inr p" "inc p js ?w1"
    using get [OF assms] by simp_all
  let ?b = "p\<lparr>pb_Status := pb_Status b\<rparr>"
  have u: "fst (env_update_pb_status E ?b ?w1) = None"
    "inc ?b js (snd (env_update_pb_status E ?b ?w1))"
    using stores [OF g(2), of ?b] by simp_all
  have "Status_attempt (pb_ops E) b w = (None, snd (env_update_pb_status E ?b ?w1))"
    using g u by (simp add: Status_attempt_def split_beta prod_eq_iff split: sum.split option.split)
  moreover have "retried (Status_attempt (pb_ops E) b) w (fst (Status_Update E (pb_ops E) b w))
      (snd (Status_Update E (pb_ops E) b w))"
    using retry by (simp add: retry_documented_def Status_Update_def)
  ultimately have "fst (Status_Update E (pb_ops E) b w) = None \<and>
      snd (Status_Update E (pb_ops E) b w) = snd (env_update_pb_status E ?b ?w1)"
    by (metis retried_none)
  with u show ?thesis by simp
qed

lemma condition_written:
  assumes "inc p js w" "object_key (pb_Meta b) = object_key (pb_Meta p)"
  shows "\<exists>cds w'. SetCondition E (pb_ops E) b t st r m w =
      ((None, set_status (\<lambda>x. x\<lparr>st_Conditions := cds\<rparr>) b), w') \<and>
    inc (p\<lparr>pb_Status := (pb_Status b)\<lparr>st_Conditions := cds\<rparr>\<rparr>) js w'"
proof -
  let ?cds = "sort_conditions (upsert_condition (fst (env_now E w)) t st r m (pb_GetConditions b))"
  let ?b = "set_status (\<lambda>x. x\<lparr>st_Conditions := ?cds\<rparr>) b"
  have key: "object_key (pb_Meta ?b) = object_key (pb_Meta p)"
    using assms(2) by simp
  have eq: "pb_SetConditions ?cds b = ?b"
    by (simp add: pb_SetConditions_def set_status_def)
  have "fst (Status_Update E (pb_ops E) ?b (snd (env_now E w))) = None \<and>
      inc (p\<lparr>pb_Status := pb_Status ?b\<rparr>) js (snd (Status_Update E (pb_ops E) ?b (snd (env_now E w))))"
    by (rule status_written [OF now [OF assms(1)] key])
  then show ?thesis
    by (intro exI [of _ ?cds] exI [of _ "snd (Status_Update E (pb_ops E) ?b (snd (env_now E w)))"])
      (simp add: SetCondition_def Let_def split_beta eq prod_eq_iff)
qed

section \<open>Moves\<close>

text \<open>
  The process works on a copy \<open>b\<close> of the stored builder \<open>p\<close>: the same object, with no Slack section.
  \<open>recorded\<close> is what an update leaves: the stored builder has the status of the copy with the new
  state, and the copy in memory has become the stored builder.
\<close>

abbreviation works_on :: "packer_builder \<Rightarrow> job list \<Rightarrow> 'w ctx \<Rightarrow> bool" where
  "works_on p js s \<equiv> inc p js (cx_world s) \<and> pb_Meta (cx_pb s) = pb_Meta p \<and>
     sp_Notify (pb_Spec (cx_pb s)) = sp_Notify (pb_Spec p) \<and> quiet_slack p \<and> runner_wf (cx_runner s)"

abbreviation recorded :: "pb_state \<Rightarrow> packer_builder \<Rightarrow> job list \<Rightarrow> 'w ctx \<Rightarrow> 'w ctx \<Rightarrow> bool" where
  "recorded n p js s s' \<equiv> only_moved n (pb_Status (cx_pb s)) (pb_Status (cx_pb s')) \<and>
     cx_pb s' = p\<lparr>pb_Status := pb_Status (cx_pb s')\<rparr> \<and> inc (cx_pb s') js (cx_world s') \<and>
     cx_runner s' = snd (SetState (st_BuildID (pb_Status (cx_pb s))) n (cx_runner s))"

lemma update_recorded:
  assumes "works_on p js s"
    and "opsy_edge (GetCurrentState (cx_runner s) (st_BuildID (pb_Status (cx_pb s)))) n"
  shows "\<exists>s'. reconcileUpdate E n m l cs ct s = (Returns None, s') \<and> recorded n p js s s'"
proof -
  let ?now = "fst (env_now E (cx_world s))"
  let ?b = "update_status n l m ?now (cx_pb s)"
  let ?s0 = "after_event E n m l s"
  have w0: "inc p js (cx_world ?s0)" and pb0: "cx_pb ?s0 = ?b" and r0: "cx_runner ?s0 = cx_runner s"
    using assms(1) by (simp_all add: after_event_def Let_def RecordNormalEvent_def RecordEvent_def now event)
  have key: "object_key (pb_Meta ?b) = object_key (pb_Meta p)"
    using assms(1) by (simp add: update_status_def)
  obtain cds w1 where c: "SetCondition E (pb_ops E) ?b ct cs (state_text n) m (cx_world ?s0) =
      ((None, set_status (\<lambda>x. x\<lparr>st_Conditions := cds\<rparr>) ?b), w1)"
    and w1: "inc (p\<lparr>pb_Status := (pb_Status ?b)\<lparr>st_Conditions := cds\<rparr>\<rparr>) js w1"
    using condition_written [OF w0 key] by blast
  let ?b1 = "set_status (\<lambda>x. x\<lparr>st_Conditions := cds\<rparr>) ?b"
  let ?p1 = "p\<lparr>pb_Status := pb_Status ?b1\<rparr>"
  let ?s1 = "s\<lparr>cx_world := w1, cx_pb := ?b1\<rparr>"
  have "?s0\<lparr>cx_world := w1, cx_pb := ?b1\<rparr> = ?s1"
    by (simp add: after_event_def Let_def)
  then have s1: "after_condition E n m l cs ct s = (Returns None, ?s1)"
    using c pb0 by (simp add: after_condition_def set_condition_pb_def ctx_run go_laws)
  have slack: "notify_slack E m ?s1 = (Returns None, ?s1)"
    using assms(1) by (simp add: notify_slack_def go_bind_run [of the_pb] the_pb_def Let_def go_return_def
        quiet_slack_def update_status_def)
  let ?r = "snd (SetState (st_BuildID (pb_Status (cx_pb s))) n (cx_runner s))"
  have set: "runner_set n ?s1 = (Returns None, ?s1\<lparr>cx_runner := ?r\<rparr>)"
    using assms by (simp add: runner_set_def SetState_wf update_status_def)
  have "inc ?p1 js w1"
    using w1 by simp
  then have p: "inc ?p1 js (snd (env_patch_pb E ?b1 ?b1 w1)) \<and> fst (env_patch_pb E ?b1 ?b1 w1) = Inr ?p1"
    by (rule patch) (use key in simp)
  let ?s2 = "?s1\<lparr>cx_runner := ?r, cx_world := snd (env_patch_pb E ?b1 ?b1 w1), cx_pb := ?p1\<rparr>"
  have "patch_pb E (?s1\<lparr>cx_runner := ?r\<rparr>) = (Returns None, ?s2)"
    using p by (simp add: patch_pb_def ctx_run go_laws)
  then have "reconcileUpdate E n m l cs ct s = (Returns None, ?s2)"
    using s1 slack set by (simp add: reconcileUpdate_run Let_def go_bind_at)
  moreover have "only_moved n (pb_Status (cx_pb s)) (pb_Status (cx_pb ?s2))"
    unfolding only_moved_def
    by (intro exI [of _ l] exI [of _ m] exI [of _ ?now] exI [of _ cds]) (simp add: update_status_def)
  moreover have "cx_pb ?s2 = p\<lparr>pb_Status := pb_Status (cx_pb ?s2)\<rparr>" "inc (cx_pb ?s2) js (cx_world ?s2)"
    "cx_runner ?s2 = ?r"
    using p by simp_all
  ultimately show ?thesis by blast
qed

lemma move_recorded:
  assumes "works_on p js s"
    and "opsy_edge (GetCurrentState (cx_runner s) (st_BuildID (pb_Status (cx_pb s)))) n"
  shows "\<exists>s'. move_or_error E t (reconcileUpdate E n m l cs ct) s = (Returns Requeue, s') \<and> recorded n p js s s'"
  using update_recorded [OF assms, of m l cs ct]
  by (auto simp: move_or_error_def go_bind_at go_return_def)

text \<open>What a handler that has moved the build leaves, seen from the state it started in.\<close>

abbreviation goes :: "pb_state \<Rightarrow> packer_builder \<Rightarrow> job list \<Rightarrow> 'w ctx \<Rightarrow> 'w ctx \<Rightarrow> bool" where
  "goes n p js s s' \<equiv> cx_pb s' = p\<lparr>pb_Status := pb_Status (cx_pb s')\<rparr> \<and> inc (cx_pb s') js (cx_world s') \<and>
     st_State (pb_Status (cx_pb s')) = n \<and>
     st_BuildID (pb_Status (cx_pb s')) = st_BuildID (pb_Status (cx_pb s)) \<and>
     cx_runner s' = snd (SetState (st_BuildID (pb_Status (cx_pb s))) n (cx_runner s))"

lemma recorded_goes: "recorded n p js s s' \<Longrightarrow> goes n p js s s'"
  using only_movedD by blast

lemma move_goes:
  assumes "m s = move_or_error E t (reconcileUpdate E n msg l cs ct) v"
    and "works_on p js v" "cx_runner v = cx_runner s"
    and "st_BuildID (pb_Status (cx_pb v)) = st_BuildID (pb_Status (cx_pb s))"
    and "opsy_edge (GetCurrentState (cx_runner s) (st_BuildID (pb_Status (cx_pb s)))) n"
  shows "\<exists>s'. m s = (Returns Requeue, s') \<and> goes n p js s s' \<and>
    only_moved n (pb_Status (cx_pb v)) (pb_Status (cx_pb s'))"
proof -
  obtain s' where s': "move_or_error E t (reconcileUpdate E n msg l cs ct) v = (Returns Requeue, s')"
    "recorded n p js v s'"
    using move_recorded [OF assms(2)] assms(3-5) by metis
  moreover have "goes n p js v s'" "only_moved n (pb_Status (cx_pb v)) (pb_Status (cx_pb s'))"
    using recorded_goes [OF s'(2)] conjunct1 [OF s'(2)] by blast+
  ultimately show ?thesis
    using assms(1,3,4) by metis
qed

section \<open>Initial and FlightChecks\<close>

lemma init_goes:
  assumes "works_on p js s"
    and "GetCurrentState (cx_runner s) (st_BuildID (pb_Status (cx_pb s))) = StateInitial"
    and "\<not> sint (case st_MaxNumberOfFailedJobs (pb_Status (cx_pb s)) of None \<Rightarrow> 3 | Some n \<Rightarrow> n)
        \<le> sint (case st_FailedJobCount (pb_Status (cx_pb s)) of None \<Rightarrow> 0 | Some n \<Rightarrow> n)"
  shows "\<exists>s'. init_build E s = (Returns Requeue, s') \<and> goes StateFlightChecks p js s s' \<and>
    st_JobName (pb_Status (cx_pb s')) = st_JobName (pb_Status (cx_pb s))"
proof -
  let ?v = "s\<lparr>cx_pb := set_status (\<lambda>x. x\<lparr>
     st_MaxNumberOfFailedJobs := (case st_MaxNumberOfFailedJobs x of None \<Rightarrow> Some 3 | Some n \<Rightarrow> Some n),
     st_FailedJobCount := (case st_FailedJobCount x of None \<Rightarrow> Some 0 | Some n \<Rightarrow> Some n)\<rparr>) (cx_pb s)\<rparr>"
  have "init_build E s = move_or_error E ''Failed to transition to FlightChecks state: ''
     (reconcileUpdate E StateFlightChecks ''Transitioning to FlightChecks'' LastRunStatusRunning
        ConditionTrue ConditionTypeFlightCheckStarted) ?v"
    using assms(3) by (auto simp: init_build_def go_bind_run [of the_pb] go_bind_run [of "put_status h" for h]
        ctx_run split: option.splits)
  from move_goes [where p = p and js = js and s = s and m = "init_build E", OF this]
  obtain s' where "init_build E s = (Returns Requeue, s')" "goes StateFlightChecks p js s s'"
    "only_moved StateFlightChecks (pb_Status (cx_pb ?v)) (pb_Status (cx_pb s'))"
    using assms(1,2) by (auto simp: opsy_edge_iff)
  then show ?thesis
    using only_movedD by fastforce
qed

lemma references_kept: "inc p js w \<Longrightarrow> inc p js (snd (active_references E bs w))"
  by (induction bs arbitrary: w) (auto simp: split_beta Let_def reference split: sum.split)

text \<open>The check succeeds exactly when no job of the builder is active; either way it writes what it found.\<close>

lemma active_check:
  assumes "inc p js w"
  shows "\<exists>r w' act. ActiveBuildCheck E (Some cfg) (pb_Namespace p) (pb_Name p) w = (Returns r, w') \<and>
    (res_Success r \<longleftrightarrow> idle_for p js) \<and> inc (p\<lparr>pb_Status := (pb_Status p)\<lparr>st_Active := act\<rparr>\<rparr>) js w'"
proof -
  let ?k = "(pb_Namespace p, pb_Name p)" and ?ls = "[(''created-by'', pb_Name p)]"
  have g: "inc p js (snd (env_get_pb E ?k w)) \<and> fst (env_get_pb E ?k w) = Inr p"
    by (rule get [OF assms]) (simp add: object_key_def)
  let ?w1 = "snd (env_get_pb E ?k w)"
  let ?builds = "filter (\<lambda>j. job_Namespace j = pb_Namespace p \<and> set ?ls \<subseteq> set (job_Labels j)) js"
  have l: "inc p js (snd (env_list_jobs E (pb_Namespace p) ?ls ?w1)) \<and>
      fst (env_list_jobs E (pb_Namespace p) ?ls ?w1) = Inr ?builds"
    using list_jobs g by blast
  let ?w2 = "snd (env_list_jobs E (pb_Namespace p) ?ls ?w1)"
  have idle: "fst (getActiveBuilds ?builds) = [] \<longleftrightarrow> idle_for p js"
    by (auto simp: idle_for_def getActiveBuilds_eq filter_empty_conv)
  let ?w3 = "snd (active_references E (fst (getActiveBuilds ?builds)) ?w2)"
  let ?p = "set_status (\<lambda>x. x\<lparr>st_Active := fst (active_references E (fst (getActiveBuilds ?builds)) ?w2)\<rparr>) p"
  have u: "fst (Status_Update E (pb_ops E) ?p ?w3) = None \<and>
      inc (p\<lparr>pb_Status := pb_Status ?p\<rparr>) js (snd (Status_Update E (pb_ops E) ?p ?w3))"
    by (rule status_written [OF references_kept [OF conjunct1 [OF l]]]) simp
  let ?op = "active_build_op E (Some cfg) (pb_Namespace p) (pb_Name p) w"
  have op: "(res_Success (fst ?op) \<longleftrightarrow> idle_for p js) \<and> inc (p\<lparr>pb_Status := pb_Status ?p\<rparr>) js (snd ?op)"
    using g l u idle by (simp add: active_build_op_def updatePackerBuilderStatus_def split_beta Let_def result_message_def)
  then have "inc (p\<lparr>pb_Status := pb_Status ?p\<rparr>) js (snd (env_select E (30 * second) (snd ?op)))"
    using select by blast
  with op show ?thesis
    by (auto simp: ActiveBuildCheck_def packer_runWithTimeout_def go_laws selected)
qed

text \<open>AWS calls leave the cluster as it is.\<close>

lemma managers:
  assumes "inc p js w"
  shows "inc p js (snd (ami_New E region w)) \<and> (\<exists>cfg. fst (ami_New E region w) = Some cfg)"
    "inc p js (snd (packer_New E b w)) \<and> (\<exists>cfg. fst (packer_New E b w) = Some cfg)"
  using config [OF assms, of region] config [OF assms, of "sp_Region (pb_Spec b)"]
  by (auto simp: ami_New_def packer_New_def ClientAWS_def split_beta)

lemma image_calls:
  assumes "inc p js w"
  shows "inc p js (snd (BuildFilters E tags w))"
    "inc p js (snd (buildTagsAndFilters E b no_options w))"
    "inc p js (snd (DescribeImagesWithFilters E (Some cfg) fs w)) \<and>
      fst (DescribeImagesWithFilters E (Some cfg) fs w) = Returns (Inr [])"
  using order [OF assms] images [OF assms, of cfg fs] assms
  by (simp_all add: BuildFilters_def buildTagsAndFilters_def no_options_def DescribeImagesWithFilters_def
      go_laws split_beta Let_def)

lemma base_check:
  assumes "inc p js w"
  shows "inc p js (snd (BaseAMIExists E am [] w)) \<and> fst (BaseAMIExists E am [] w) =
    Returns (result_message True ''No AMI filters provided; skipping base AMI check'' '''')"
  using select [OF assms] by (simp add: BaseAMIExists_def ami_runWithTimeout_def go_laws selected)

lemma image_check:
  assumes "inc p js w"
  shows "inc p js (snd (AMIChecks E (Some cfg) tags d PackerBuilderCheck w)) \<and>
    fst (AMIChecks E (Some cfg) tags d PackerBuilderCheck w) =
      Returns (result_message True ''No AMIs found matching the provided tags'' '''')"
  using select image_calls(3) [OF image_calls(1) [OF assms], of cfg]
  by (simp add: AMIChecks_def ami_runWithTimeout_def PackerBuilderCheck_def go_laws selected)

lemma adoption:
  assumes "inc p js w"
  shows "\<exists>msg. fst (adoptionProcessor E (Some cfg) b w) = Returns (result_message True msg '''', b) \<and>
    inc p js (snd (adoptionProcessor E (Some cfg) b w))"
proof -
  obtain c where c: "fst (ami_New E cfg w) = Some c" "inc p js (snd (ami_New E cfg w))"
    using managers(1) [OF assms] by blast
  have "fst (adoptExistingImage E (Some cfg) b w) = Returns (Inl (ErrorString ''no valid images found''), b) \<and>
      inc p js (snd (adoptExistingImage E (Some cfg) b w))"
    using c image_calls(3) [OF image_calls(1) [OF image_calls(2) [OF c(2)]], of c]
    by (simp add: adoptExistingImage_def FindLatestImage_def go_outcome_def go_laws)
  then show ?thesis
    using select assms
    by (auto simp: adoptionProcessor_def packer_runWithTimeout_def adoption_op_def go_laws selected)
qed

lemma latest_check:
  assumes "inc p js w"
  shows "\<exists>r. fst (LatestAMIDoesNotExistsOrExpired E (Some cfg) d b w) = Returns (r, b) \<and> res_Success r \<and>
    \<not> str_contains (res_Message r) ''Base AMI'' \<and> inc p js (snd (LatestAMIDoesNotExistsOrExpired E (Some cfg) d b w))"
proof -
  obtain msg where a: "fst (adoptionProcessor E (Some cfg) b w) = Returns (result_message True msg '''', b)"
    "inc p js (snd (adoptionProcessor E (Some cfg) b w))"
    using adoption [OF assms] by blast
  let ?w1 = "snd (adoptionProcessor E (Some cfg) b w)"
  obtain c where c: "fst (ami_New E cfg ?w1) = Some c" "inc p js (snd (ami_New E cfg ?w1))"
    using managers(1) [OF a(2)] by blast
  let ?w2 = "snd (ami_New E cfg ?w1)"
  note check = image_check [OF image_calls(2) [OF c(2)], of c "fst (buildTagsAndFilters E b no_options ?w2)" d b]
  from a c check show ?thesis
    by (simp add: LatestAMIDoesNotExistsOrExpired_def go_laws)
qed

lemma checks_pass:
  assumes "inc p js (cx_world s)" "no_base_filters (cx_pb s)"
  shows "\<exists>w. performFlightChecks E d s =
    (Returns True, s\<lparr>cx_pb := set_builder (\<lambda>b. b\<lparr>bld_ImageType := ImageAMI\<rparr>) (cx_pb s), cx_world := w\<rparr>) \<and> inc p js w"
proof -
  let ?pb = "set_builder (\<lambda>b. b\<lparr>bld_ImageType := ImageAMI\<rparr>) (cx_pb s)"
  let ?am = "fst (ami_New E (sp_Region (pb_Spec (cx_pb s))) (cx_world s))"
  let ?w1 = "snd (ami_New E (sp_Region (pb_Spec (cx_pb s))) (cx_world s))"
  let ?w2 = "snd (packer_New E (cx_pb s) ?w1)"
  let ?w3 = "snd (BaseAMIExists E ?am [] ?w2)"
  have w1: "inc p js ?w1" using managers(1) [OF assms(1)] by blast
  obtain cfg where cfg: "fst (packer_New E (cx_pb s) ?w1) = Some cfg" and w2: "inc p js ?w2"
    using managers(2) [OF w1] by blast
  have base: "fst (BaseAMIExists E ?am [] ?w2) =
      Returns (result_message True ''No AMI filters provided; skipping base AMI check'' '''')" "inc p js ?w3"
    using base_check [OF w2] by blast+
  obtain r where latest: "fst (LatestAMIDoesNotExistsOrExpired E (Some cfg) d ?pb ?w3) = Returns (r, ?pb)"
    "res_Success r" "\<not> str_contains (res_Message r) ''Base AMI''"
    "inc p js (snd (LatestAMIDoesNotExistsOrExpired E (Some cfg) d ?pb ?w3))"
    using latest_check [OF base(2)] by blast
  have fs: "(case sp_AMIFilters (pb_Spec ?pb) of None \<Rightarrow> [] | Some fs \<Rightarrow> fs) = []"
    using assms(2) by (auto simp: no_base_filters_def)
  have "performFlightChecks E d s = (Returns True, s\<lparr>cx_pb := ?pb,
      cx_world := snd (LatestAMIDoesNotExistsOrExpired E (Some cfg) d ?pb ?w3)\<rparr>)"
    using cfg base(1) latest(1-3) fs
    by (simp add: performFlightChecks_def ctx_run go_laws split_beta Let_def result_message_def)
  with latest(4) show ?thesis by blast
qed

lemma flight_goes:
  assumes "works_on p js s" "idle_for p js" "no_base_filters (cx_pb s)"
    and "GetCurrentState (cx_runner s) (st_BuildID (pb_Status (cx_pb s))) = StateFlightChecks"
  shows "\<exists>s'. flightCheck E (Some cfg) s = (Returns Requeue, s') \<and> goes StateJobCreation p js s s' \<and>
    st_JobName (pb_Status (cx_pb s')) = st_JobName (pb_Status (cx_pb s))"
proof -
  have names: "pb_Namespace (cx_pb s) = pb_Namespace p" "pb_Name (cx_pb s) = pb_Name p"
    using assms(1) by simp_all
  obtain r w act where a: "ActiveBuildCheck E (Some cfg) (pb_Namespace p) (pb_Name p) (cx_world s) = (Returns r, w)"
    "res_Success r" "inc (p\<lparr>pb_Status := (pb_Status p)\<lparr>st_Active := act\<rparr>\<rparr>) js w"
    using active_check assms(1,2) by blast
  let ?p = "p\<lparr>pb_Status := (pb_Status p)\<lparr>st_Active := act\<rparr>\<rparr>"
  let ?d = "duration_or_zero (to_ExpiresIn (sp_TimeOuts (pb_Spec (cx_pb s))))"
  let ?pb = "set_builder (\<lambda>b. b\<lparr>bld_ImageType := ImageAMI\<rparr>) (cx_pb s)"
  obtain v where checks: "performFlightChecks E ?d (s\<lparr>cx_world := w\<rparr>) =
      (Returns True, s\<lparr>cx_pb := ?pb, cx_world := v\<rparr>)" "inc ?p js v"
    using checks_pass [of ?p js "s\<lparr>cx_world := w\<rparr>" ?d] a(3) assms(3) by auto
  let ?v = "s\<lparr>cx_pb := ?pb, cx_world := v\<rparr>"
  have "flightCheck E (Some cfg) s = move_or_error E ''Failed to transition to JobCreation state: ''
      (reconcileUpdate E StateJobCreation ''Transitioning to JobCreation'' LastRunStatusRunning
        ConditionTrue ConditionTypeJobCreated) ?v"
    using a(1,2) checks(1) by (simp add: flightCheck_def go_bind_run [of the_pb] go_bind_run [of "on_world m" for m]
        go_bind_run [of "performFlightChecks E d" for d] the_pb_def on_world_def split_beta Let_def names)
  from move_goes [where p = ?p and js = js and s = s and m = "flightCheck E (Some cfg)", OF this]
  obtain s' where "flightCheck E (Some cfg) s = (Returns Requeue, s')" "goes StateJobCreation ?p js s s'"
    "only_moved StateJobCreation (pb_Status (cx_pb ?v)) (pb_Status (cx_pb s'))"
    using assms(1,4) checks(2) by (auto simp: opsy_edge_iff quiet_slack_def)
  then show ?thesis
    using only_movedD by fastforce
qed

section \<open>JobCreation\<close>

text \<open>The job that is created: what \<open>build_job\<close> makes of the builder, owned by it.\<close>

lemma setup_writes:
  assumes "works_on p js s"
  shows "\<exists>s' i. setupJob E (Some cfg) s = (Returns None, s') \<and> cx_runner s' = cx_runner s \<and> length i = 5 \<and>
    i = take 5 (fst (env_uuid E (cx_world s))) \<and>
    pb_Meta (cx_pb s') = pb_Meta p \<and> sp_Notify (pb_Spec (cx_pb s')) = sp_Notify (pb_Spec p) \<and>
    inc (p\<lparr>pb_Status := pb_Status (cx_pb s')\<rparr>) js (cx_world s') \<and>
    st_BuildID (pb_Status (cx_pb s')) = st_BuildID (pb_Status (cx_pb s)) \<and>
    st_JobName (pb_Status (cx_pb s')) = pb_Name p @ ''-'' @ i \<and>
    bld_Secret (sp_Builder (pb_Spec (cx_pb s'))) = bld_Secret (sp_Builder (pb_Spec (cx_pb s)))"
proof -
  let ?u = "fst (env_uuid E (cx_world s))" and ?w1 = "snd (env_uuid E (cx_world s))"
  have u: "5 \<le> length ?u" "inc p js ?w1"
    using uuid assms by blast+
  let ?pb = "set_status (\<lambda>x. x\<lparr>st_JobID := take 5 ?u, st_JobName := pb_Name (cx_pb s) @ ''-'' @ take 5 ?u,
      st_JobStatus := JobStatusRunning\<rparr>) (cx_pb s)"
  have id: "short_id ?u = Returns (take 5 ?u)"
    using u(1) by (simp add: short_id_def)
  let ?ord = "fst (env_map_order E ?w1)" and ?w2 = "snd (env_map_order E ?w1)"
  obtain b where b: "construct_command ?ord ?pb = Some b"
    using construct_command_total by blast
  note frame = construct_command_frame [OF b]
  have secret: "bld_Secret (sp_Builder (pb_Spec b)) = bld_Secret (sp_Builder (pb_Spec (cx_pb s)))"
    using b by (auto simp: construct_command_def ensureDefaultCommands_eq)
  have key: "object_key (pb_Meta b) = object_key (pb_Meta p)"
    using frame(3) assms by simp
  let ?w3 = "snd (Status_Update E (pb_ops E) b ?w2)"
  have w3: "fst (Status_Update E (pb_ops E) b ?w2) = None" "inc (p\<lparr>pb_Status := pb_Status b\<rparr>) js ?w3"
    using status_written [OF order [OF u(2)] key] by blast+
  have key': "object_key (pb_Meta b) = object_key (pb_Meta (p\<lparr>pb_Status := pb_Status b\<rparr>))"
    using key by simp
  let ?w4 = "snd (Status_Update E (pb_ops E) b ?w3)"
  have w4: "fst (Status_Update E (pb_ops E) b ?w3) = None" "inc (p\<lparr>pb_Status := pb_Status b\<rparr>) js ?w4"
    using status_written [OF w3(2) key'] by simp_all
  have "setupJob E (Some cfg) s = (Returns None, s\<lparr>cx_pb := b, cx_world := ?w4\<rparr>)"
    using id b w3(1) w4(1)
    by (simp add: setupJob_def ConstructCommand_def ctx_run go_laws go_outcome_def split_beta)
  then show ?thesis
    using u(1) w4(2) frame assms secret
    by (intro exI [of _ "s\<lparr>cx_pb := b, cx_world := ?w4\<rparr>"] exI [of _ "take 5 ?u"]) auto
qed

lemma create_goes:
  assumes "works_on p js s" "bld_Secret (sp_Builder (pb_Spec (cx_pb s))) = ''''"
    and free: "\<forall>j \<in> set js. job_key j \<notin> {object_key (pb_Meta p),
      (pb_Namespace p, pb_Name p @ ''-'' @ take 5 (fst (env_uuid E (cx_world s))))}"
    and "GetCurrentState (cx_runner s) (st_BuildID (pb_Status (cx_pb s))) = StateJobCreation"
  shows "\<exists>s' j i. createBuild E (Some cfg) s = (Returns Requeue, s') \<and>
    goes StateJobRunning p (js @ [j]) s s' \<and> length i = 5 \<and>
    st_JobName (pb_Status (cx_pb s')) = pb_Name p @ ''-'' @ i \<and> job_key j = (pb_Namespace p, pb_Name p @ ''-'' @ i) \<and>
    job_Owner j = Some (object_key (pb_Meta p)) \<and> (''created-by'', pb_Name p) \<in> set (job_Labels j) \<and> \<not> job_finished j"
proof -
  obtain s1 i where s1: "setupJob E (Some cfg) s = (Returns None, s1)" "cx_runner s1 = cx_runner s" "length i = 5"
    and i: "i = take 5 (fst (env_uuid E (cx_world s)))"
    and s1': "pb_Meta (cx_pb s1) = pb_Meta p" "sp_Notify (pb_Spec (cx_pb s1)) = sp_Notify (pb_Spec p)"
    and w1: "inc (p\<lparr>pb_Status := pb_Status (cx_pb s1)\<rparr>) js (cx_world s1)"
    and id: "st_BuildID (pb_Status (cx_pb s1)) = st_BuildID (pb_Status (cx_pb s))"
    and name: "st_JobName (pb_Status (cx_pb s1)) = pb_Name p @ ''-'' @ i"
    and secret: "bld_Secret (sp_Builder (pb_Spec (cx_pb s1))) = ''''"
    using setup_writes [OF assms(1), of cfg] assms(2) by auto
  let ?p = "p\<lparr>pb_Status := pb_Status (cx_pb s1)\<rparr>"
  let ?pb = "set_builder (\<lambda>b. b\<lparr>bld_Debug := True\<rparr>) (cx_pb s1)"
  let ?raw = "build_job ?pb (debug_env ?pb)"
  have job: "Job E (Some cfg) (cx_pb s1) (cx_world s1) = (Returns (Inr ?raw, ?pb), cx_world s1)"
    using secret by (simp add: Job_def Let_def go_run_simps)
  let ?w2 = "snd (env_set_controller E ?pb ?raw (cx_world s1))"
  let ?j = "?raw\<lparr>job_Owner := Some (object_key (pb_Meta ?pb))\<rparr>"
  have owned: "inc ?p js ?w2" "fst (env_set_controller E ?pb ?raw (cx_world s1)) = Inr ?j"
    by (rule conjunct1 [OF owner [OF w1]], rule conjunct2 [OF owner [OF w1]])
  have key: "job_key ?j = (pb_Namespace p, pb_Name p @ ''-'' @ i)"
    using s1'(1) name by (simp add: job_key_def)
  let ?w3 = "snd (env_get_job E (object_key (pb_Meta ?pb)) ?w2)"
  obtain e where e: "fst (env_get_job E (object_key (pb_Meta ?pb)) ?w2) = Inl e" "is_not_found e" and w3: "inc ?p js ?w3"
    using get_job [OF owned(1), of "object_key (pb_Meta ?pb)"] free s1'(1) by auto
  let ?w4 = "snd (env_create_job E ?j ?w3)"
  have made: "inc ?p (js @ [?j]) ?w4" "fst (env_create_job E ?j ?w3) = None"
    using create [OF w3, of ?j] free key i by simp_all
  let ?v = "s1\<lparr>cx_pb := ?pb, cx_world := ?w4\<rparr>"
  have "create_job E ?j (s1\<lparr>cx_pb := ?pb, cx_world := ?w2\<rparr>) = (Returns None, ?v)"
    using e made(2) by (simp add: create_job_def ctx_run go_laws)
  then have "createBuild E (Some cfg) s = move_or_error E ''Failed to transition to JobRunning state: ''
      (reconcileUpdate E StateJobRunning ''Transitioning to JobRunning'' LastRunStatusRunning
        ConditionTrue ConditionTypeInProgress) ?v"
    using s1(1) job owned(2)
    by (simp add: createBuild_def go_bind_run [of "setupJob E pm" for pm] go_bind_run [of the_pb]
        go_bind_run [of "on_world m" for m] go_bind_run [of "put_pb p" for p]
        go_bind_run [of "create_job E j" for j] ctx_run go_run_simps split_beta)
  from move_goes [where p = ?p and js = "js @ [?j]" and s = s and m = "createBuild E (Some cfg)", OF this]
  obtain s' where s': "createBuild E (Some cfg) s = (Returns Requeue, s')" "goes StateJobRunning ?p (js @ [?j]) s s'"
    "only_moved StateJobRunning (pb_Status (cx_pb ?v)) (pb_Status (cx_pb s'))"
    using assms(1,4) s1(2) s1' id made(1) by (auto simp: opsy_edge_iff quiet_slack_def)
  have "goes StateJobRunning p (js @ [?j]) s s'"
    using s'(2) by simp
  moreover have "st_JobName (pb_Status (cx_pb s')) = pb_Name p @ ''-'' @ i"
    using only_movedD [OF s'(3)] name by simp
  moreover have "job_Owner ?j = Some (object_key (pb_Meta p))" "(''created-by'', pb_Name p) \<in> set (job_Labels ?j)"
    "\<not> job_finished ?j"
    using s1'(1) by (simp_all add: job_labels_def job_finished_def new_job_state_def)
  ultimately show ?thesis
    using s'(1) key s1(3) by blast
qed

section \<open>Whole reconciliations\<close>

text \<open>What the prefix of \<open>Reconcile\<close> keeps: the copy is the stored builder, up to the status.\<close>

abbreviation has_copy :: "packer_builder \<Rightarrow> job list \<Rightarrow> 'w ctx \<Rightarrow> bool" where
  "has_copy p js s \<equiv> (\<exists>x. inc (p\<lparr>pb_Status := x\<rparr>) js (cx_world s)) \<and>
     pb_Meta (cx_pb s) = pb_Meta p \<and> pb_Spec (cx_pb s) = pb_Spec p"

lemma id_drawn:
  assumes "has_copy p js s"
  shows "has_copy p js (snd (first_build_id E s)) \<and> st_BuildID (pb_Status (cx_pb (snd (first_build_id E s)))) \<noteq> ''''"
proof (cases "st_BuildID (pb_Status (cx_pb s)) = ''''")
  case True
  obtain x where x: "inc (p\<lparr>pb_Status := x\<rparr>) js (cx_world s)" using assms by blast
  have run: "first_build_id E s = (Returns (), s\<lparr>cx_world := snd (env_uuid E (cx_world s)),
      cx_pb := set_status (\<lambda>x. x\<lparr>st_BuildID := fst (env_uuid E (cx_world s))\<rparr>) (cx_pb s)\<rparr>)"
    using True by (simp add: first_build_id_def ctx_run go_laws split_beta)
  have "fst (env_uuid E (cx_world s)) \<noteq> ''''"
    using uuid [OF x] by auto
  then show ?thesis
    unfolding run using uuid [OF x] assms by auto
next
  case False
  then have "first_build_id E s = (Returns (), s)"
    by (simp add: first_build_id_def ctx_run go_laws)
  with assms False show ?thesis by simp
qed

lemma condition_kept:
  assumes "has_copy p js s"
  shows "has_copy p js (snd (first_condition E s))"
proof (cases "st_Conditions (pb_Status (cx_pb s)) = []")
  case True
  obtain x where x: "inc (p\<lparr>pb_Status := x\<rparr>) js (cx_world s)" using assms by blast
  have key: "object_key (pb_Meta (cx_pb s)) = object_key (pb_Meta (p\<lparr>pb_Status := x\<rparr>))"
    using assms by simp
  obtain cds w where c: "SetCondition E (pb_ops E) (cx_pb s) ConditionTypeInitial ConditionTrue ''Starting''
      ''Transitioning to Initializing'' (cx_world s) = ((None, set_status (\<lambda>x. x\<lparr>st_Conditions := cds\<rparr>) (cx_pb s)), w)"
    "inc (p\<lparr>pb_Status := x, pb_Status := (pb_Status (cx_pb s))\<lparr>st_Conditions := cds\<rparr>\<rparr>) js w"
    using condition_written [OF x key] by blast
  have "snd (first_condition E s) = s\<lparr>cx_world := w, cx_pb := set_status (\<lambda>x. x\<lparr>st_Conditions := cds\<rparr>) (cx_pb s)\<rparr>"
    using True c(1) by (simp add: first_condition_def set_condition_pb_def ctx_run go_laws)
  with c(2) assms show ?thesis by auto
next
  case False
  then have "snd (first_condition E s) = s"
    by (simp add: first_condition_def ctx_run go_laws)
  with assms show ?thesis by simp
qed

lemma state_kept:
  assumes "has_copy p js s"
  shows "has_copy p js (snd (first_state E s)) \<and> fst (first_state E s) = Returns None"
proof (cases "st_State (pb_Status (cx_pb s)) = StateUnset")
  case True
  let ?b = "set_status (\<lambda>s. s\<lparr>st_State := StateInitial\<rparr>) (cx_pb s)"
  obtain x where x: "inc (p\<lparr>pb_Status := x\<rparr>) js (cx_world s)" using assms by blast
  have key: "object_key (pb_Meta ?b) = object_key (pb_Meta (p\<lparr>pb_Status := x\<rparr>))"
    using assms by simp
  note u = status_written [OF x key]
  have "first_state E s = (Returns None, s\<lparr>cx_pb := ?b, cx_world := snd (Status_Update E (pb_ops E) ?b (cx_world s))\<rparr>)"
    using True u by (simp add: first_state_def ctx_run go_laws split_beta)
  with u assms show ?thesis by auto
next
  case False
  then have "first_state E s = (Returns None, s)"
    by (simp add: first_state_def ctx_run go_laws)
  with assms show ?thesis by simp
qed

text \<open>
  The status a handler starts with: a state, an identifier and the counters of the stored builder.
\<close>

abbreviation opened :: "packer_builder_status \<Rightarrow> packer_builder_status \<Rightarrow> bool" where
  "opened st st' \<equiv> st_State st' = (if st_State st = StateUnset then StateInitial else st_State st) \<and>
     st_BuildID st' \<noteq> '''' \<and> (st_BuildID st \<noteq> '''' \<longrightarrow> st_BuildID st' = st_BuildID st) \<and>
     st_MaxNumberOfFailedJobs st' = st_MaxNumberOfFailedJobs st \<and> st_FailedJobCount st' = st_FailedJobCount st \<and>
     st_JobName st' = st_JobName st"

lemma reconcile_enters:
  assumes "inc p js (cx_world s)"
  shows "\<exists>v. Reconcile E n (object_key (pb_Meta p)) s = catchRek E n v \<and> cx_runner v = cx_runner s \<and>
    has_copy p js v \<and> opened (pb_Status p) (pb_Status (cx_pb v))"
proof -
  let ?w = "snd (env_get_pb E (object_key (pb_Meta p)) (cx_world s))"
  have g: "inc p js ?w" "fst (env_get_pb E (object_key (pb_Meta p)) (cx_world s)) = Inr p"
    using get [OF assms refl] by simp_all
  let ?s0 = "s\<lparr>cx_world := ?w, cx_pb := p\<rparr>"
  let ?s1 = "snd (first_build_id E ?s0)"
  let ?s2 = "snd (first_condition E ?s1)"
  let ?s3 = "snd (first_state E ?s2)"
  have 0: "has_copy p js ?s0"
    using g(1) by (auto intro: exI [of _ "pb_Status p"])
  note 1 = id_drawn [OF 0]
  note 2 = condition_kept [OF conjunct1 [OF 1]]
  note 3 = state_kept [OF 2]
  note frames = first_build_id_frame [of E ?s0] first_condition_frame [of E ?s1] first_state_frame [of E ?s2]
  have runs: "fst (first_build_id E ?s0) = Returns ()" "fst (first_condition E ?s1) = Returns ()"
    "fst (first_state E ?s2) = Returns None"
    using frames 3 by blast+
  have "Reconcile E n (object_key (pb_Meta p)) s = go_bind (first_build_id E) (\<lambda>u.
      go_bind (first_condition E) (\<lambda>u. go_bind (first_state E) (\<lambda>failed.
      case failed of Some err \<Rightarrow> go_return (Some (if is_deadline err then Requeue else Failed err))
      | None \<Rightarrow> catchRek E n))) ?s0"
    using g(2) by (simp add: Reconcile_def go_bind_run [of "on_world (go_call c)" for c]
        go_bind_run [of "put_pb p" for p] ctx_run go_run_simps split_beta)
  also have "\<dots> = catchRek E n ?s3"
    by (simp only: go_bind_at [of "first_build_id E", OF runs(1)] go_bind_at [of "first_condition E", OF runs(2)]
        go_bind_at [of "first_state E", OF runs(3)] option.case)
  finally have "Reconcile E n (object_key (pb_Meta p)) s = catchRek E n ?s3" .
  moreover have "cx_runner ?s3 = cx_runner s"
    using conjunct1 [OF frames(1)] conjunct1 [OF frames(2)] conjunct1 [OF frames(3)] by simp
  moreover have "opened (pb_Status p) (pb_Status (cx_pb ?s3))"
  proof -
    obtain i where i: "cx_pb ?s1 = set_status (\<lambda>x. x\<lparr>st_BuildID := i\<rparr>) p"
      "st_BuildID (pb_Status p) \<noteq> '''' \<longrightarrow> i = st_BuildID (pb_Status p)"
      using frames(1) by auto
    have "i \<noteq> ''''"
      using conjunct2 [OF 1] unfolding i(1) by simp
    moreover obtain cs where c: "cx_pb ?s2 = set_status (\<lambda>x. x\<lparr>st_Conditions := cs\<rparr>) (cx_pb ?s1)"
      using frames(2) by blast
    moreover obtain st where "cx_pb ?s3 = set_status (\<lambda>x. x\<lparr>st_State := st\<rparr>) (cx_pb ?s2)"
      "st = (if st_State (pb_Status (cx_pb ?s2)) = StateUnset then StateInitial else st_State (pb_Status (cx_pb ?s2)))"
      using frames(3) by blast
    ultimately show ?thesis
      using i(2) by (simp only: i(1) c set_status_simps) simp
  qed
  ultimately show ?thesis
    using conjunct1 [OF 3] by blast
qed

text \<open>The handlers as the dispatch runs them.\<close>

lemma dispatch_runs:
  "init_build E v = (Returns r, s') \<Longrightarrow> dispatch E n pm StateInitial v = (Returns (Some r), s')"
  "flightCheck E pm v = (Returns r, s') \<Longrightarrow> dispatch E n pm StateFlightChecks v = (Returns (Some r), s')"
  "createBuild E pm v = (Returns r, s') \<Longrightarrow> dispatch E n pm StateJobCreation v = (Returns (Some r), s')"
  "completeBuild E v = (Returns r, s') \<Longrightarrow> dispatch E n pm StateJobCompleted v = (Returns (Some r), s')"
  "cleanupBuild E pm v = (Returns r, s') \<Longrightarrow> dispatch E n pm StateAMICreated v = (Returns (Some r), s')"
  "errorBuild E v = (Returns r, s') \<Longrightarrow> dispatch E n pm StateError v = (Returns (Some r), s')"
  by (simp_all add: dispatch_def go_bind_at go_return_def)

text \<open>A reconciliation whose runner agrees runs the handler of the builder's state.\<close>

lemma reconcile_runs:
  assumes "inc p js (cx_world s)" "runner_wf (cx_runner s)" "quiet_slack p"
    and "n = (if st_State (pb_Status p) = StateUnset then StateInitial else st_State (pb_Status p))"
    and agrees: "\<And>i. st_BuildID (pb_Status p) \<in> {'''', i} \<Longrightarrow> GetCurrentState (cx_runner s) i = n"
    and runs: "\<And>cfg x v. works_on (p\<lparr>pb_Status := x\<rparr>) js v \<Longrightarrow> pb_Meta (cx_pb v) = pb_Meta p \<Longrightarrow>
      pb_Spec (cx_pb v) = pb_Spec p \<Longrightarrow> opened (pb_Status p) (pb_Status (cx_pb v)) \<Longrightarrow>
      GetCurrentState (cx_runner v) (st_BuildID (pb_Status (cx_pb v))) = n \<Longrightarrow>
      \<exists>s'. dispatch E fuel (Some cfg) n v = (Returns (Some Requeue), s') \<and> Q (st_BuildID (pb_Status (cx_pb v))) (cx_runner v) s'"
  shows "\<exists>i s'. Reconcile E fuel (object_key (pb_Meta p)) s = (Returns (Some Requeue), s') \<and>
    i \<noteq> '''' \<and> (st_BuildID (pb_Status p) \<noteq> '''' \<longrightarrow> i = st_BuildID (pb_Status p)) \<and>
    Q i (cx_runner s) s'"
proof -
  obtain v x where v: "Reconcile E fuel (object_key (pb_Meta p)) s = catchRek E fuel v" "cx_runner v = cx_runner s"
    "inc (p\<lparr>pb_Status := x\<rparr>) js (cx_world v)" "pb_Meta (cx_pb v) = pb_Meta p" "pb_Spec (cx_pb v) = pb_Spec p"
    "opened (pb_Status p) (pb_Status (cx_pb v))"
    using reconcile_enters [OF assms(1)] by blast
  have now: "GetCurrentState (cx_runner v) (st_BuildID (pb_Status (cx_pb v))) = n"
    using agrees [of "st_BuildID (pb_Status (cx_pb v))"] v(2,6) by auto
  let ?w = "snd (packer_New E (cx_pb v) (cx_world v))"
  obtain cfg where cfg: "fst (packer_New E (cx_pb v) (cx_world v)) = Some cfg"
    and w: "inc (p\<lparr>pb_Status := x\<rparr>) js ?w"
    using managers(2) [OF v(3)] by blast
  let ?v = "v\<lparr>cx_world := ?w\<rparr>"
  obtain s' where "dispatch E fuel (Some cfg) n ?v = (Returns (Some Requeue), s')" "Q (st_BuildID (pb_Status (cx_pb v))) (cx_runner v) s'"
    using runs [of x ?v cfg] w v(2,4-6) now assms(2,3) by (auto simp: quiet_slack_def)
  moreover have "catchRek E fuel v = dispatch E fuel (Some cfg) n ?v"
    using dispatched [of v E fuel] now cfg assms(4) v(6) by simp
  ultimately show ?thesis
    using v(1,2,6) by auto
qed

section \<open>A build begins\<close>

text \<open>What a reconciliation that has moved the build leaves.\<close>

abbreviation stored :: "pb_state \<Rightarrow> bytes \<Rightarrow> packer_builder \<Rightarrow> job list \<Rightarrow> 'w ctx \<Rightarrow> bool" where
  "stored \<equiv> stored_in inc"

lemma goes_stored:
  assumes "goes n (p\<lparr>pb_Status := x\<rparr>) js v s'" "runner_wf (cx_runner v)" "st_BuildID (pb_Status (cx_pb v)) = i" "i \<noteq> ''''"
    and "opsy_edge (GetCurrentState (cx_runner v) i) n"
  shows "stored n i p js s'"
proof -
  have "pb_Meta (cx_pb s') = pb_Meta p" "pb_Spec (cx_pb s') = pb_Spec p"
    by (subst conjunct1 [OF assms(1)], simp)+
  then show ?thesis
    using assms(2-5) conjunct2 [OF assms(1)] by (simp add: SetState_current)
qed

lemma reconcile_goes:
  assumes "inc p js (cx_world s)" "runner_wf (cx_runner s)" "quiet_slack p"
    and "n = (if st_State (pb_Status p) = StateUnset then StateInitial else st_State (pb_Status p))"
    and agrees: "\<And>i. st_BuildID (pb_Status p) \<in> {'''', i} \<Longrightarrow> GetCurrentState (cx_runner s) i = n"
    and "opsy_edge n n'"
    and runs: "\<And>cfg x v. works_on (p\<lparr>pb_Status := x\<rparr>) js v \<Longrightarrow> pb_Meta (cx_pb v) = pb_Meta p \<Longrightarrow>
      pb_Spec (cx_pb v) = pb_Spec p \<Longrightarrow> opened (pb_Status p) (pb_Status (cx_pb v)) \<Longrightarrow>
      GetCurrentState (cx_runner v) (st_BuildID (pb_Status (cx_pb v))) = n \<Longrightarrow>
      \<exists>s' js'. dispatch E fuel (Some cfg) n v = (Returns (Some Requeue), s') \<and> goes n' (p\<lparr>pb_Status := x\<rparr>) js' v s' \<and> R js' s'"
  shows "\<exists>s' i js'. Reconcile E fuel (object_key (pb_Meta p)) s = (Returns (Some Requeue), s') \<and>
    stored n' i p js' s' \<and> (st_BuildID (pb_Status p) \<noteq> '''' \<longrightarrow> i = st_BuildID (pb_Status p)) \<and> R js' s'"
proof -
  let ?Q = "\<lambda>i r s'. \<exists>x v js'. goes n' (p\<lparr>pb_Status := x\<rparr>) js' v s' \<and>
    st_BuildID (pb_Status (cx_pb v)) = i \<and> cx_runner v = r \<and> GetCurrentState r i = n \<and> R js' s'"
  have "\<exists>i s'. Reconcile E fuel (object_key (pb_Meta p)) s = (Returns (Some Requeue), s') \<and>
    i \<noteq> '''' \<and> (st_BuildID (pb_Status p) \<noteq> '''' \<longrightarrow> i = st_BuildID (pb_Status p)) \<and> ?Q i (cx_runner s) s'"
    by (rule reconcile_runs [where Q = ?Q, OF assms(1-4) agrees])
      (assumption, use runs in blast)
  then obtain i s' x v js' where r: "Reconcile E fuel (object_key (pb_Meta p)) s = (Returns (Some Requeue), s')"
    "i \<noteq> ''''" "st_BuildID (pb_Status p) \<noteq> '''' \<longrightarrow> i = st_BuildID (pb_Status p)" "R js' s'"
    and g: "goes n' (p\<lparr>pb_Status := x\<rparr>) js' v s'" "st_BuildID (pb_Status (cx_pb v)) = i"
      "cx_runner v = cx_runner s" "GetCurrentState (cx_runner s) i = n"
    by blast
  have "stored n' i p js' s'"
    by (rule goes_stored [OF g(1)]) (use g r(2) assms(2,6) in simp_all)
  with r show ?thesis by blast
qed

text \<open>The three reconciliations.\<close>

lemma first_reconcile:
  assumes "inc p js (cx_world s)" "cx_runner s = opsy_New" "quiet_slack p" "st_State (pb_Status p) = StateUnset" "may_fail p"
  shows "\<exists>s' i. Reconcile E fuel (object_key (pb_Meta p)) s = (Returns (Some Requeue), s') \<and> stored StateFlightChecks i p js s'"
proof -
  have wf: "runner_wf (cx_runner s)"
    using assms(2) by (simp add: runner_wf_def)
  have "\<exists>s' i js'. Reconcile E fuel (object_key (pb_Meta p)) s = (Returns (Some Requeue), s') \<and>
    stored StateFlightChecks i p js' s' \<and> (st_BuildID (pb_Status p) \<noteq> '''' \<longrightarrow> i = st_BuildID (pb_Status p)) \<and> js' = js"
  proof (rule reconcile_goes [where n = StateInitial and R = "\<lambda>js' s'. js' = js",
        OF assms(1) wf assms(3)])
    fix cfg x v
    assume v: "works_on (p\<lparr>pb_Status := x\<rparr>) js v" "opened (pb_Status p) (pb_Status (cx_pb v))"
      "GetCurrentState (cx_runner v) (st_BuildID (pb_Status (cx_pb v))) = StateInitial"
    have "\<exists>s'. init_build E v = (Returns Requeue, s') \<and> goes StateFlightChecks (p\<lparr>pb_Status := x\<rparr>) js v s' \<and>
        st_JobName (pb_Status (cx_pb s')) = st_JobName (pb_Status (cx_pb v))"
      by (rule init_goes [OF v(1,3)]) (use v(2) assms(5) in \<open>simp add: may_fail_def\<close>)
    then show "\<exists>s' js'. dispatch E fuel (Some cfg) StateInitial v = (Returns (Some Requeue), s') \<and>
        goes StateFlightChecks (p\<lparr>pb_Status := x\<rparr>) js' v s' \<and> js' = js"
      using dispatch_runs(1) by blast
  qed (use assms in \<open>simp_all add: opsy_edge_iff\<close>)
  then show ?thesis by blast
qed

text \<open>
  A reconciliation of the builder that another one has left, for a handler that only moves it: \<open>R\<close>
  relates the status the handler starts with and the one it leaves.
\<close>

lemma stored_moves:
  assumes "stored n i p js s" "quiet_slack p" "n \<noteq> StateUnset"
    and "opsy_edge n n'"
    and runs: "\<And>cfg x v. works_on ((cx_pb s)\<lparr>pb_Status := x\<rparr>) js v \<Longrightarrow> pb_Spec (cx_pb v) = pb_Spec p \<Longrightarrow>
      opened (pb_Status (cx_pb s)) (pb_Status (cx_pb v)) \<Longrightarrow>
      GetCurrentState (cx_runner v) (st_BuildID (pb_Status (cx_pb v))) = n \<Longrightarrow>
      \<exists>s'. dispatch E fuel (Some cfg) n v = (Returns (Some Requeue), s') \<and> goes n' ((cx_pb s)\<lparr>pb_Status := x\<rparr>) js v s' \<and>
        R (pb_Status (cx_pb v)) (pb_Status (cx_pb s'))"
  shows "\<exists>s' x. Reconcile E fuel (object_key (pb_Meta p)) s = (Returns (Some Requeue), s') \<and> stored n' i p js s' \<and>
    opened (pb_Status (cx_pb s)) x \<and> R x (pb_Status (cx_pb s'))"
proof -
  let ?p = "cx_pb s"
  have p: "pb_Meta ?p = pb_Meta p" "pb_Spec ?p = pb_Spec p"
    using assms(1) by blast+
  have side: "inc ?p js (cx_world s)" "runner_wf (cx_runner s)" "quiet_slack ?p"
    "n = (if st_State (pb_Status ?p) = StateUnset then StateInitial else st_State (pb_Status ?p))"
    using assms(1-3) p by (simp_all add: quiet_slack_def)
  let ?R = "\<lambda>js' s'. js' = js \<and> (\<exists>x. opened (pb_Status ?p) x \<and> R x (pb_Status (cx_pb s')))"
  have "\<exists>s' i' js'. Reconcile E fuel (object_key (pb_Meta ?p)) s = (Returns (Some Requeue), s') \<and>
    stored n' i' ?p js' s' \<and> (st_BuildID (pb_Status ?p) \<noteq> '''' \<longrightarrow> i' = st_BuildID (pb_Status ?p)) \<and> ?R js' s'"
  proof (rule reconcile_goes [where R = ?R, OF side])
    fix cfg x v
    assume v: "works_on (?p\<lparr>pb_Status := x\<rparr>) js v" "pb_Spec (cx_pb v) = pb_Spec ?p"
      "opened (pb_Status ?p) (pb_Status (cx_pb v))"
      "GetCurrentState (cx_runner v) (st_BuildID (pb_Status (cx_pb v))) = n"
    obtain s' where "dispatch E fuel (Some cfg) n v = (Returns (Some Requeue), s')" "goes n' (?p\<lparr>pb_Status := x\<rparr>) js v s'"
      "R (pb_Status (cx_pb v)) (pb_Status (cx_pb s'))"
      using runs [OF v(1) _ v(3,4)] v(2) p(2) by metis
    with v(3) show "\<exists>s' js'. dispatch E fuel (Some cfg) n v = (Returns (Some Requeue), s') \<and> goes n' (?p\<lparr>pb_Status := x\<rparr>) js' v s' \<and> ?R js' s'"
      by blast
  qed (use assms(1,4) in simp_all)
  then obtain s' i' where s': "Reconcile E fuel (object_key (pb_Meta ?p)) s = (Returns (Some Requeue), s')"
    "stored n' i' ?p js s'" "st_BuildID (pb_Status ?p) \<noteq> '''' \<longrightarrow> i' = st_BuildID (pb_Status ?p)"
    "\<exists>x. opened (pb_Status ?p) x \<and> R x (pb_Status (cx_pb s'))"
    by blast
  have "i' = i" using s'(3) assms(1) by simp
  with s'(1,2) have "Reconcile E fuel (object_key (pb_Meta p)) s = (Returns (Some Requeue), s')" "stored n' i p js s'"
    by (simp_all add: p)
  with s'(4) show ?thesis by blast
qed

lemma second_reconcile:
  assumes "stored StateFlightChecks i p js s" "quiet_slack p" "no_base_filters p" "idle_for p js"
  shows "\<exists>s'. Reconcile E fuel (object_key (pb_Meta p)) s = (Returns (Some Requeue), s') \<and> stored StateJobCreation i p js s'"
proof -
  have "\<exists>s' x. Reconcile E fuel (object_key (pb_Meta p)) s = (Returns (Some Requeue), s') \<and> stored StateJobCreation i p js s' \<and>
    opened (pb_Status (cx_pb s)) x \<and> st_JobName (pb_Status (cx_pb s')) = st_JobName x"
  proof (rule stored_moves [where R = "\<lambda>x y. st_JobName y = st_JobName x", OF assms(1,2)])
    fix cfg x v
    assume v: "works_on ((cx_pb s)\<lparr>pb_Status := x\<rparr>) js v" "pb_Spec (cx_pb v) = pb_Spec p"
      "GetCurrentState (cx_runner v) (st_BuildID (pb_Status (cx_pb v))) = StateFlightChecks"
    have "\<exists>s'. flightCheck E (Some cfg) v = (Returns Requeue, s') \<and> goes StateJobCreation ((cx_pb s)\<lparr>pb_Status := x\<rparr>) js v s' \<and>
        st_JobName (pb_Status (cx_pb s')) = st_JobName (pb_Status (cx_pb v))"
      by (rule flight_goes [OF v(1) _ _ v(3)]) (use v(2) assms(1,3,4) in \<open>simp_all add: idle_for_def no_base_filters_def\<close>)
    then show "\<exists>s'. dispatch E fuel (Some cfg) StateFlightChecks v = (Returns (Some Requeue), s') \<and>
        goes StateJobCreation ((cx_pb s)\<lparr>pb_Status := x\<rparr>) js v s' \<and>
        st_JobName (pb_Status (cx_pb s')) = st_JobName (pb_Status (cx_pb v))"
      using dispatch_runs(2) by blast
  qed (simp_all add: opsy_edge_iff)
  then show ?thesis by blast
qed

lemma third_reconcile:
  assumes "stored StateJobCreation i p js s" "quiet_slack p" "bld_Secret (sp_Builder (pb_Spec p)) = ''''" "names_free E inc p js"
  shows "\<exists>s' j. Reconcile E fuel (object_key (pb_Meta p)) s = (Returns (Some Requeue), s') \<and>
    stored StateJobRunning i p (js @ [j]) s' \<and> owned_job p j (st_JobName (pb_Status (cx_pb s')))"
proof -
  let ?p = "cx_pb s"
  have p: "pb_Meta ?p = pb_Meta p" "pb_Spec ?p = pb_Spec p"
    using assms(1) by blast+
  have same: "?p\<lparr>pb_Status := x\<rparr> = p\<lparr>pb_Status := x\<rparr>" for x
    by (rule packer_builder.equality) (simp_all add: p)
  have free: "names_free E inc ?p js"
    using assms(4) by (simp add: names_free_def p same)
  have side: "inc ?p js (cx_world s)" "runner_wf (cx_runner s)" "quiet_slack ?p"
    "StateJobCreation = (if st_State (pb_Status ?p) = StateUnset then StateInitial else st_State (pb_Status ?p))"
    using assms(1,2) p by (simp_all add: quiet_slack_def)
  let ?R = "\<lambda>js' s'. \<exists>j. js' = js @ [j] \<and> owned_job p j (st_JobName (pb_Status (cx_pb s')))"
  have "\<exists>s' i' js'. Reconcile E fuel (object_key (pb_Meta ?p)) s = (Returns (Some Requeue), s') \<and>
    stored StateJobRunning i' ?p js' s' \<and> (st_BuildID (pb_Status ?p) \<noteq> '''' \<longrightarrow> i' = st_BuildID (pb_Status ?p)) \<and> ?R js' s'"
  proof (rule reconcile_goes [where R = ?R, OF side])
    fix cfg x v
    assume v: "works_on (?p\<lparr>pb_Status := x\<rparr>) js v" "pb_Spec (cx_pb v) = pb_Spec ?p"
      "GetCurrentState (cx_runner v) (st_BuildID (pb_Status (cx_pb v))) = StateJobCreation"
    have key: "\<forall>j \<in> set js. job_key j \<notin> {object_key (pb_Meta (?p\<lparr>pb_Status := x\<rparr>)),
        (pb_Namespace (?p\<lparr>pb_Status := x\<rparr>), pb_Name (?p\<lparr>pb_Status := x\<rparr>) @ ''-'' @ take 5 (fst (env_uuid E (cx_world v))))}"
      using mp [OF spec [OF spec [OF free [unfolded names_free_def]]] conjunct1 [OF v(1)]] by simp
    have secret: "bld_Secret (sp_Builder (pb_Spec (cx_pb v))) = ''''"
      using v(2) assms(3) p by simp
    from create_goes [OF v(1) secret key v(3), of cfg]
    obtain s' j k where c: "createBuild E (Some cfg) v = (Returns Requeue, s')"
      "goes StateJobRunning (?p\<lparr>pb_Status := x\<rparr>) (js @ [j]) v s'" "length k = 5"
      "st_JobName (pb_Status (cx_pb s')) = pb_Name p @ ''-'' @ k" "job_key j = (pb_Namespace p, pb_Name p @ ''-'' @ k)"
      "job_Owner j = Some (object_key (pb_Meta p))" "(''created-by'', pb_Name p) \<in> set (job_Labels j)" "\<not> job_finished j"
      by (simp add: p) blast
    then have "?R (js @ [j]) s'"
      by (intro exI [of _ j] conjI refl exI [of _ k]) simp_all
    with dispatch_runs(3) [OF c(1)] c(2) show "\<exists>s' js'. dispatch E fuel (Some cfg) StateJobCreation v =
        (Returns (Some Requeue), s') \<and> goes StateJobRunning (?p\<lparr>pb_Status := x\<rparr>) js' v s' \<and> ?R js' s'"
      by blast
  qed (use assms(1) in \<open>simp_all add: opsy_edge_iff\<close>)
  then obtain s' i' j where s': "Reconcile E fuel (object_key (pb_Meta ?p)) s = (Returns (Some Requeue), s')"
    "stored StateJobRunning i' ?p (js @ [j]) s'" "st_BuildID (pb_Status ?p) \<noteq> '''' \<longrightarrow> i' = st_BuildID (pb_Status ?p)"
    "owned_job p j (st_JobName (pb_Status (cx_pb s')))"
    by blast
  have "i' = i" using s'(3) assms(1) by simp
  with s' show ?thesis by (simp add: p) blast
qed

lemma build_begins:
  assumes "inc p js (cx_world s)" "cx_runner s = opsy_New" "quiet_slack p" "st_State (pb_Status p) = StateUnset" "may_fail p"
    and "no_base_filters p" "bld_Secret (sp_Builder (pb_Spec p)) = ''''" "idle_for p js" "names_free E inc p js"
  shows "\<exists>s1 s2 s3 i j. Reconcile E fuel (object_key (pb_Meta p)) s = (Returns (Some Requeue), s1) \<and>
    Reconcile E fuel (object_key (pb_Meta p)) s1 = (Returns (Some Requeue), s2) \<and>
    Reconcile E fuel (object_key (pb_Meta p)) s2 = (Returns (Some Requeue), s3) \<and>
    stored StateFlightChecks i p js s1 \<and> stored StateJobCreation i p js s2 \<and>
    stored StateJobRunning i p (js @ [j]) s3 \<and> owned_job p j (st_JobName (pb_Status (cx_pb s3)))"
proof -
  obtain s1 i where 1: "Reconcile E fuel (object_key (pb_Meta p)) s = (Returns (Some Requeue), s1)"
    "stored StateFlightChecks i p js s1"
    using first_reconcile [OF assms(1-5)] by blast
  obtain s2 where 2: "Reconcile E fuel (object_key (pb_Meta p)) s1 = (Returns (Some Requeue), s2)"
    "stored StateJobCreation i p js s2"
    using second_reconcile [OF 1(2) assms(3,6,8)] by blast
  obtain s3 j where 3: "Reconcile E fuel (object_key (pb_Meta p)) s2 = (Returns (Some Requeue), s3)"
    "stored StateJobRunning i p (js @ [j]) s3 \<and> owned_job p j (st_JobName (pb_Status (cx_pb s3)))"
    using third_reconcile [OF 2(2) assms(3,7,9)] by blast
  show ?thesis
    by (rule exI [of _ s1], rule exI [of _ s2], rule exI [of _ s3], rule exI [of _ i], rule exI [of _ j])
      (rule conjI [OF 1(1) conjI [OF 2(1) conjI [OF 3(1) conjI [OF 1(2) conjI [OF 2(2) 3(2)]]]]])
qed

end

section \<open>The simulated environment is such an API server\<close>

definition sim_holds :: "packer_builder \<Rightarrow> job list \<Rightarrow> sim \<Rightarrow> bool" where
  "sim_holds p js w \<longleftrightarrow> sim_pb w = Some p \<and> sim_jobs w = js \<and> sim_fails w = [] \<and> sim_images w = []"

lemma job_missing: "\<forall>j \<in> set js. job_key j \<noteq> k \<Longrightarrow> find_job k js = None"
  by (auto simp: find_job_def find_None_iff)

interpretation simulated: cluster sim_env sim_holds
proof
  show "retry_documented sim_env" "never_cut_off sim_env"
    by (rule sim_env_retry, rule sim_env_never_cut_off)
qed (simp_all add: sim_holds_def sim_calls sim_read_def sim_effect_def option_found_def store_status_def job_missing not_found_error_def is_not_found_def)


text \<open>An applied builder beside a finished job of its own and a running job of another builder.\<close>

definition applied_pb :: packer_builder where
  "applied_pb = set_status (\<lambda>x. x\<lparr>st_BuildID := '''', st_State := StateUnset\<rparr>) example_pb"

definition earlier_jobs :: "job list" where
  "earlier_jobs =
     [(build_job applied_pb [])\<lparr>job_Name := ''pb-00000'', job_State := \<lparr>js_Succeeded = 1, js_Failed = 0,
        js_Conditions = [\<lparr>jc_Type = JobComplete, jc_Status = ConditionTrue, jc_Message = ''''\<rparr>]\<rparr>\<rparr>,
      (build_job applied_pb [])\<lparr>job_Name := ''other-11111'', job_Labels := [(''created-by'', ''other'')]\<rparr>]"

definition applied_start :: "sim ctx" where
  "applied_start = \<lparr>cx_world = (sim_start applied_pb)\<lparr>sim_jobs := earlier_jobs\<rparr>, cx_runner = opsy_New, cx_pb = applied_pb\<rparr>"

lemma applied_fields:
  "pb_Name applied_pb = ''pb''" "pb_Namespace applied_pb = ''ns''" "object_key (pb_Meta applied_pb) = (''ns'', ''pb'')"
  "sp_AMIFilters (pb_Spec applied_pb) = None" "bld_Secret (sp_Builder (pb_Spec applied_pb)) = ''''"
  "st_State (pb_Status applied_pb) = StateUnset" "st_FailedJobCount (pb_Status applied_pb) = None"
  "st_MaxNumberOfFailedJobs (pb_Status applied_pb) = None" "slack_isEmpty (nf_Slack (sp_Notify (pb_Spec applied_pb)))"
  by (simp_all add: applied_pb_def example_pb_def object_key_def slack_isEmpty_def)

lemma applied_holds:
  "sim_holds applied_pb earlier_jobs (cx_world applied_start)" "cx_runner applied_start = opsy_New"
  "quiet_slack applied_pb" "st_State (pb_Status applied_pb) = StateUnset" "may_fail applied_pb"
  "no_base_filters applied_pb" "bld_Secret (sp_Builder (pb_Spec applied_pb)) = ''''"
  "idle_for applied_pb earlier_jobs" "names_free sim_env sim_holds applied_pb earlier_jobs"
  by (simp_all add: sim_holds_def applied_start_def sim_start_def idle_for_def names_free_def earlier_jobs_def
      applied_fields job_finished_def job_key_def build_job_def sim_calls may_fail_def quiet_slack_def no_base_filters_def)


end
