(* ===== verification/Build_End.thy ===== *)
theory Build_End
  imports Cluster
begin

text \<open>
  The end of a successful build, in whole reconciliations: an API server that keeps what it is given,
  whose watch reports the success of the running job, and an AWS account that deletes what it is asked
  to delete.
\<close>

locale finishing_cluster = cluster E inc
  for E :: "'w env" and inc +
  assumes key_pair: "inc p js w \<Longrightarrow> inc p js (snd (env_describe_key_pairs E c ns w)) \<and>
      fst (env_describe_key_pairs E c ns w) = None"
    and delete_key_pair: "inc p js w \<Longrightarrow> inc p js (snd (env_delete_key_pair E c name w)) \<and>
      fst (env_delete_key_pair E c name w) = None"
    and group: "inc p js w \<Longrightarrow> inc p js (snd (env_describe_security_groups E c ids w)) \<and>
      fst (env_describe_security_groups E c ids w) = None"
    and delete_group: "inc p js w \<Longrightarrow> inc p js (snd (env_delete_security_group E c i w)) \<and>
      fst (env_delete_security_group E c i w) = None"
    and succeeds: "inc p js w \<Longrightarrow> \<exists>st w1 w2. env_run_choice E w = (WatchDelivers (WatchJob st), w1) \<and>
      env_run_choice E w1 = (TakeResult, w2) \<and> inc p js w2 \<and> 0 < sint (js_Succeeded st)"
begin

lemma complete_goes:
  assumes "works_on p js s" "GetCurrentState (cx_runner s) (st_BuildID (pb_Status (cx_pb s))) = StateJobCompleted"
  shows "\<exists>s'. completeBuild E s = (Returns Requeue, s') \<and> goes StateAMICreated p js s s' \<and>
    only_moved StateAMICreated (pb_Status (cx_pb s)) (pb_Status (cx_pb s'))"
  by (rule move_goes [OF _ assms(1)]) (use assms(2) in \<open>simp_all add: completeBuild_def opsy_edge_iff\<close>)

lemma running_goes:
  assumes "works_on p js s" "GetCurrentState (cx_runner s) (st_BuildID (pb_Status (cx_pb s))) = StateJobRunning"
  shows "\<exists>s'. runningBuild E (Suc (Suc k)) s = (Returns (Some Requeue), s') \<and> goes StateJobCompleted p js s s'"
proof -
  obtain pm w0 where pm: "packer_New E (cx_pb s) (cx_world s) = (pm, w0)" by fastforce
  then have w0: "inc p js w0"
    using managers(2) [of p js "cx_world s" "cx_pb s"] assms(1) by simp
  obtain st w1 w2 where c: "env_run_choice E w0 = (WatchDelivers (WatchJob st), w1)"
    "env_run_choice E w1 = (TakeResult, w2)" "inc p js w2" "0 < sint (js_Succeeded st)"
    using succeeds [OF w0] by blast
  let ?v = "s\<lparr>cx_world := w2\<rparr>"
  have "\<exists>s'. transitionToJobCompletedState E ?v = (Returns Requeue, s') \<and> goes StateJobCompleted p js ?v s' \<and>
      only_moved StateJobCompleted (pb_Status (cx_pb ?v)) (pb_Status (cx_pb s'))"
    by (rule move_goes [where v = ?v])
      (use assms c(3) in \<open>simp_all add: transitionToJobCompletedState_def opsy_edge_iff\<close>)
  then obtain s' where s': "transitionToJobCompletedState E ?v = (Returns Requeue, s')" "goes StateJobCompleted p js s s'"
    by auto
  have t: "take_result E (job_result st) (s\<lparr>cx_world := snd (env_run_choice E w1)\<rparr>) = (Returns (Some Requeue), s')"
    using s'(1) c(2,4) by (simp add: take_result_def job_result_def go_bind_at go_return_def)
  let ?rs = "run_start\<lparr>rn_result := Some (job_result st), rn_watching := False\<rparr>"
  have "running_loop E pm (Suc (Suc k)) run_start (s\<lparr>cx_world := w0\<rparr>) =
      running_loop E pm (Suc k) ?rs (s\<lparr>cx_world := w1\<rparr>)"
    by (rule running_loop_delivers [OF c(1) watch_finished]) (use c(4) in simp)
  also have "\<dots> = (Returns (Some Requeue), s')"
    by (rule running_loop_takes [OF _ _ t]) (use c(2) in simp_all)
  finally have "runningBuild E (Suc (Suc k)) s = (Returns (Some Requeue), s')"
    using pm by (simp add: runningBuild_def go_bind_run [of the_pb] go_bind_run [of "on_world (go_call c)" for c]
        ctx_run go_run_simps del: running_loop.simps)
  with s'(2) show ?thesis by blast
qed

lemma artifacts_deleted:
  assumes "inc p js w"
  shows "\<exists>w'. DeleteKeyPair E (Some cfg) name w = (Returns None, w') \<and> inc p js w'"
    "\<exists>w'. DeleteSecurityGroup E (Some cfg) i w = (Returns None, w') \<and> inc p js w'"
  using key_pair [OF assms, of cfg "[name]"] group [OF assms, of cfg "[i]"]
    delete_key_pair [of p js _ cfg name] delete_group [of p js _ cfg i]
  by (simp_all add: DeleteKeyPair_def DeleteSecurityGroup_def go_laws prod_eq_iff)

lemma optional_deletion:
  assumes "inc p js (cx_world s)" "\<exists>w'. m (cx_world s) = (Returns None, w') \<and> inc p js w'"
  shows "\<exists>w'. (if b then on_world m else go_return None) s = (Returns None, s\<lparr>cx_world := w'\<rparr>) \<and> inc p js w'"
proof (cases b)
  case True
  then show ?thesis using assms(2) by (auto simp: on_world_def)
next
  case False
  then show ?thesis using assms(1) by (intro exI [of _ "cx_world s"]) (simp add: go_return_def)
qed

lemma cleanup_goes:
  assumes "works_on p js s" "GetCurrentState (cx_runner s) (st_BuildID (pb_Status (cx_pb s))) = StateAMICreated"
  shows "\<exists>s'. cleanupBuild E (Some cfg) s = (Returns Requeue, s') \<and> goes StateInitial p js s s' \<and>
    st_LastRunKeyPair (pb_Status (cx_pb s')) = '''' \<and> st_LastRunSecurityGroupID (pb_Status (cx_pb s')) = ''''"
proof -
  let ?pair = "st_LastRunKeyPair (pb_Status (cx_pb s))" and ?sg = "st_LastRunSecurityGroupID (pb_Status (cx_pb s))"
  let ?pairs = "if ?pair \<noteq> '''' then on_world (DeleteKeyPair E (Some cfg) ?pair) else go_return None"
  let ?groups = "if ?sg \<noteq> '''' then on_world (DeleteSecurityGroup E (Some cfg) ?sg) else go_return None"
  obtain w1 where w1: "?pairs s = (Returns None, s\<lparr>cx_world := w1\<rparr>)" "inc p js w1"
    using optional_deletion [of p js s "DeleteKeyPair E (Some cfg) ?pair" "?pair \<noteq> ''''"] artifacts_deleted(1) assms(1) by blast
  let ?s1 = "s\<lparr>cx_world := w1, cx_pb := set_status (\<lambda>x. x\<lparr>st_LastRunKeyPair := ''''\<rparr>) (cx_pb s)\<rparr>"
  have "inc p js (cx_world ?s1)" using w1(2) by simp
  then obtain w2 where w2: "?groups ?s1 = (Returns None, ?s1\<lparr>cx_world := w2\<rparr>)" "inc p js w2"
    using optional_deletion [of p js ?s1 "DeleteSecurityGroup E (Some cfg) ?sg" "?sg \<noteq> ''''"] artifacts_deleted(2) by blast
  let ?v = "s\<lparr>cx_world := w2, cx_pb := set_status (\<lambda>x. x\<lparr>st_LastRunKeyPair := '''', st_LastRunSecurityGroupID := ''''\<rparr>) (cx_pb s)\<rparr>"
  let ?move = "move_or_error E ''Failed to transition to Initialize state: ''
      (reconcileUpdate E StateInitial ''Transitioning to Intializing'' LastRunStatusRunning
        ConditionTrue ConditionTypeInitial)"
  have sg: "st_LastRunSecurityGroupID (pb_Status (cx_pb ?s1)) = ?sg"
    by simp
  have "cleanup_group E (Some cfg) ?s1 = (go_bind (put_status (\<lambda>s. s\<lparr>st_LastRunSecurityGroupID := ''''\<rparr>)) (\<lambda>u. ?move))
      (?s1\<lparr>cx_world := w2\<rparr>)"
    by (simp only: cleanup_group_def go_bind_run [of the_pb] the_pb_def fst_conv snd_conv outcome.case sg
        go_bind_run [of ?groups] w2(1) option.case)
  also have "\<dots> = ?move ?v"
    by (simp add: go_bind_run [of "put_status h" for h] put_status_def set_status_def)
  finally have "cleanup_group E (Some cfg) ?s1 = ?move ?v" .
  moreover have "cleanupBuild E (Some cfg) s = (go_bind (put_status (\<lambda>s. s\<lparr>st_LastRunKeyPair := ''''\<rparr>))
      (\<lambda>u. cleanup_group E (Some cfg))) (s\<lparr>cx_world := w1\<rparr>)"
    by (simp only: cleanupBuild_def go_bind_run [of the_pb] the_pb_def fst_conv snd_conv outcome.case
        go_bind_run [of ?pairs] w1(1) option.case)
  then have "cleanupBuild E (Some cfg) s = cleanup_group E (Some cfg) ?s1"
    by (simp add: go_bind_run [of "put_status h" for h] put_status_def)
  ultimately have "cleanupBuild E (Some cfg) s = ?move ?v" by simp
  from move_goes [where p = p and js = js and s = s and m = "cleanupBuild E (Some cfg)", OF this]
  obtain s' where "cleanupBuild E (Some cfg) s = (Returns Requeue, s')" "goes StateInitial p js s s'"
    "only_moved StateInitial (pb_Status (cx_pb ?v)) (pb_Status (cx_pb s'))"
    using assms w2(2) by (auto simp: opsy_edge_iff)
  then show ?thesis
    by (auto simp: only_moved_def)
qed

text \<open>The three reconciliations.\<close>

lemma running_reconcile:
  assumes "stored StateJobRunning i p js s" "quiet_slack p"
  shows "\<exists>s'. Reconcile E (Suc (Suc k)) (object_key (pb_Meta p)) s = (Returns (Some Requeue), s') \<and> stored StateJobCompleted i p js s'"
proof -
  have "\<exists>s' x. Reconcile E (Suc (Suc k)) (object_key (pb_Meta p)) s = (Returns (Some Requeue), s') \<and> stored StateJobCompleted i p js s' \<and>
    opened (pb_Status (cx_pb s)) x \<and> True"
  proof (rule stored_moves [where R = "\<lambda>x y. True", OF assms])
    fix cfg x v
    assume v: "works_on ((cx_pb s)\<lparr>pb_Status := x\<rparr>) js v"
      "GetCurrentState (cx_runner v) (st_BuildID (pb_Status (cx_pb v))) = StateJobRunning"
    show "\<exists>s'. dispatch E (Suc (Suc k)) (Some cfg) StateJobRunning v = (Returns (Some Requeue), s') \<and>
        goes StateJobCompleted ((cx_pb s)\<lparr>pb_Status := x\<rparr>) js v s' \<and> True"
      using running_goes [OF v] by (simp add: dispatch_def)
  qed (simp_all add: opsy_edge_iff)
  then show ?thesis by blast
qed

lemma complete_reconcile:
  assumes "stored StateJobCompleted i p js s" "quiet_slack p"
  shows "\<exists>s'. Reconcile E fuel (object_key (pb_Meta p)) s = (Returns (Some Requeue), s') \<and> stored StateAMICreated i p js s'"
proof -
  have "\<exists>s' x. Reconcile E fuel (object_key (pb_Meta p)) s = (Returns (Some Requeue), s') \<and> stored StateAMICreated i p js s' \<and>
    opened (pb_Status (cx_pb s)) x \<and> True"
  proof (rule stored_moves [where R = "\<lambda>x y. True", OF assms])
    fix cfg x v
    assume v: "works_on ((cx_pb s)\<lparr>pb_Status := x\<rparr>) js v"
      "GetCurrentState (cx_runner v) (st_BuildID (pb_Status (cx_pb v))) = StateJobCompleted"
    show "\<exists>s'. dispatch E fuel (Some cfg) StateJobCompleted v = (Returns (Some Requeue), s') \<and>
        goes StateAMICreated ((cx_pb s)\<lparr>pb_Status := x\<rparr>) js v s' \<and> True"
      using complete_goes [OF v] dispatch_runs(4) by blast
  qed (simp_all add: opsy_edge_iff)
  then show ?thesis by blast
qed

lemma cleanup_reconcile:
  assumes "stored StateAMICreated i p js s" "quiet_slack p"
  shows "\<exists>s'. Reconcile E fuel (object_key (pb_Meta p)) s = (Returns (Some Requeue), s') \<and> stored StateInitial i p js s' \<and>
    st_LastRunKeyPair (pb_Status (cx_pb s')) = '''' \<and> st_LastRunSecurityGroupID (pb_Status (cx_pb s')) = ''''"
proof -
  have "\<exists>s' x. Reconcile E fuel (object_key (pb_Meta p)) s = (Returns (Some Requeue), s') \<and> stored StateInitial i p js s' \<and>
    opened (pb_Status (cx_pb s)) x \<and> st_LastRunKeyPair (pb_Status (cx_pb s')) = '''' \<and> st_LastRunSecurityGroupID (pb_Status (cx_pb s')) = ''''"
  proof (rule stored_moves [where R = "\<lambda>x y. st_LastRunKeyPair y = '''' \<and> st_LastRunSecurityGroupID y = ''''", OF assms])
    fix cfg x v
    assume v: "works_on ((cx_pb s)\<lparr>pb_Status := x\<rparr>) js v"
      "GetCurrentState (cx_runner v) (st_BuildID (pb_Status (cx_pb v))) = StateAMICreated"
    show "\<exists>s'. dispatch E fuel (Some cfg) StateAMICreated v = (Returns (Some Requeue), s') \<and>
        goes StateInitial ((cx_pb s)\<lparr>pb_Status := x\<rparr>) js v s' \<and> st_LastRunKeyPair (pb_Status (cx_pb s')) = '''' \<and> st_LastRunSecurityGroupID (pb_Status (cx_pb s')) = ''''"
      using cleanup_goes [OF v] dispatch_runs(5) by blast
  qed (simp_all add: opsy_edge_iff)
  then show ?thesis by blast
qed

lemma ends:
  assumes "stored StateJobRunning i p js s" "quiet_slack p"
  shows "\<exists>s1 s2 s3. Reconcile E (Suc (Suc k)) (object_key (pb_Meta p)) s = (Returns (Some Requeue), s1) \<and>
    Reconcile E (Suc (Suc k)) (object_key (pb_Meta p)) s1 = (Returns (Some Requeue), s2) \<and>
    Reconcile E (Suc (Suc k)) (object_key (pb_Meta p)) s2 = (Returns (Some Requeue), s3) \<and>
    stored StateJobCompleted i p js s1 \<and> stored StateAMICreated i p js s2 \<and> stored StateInitial i p js s3 \<and>
    st_LastRunKeyPair (pb_Status (cx_pb s3)) = '''' \<and> st_LastRunSecurityGroupID (pb_Status (cx_pb s3)) = ''''"
proof -
  obtain s1 where 1: "Reconcile E (Suc (Suc k)) (object_key (pb_Meta p)) s = (Returns (Some Requeue), s1)"
    "stored StateJobCompleted i p js s1"
    using running_reconcile [OF assms] by blast
  obtain s2 where 2: "Reconcile E (Suc (Suc k)) (object_key (pb_Meta p)) s1 = (Returns (Some Requeue), s2)"
    "stored StateAMICreated i p js s2"
    using complete_reconcile [OF 1(2) assms(2)] by blast
  show ?thesis
    using cleanup_reconcile [OF 2(2) assms(2), of "Suc (Suc k)"] 1 2 by blast
qed

end

section \<open>The simulated environment with a job that succeeds\<close>

text \<open>The watch reports the success, and the loop then takes the result.\<close>

definition finishing_env :: "sim env" where
  "finishing_env = sim_env\<lparr>env_run_choice := (\<lambda>w.
     if sim_runs w = []
     then (WatchDelivers (WatchJob \<lparr>js_Succeeded = 1, js_Failed = 0, js_Conditions = []\<rparr>), w\<lparr>sim_runs := [TakeResult]\<rparr>)
     else (TakeResult, w\<lparr>sim_runs := []\<rparr>))\<rparr>"

definition sim_waits :: "packer_builder \<Rightarrow> job list \<Rightarrow> sim \<Rightarrow> bool" where
  "sim_waits p js w \<longleftrightarrow> sim_holds p js w \<and> sim_runs w = []"

interpretation finishing: finishing_cluster finishing_env sim_waits
proof
  show "retry_documented finishing_env"
    using sim_env_retry by (simp add: finishing_env_def retry_documented_def)
  show "never_cut_off finishing_env"
    using sim_env_never_cut_off by (simp add: finishing_env_def never_cut_off_def)
  show "\<exists>st w1 w2. env_run_choice finishing_env w = (WatchDelivers (WatchJob st), w1) \<and>
      env_run_choice finishing_env w1 = (TakeResult, w2) \<and> sim_waits p js w2 \<and> 0 < sint (js_Succeeded st)"
    if "sim_waits p js w" for p js w
    using that by (intro exI [of _ "\<lparr>js_Succeeded = 1, js_Failed = 0, js_Conditions = []\<rparr>"]
        exI [of _ "w\<lparr>sim_runs := [TakeResult]\<rparr>"] exI [of _ w])
      (simp add: finishing_env_def sim_waits_def sim_holds_def)
qed (simp_all add: finishing_env_def sim_waits_def sim_holds_def sim_calls sim_read_def sim_effect_def sim_check_def
    option_found_def store_status_def job_missing not_found_error_def is_not_found_def cong: conj_cong)


definition running_pb :: packer_builder where
  "running_pb = set_status (\<lambda>x. x\<lparr>st_BuildID := ''b1'', st_State := StateJobRunning, st_LastRunKeyPair := ''packer_k''\<rparr>) applied_pb"

definition running_start :: "sim ctx" where
  "running_start = \<lparr>cx_world = sim_start running_pb, cx_runner = opsy_New\<lparr>run_states := [''b1'' \<mapsto> StateJobRunning]\<rparr>,
     cx_pb = running_pb\<rparr>"


end
