(* ===== verification/Build_Isolation.thy ===== *)
theory Build_Isolation
  imports Requeue
begin

text \<open>
  Ten reconciliations may run at a time, and they share the runner. This theory shows that they share
  nothing else in it than its table: a reconciliation looks at and changes the entries of the build
  identifiers its builder has or is given, and no other. \<open>isolated I m\<close> compares the runs of a statement
  sequence on two runners that agree on the identifiers of \<open>I\<close>, and is proved handler by handler.
\<close>

section \<open>Runs on two runners\<close>

abbreviation id_of :: "packer_builder \<Rightarrow> bytes" where
  "id_of pb \<equiv> st_BuildID (pb_Status pb)"

definition sees :: "(bytes \<Rightarrow> bool) \<Rightarrow> opsy_runner \<Rightarrow> opsy_runner \<Rightarrow> bool" where
  "sees I r r' \<longleftrightarrow> run_transitions r = run_transitions r' \<and> (\<forall>i. I i \<longrightarrow> run_states r i = run_states r' i)"

definition untouched :: "(bytes \<Rightarrow> bool) \<Rightarrow> opsy_runner \<Rightarrow> opsy_runner \<Rightarrow> bool" where
  "untouched I r r' \<longleftrightarrow> (\<forall>i. \<not> I i \<longrightarrow> run_states r' i = run_states r i)"

text \<open>
  Two contexts that differ only in entries of other builds, and the two runs of a sequence from them:
  the same outcome, world and builder, runners that still agree, and no entry of another build touched.
\<close>

definition alike :: "(bytes \<Rightarrow> bool) \<Rightarrow> 'w ctx \<Rightarrow> 'w ctx \<Rightarrow> bool" where
  "alike I s s' \<longleftrightarrow> cx_world s' = cx_world s \<and> cx_pb s' = cx_pb s \<and> I (id_of (cx_pb s)) \<and>
     sees I (cx_runner s) (cx_runner s')"

definition twin :: "(bytes \<Rightarrow> bool) \<Rightarrow> ('w ctx, 'a) go \<Rightarrow> 'w ctx \<Rightarrow> 'w ctx \<Rightarrow> bool" where
  "twin I m s s' \<longleftrightarrow> fst (m s') = fst (m s) \<and> alike I (snd (m s)) (snd (m s')) \<and>
     untouched I (cx_runner s) (cx_runner (snd (m s))) \<and> untouched I (cx_runner s') (cx_runner (snd (m s')))"

definition isolated :: "(bytes \<Rightarrow> bool) \<Rightarrow> ('w ctx, 'a) go \<Rightarrow> bool" where
  "isolated I m \<longleftrightarrow> (\<forall>s s'. alike I s s' \<longrightarrow> twin I m s s')"

lemma isolatedI: "(\<And>s s'. alike I s s' \<Longrightarrow> twin I m s s') \<Longrightarrow> isolated I m"
  by (simp add: isolated_def)

lemma isolatedD: "isolated I m \<Longrightarrow> alike I s s' \<Longrightarrow> twin I m s s'"
  by (simp add: isolated_def)

lemma untouched_trans: "untouched I r r' \<Longrightarrow> untouched I r' r'' \<Longrightarrow> untouched I r r''"
  by (simp add: untouched_def)

lemma untouched_refl [simp]: "untouched I r r"
  by (simp add: untouched_def)

lemma isolated_bind_given:
  assumes m: "isolated I m" and R: "results R m" and f: "\<And>x. R x \<Longrightarrow> isolated I (f x)"
  shows "isolated I (go_bind m f)"
proof (rule isolatedI)
  fix s s' :: "'a ctx"
  assume "alike I s s'"
  then have first: "twin I m s s'"
    by (rule isolatedD [OF m])
  show "twin I (go_bind m f) s s'"
  proof (cases "fst (m s)")
    case (Returns x)
    then have "isolated I (f x)"
      using R f by (auto simp: results_def)
    then have "twin I (f x) (snd (m s)) (snd (m s'))"
      by (rule isolatedD) (use first in \<open>simp add: twin_def\<close>)
    with first Returns show ?thesis
      by (auto simp: twin_def go_bind_run intro: untouched_trans)
  next
    case (Panics t)
    with first show ?thesis by (simp add: twin_def go_bind_run)
  qed
qed

lemma isolated_bind: "isolated I m \<Longrightarrow> (\<And>x. isolated I (f x)) \<Longrightarrow> isolated I (go_bind m f)"
  by (rule isolated_bind_given [where R = "\<lambda>x. True"]) (simp_all add: results_def)

lemma isolated_basic:
  "isolated I (go_return x)" "isolated I (go_panic t)" "isolated I (go_outcome q)"
  "isolated I (go_deref p)" "isolated I (on_world w)"
  by (rule isolatedI; simp add: twin_def alike_def go_run_simps go_outcome_def go_deref_def
      on_world_def split_beta split: option.split)+

lemma isolated_the_pb: "(\<And>pb. I (id_of pb) \<Longrightarrow> isolated I (f pb)) \<Longrightarrow> isolated I (go_bind the_pb f)"
  unfolding isolated_def twin_def alike_def by (auto simp: go_bind_run the_pb_def)

lemma isolated_put_pb: "I (id_of pb) \<Longrightarrow> isolated I (put_pb pb)"
  by (simp add: isolated_def twin_def alike_def put_pb_def)

lemma isolated_put_status: "(\<And>x. I (st_BuildID x) \<Longrightarrow> I (st_BuildID (g x))) \<Longrightarrow> isolated I (put_status g)"
  by (simp add: isolated_def twin_def alike_def put_status_def)

lemma sees_valid: "sees I r r' \<Longrightarrow> isValidTransition r' = isValidTransition r"
  by (simp add: sees_def isValidTransition_def fun_eq_iff)

lemma isolated_runner_state: "isolated I runner_state"
  by (simp add: isolated_def twin_def alike_def runner_state_def GetCurrentState_def sees_def)

lemma isolated_runner_set: "isolated I (runner_set st)"
proof (rule isolatedI)
  fix s s' :: "'a ctx"
  assume a: "alike I s s'"
  then have same: "run_states (cx_runner s') (id_of (cx_pb s)) = run_states (cx_runner s) (id_of (cx_pb s))"
    and valid: "isValidTransition (cx_runner s') = isValidTransition (cx_runner s)"
    using sees_valid by (auto simp: alike_def sees_def)
  show "twin I (runner_set st) s s'"
    using a by (simp add: twin_def alike_def runner_set_def SetState_def Let_def same valid)
      (auto simp: sees_def untouched_def)
qed

lemma isolated_cases:
  "(p = None \<Longrightarrow> isolated I a) \<Longrightarrow> (\<And>x. p = Some x \<Longrightarrow> isolated I (b x)) \<Longrightarrow>
     isolated I (case p of None \<Rightarrow> a | Some x \<Rightarrow> b x)"
  "(\<And>x. q = Inl x \<Longrightarrow> isolated I (c x)) \<Longrightarrow> (\<And>x. q = Inr x \<Longrightarrow> isolated I (d x)) \<Longrightarrow>
     isolated I (case q of Inl x \<Rightarrow> c x | Inr x \<Rightarrow> d x)"
  "(\<And>x y. t = (x, y) \<Longrightarrow> isolated I (e x y)) \<Longrightarrow> isolated I (case t of (x, y) \<Rightarrow> e x y)"
  "(\<beta> \<Longrightarrow> isolated I m) \<Longrightarrow> (\<not> \<beta> \<Longrightarrow> isolated I m') \<Longrightarrow> isolated I (if \<beta> then m else m')"
  "isolated I (g v) \<Longrightarrow> isolated I (Let v g)"
  by (simp_all split: option.split sum.split prod.split)

section \<open>What the helpers do with the identifier\<close>

text \<open>Every builder and every identifier that comes from outside has an identifier of \<open>I\<close>.\<close>

definition supplies :: "'w env \<Rightarrow> (bytes \<Rightarrow> bool) \<Rightarrow> bool" where
  "supplies E I \<longleftrightarrow> (\<forall>w. I (fst (env_uuid E w))) \<and>
     (\<forall>k w pb. fst (env_get_pb E k w) = Inr pb \<longrightarrow> I (id_of pb)) \<and>
     (\<forall>a b w pb. fst (env_patch_pb E a b w) = Inr pb \<longrightarrow> I (id_of pb))"

lemma suppliesD:
  assumes "supplies E I"
  shows "results I (on_world (go_call (env_uuid E)))"
    "results I (go_call (env_uuid E))"
    "results (\<lambda>r. \<forall>pb. r = Inr pb \<longrightarrow> I (id_of pb)) (on_world (go_call (env_get_pb E k)))"
    "results (\<lambda>r. \<forall>pb. r = Inr pb \<longrightarrow> I (id_of pb)) (on_world (go_call (env_patch_pb E a b)))"
  using assms unfolding supplies_def
  by (auto simp: results_def on_world_def go_run_simps split_beta simp del: split_paired_All)

lemma results_on_world: "results R m \<Longrightarrow> results R (on_world m)"
  by (simp add: results_def on_world_def split_beta)

text \<open>The builder a helper hands back has an identifier of \<open>I\<close>.\<close>

abbreviation hands_back :: "(bytes \<Rightarrow> bool) \<Rightarrow> ('s, 'a \<times> packer_builder) go \<Rightarrow> bool" where
  "hands_back I \<equiv> results (\<lambda>r. I (id_of (snd r)))"

lemma condition_hands_back: "I (id_of pb) \<Longrightarrow> hands_back I (go_call (SetCondition E (pb_ops E) pb t s r m))"
  by (simp add: results_def go_run_simps SetCondition_pb)

lemma adopt_hands_back:
  assumes "supplies E I" "I (id_of pb)"
  shows "hands_back I (adoptExistingImage E m pb)"
  unfolding adoptExistingImage_def Let_def
  by (intro results_bind results_cases results_return results_bind_given [OF suppliesD(2) [OF assms(1)]])
    (simp_all add: assms adopt_status_def)

lemma adoption_hands_back:
  assumes "supplies E I" "I (id_of pb)"
  shows "hands_back I (adoptionProcessor E m pb)"
proof -
  have "hands_back I (adoption_op E m pb)"
    unfolding adoption_op_def
    by (intro results_bind results_cases results_return results_bind_given [OF adopt_hands_back [OF assms]])
      (auto simp: assms intro!: results_cases results_return results_bind split: sum.split)
  then show ?thesis
    unfolding adoptionProcessor_def packer_runWithTimeout_def
    by (rule results_bind_given) (auto intro!: results_bind results_cases results_return split: select_choice.split)
qed

lemma latest_hands_back:
  assumes "supplies E I" "I (id_of pb)"
  shows "hands_back I (LatestAMIDoesNotExistsOrExpired E m d pb)"
  unfolding LatestAMIDoesNotExistsOrExpired_def
  by (rule results_bind_given [OF adoption_hands_back [OF assms]])
    (auto intro!: results_bind results_return)

lemma construct_hands_back: "I (id_of pb) \<Longrightarrow> hands_back I (ConstructCommand E m pb)"
  unfolding ConstructCommand_def
  by (auto simp: results_def go_bind_run go_run_simps go_deref_def construct_command_def ensureDefaultCommands_eq
      split: outcome.splits option.splits)

lemma job_hands_back: "I (id_of pb) \<Longrightarrow> hands_back I (Job E m pb)"
  unfolding Job_def Let_def
  by (intro results_cases results_bind results_return) simp_all

lemma scan_keeps_id: "st_BuildID (snd (scan_patterns line ps st)) = st_BuildID st"
proof (induction line ps st rule: scan_patterns.induct)
  case (2 line p ps s)
  have "st_BuildID (status_field k v s) = st_BuildID s" for k v
    by (cases k) simp_all
  with 2 show ?case by (auto simp: split_beta Let_def split: option.splits)
qed simp

lemma line_hands_back: "I (id_of pb) \<Longrightarrow> results (\<lambda>(f, ps, pb'). I (id_of pb')) (processLogLine E m l ps pb)"
  unfolding processLogLine_def Let_def split_beta
  by (intro results_cases results_bind results_return) (simp_all add: scan_keeps_id)

lemma checks_keep_id: "id_of (snd (processFlightCheckResults rs pb)) = id_of pb"
  by (induction rs pb rule: processFlightCheckResults.induct) (simp_all add: Let_def split_beta)

section \<open>Handler by handler\<close>

text \<open>A call that hands back a builder, which then replaces the one in memory.\<close>

lemma isolated_handed:
  "results R (on_world m) \<Longrightarrow> (\<And>x. R x \<Longrightarrow> isolated I (f x)) \<Longrightarrow> isolated I (go_bind (on_world m) f)"
  by (rule isolated_bind_given [OF isolated_basic(5)])

lemma set_condition_isolated: "isolated I (set_condition_pb E t s r m)"
  unfolding set_condition_pb_def
  by (intro isolated_the_pb isolated_handed [OF results_on_world [OF condition_hands_back]] isolated_cases
      isolated_bind isolated_basic isolated_put_pb) auto

lemma patch_isolated: "supplies E I \<Longrightarrow> isolated I (patch_pb E)"
  unfolding patch_pb_def
  by (intro isolated_the_pb isolated_handed [OF suppliesD(4)] isolated_cases isolated_bind isolated_basic
      isolated_put_pb) auto

lemma notify_isolated: "isolated I (notify_slack E m)"
  unfolding notify_slack_def by (intro isolated_the_pb isolated_cases isolated_bind isolated_basic)

lemma update_isolated:
  assumes "supplies E I"
  shows "isolated I (reconcileUpdate E n m l cs ct)"
  unfolding reconcileUpdate_def
  by (intro isolated_the_pb isolated_cases isolated_bind isolated_basic isolated_put_status
      set_condition_isolated notify_isolated isolated_runner_set patch_isolated [OF assms]) simp

lemma error_isolated: "supplies E I \<Longrightarrow> isolated I (transitionToErrorState E t)"
  unfolding transitionToErrorState_def by (intro isolated_cases isolated_bind isolated_basic update_isolated)

lemma move_isolated: "supplies E I \<Longrightarrow> isolated I m \<Longrightarrow> isolated I (move_or_error E t m)"
  unfolding move_or_error_def by (intro isolated_cases isolated_bind isolated_basic error_isolated)

lemmas moving_isolated = move_isolated [OF _ update_isolated]

lemmas isolated_steps = isolated_the_pb isolated_cases isolated_bind isolated_basic isolated_runner_state

lemma init_isolated: "supplies E I \<Longrightarrow> isolated I (init_build E)"
  unfolding init_build_def by (intro isolated_steps isolated_put_status moving_isolated) simp_all

lemma ends_isolated:
  "supplies E I \<Longrightarrow> isolated I (completeBuild E)" "supplies E I \<Longrightarrow> isolated I (errorBuild E)"
  "supplies E I \<Longrightarrow> isolated I (transitionToJobCompletedState E)"
  unfolding completeBuild_def errorBuild_def transitionToJobCompletedState_def
  by (intro moving_isolated; assumption)+

lemma cleanup_isolated: "supplies E I \<Longrightarrow> isolated I (cleanupBuild E pm)"
  unfolding cleanupBuild_def cleanup_group_def
  by (intro isolated_steps isolated_put_status error_isolated moving_isolated) simp_all

lemma perform_isolated:
  assumes "supplies E I"
  shows "isolated I (performFlightChecks E d)"
proof -
  have after: "isolated I (case processFlightCheckResults [b, l] pb' of
      (ok, pb'') \<Rightarrow> go_bind (put_pb pb'') (\<lambda>u. go_return ok))" if "I (id_of pb')" for b l pb'
    using that checks_keep_id [of "[b, l]" pb']
    by (auto simp: split_beta simp del: processFlightCheckResults.simps
        intro!: isolated_bind isolated_put_pb isolated_basic)
  show ?thesis
    unfolding performFlightChecks_def Let_def
    apply (rule isolated_the_pb)
    apply (rule isolated_bind [OF isolated_basic(5)])
    apply (rule isolated_bind [OF isolated_basic(5)])
    apply (rule isolated_bind [OF isolated_put_pb], simp)
    apply (rule isolated_the_pb, rule isolated_bind [OF isolated_basic(5)])
    apply (rule isolated_handed [OF results_on_world [OF latest_hands_back [OF assms]]], assumption)
    apply (rule isolated_cases(3), rule after, simp)
    done
qed

lemma flight_isolated: "supplies E I \<Longrightarrow> isolated I (flightCheck E pm)"
  unfolding flightCheck_def by (intro isolated_steps perform_isolated moving_isolated)

lemma setup_isolated: "isolated I (setupJob E pm)"
  unfolding setupJob_def
  apply (rule isolated_bind [OF isolated_basic(5)], rule isolated_bind [OF isolated_basic(3)])
  apply (rule isolated_the_pb, rule isolated_bind [OF isolated_put_status], simp)
  apply (rule isolated_the_pb)
  apply (rule isolated_handed [OF results_on_world [OF construct_hands_back [where I = I]]], assumption)
  apply (rule isolated_cases(3), rule isolated_bind [OF isolated_put_pb], simp)
  apply (intro isolated_cases isolated_basic)
  done

lemma create_isolated:
  assumes "supplies E I"
  shows "isolated I (createBuild E pm)"
  unfolding createBuild_def create_job_def
  apply (rule isolated_bind [OF setup_isolated], rule isolated_cases(1))
   apply (rule isolated_the_pb)
   apply (rule isolated_handed [OF results_on_world [OF job_hands_back [where I = I]]], assumption)
   apply (rule isolated_cases(3))
   apply (rule isolated_bind [OF isolated_put_pb], simp)
   apply (intro isolated_steps error_isolated [OF assms] moving_isolated [OF assms], rule assms)
  apply (rule error_isolated [OF assms])
  done

lemma wrapped_isolated: "isolated I m \<Longrightarrow> isolated I (go_bind m (\<lambda>r. go_return (Some r)))"
  by (intro isolated_bind isolated_basic)

lemma stream_line_isolated: "isolated I (stream_line E pm line rs)"
proof (cases "rn_streamer rs")
  case (Streaming ps)
  have "isolated I (go_bind the_pb (\<lambda>pb. go_bind (on_world (processLogLine E pm line ps pb))
      (\<lambda>(finished, patterns', pb'). go_bind (put_pb pb') (\<lambda>u.
        go_return (rs\<lparr>rn_streamer := (if finished then Streamed else Streaming patterns')\<rparr>)))))"
    apply (rule isolated_the_pb)
    apply (rule isolated_handed [OF results_on_world [OF line_hands_back [where I = I]]], assumption)
    apply (intro isolated_cases(3) isolated_bind isolated_put_pb isolated_basic, simp)
    done
  with Streaming show ?thesis
    by (simp add: stream_line_def)
qed (simp_all add: stream_line_def isolated_basic)

lemma stream_open_isolated: "isolated I (stream_open E pm rs)"
  unfolding stream_open_def
  by (cases "rn_streamer rs") (simp_all, intro isolated_steps, simp_all add: isolated_basic)

lemma ticker_isolated:
  assumes "supplies E I"
  shows "isolated I (ticker_check E)"
  unfolding ticker_check_def
  apply (rule isolated_the_pb, rule isolated_handed [OF suppliesD(3) [OF assms]])
  apply (intro isolated_cases isolated_bind isolated_basic isolated_put_pb error_isolated [OF assms])
  apply simp
  done

lemma take_isolated: "supplies E I \<Longrightarrow> isolated I (take_result E r)"
  unfolding take_result_def
  by (intro isolated_cases wrapped_isolated isolated_basic ends_isolated error_isolated)

lemma loop_isolated:
  assumes "supplies E I"
  shows "isolated I (running_loop E pm n rs)"
proof (induction n arbitrary: rs)
  case 0
  then show ?case by (simp add: isolated_basic)
next
  case (Suc n)
  show ?case
    unfolding running_loop.simps(2)
    apply (rule isolated_bind [OF isolated_basic(5)])
    subgoal for choice
      by (cases choice; simp only: run_choice.case; intro isolated_cases isolated_bind isolated_basic Suc.IH
          stream_open_isolated stream_line_isolated ticker_isolated [OF assms] take_isolated [OF assms]
          error_isolated [OF assms])
    done
qed

lemma dispatch_isolated: "supplies E I \<Longrightarrow> isolated I (dispatch E n pm st)"
  unfolding dispatch_def runningBuild_def
  by (cases st) (simp_all add: wrapped_isolated init_isolated flight_isolated create_isolated cleanup_isolated
      ends_isolated isolated_basic isolated_the_pb isolated_bind loop_isolated)

lemma catchRek_isolated: "supplies E I \<Longrightarrow> isolated I (catchRek E n)"
  unfolding catchRek_def sync_runner_def
  by (intro isolated_steps isolated_runner_set wrapped_isolated error_isolated dispatch_isolated)

lemma Reconcile_isolated:
  assumes "supplies E I"
  shows "isolated I (Reconcile E n req)"
proof -
  have id: "isolated I (first_build_id E)"
    unfolding first_build_id_def
    by (intro isolated_the_pb isolated_cases isolated_basic isolated_handed [OF suppliesD(1) [OF assms]]
        isolated_put_status) simp
  have others: "isolated I (first_condition E)" "isolated I (first_state E)"
    unfolding first_condition_def first_state_def
    by (intro isolated_steps set_condition_isolated isolated_put_status; simp)+
  show ?thesis
    unfolding Reconcile_def
    apply (rule isolated_handed [OF suppliesD(3) [OF assms]])
    apply (intro isolated_cases isolated_bind isolated_basic isolated_put_pb id others catchRek_isolated [OF assms])
    apply simp
    done
qed

section \<open>Properties\<close>

text \<open>The runner of another process state put in place of the shared one.\<close>

definition with_runner :: "opsy_runner \<Rightarrow> 'w ctx \<Rightarrow> 'w ctx" where
  "with_runner r s = s\<lparr>cx_runner := r\<rparr>"

text \<open>
  C8. Builds do not interfere through the shared runner. Let every builder the API server returns to a
  reconciliation, and every identifier drawn, have a build identifier in \<open>I\<close>. Then whatever other
  reconciliations have done to the entries of other builds, the reconciliation returns the same,
  leaves the same world and builder, and ends with the same entries for \<open>I\<close>; and it leaves every entry
  outside \<open>I\<close> as it found it.
\<close>

theorem builds_do_not_interfere:
  assumes "supplies E I" "I (st_BuildID (pb_Status (cx_pb s)))" "sees I (cx_runner s) r"
    and "Reconcile E fuel req s = (answer, s1)" "Reconcile E fuel req (with_runner r s) = (answer', s1')"
  shows "answer' = answer \<and> cx_world s1' = cx_world s1 \<and> cx_pb s1' = cx_pb s1 \<and>
    sees I (cx_runner s1) (cx_runner s1') \<and> untouched I (cx_runner s) (cx_runner s1) \<and>
    untouched I r (cx_runner s1')"
proof -
  have "alike I s (with_runner r s)"
    using assms(2,3) by (simp add: alike_def with_runner_def)
  from isolatedD [OF Reconcile_isolated [OF assms(1), of fuel req] this] show ?thesis
    using assms(4,5) by (simp add: twin_def alike_def with_runner_def)
qed

text \<open>A builder whose job is done, while the runner holds the running build of another builder or none.\<close>

definition shared_env :: "sim env" where
  "shared_env = (fixed_env (in_state StateJobCompleted))
     \<lparr>env_patch_pb := (\<lambda>a b w. (Inr (in_state StateJobCompleted), w))\<rparr>"

theorem builds_do_not_interfere_witness:
  "let s = process_in StateJobCompleted StateJobCompleted [];
       r = opsy_New\<lparr>run_states := [''b1'' \<mapsto> StateJobCompleted, ''b2'' \<mapsto> StateJobRunning]\<rparr>
   in fst (Reconcile shared_env 0 (''ns'', ''pb'') (with_runner r s)) =
        fst (Reconcile shared_env 0 (''ns'', ''pb'') s) \<and>
      run_states (cx_runner (snd (Reconcile shared_env 0 (''ns'', ''pb'') (with_runner r s)))) ''b2'' =
        Some StateJobRunning"
proof -
  let ?I = "\<lambda>i. i = ''b1'' \<or> i = ''0f3a9c52-build''"
  let ?s = "process_in StateJobCompleted StateJobCompleted []"
  let ?r = "opsy_New\<lparr>run_states := [''b1'' \<mapsto> StateJobCompleted, ''b2'' \<mapsto> StateJobRunning]\<rparr>"
  have "supplies shared_env ?I"
    by (simp add: supplies_def shared_env_def fixed_env_def sim_calls)
  moreover have "?I (st_BuildID (pb_Status (cx_pb ?s)))" "sees ?I (cx_runner ?s) ?r"
    by (simp, simp add: sees_def process_in_def)
  ultimately have "untouched ?I ?r (cx_runner (snd (Reconcile shared_env 0 (''ns'', ''pb'') (with_runner ?r ?s)))) \<and>
      fst (Reconcile shared_env 0 (''ns'', ''pb'') (with_runner ?r ?s)) =
        fst (Reconcile shared_env 0 (''ns'', ''pb'') ?s)"
    using builds_do_not_interfere [of shared_env ?I ?s ?r, OF _ _ _ prod.collapse [symmetric] prod.collapse [symmetric]]
    by blast
  then show ?thesis by (simp add: untouched_def)
qed

end
