(* ===== verification/Build_Order.thy ===== *)
theory Build_Order
  imports Cluster "HOL-Library.Char_ord" "HOL-Library.List_Lexorder" "HOL-Library.Product_Lexorder"
begin

text \<open>
  The states of a build in the order in which a build passes through them. The order makes a build's
  progress a sorted list: along any sequence of reconciliations the states only grow until the build is
  back in \<open>Initial\<close> or has failed, and so there are few of them.
\<close>

section \<open>The order of the states\<close>

text \<open>States the code has no name for come last, in the order of their texts.\<close>

fun state_rank :: "pb_state \<Rightarrow> nat" where
  "state_rank StateUnset = 0"
| "state_rank StateInitial = 1"
| "state_rank StateFlightChecks = 2"
| "state_rank StateJobCreation = 3"
| "state_rank StateJobRunning = 4"
| "state_rank StateJobCompleted = 5"
| "state_rank StateAMICreated = 6"
| "state_rank StateJobFailed = 7"
| "state_rank StateError = 8"
| "state_rank (StateUnknown t) = 9"

definition state_key :: "pb_state \<Rightarrow> nat \<times> bytes" where
  "state_key s = (state_rank s, case s of StateUnknown t \<Rightarrow> t | _ \<Rightarrow> '''')"

lemma state_key_inject: "state_key a = state_key b \<longleftrightarrow> a = b"
  by (cases a; cases b) (simp_all add: state_key_def)

instantiation pb_state :: linorder
begin

definition less_eq_pb_state :: "pb_state \<Rightarrow> pb_state \<Rightarrow> bool" where
  "a \<le> b \<longleftrightarrow> state_key a \<le> state_key b"

definition less_pb_state :: "pb_state \<Rightarrow> pb_state \<Rightarrow> bool" where
  "a < b \<longleftrightarrow> state_key a < state_key b"

instance
  by standard (auto simp: less_eq_pb_state_def less_pb_state_def simp flip: state_key_inject)

end

lemma state_rank_less: "state_rank a < state_rank b \<Longrightarrow> a < b"
  by (simp add: less_pb_state_def state_key_def)

section \<open>A build moves forward\<close>

definition build_states :: "pb_state set" where
  "build_states = {StateFlightChecks, StateJobCreation, StateJobRunning, StateJobCompleted, StateAMICreated}"

lemma lifecycle_forward: "lifecycle a b \<Longrightarrow> b \<notin> {StateInitial, StateError} \<Longrightarrow> a < b \<and> b \<in> build_states"
  by (auto simp: lifecycle_iff build_states_def intro: state_rank_less)

lemma path_forward:
  "successively (\<lambda>a b. b = a \<or> lifecycle a b) xs \<Longrightarrow> \<forall>b \<in> set (tl xs). b \<notin> {StateInitial, StateError} \<Longrightarrow>
    sorted xs \<and> set xs \<subseteq> insert (hd xs) build_states"
proof (induction xs rule: induct_list012)
  case (3 a b xs)
  have IH: "sorted (b # xs)" "set (b # xs) \<subseteq> insert b build_states"
    using 3 by simp_all
  have "b = a \<or> a < b \<and> b \<in> build_states"
    using 3(3,4) lifecycle_forward [of a b] by auto
  with IH show ?case by auto
qed simp_all

text \<open>
  Consecutive states of the process, as far as the build \<open>i\<close> is concerned: between them its builder is
  reconciled, with the runner agreeing at the start. The world and the entries of other builds may
  have become anything.
\<close>

definition reconciled :: "'w env \<Rightarrow> bytes \<Rightarrow> 'w ctx \<Rightarrow> 'w ctx \<Rightarrow> bool" where
  "reconciled E i s s' \<longleftrightarrow> (\<exists>fuel req pb. runner_wf (cx_runner s) \<and> fst (env_get_pb E req (cx_world s)) = Inr pb \<and>
     st_State (pb_Status pb) \<noteq> StateUnset \<and> st_BuildID (pb_Status pb) = i \<and> i \<noteq> '''' \<and>
     GetCurrentState (cx_runner s) i = st_State (pb_Status pb) \<and>
     GetCurrentState (cx_runner s') i = GetCurrentState (cx_runner (snd (Reconcile E fuel req s))) i)"

lemma reconciled_step:
  assumes "reconciled E i s s'"
  shows "GetCurrentState (cx_runner s') i = GetCurrentState (cx_runner s) i \<or>
    lifecycle (GetCurrentState (cx_runner s) i) (GetCurrentState (cx_runner s') i)"
  using assms reconcile_moves by (metis reconciled_def)



end
