(* ===== verification/Recovery.thy ===== *)
theory Recovery
  imports Cluster
begin

text \<open>
  What becomes of a builder that was stored as failed while its job still runs, on an API server that
  keeps what it is given: the failure may have been a refused move, a cache that lags behind, or an
  error of a call.
\<close>

context cluster
begin

lemma error_goes:
  assumes "works_on p js s" "GetCurrentState (cx_runner s) (st_BuildID (pb_Status (cx_pb s))) = StateError"
  shows "\<exists>s'. errorBuild E s = (Returns Requeue, s') \<and> goes StateInitial p js s s' \<and>
    only_moved StateInitial (pb_Status (cx_pb s)) (pb_Status (cx_pb s'))"
  by (rule move_goes [OF _ assms(1)]) (use assms(2) in \<open>simp_all add: errorBuild_def opsy_edge_iff\<close>)

lemma active_goes:
  assumes "works_on p js s" "\<not> idle_for p js"
    and "GetCurrentState (cx_runner s) (st_BuildID (pb_Status (cx_pb s))) = StateFlightChecks"
  shows "\<exists>s'. flightCheck E (Some cfg) s = (Returns Requeue, s') \<and> goes StateJobRunning p js s s' \<and>
    st_JobName (pb_Status (cx_pb s')) = st_JobName (pb_Status (cx_pb s))"
proof -
  have names: "pb_Namespace (cx_pb s) = pb_Namespace p" "pb_Name (cx_pb s) = pb_Name p"
    using assms(1) by simp_all
  obtain r w act where a: "ActiveBuildCheck E (Some cfg) (pb_Namespace p) (pb_Name p) (cx_world s) = (Returns r, w)"
    "\<not> res_Success r" "inc (p\<lparr>pb_Status := (pb_Status p)\<lparr>st_Active := act\<rparr>\<rparr>) js w"
    using active_check assms(1,2) by blast
  let ?p = "p\<lparr>pb_Status := (pb_Status p)\<lparr>st_Active := act\<rparr>\<rparr>"
  let ?v = "s\<lparr>cx_world := w\<rparr>"
  have "flightCheck E (Some cfg) s = move_or_error E ''Failed to transition to JobRunning state: ''
      (reconcileUpdate E StateJobRunning ''Transitioning to JobRunning since Active Build Exist''
        LastRunStatusRunning ConditionTrue ConditionTypeFlightCheckPassed) ?v"
    using a(1,2) by (simp add: flightCheck_def go_bind_run [of the_pb] go_bind_run [of "on_world m" for m]
        the_pb_def on_world_def split_beta Let_def names)
  from move_goes [where p = ?p and js = js and s = s and m = "flightCheck E (Some cfg)", OF this]
  obtain s' where "flightCheck E (Some cfg) s = (Returns Requeue, s')" "goes StateJobRunning ?p js s s'"
    "only_moved StateJobRunning (pb_Status (cx_pb ?v)) (pb_Status (cx_pb s'))"
    using assms(1,3) a(3) by (auto simp: opsy_edge_iff quiet_slack_def)
  then show ?thesis
    using only_movedD by fastforce
qed

text \<open>The three reconciliations; the name of the job stays in the status.\<close>

lemma error_reconcile:
  assumes "stored StateError i p js s" "quiet_slack p"
  shows "\<exists>s'. Reconcile E fuel (object_key (pb_Meta p)) s = (Returns (Some Requeue), s') \<and> stored StateInitial i p js s' \<and>
    st_JobName (pb_Status (cx_pb s')) = st_JobName (pb_Status (cx_pb s)) \<and> (may_fail (cx_pb s) \<longrightarrow> may_fail (cx_pb s'))"
proof -
  have "\<exists>s' x. Reconcile E fuel (object_key (pb_Meta p)) s = (Returns (Some Requeue), s') \<and> stored StateInitial i p js s' \<and>
    opened (pb_Status (cx_pb s)) x \<and> only_moved StateInitial x (pb_Status (cx_pb s'))"
  proof (rule stored_moves [OF assms])
    fix cfg x v
    assume v: "works_on ((cx_pb s)\<lparr>pb_Status := x\<rparr>) js v"
      "GetCurrentState (cx_runner v) (st_BuildID (pb_Status (cx_pb v))) = StateError"
    have "\<exists>s'. errorBuild E v = (Returns Requeue, s') \<and> goes StateInitial ((cx_pb s)\<lparr>pb_Status := x\<rparr>) js v s' \<and>
        only_moved StateInitial (pb_Status (cx_pb v)) (pb_Status (cx_pb s'))"
      by (rule error_goes [OF v])
    then show "\<exists>s'. dispatch E fuel (Some cfg) StateError v = (Returns (Some Requeue), s') \<and>
        goes StateInitial ((cx_pb s)\<lparr>pb_Status := x\<rparr>) js v s' \<and>
        only_moved StateInitial (pb_Status (cx_pb v)) (pb_Status (cx_pb s'))"
      using dispatch_runs(6) by blast
  qed (simp_all add: opsy_edge_iff)
  then obtain s' x where s': "Reconcile E fuel (object_key (pb_Meta p)) s = (Returns (Some Requeue), s')"
    "stored StateInitial i p js s'" "opened (pb_Status (cx_pb s)) x" "only_moved StateInitial x (pb_Status (cx_pb s'))"
    by blast
  have "st_JobName (pb_Status (cx_pb s')) = st_JobName (pb_Status (cx_pb s)) \<and> (may_fail (cx_pb s) \<longrightarrow> may_fail (cx_pb s'))"
    using only_movedD [OF s'(4)] s'(3) by (simp add: may_fail_def)
  with s'(1,2) show ?thesis by blast
qed

lemma init_reconcile:
  assumes "stored StateInitial i p js s" "quiet_slack p" "may_fail (cx_pb s)"
  shows "\<exists>s'. Reconcile E fuel (object_key (pb_Meta p)) s = (Returns (Some Requeue), s') \<and> stored StateFlightChecks i p js s' \<and>
    st_JobName (pb_Status (cx_pb s')) = st_JobName (pb_Status (cx_pb s))"
proof -
  have "\<exists>s' x. Reconcile E fuel (object_key (pb_Meta p)) s = (Returns (Some Requeue), s') \<and> stored StateFlightChecks i p js s' \<and>
    opened (pb_Status (cx_pb s)) x \<and> st_JobName (pb_Status (cx_pb s')) = st_JobName x"
  proof (rule stored_moves [where R = "\<lambda>x y. st_JobName y = st_JobName x", OF assms(1,2)])
    fix cfg x v
    assume v: "works_on ((cx_pb s)\<lparr>pb_Status := x\<rparr>) js v" "opened (pb_Status (cx_pb s)) (pb_Status (cx_pb v))"
      "GetCurrentState (cx_runner v) (st_BuildID (pb_Status (cx_pb v))) = StateInitial"
    have "\<exists>s'. init_build E v = (Returns Requeue, s') \<and> goes StateFlightChecks ((cx_pb s)\<lparr>pb_Status := x\<rparr>) js v s' \<and>
        st_JobName (pb_Status (cx_pb s')) = st_JobName (pb_Status (cx_pb v))"
      by (rule init_goes [OF v(1,3)]) (use v(2) assms(3) in \<open>simp add: may_fail_def\<close>)
    then show "\<exists>s'. dispatch E fuel (Some cfg) StateInitial v = (Returns (Some Requeue), s') \<and>
        goes StateFlightChecks ((cx_pb s)\<lparr>pb_Status := x\<rparr>) js v s' \<and>
        st_JobName (pb_Status (cx_pb s')) = st_JobName (pb_Status (cx_pb v))"
      using dispatch_runs(1) by blast
  qed (simp_all add: opsy_edge_iff)
  then show ?thesis by auto
qed

lemma active_reconcile:
  assumes "stored StateFlightChecks i p js s" "quiet_slack p" "\<not> idle_for p js"
  shows "\<exists>s'. Reconcile E fuel (object_key (pb_Meta p)) s = (Returns (Some Requeue), s') \<and> stored StateJobRunning i p js s' \<and>
    st_JobName (pb_Status (cx_pb s')) = st_JobName (pb_Status (cx_pb s))"
proof -
  have "\<exists>s' x. Reconcile E fuel (object_key (pb_Meta p)) s = (Returns (Some Requeue), s') \<and> stored StateJobRunning i p js s' \<and>
    opened (pb_Status (cx_pb s)) x \<and> st_JobName (pb_Status (cx_pb s')) = st_JobName x"
  proof (rule stored_moves [where R = "\<lambda>x y. st_JobName y = st_JobName x", OF assms(1,2)])
    fix cfg x v
    assume v: "works_on ((cx_pb s)\<lparr>pb_Status := x\<rparr>) js v"
      "GetCurrentState (cx_runner v) (st_BuildID (pb_Status (cx_pb v))) = StateFlightChecks"
    have "\<exists>s'. flightCheck E (Some cfg) v = (Returns Requeue, s') \<and> goes StateJobRunning ((cx_pb s)\<lparr>pb_Status := x\<rparr>) js v s' \<and>
        st_JobName (pb_Status (cx_pb s')) = st_JobName (pb_Status (cx_pb v))"
      by (rule active_goes [OF v(1) _ v(2)]) (use assms(1,3) in \<open>simp add: idle_for_def\<close>)
    then show "\<exists>s'. dispatch E fuel (Some cfg) StateFlightChecks v = (Returns (Some Requeue), s') \<and>
        goes StateJobRunning ((cx_pb s)\<lparr>pb_Status := x\<rparr>) js v s' \<and>
        st_JobName (pb_Status (cx_pb s')) = st_JobName (pb_Status (cx_pb v))"
      using dispatch_runs(2) by blast
  qed (simp_all add: opsy_edge_iff)
  then show ?thesis by auto
qed

lemma recovers:
  assumes "stored StateError i p js s" "quiet_slack p" "may_fail (cx_pb s)" "\<not> idle_for p js"
  shows "\<exists>s1 s2 s3. Reconcile E fuel (object_key (pb_Meta p)) s = (Returns (Some Requeue), s1) \<and>
    Reconcile E fuel (object_key (pb_Meta p)) s1 = (Returns (Some Requeue), s2) \<and>
    Reconcile E fuel (object_key (pb_Meta p)) s2 = (Returns (Some Requeue), s3) \<and>
    stored StateInitial i p js s1 \<and> stored StateFlightChecks i p js s2 \<and> stored StateJobRunning i p js s3 \<and>
    st_JobName (pb_Status (cx_pb s3)) = st_JobName (pb_Status (cx_pb s))"
proof -
  obtain s1 where 1: "Reconcile E fuel (object_key (pb_Meta p)) s = (Returns (Some Requeue), s1)"
    "stored StateInitial i p js s1" "st_JobName (pb_Status (cx_pb s1)) = st_JobName (pb_Status (cx_pb s))"
    "may_fail (cx_pb s1)"
    using error_reconcile [OF assms(1,2)] assms(3) by metis
  obtain s2 where 2: "Reconcile E fuel (object_key (pb_Meta p)) s1 = (Returns (Some Requeue), s2)"
    "stored StateFlightChecks i p js s2" "st_JobName (pb_Status (cx_pb s2)) = st_JobName (pb_Status (cx_pb s1))"
    using init_reconcile [OF 1(2) assms(2) 1(4)] by blast
  obtain s3 where 3: "Reconcile E fuel (object_key (pb_Meta p)) s2 = (Returns (Some Requeue), s3)"
    "stored StateJobRunning i p js s3" "st_JobName (pb_Status (cx_pb s3)) = st_JobName (pb_Status (cx_pb s2))"
    using active_reconcile [OF 2(2) assms(2,4)] by blast
  have "st_JobName (pb_Status (cx_pb s3)) = st_JobName (pb_Status (cx_pb s))"
    by (simp only: 3(3) 2(3) 1(3))
  with 1(1,2) 2(1,2) 3(1,2) show ?thesis by blast
qed

end


text \<open>The applied builder of the examples after a failure, with its job \<open>pb-0f3a9\<close> still running.\<close>

definition failed_pb :: packer_builder where
  "failed_pb = set_status (\<lambda>x. x\<lparr>st_BuildID := ''b1'', st_State := StateError, st_JobName := ''pb-0f3a9''\<rparr>) applied_pb"

definition failed_start :: "sim ctx" where
  "failed_start = \<lparr>cx_world = (sim_start failed_pb)\<lparr>sim_jobs := [build_job failed_pb []]\<rparr>,
     cx_runner = opsy_New\<lparr>run_states := [''b1'' \<mapsto> StateError]\<rparr>, cx_pb = failed_pb\<rparr>"


end
