(* ===== verification/Stale_Read.thy ===== *)
theory Stale_Read
  imports Packer_Progress
begin

text \<open>
  The client of the manager reads from a cache that lags behind what was written. A reconciliation asks
  to be run again at once after each move, so it may read the builder as it was before the move, while
  the runner in memory has moved on.
\<close>

text \<open>The steps of a build that the table does not let the runner take back.\<close>

lemma no_way_back:
  assumes "lifecycle a b" "b \<noteq> StateError" "a \<notin> {StateInitial, StateError}"
  shows "\<not> opsy_edge b a" "a \<noteq> b" "a \<noteq> StateUnset" "b \<noteq> StateAMICreated \<Longrightarrow> opsy_edge b StateError"
  using assms by (auto simp: lifecycle_iff opsy_edge_iff)


text \<open>An API server that accepts writes and answers every read with the builder in \<open>JobCreation\<close>.\<close>

definition lagging_env :: "sim env" where
  "lagging_env = obliging_env\<lparr>env_get_pb := (\<lambda>k w. (Inr (in_state StateJobCreation), w))\<rparr>"


end
