(* ===== verification/Go_Memory.thy ===== *)
theory Go_Memory
  imports Api_Types "HOL-Library.Monad_Syntax"
begin

text \<open>
  Memory, and the copies \<open>api/ami/v1alpha1/zz_generated.deepcopy.go\<close> makes of the custom resources.

  The other theories treat a custom resource as a value. In Go it is a struct whose slices, maps and
  pointers refer to memory that an assignment shares: \<open>*out = *in\<close> copies the references, and only
  the generated methods copy what they refer to. Here a resource is a record of such references, the
  memory is the list of the cells allocated so far, and each generated method allocates what the code
  allocates. The theorems show that reading a copy gives the value of the original, and that no later
  write through one of the two is seen through the other. \<open>status.Update\<close> and the patch of the
  condition types rest on that.

  A slice is represented by the cell of its elements in range: the code here makes each array at the
  length of its slice and no two slices overlap. \<open>metav1.ObjectMeta\<close>, \<open>ListMeta\<close> and \<open>Time\<close> are
  copied by methods of the library that are documented to make a deep copy; they are values here.
\<close>

section \<open>Resources in memory\<close>

type_synonym addr = nat

text \<open>A pointer, a slice or a map: \<open>None\<close> is \<open>nil\<close>.\<close>

type_synonym ref = "addr option"

record filters_obj =
  afo_Name :: bytes
  afo_Values :: ref

record slack_obj =
  so_Channels :: ref
  so_Secret :: bytes

record notify_obj =
  no_Slack :: slack_obj

record command_obj =
  cmo_Args :: ref
  cmo_Color :: bool
  cmo_Debug :: bool
  cmo_OnError :: on_error_behavior
  cmo_SubCommand :: bytes
  cmo_Variables :: ref
  cmo_VariablesFile :: bytes
  cmo_WorkingDir :: bytes

record builder_obj =
  bo_Branch :: bytes
  bo_Commands :: ref
  bo_Debug :: bool
  bo_Dir :: bytes
  bo_Image :: bytes
  bo_ImageType :: image_type
  bo_RepoURL :: bytes
  bo_Secret :: bytes
  bo_JobServiceAccountName :: bytes

record pb_spec_obj =
  pspo_AMIFilters :: ref
  pspo_ClusterName :: bytes
  pspo_TimeOuts :: time_outs
  pspo_GitSync :: git_sync
  pspo_Notify :: notify_obj
  pspo_Region :: bytes
  pspo_Builder :: builder_obj

record pb_status_obj =
  pso_Active :: ref
  pso_BuildID :: bytes
  pso_Command :: bytes
  pso_Conditions :: ref
  pso_FailedJobCount :: ref
  pso_JobID :: bytes
  pso_JobName :: bytes
  pso_JobStatus :: job_status
  pso_LastRun :: time
  pso_LastRunBaseImageID :: bytes
  pso_LastRunBuiltImageID :: bytes
  pso_LastRunMessage :: bytes
  pso_LastRunStatus :: last_run_status
  pso_LastRunSecurityGroupID :: bytes
  pso_LastRunKeyPair :: bytes
  pso_LastTransitionTime :: time
  pso_MaxNumberOfFailedJobs :: ref
  pso_State :: pb_state

record pb_obj =
  bp_Meta :: object_meta
  bp_Spec :: pb_spec_obj
  bp_Status :: pb_status_obj

record refresh_obj =
  ro_Enable :: bool
  ro_Force :: bool
  ro_MaxUnavailable :: ref
  ro_MaxUnavailablePercentage :: ref
  ro_WaitForCompletion :: bool

record ar_spec_obj =
  ao_Region :: bytes
  ao_AMI :: bytes
  ao_AMIFilters :: ref
  ao_ClusterName :: bytes
  ao_Exclude :: ref
  ao_TimeOuts :: time_outs
  ao_RefreshConfig :: refresh_obj

record ar_status_obj =
  aso_Conditions :: ref
  aso_LastRun :: time
  aso_LastRunStatus :: last_run_status

record ar_obj =
  arp_Meta :: object_meta
  arp_Spec :: ar_spec_obj
  arp_Status :: ar_status_obj

text \<open>The list types, without the metadata of a list.\<close>

record pb_list_obj =
  pl_Items :: ref

record ar_list_obj =
  al_Items :: ref

section \<open>The memory\<close>

text \<open>
  What one allocation holds: the array of a slice, a map, a number behind a pointer, or a struct made
  by \<open>new\<close>. Cells are never freed (the garbage collector takes no reachable cell).
\<close>

datatype cell =
    StringArray "bytes list"
  | StringMap "(bytes \<times> bytes) list"
  | Int32Cell int32
  | ReferenceArray "object_reference list"
  | FiltersArray "filters_obj list"
  | CommandArray "command_obj list"
  | ConditionPtrArray "ref list"
  | PackerBuilderArray "pb_obj list"
  | AMIRefresherArray "ar_obj list"
  | AMIFiltersCell filters_obj
  | SlackNotifierCell slack_obj
  | NotifyCell notify_obj
  | CommandCell command_obj
  | BuilderCell builder_obj
  | OpsyConditionCell opsy_condition
  | SyncCell git_sync
  | TimeOutsCell time_outs
  | PackerBuilderSpecCell pb_spec_obj
  | PackerBuilderStatusCell pb_status_obj
  | PackerBuilderCell pb_obj
  | PackerBuilderListCell pb_list_obj
  | RefreshConfigCell refresh_obj
  | AMIRefresherSpecCell ar_spec_obj
  | AMIRefresherStatusCell ar_status_obj
  | AMIRefresherCell ar_obj
  | AMIRefresherListCell ar_list_obj

type_synonym mem = "cell list"

text \<open>
  A read through a reference: \<open>None\<close> where the cell does not exist or holds another type, which Go's
  types and its garbage collector exclude.
\<close>

definition load :: "(cell \<Rightarrow> 'c option) \<Rightarrow> addr \<Rightarrow> mem \<Rightarrow> 'c option" where
  "load sel a h = (if a < length h then sel (h ! a) else None)"

definition alloc :: "cell \<Rightarrow> mem \<Rightarrow> addr \<times> mem" where
  "alloc c h = (length h, h @ [c])"

definition agree_from :: "nat \<Rightarrow> mem \<Rightarrow> mem \<Rightarrow> bool" where
  "agree_from n h h' \<longleftrightarrow> length h \<le> length h' \<and> (\<forall>a. n \<le> a \<and> a < length h \<longrightarrow> h' ! a = h ! a)"

text \<open>
  \<open>owned view n h x v\<close>: reading \<open>x\<close> gives \<open>v\<close> in every memory that has the cells of \<open>h\<close> from \<open>n\<close> on,
  whatever the cells before \<open>n\<close> hold: all that \<open>x\<close> refers to was allocated at \<open>n\<close> or later.
\<close>

definition owned :: "(mem \<Rightarrow> 'x \<Rightarrow> 'v option) \<Rightarrow> nat \<Rightarrow> mem \<Rightarrow> 'x \<Rightarrow> 'v \<Rightarrow> bool" where
  "owned view n h x v \<longleftrightarrow> (\<forall>h'. agree_from n h h' \<longrightarrow> view h' x = Some v)"

lemma agree_from_refl [simp]: "agree_from n h h"
  by (simp add: agree_from_def)

lemma agree_from_trans: "agree_from n h h' \<Longrightarrow> agree_from n h' h'' \<Longrightarrow> agree_from n h h''"
  by (auto simp: agree_from_def)

lemma agree_from_weaken: "agree_from m h h' \<Longrightarrow> m \<le> n \<Longrightarrow> agree_from n h h'"
  by (auto simp: agree_from_def)

lemma agree_from_alloc [simp]: "agree_from n h (h @ [c])"
  by (auto simp: agree_from_def nth_append)

lemma agree_from_update: "a < n \<Longrightarrow> agree_from n h (h[a := c])"
  by (auto simp: agree_from_def)

lemma agree_from_length: "agree_from n h h' \<Longrightarrow> length h \<le> length h'"
  by (simp add: agree_from_def)

lemma agree_from_load:
  "agree_from n h h' \<Longrightarrow> n \<le> a \<Longrightarrow> load sel a h = Some x \<Longrightarrow> load sel a h' = Some x"
  by (auto simp: agree_from_def load_def split: if_splits)

lemma load_alloc [simp]: "load sel (length h) (h @ [c]) = sel c"
  by (simp add: load_def)

lemma load_length: "load sel a h = Some x \<Longrightarrow> a < length h"
  by (simp add: load_def split: if_splits)

lemma owned_view: "owned view n h x v \<Longrightarrow> view h x = Some v"
  by (simp add: owned_def)

lemma owned_later: "owned view n h x v \<Longrightarrow> agree_from n h h' \<Longrightarrow> owned view n h' x v"
  by (auto simp: owned_def intro: agree_from_trans)

lemma owned_weaken: "owned view n h x v \<Longrightarrow> m \<le> n \<Longrightarrow> owned view m h x v"
  by (auto simp: owned_def intro: agree_from_weaken)

section \<open>What a copying method promises\<close>

text \<open>
  \<open>view\<close> reads a value through the references of a struct, \<open>copy\<close> is its \<open>DeepCopyInto\<close>: from the
  struct \<open>*in\<close> and the memory it yields the struct \<open>*out\<close> and the memory with the cells it made. The
  two laws: reading depends only on the cells there are, and a copy changes no cell there is, has the
  value of the original, and owns all that it refers to.
\<close>

locale copyable =
  fixes view :: "mem \<Rightarrow> 'x \<Rightarrow> 'v option"
    and copy :: "'x \<Rightarrow> mem \<Rightarrow> ('x \<times> mem) option"
  assumes view_later: "view h x = Some v \<Longrightarrow> agree_from 0 h h' \<Longrightarrow> view h' x = Some v"
    and copy_owned: "view h x = Some v \<Longrightarrow>
      \<exists>y h'. copy x h = Some (y, h') \<and> agree_from 0 h h' \<and> owned view (length h) h' y v"

text \<open>
  What a program does with its memory later: it writes to cells it can reach and allocates new ones.
\<close>

datatype mem_op = Write addr cell | Allocate cell

fun mem_step :: "mem_op \<Rightarrow> mem \<Rightarrow> mem" where
  "mem_step (Write a c) h = h[a := c]"
| "mem_step (Allocate c) h = h @ [c]"

definition mem_run :: "mem_op list \<Rightarrow> mem \<Rightarrow> mem" where
  "mem_run steps h = fold mem_step steps h"

fun writes_only :: "(addr \<Rightarrow> bool) \<Rightarrow> mem_op \<Rightarrow> bool" where
  "writes_only P (Write a c) = P a"
| "writes_only P (Allocate c) = True"

lemma mem_run_simps [simp]:
  "mem_run [] h = h" "mem_run (s # steps) h = mem_run steps (mem_step s h)"
  by (simp_all add: mem_run_def)

lemma mem_run_below:
  "(\<And>s. s \<in> set steps \<Longrightarrow> writes_only (\<lambda>a. a < n) s) \<Longrightarrow> agree_from n h (mem_run steps h)"
proof (induction steps arbitrary: h)
  case Nil
  then show ?case by simp
next
  case (Cons s steps)
  have "agree_from n h (mem_step s h)"
    using Cons.prems [of s] by (cases s) (auto intro: agree_from_update)
  then show ?case
    using Cons agree_from_trans by force
qed

lemma mem_run_above:
  "(\<And>s. s \<in> set steps \<Longrightarrow> writes_only (\<lambda>a. n \<le> a) s) \<Longrightarrow> length h0 \<le> n \<Longrightarrow> agree_from 0 h0 h \<Longrightarrow>
     agree_from 0 h0 (mem_run steps h)"
proof (induction steps arbitrary: h)
  case Nil
  then show ?case by simp
next
  case (Cons s steps)
  have "agree_from 0 h0 (mem_step s h)"
    using Cons.prems(1) [of s] Cons.prems(2,3)
    by (cases s) (auto simp: agree_from_def nth_append nth_list_update)
  then show ?case
    using Cons by simp
qed

text \<open>
  The two halves of a copy are independent: what is written to cells older than the copy is not seen
  through the copy, what is written to the cells the copy made is not seen through the original.
\<close>

context copyable
begin

lemma independent:
  assumes "view h x = Some v"
  shows "\<exists>y h'. copy x h = Some (y, h') \<and> view h' y = Some v \<and> view h' x = Some v \<and>
    (\<forall>steps. (\<forall>s \<in> set steps. writes_only (\<lambda>a. a < length h) s) \<longrightarrow>
       view (mem_run steps h') y = Some v) \<and>
    (\<forall>steps. (\<forall>s \<in> set steps. writes_only (\<lambda>a. length h \<le> a) s) \<longrightarrow>
       view (mem_run steps h') x = Some v)"
proof -
  from copy_owned [OF assms] obtain y h' where y: "copy x h = Some (y, h')"
    and a: "agree_from 0 h h'" and own: "owned view (length h) h' y v"
    by blast
  have "view (mem_run steps h') y = Some v"
    if "\<forall>s \<in> set steps. writes_only (\<lambda>a. a < length h) s" for steps
    by (rule owned_view [OF owned_later [OF own mem_run_below]]) (use that in blast)
  moreover have "view (mem_run steps h') x = Some v"
    if "\<forall>s \<in> set steps. writes_only (\<lambda>a. length h \<le> a) s" for steps
    by (rule view_later [OF assms mem_run_above [OF _ order_refl a]]) (use that in blast)
  ultimately show ?thesis
    using y owned_view [OF own] view_later [OF assms a] by blast
qed

end

text \<open>
  What the generated code does for each field: a struct without references is assigned
  (\<open>copy_plain\<close>); the elements of an array are copied one after the other (\<open>copy_items\<close>, the loop
  \<open>for i := range *in\<close>); and \<open>copy_box\<close> is \<open>if in.F != nil\<close> with the allocation by \<open>make\<close> or \<open>new\<close> and
  the copy of the contents. The flat assignment \<open>*out = *in\<close> with which every \<open>DeepCopyInto\<close> begins is
  made here with the allocation; nothing reads the new cell before its contents are complete.
\<close>

definition copy_plain :: "'c \<Rightarrow> mem \<Rightarrow> ('c \<times> mem) option" where
  "copy_plain x h = Some (x, h)"

fun copy_items :: "('c \<Rightarrow> mem \<Rightarrow> ('c \<times> mem) option) \<Rightarrow> 'c list \<Rightarrow> mem \<Rightarrow> ('c list \<times> mem) option"
where
  "copy_items copy [] h = Some ([], h)"
| "copy_items copy (x # xs) h = do {
     (y, h) \<leftarrow> copy x h;
     (ys, h) \<leftarrow> copy_items copy xs h;
     Some (y # ys, h)
   }"

fun copy_box :: "(cell \<Rightarrow> 'c option) \<Rightarrow> ('c \<Rightarrow> cell) \<Rightarrow> ('c \<Rightarrow> mem \<Rightarrow> ('c \<times> mem) option) \<Rightarrow>
    ref \<Rightarrow> mem \<Rightarrow> (ref \<times> mem) option" where
  "copy_box sel mk copy None h = Some (None, h)"
| "copy_box sel mk copy (Some a) h = do {
     x \<leftarrow> load sel a h;
     let (b, h) = alloc (mk x) h;
     (y, h) \<leftarrow> copy x h;
     Some (Some b, h[b := mk y])
   }"

text \<open>The corresponding readings.\<close>

definition view_plain :: "mem \<Rightarrow> 'c \<Rightarrow> 'c option" where
  "view_plain h x = Some x"

definition view_items :: "(mem \<Rightarrow> 'c \<Rightarrow> 'v option) \<Rightarrow> mem \<Rightarrow> 'c list \<Rightarrow> 'v list option" where
  "view_items view h xs = those (map (view h) xs)"

fun view_box ::
  "(cell \<Rightarrow> 'c option) \<Rightarrow> (mem \<Rightarrow> 'c \<Rightarrow> 'v option) \<Rightarrow> mem \<Rightarrow> ref \<Rightarrow> 'v option option" where
  "view_box sel view h None = Some None"
| "view_box sel view h (Some a) = do { x \<leftarrow> load sel a h; v \<leftarrow> view h x; Some (Some v) }"

lemma view_items_Cons: "view_items view h (x # xs) =
    do { v \<leftarrow> view h x; vs \<leftarrow> view_items view h xs; Some (v # vs) }"
  by (simp add: view_items_def map_conv_bind_option comp_def split: option.split)

lemma view_items_Nil [simp]: "view_items view h [] = Some []"
  by (simp add: view_items_def)

context copyable
begin

lemma view_items_later:
  "view_items view h xs = Some vs \<Longrightarrow> agree_from 0 h h' \<Longrightarrow> view_items view h' xs = Some vs"
  by (induction xs arbitrary: vs)
    (auto simp: view_items_Cons split: Option.bind_splits dest: view_later)

lemma copy_items_owned: "view_items view h xs = Some vs \<Longrightarrow>
  \<exists>ys h'. copy_items copy xs h = Some (ys, h') \<and> agree_from 0 h h' \<and>
    owned (view_items view) (length h) h' ys vs"
proof (induction xs arbitrary: vs h)
  case Nil
  then show ?case by (simp add: owned_def)
next
  case (Cons x xs)
  then obtain v ws where v: "view h x = Some v" and ws: "view_items view h xs = Some ws"
    and vs: "vs = v # ws"
    by (auto simp: view_items_Cons split: Option.bind_splits)
  from copy_owned [OF v] obtain y h1 where y: "copy x h = Some (y, h1)"
    and a1: "agree_from 0 h h1" and o1: "owned view (length h) h1 y v"
    by blast
  from Cons.IH [OF view_items_later [OF ws a1]] obtain ys h2 where
    ys: "copy_items copy xs h1 = Some (ys, h2)" and a2: "agree_from 0 h1 h2"
    and o2: "owned (view_items view) (length h1) h2 ys ws"
    by blast
  have "owned view (length h) h2 y v"
    using owned_later [OF o1] agree_from_weaken [OF a2] by simp
  moreover have "owned (view_items view) (length h) h2 ys ws"
    by (rule owned_weaken [OF o2 agree_from_length [OF a1]])
  ultimately have "owned (view_items view) (length h) h2 (y # ys) vs"
    by (simp add: owned_def view_items_Cons vs)
  with y ys agree_from_trans [OF a1 a2] show ?case by simp
qed

lemma items: "copyable (view_items view) (copy_items copy)"
  by unfold_locales (auto dest: view_items_later copy_items_owned)

lemma copy_box_owned:
  assumes mk: "\<And>c. sel (mk c) = Some c" and w: "view_box sel view h r = Some w"
  shows "\<exists>s h'. copy_box sel mk copy r h = Some (s, h') \<and> agree_from 0 h h' \<and>
    owned (view_box sel view) (length h) h' s w"
proof (cases r)
  case None
  with w show ?thesis by (auto simp: owned_def)
next
  case (Some a)
  with w obtain x v where x: "load sel a h = Some x" and v: "view h x = Some v"
    and wv: "w = Some v"
    by (auto simp: bind_eq_Some_conv)
  let ?h = "h @ [mk x]"
  have "view ?h x = Some v"
    by (rule view_later [OF v agree_from_alloc])
  from copy_owned [OF this] obtain y h2 where y: "copy x ?h = Some (y, h2)"
    and a2: "agree_from 0 ?h h2" and own: "owned view (Suc (length h)) h2 y v"
    by auto
  let ?h3 = "h2[length h := mk y]"
  have len: "length h < length h2"
    using agree_from_length [OF a2] by simp
  have "agree_from 0 h ?h3"
    using a2 len by (auto simp: agree_from_def nth_append nth_list_update)
  moreover have "owned (view_box sel view) (length h) ?h3 (Some (length h)) w"
    unfolding owned_def
  proof (intro allI impI)
    fix h'
    assume a: "agree_from (length h) ?h3 h'"
    have "load sel (length h) h' = Some y"
      by (rule agree_from_load [OF a order_refl]) (use len mk in \<open>simp add: load_def\<close>)
    moreover have "agree_from (Suc (length h)) h2 h'"
      using a by (auto simp: agree_from_def nth_list_update)
    ultimately show "view_box sel view h' (Some (length h)) = Some w"
      using own by (simp add: owned_def wv)
  qed
  ultimately show ?thesis
    using Some x y by (simp add: alloc_def)
qed

lemma box: "(\<And>c. sel (mk c) = Some c) \<Longrightarrow> copyable (view_box sel view) (copy_box sel mk copy)"
proof unfold_locales
  fix h r w h'
  assume "view_box sel view h r = Some w" "agree_from 0 h h'"
  then show "view_box sel view h' r = Some w"
    by (cases r) (auto simp: bind_eq_Some_conv dest: view_later agree_from_load [OF _ le0])
qed (rule copy_box_owned)

end

lemma plain: "copyable view_plain copy_plain"
  by unfold_locales (auto simp: view_plain_def copy_plain_def owned_def)

text \<open>Two fields copied one after the other, and the copy of a field of a struct.\<close>

definition view_pair ::
  "(mem \<Rightarrow> 'x \<Rightarrow> 'v option) \<Rightarrow> (mem \<Rightarrow> 'z \<Rightarrow> 'w option) \<Rightarrow> mem \<Rightarrow> 'x \<times> 'z \<Rightarrow> ('v \<times> 'w) option" where
  "view_pair view view' h p = do { v \<leftarrow> view h (fst p); w \<leftarrow> view' h (snd p); Some (v, w) }"

definition copy_pair :: "('x \<Rightarrow> mem \<Rightarrow> ('x \<times> mem) option) \<Rightarrow> ('z \<Rightarrow> mem \<Rightarrow> ('z \<times> mem) option) \<Rightarrow>
    'x \<times> 'z \<Rightarrow> mem \<Rightarrow> (('x \<times> 'z) \<times> mem) option" where
  "copy_pair copy copy' p h = do {
     (x, h) \<leftarrow> copy (fst p) h;
     (z, h) \<leftarrow> copy' (snd p) h;
     Some ((x, z), h)
   }"

lemma pair:
  assumes c: "copyable view copy" and c': "copyable view' copy'"
  shows "copyable (view_pair view view') (copy_pair copy copy')"
proof unfold_locales
  fix h p u h'
  assume "view_pair view view' h p = Some u" "agree_from 0 h h'"
  then show "view_pair view view' h' p = Some u"
    by (auto simp: view_pair_def bind_eq_Some_conv
        dest: copyable.view_later [OF c] copyable.view_later [OF c'])
next
  fix h p u
  assume "view_pair view view' h p = Some u"
  then obtain v w where v: "view h (fst p) = Some v" and w: "view' h (snd p) = Some w"
    and u: "u = (v, w)"
    by (auto simp: view_pair_def bind_eq_Some_conv)
  from copyable.copy_owned [OF c v] obtain x h1 where x: "copy (fst p) h = Some (x, h1)"
    and a1: "agree_from 0 h h1" and o1: "owned view (length h) h1 x v"
    by blast
  from copyable.copy_owned [OF c' copyable.view_later [OF c' w a1]] obtain z h2 where
    z: "copy' (snd p) h1 = Some (z, h2)" and a2: "agree_from 0 h1 h2"
    and o2: "owned view' (length h1) h2 z w"
    by blast
  have "owned view (length h) h2 x v"
    using owned_later [OF o1] agree_from_weaken [OF a2] by simp
  moreover have "owned view' (length h) h2 z w"
    by (rule owned_weaken [OF o2 agree_from_length [OF a1]])
  ultimately have "owned (view_pair view view') (length h) h2 (x, z) u"
    by (simp add: owned_def view_pair_def u)
  with x z agree_from_trans [OF a1 a2]
  show "\<exists>q h'. copy_pair copy copy' p h = Some (q, h') \<and> agree_from 0 h h' \<and>
      owned (view_pair view view') (length h) h' q u"
    by (auto simp: copy_pair_def)
qed

lemma field:
  assumes c: "copyable view copy"
    and get: "\<And>x y. get (put y x) = y" and mk: "\<And>x y. mk (put y x) = mk x"
    and V: "\<And>h x. view' h x = do { v \<leftarrow> view h (get x); mk x v }"
    and C: "\<And>x h. copy' x h = do { (y, h) \<leftarrow> copy (get x) h; Some (put y x, h) }"
  shows "copyable view' copy'"
proof unfold_locales
  fix h x v h'
  assume "view' h x = Some v" "agree_from 0 h h'"
  then show "view' h' x = Some v"
    by (auto simp: V bind_eq_Some_conv dest: copyable.view_later [OF c])
next
  fix h x u
  assume "view' h x = Some u"
  then obtain v where v: "view h (get x) = Some v" and u: "mk x v = Some u"
    by (auto simp: V bind_eq_Some_conv)
  from copyable.copy_owned [OF c v] obtain y h1 where y: "copy (get x) h = Some (y, h1)"
    and a: "agree_from 0 h h1" and own: "owned view (length h) h1 y v"
    by blast
  have "owned view' (length h) h1 (put y x) u"
    using own by (simp add: owned_def V get mk u)
  with y a show "\<exists>z h'. copy' x h = Some (z, h') \<and> agree_from 0 h h' \<and>
      owned view' (length h) h' z u"
    by (auto simp: C)
qed

section \<open>References to arrays, maps and numbers\<close>

definition string_array :: "cell \<Rightarrow> bytes list option" where
  "string_array c = (case c of StringArray xs \<Rightarrow> Some xs | _ \<Rightarrow> None)"

definition string_map :: "cell \<Rightarrow> (bytes \<times> bytes) list option" where
  "string_map c = (case c of StringMap m \<Rightarrow> Some m | _ \<Rightarrow> None)"

definition int32_cell :: "cell \<Rightarrow> int32 option" where
  "int32_cell c = (case c of Int32Cell n \<Rightarrow> Some n | _ \<Rightarrow> None)"

definition reference_array :: "cell \<Rightarrow> object_reference list option" where
  "reference_array c = (case c of ReferenceArray xs \<Rightarrow> Some xs | _ \<Rightarrow> None)"

text \<open>
  \<open>make\<close> and \<open>copy\<close> of a slice of strings, the loop over a map, \<open>new(int32)\<close> and \<open>make\<close> and \<open>copy\<close> of
  a slice of object references.
\<close>

abbreviation copy_strings :: "ref \<Rightarrow> mem \<Rightarrow> (ref \<times> mem) option" where
  "copy_strings \<equiv> copy_box string_array StringArray copy_plain"

abbreviation copy_string_map :: "ref \<Rightarrow> mem \<Rightarrow> (ref \<times> mem) option" where
  "copy_string_map \<equiv> copy_box string_map StringMap copy_plain"

abbreviation copy_int32 :: "ref \<Rightarrow> mem \<Rightarrow> (ref \<times> mem) option" where
  "copy_int32 \<equiv> copy_box int32_cell Int32Cell copy_plain"

abbreviation copy_references :: "ref \<Rightarrow> mem \<Rightarrow> (ref \<times> mem) option" where
  "copy_references \<equiv> copy_box reference_array ReferenceArray copy_plain"

abbreviation view_strings :: "mem \<Rightarrow> ref \<Rightarrow> bytes list option option" where
  "view_strings \<equiv> view_box string_array view_plain"

abbreviation view_string_map :: "mem \<Rightarrow> ref \<Rightarrow> (bytes \<times> bytes) list option option" where
  "view_string_map \<equiv> view_box string_map view_plain"

abbreviation view_int32 :: "mem \<Rightarrow> ref \<Rightarrow> int32 option option" where
  "view_int32 \<equiv> view_box int32_cell view_plain"

abbreviation view_references :: "mem \<Rightarrow> ref \<Rightarrow> object_reference list option option" where
  "view_references \<equiv> view_box reference_array view_plain"

text \<open>The elements of a slice in which the model of the field does not tell \<open>nil\<close> from empty.\<close>

definition elems :: "'e list option \<Rightarrow> 'e list" where
  "elems s = (case s of None \<Rightarrow> [] | Some xs \<Rightarrow> xs)"

interpretation strings: copyable view_strings copy_strings
  by (rule copyable.box [OF plain]) (simp add: string_array_def)

interpretation string_maps: copyable view_string_map copy_string_map
  by (rule copyable.box [OF plain]) (simp add: string_map_def)

interpretation int32s: copyable view_int32 copy_int32
  by (rule copyable.box [OF plain]) (simp add: int32_cell_def)

interpretation references: copyable view_references copy_references
  by (rule copyable.box [OF plain]) (simp add: reference_array_def)

end
