(* ===== verification/Deep_Copy.thy ===== *)
theory Deep_Copy
  imports Go_Memory
begin

text \<open>
  The generated methods of \<open>api/ami/v1alpha1/zz_generated.deepcopy.go\<close>, type by type: the function
  that reads the value (a record of \<open>Api_Types\<close>), \<open>DeepCopyInto\<close> as a function from \<open>*in\<close> to \<open>*out\<close>,
  and \<open>DeepCopy\<close>, which returns \<open>nil\<close> for \<open>nil\<close> and a pointer to a new struct otherwise. Each method
  is shown to keep the promise of the locale \<open>copyable\<close>, so that the methods of the resources rest on
  those of their parts. The last section draws the consequences for \<open>status.Update\<close>.
\<close>

section \<open>Structs without references\<close>

definition sync_cell :: "cell \<Rightarrow> git_sync option" where
  "sync_cell c = (case c of SyncCell x \<Rightarrow> Some x | _ \<Rightarrow> None)"

definition Sync_DeepCopyInto :: "git_sync \<Rightarrow> mem \<Rightarrow> (git_sync \<times> mem) option" where
  "Sync_DeepCopyInto = copy_plain"

definition Sync_DeepCopy :: "ref \<Rightarrow> mem \<Rightarrow> (ref \<times> mem) option" where
  "Sync_DeepCopy = copy_box sync_cell SyncCell Sync_DeepCopyInto"

definition time_outs_cell :: "cell \<Rightarrow> time_outs option" where
  "time_outs_cell c = (case c of TimeOutsCell x \<Rightarrow> Some x | _ \<Rightarrow> None)"

definition TimeOuts_DeepCopyInto :: "time_outs \<Rightarrow> mem \<Rightarrow> (time_outs \<times> mem) option" where
  "TimeOuts_DeepCopyInto = copy_plain"

definition TimeOuts_DeepCopy :: "ref \<Rightarrow> mem \<Rightarrow> (ref \<times> mem) option" where
  "TimeOuts_DeepCopy = copy_box time_outs_cell TimeOutsCell TimeOuts_DeepCopyInto"

text \<open>The transition time of a condition is copied by its own method.\<close>

definition condition_cell :: "cell \<Rightarrow> opsy_condition option" where
  "condition_cell c = (case c of OpsyConditionCell x \<Rightarrow> Some x | _ \<Rightarrow> None)"

definition OpsyCondition_DeepCopyInto :: "opsy_condition \<Rightarrow> mem \<Rightarrow> (opsy_condition \<times> mem) option"
  where
  "OpsyCondition_DeepCopyInto = copy_plain"

definition OpsyCondition_DeepCopy :: "ref \<Rightarrow> mem \<Rightarrow> (ref \<times> mem) option" where
  "OpsyCondition_DeepCopy = copy_box condition_cell OpsyConditionCell OpsyCondition_DeepCopyInto"

definition view_condition_ptr :: "mem \<Rightarrow> ref \<Rightarrow> opsy_condition option option" where
  "view_condition_ptr = view_box condition_cell view_plain"

interpretation syncs: copyable view_plain Sync_DeepCopyInto
  by (simp add: Sync_DeepCopyInto_def plain)

interpretation sync_ptrs: copyable "view_box sync_cell view_plain" Sync_DeepCopy
  unfolding Sync_DeepCopy_def by (rule syncs.box) (simp add: sync_cell_def)

interpretation time_outs: copyable view_plain TimeOuts_DeepCopyInto
  by (simp add: TimeOuts_DeepCopyInto_def plain)

interpretation time_outs_ptrs: copyable "view_box time_outs_cell view_plain" TimeOuts_DeepCopy
  unfolding TimeOuts_DeepCopy_def by (rule time_outs.box) (simp add: time_outs_cell_def)

interpretation conditions: copyable view_plain OpsyCondition_DeepCopyInto
  by (simp add: OpsyCondition_DeepCopyInto_def plain)

interpretation condition_ptrs: copyable view_condition_ptr OpsyCondition_DeepCopy
  unfolding OpsyCondition_DeepCopy_def view_condition_ptr_def
  by (rule conditions.box) (simp add: condition_cell_def)

section \<open>Filters\<close>

definition view_filters :: "mem \<Rightarrow> filters_obj \<Rightarrow> ami_filter option" where
  "view_filters h x = do {
     vs \<leftarrow> view_strings h (afo_Values x);
     Some \<lparr>flt_Name = afo_Name x, flt_Values = elems vs\<rparr>
   }"

definition AMIFilters_DeepCopyInto :: "filters_obj \<Rightarrow> mem \<Rightarrow> (filters_obj \<times> mem) option" where
  "AMIFilters_DeepCopyInto x h = do {
     (r, h) \<leftarrow> copy_strings (afo_Values x) h;
     Some (x\<lparr>afo_Values := r\<rparr>, h)
   }"

interpretation filters: copyable view_filters AMIFilters_DeepCopyInto
  by (rule field [OF strings.copyable_axioms, where get = afo_Values
        and put = "\<lambda>r. afo_Values_update (\<lambda>_. r)"
        and mk = "\<lambda>x v. Some \<lparr>flt_Name = afo_Name x, flt_Values = elems v\<rparr>"])
    (simp_all add: view_filters_def AMIFilters_DeepCopyInto_def fun_eq_iff)

definition filters_cell :: "cell \<Rightarrow> filters_obj option" where
  "filters_cell c = (case c of AMIFiltersCell x \<Rightarrow> Some x | _ \<Rightarrow> None)"

definition AMIFilters_DeepCopy :: "ref \<Rightarrow> mem \<Rightarrow> (ref \<times> mem) option" where
  "AMIFilters_DeepCopy = copy_box filters_cell AMIFiltersCell AMIFilters_DeepCopyInto"

interpretation filters_ptrs: copyable "view_box filters_cell view_filters" AMIFilters_DeepCopy
  unfolding AMIFilters_DeepCopy_def by (rule filters.box) (simp add: filters_cell_def)

text \<open>The slice of filters of both specs.\<close>

definition filters_array :: "cell \<Rightarrow> filters_obj list option" where
  "filters_array c = (case c of FiltersArray xs \<Rightarrow> Some xs | _ \<Rightarrow> None)"

abbreviation copy_filters :: "ref \<Rightarrow> mem \<Rightarrow> (ref \<times> mem) option" where
  "copy_filters \<equiv> copy_box filters_array FiltersArray (copy_items AMIFilters_DeepCopyInto)"

abbreviation view_filters_slice :: "mem \<Rightarrow> ref \<Rightarrow> ami_filter list option option" where
  "view_filters_slice \<equiv> view_box filters_array (view_items view_filters)"

interpretation filters_slices: copyable view_filters_slice copy_filters
  by (rule copyable.box [OF filters.items]) (simp add: filters_array_def)

section \<open>Notifications\<close>

definition view_slack :: "mem \<Rightarrow> slack_obj \<Rightarrow> slack_notifier option" where
  "view_slack h x = do {
     vs \<leftarrow> view_strings h (so_Channels x);
     Some \<lparr>sl_Channels = vs, sl_Secret = so_Secret x\<rparr>
   }"

definition SlackNotifier_DeepCopyInto :: "slack_obj \<Rightarrow> mem \<Rightarrow> (slack_obj \<times> mem) option" where
  "SlackNotifier_DeepCopyInto x h = do {
     (r, h) \<leftarrow> copy_strings (so_Channels x) h;
     Some (x\<lparr>so_Channels := r\<rparr>, h)
   }"

interpretation slack: copyable view_slack SlackNotifier_DeepCopyInto
  by (rule field [OF strings.copyable_axioms, where get = so_Channels
        and put = "\<lambda>r. so_Channels_update (\<lambda>_. r)"
        and mk = "\<lambda>x v. Some \<lparr>sl_Channels = v, sl_Secret = so_Secret x\<rparr>"])
    (simp_all add: view_slack_def SlackNotifier_DeepCopyInto_def fun_eq_iff)

definition slack_cell :: "cell \<Rightarrow> slack_obj option" where
  "slack_cell c = (case c of SlackNotifierCell x \<Rightarrow> Some x | _ \<Rightarrow> None)"

definition SlackNotifier_DeepCopy :: "ref \<Rightarrow> mem \<Rightarrow> (ref \<times> mem) option" where
  "SlackNotifier_DeepCopy = copy_box slack_cell SlackNotifierCell SlackNotifier_DeepCopyInto"

interpretation slack_ptrs: copyable "view_box slack_cell view_slack" SlackNotifier_DeepCopy
  unfolding SlackNotifier_DeepCopy_def by (rule slack.box) (simp add: slack_cell_def)

definition view_notify :: "mem \<Rightarrow> notify_obj \<Rightarrow> notify option" where
  "view_notify h x = do { s \<leftarrow> view_slack h (no_Slack x); Some \<lparr>nf_Slack = s\<rparr> }"

definition Notify_DeepCopyInto :: "notify_obj \<Rightarrow> mem \<Rightarrow> (notify_obj \<times> mem) option" where
  "Notify_DeepCopyInto x h = do {
     (s, h) \<leftarrow> SlackNotifier_DeepCopyInto (no_Slack x) h;
     Some (x\<lparr>no_Slack := s\<rparr>, h)
   }"

interpretation notifies: copyable view_notify Notify_DeepCopyInto
  by (rule field [OF slack.copyable_axioms, where get = no_Slack
        and put = "\<lambda>s. no_Slack_update (\<lambda>_. s)" and mk = "\<lambda>x v. Some \<lparr>nf_Slack = v\<rparr>"])
    (simp_all add: view_notify_def Notify_DeepCopyInto_def fun_eq_iff)

definition notify_cell :: "cell \<Rightarrow> notify_obj option" where
  "notify_cell c = (case c of NotifyCell x \<Rightarrow> Some x | _ \<Rightarrow> None)"

definition Notify_DeepCopy :: "ref \<Rightarrow> mem \<Rightarrow> (ref \<times> mem) option" where
  "Notify_DeepCopy = copy_box notify_cell NotifyCell Notify_DeepCopyInto"

interpretation notify_ptrs: copyable "view_box notify_cell view_notify" Notify_DeepCopy
  unfolding Notify_DeepCopy_def by (rule notifies.box) (simp add: notify_cell_def)

section \<open>Commands and the builder section\<close>

definition view_command :: "mem \<Rightarrow> command_obj \<Rightarrow> command option" where
  "view_command h x = do {
     args \<leftarrow> view_strings h (cmo_Args x);
     vars \<leftarrow> view_string_map h (cmo_Variables x);
     Some \<lparr>cmd_Args = elems args, cmd_Color = cmo_Color x, cmd_Debug = cmo_Debug x,
       cmd_OnError = cmo_OnError x, cmd_SubCommand = cmo_SubCommand x, cmd_Variables = vars,
       cmd_VariablesFile = cmo_VariablesFile x, cmd_WorkingDir = cmo_WorkingDir x\<rparr>
   }"

definition Command_DeepCopyInto :: "command_obj \<Rightarrow> mem \<Rightarrow> (command_obj \<times> mem) option" where
  "Command_DeepCopyInto x h = do {
     (args, h) \<leftarrow> copy_strings (cmo_Args x) h;
     (vars, h) \<leftarrow> copy_string_map (cmo_Variables x) h;
     Some (x\<lparr>cmo_Args := args, cmo_Variables := vars\<rparr>, h)
   }"

interpretation commands: copyable view_command Command_DeepCopyInto
  by (rule field [OF pair [OF strings.copyable_axioms string_maps.copyable_axioms],
        where get = "\<lambda>x. (cmo_Args x, cmo_Variables x)"
        and put = "\<lambda>(a, m) x. x\<lparr>cmo_Args := a, cmo_Variables := m\<rparr>"
        and mk = "\<lambda>x (a, m). Some \<lparr>cmd_Args = elems a, cmd_Color = cmo_Color x, cmd_Debug = cmo_Debug x,
          cmd_OnError = cmo_OnError x, cmd_SubCommand = cmo_SubCommand x, cmd_Variables = m,
          cmd_VariablesFile = cmo_VariablesFile x, cmd_WorkingDir = cmo_WorkingDir x\<rparr>"])
    (auto simp: view_command_def Command_DeepCopyInto_def view_pair_def copy_pair_def split_def)

definition command_cell :: "cell \<Rightarrow> command_obj option" where
  "command_cell c = (case c of CommandCell x \<Rightarrow> Some x | _ \<Rightarrow> None)"

definition Command_DeepCopy :: "ref \<Rightarrow> mem \<Rightarrow> (ref \<times> mem) option" where
  "Command_DeepCopy = copy_box command_cell CommandCell Command_DeepCopyInto"

interpretation command_ptrs: copyable "view_box command_cell view_command" Command_DeepCopy
  unfolding Command_DeepCopy_def by (rule commands.box) (simp add: command_cell_def)

definition command_array :: "cell \<Rightarrow> command_obj list option" where
  "command_array c = (case c of CommandArray xs \<Rightarrow> Some xs | _ \<Rightarrow> None)"

definition view_builder :: "mem \<Rightarrow> builder_obj \<Rightarrow> builder option" where
  "view_builder h x = do {
     cs \<leftarrow> view_box command_array (view_items view_command) h (bo_Commands x);
     Some \<lparr>bld_Branch = bo_Branch x, bld_Commands = elems cs, bld_Debug = bo_Debug x,
       bld_Dir = bo_Dir x, bld_Image = bo_Image x, bld_ImageType = bo_ImageType x,
       bld_RepoURL = bo_RepoURL x, bld_Secret = bo_Secret x,
       bld_JobServiceAccountName = bo_JobServiceAccountName x\<rparr>
   }"

definition Builder_DeepCopyInto :: "builder_obj \<Rightarrow> mem \<Rightarrow> (builder_obj \<times> mem) option" where
  "Builder_DeepCopyInto x h = do {
     (r, h) \<leftarrow> copy_box command_array CommandArray (copy_items Command_DeepCopyInto)
       (bo_Commands x) h;
     Some (x\<lparr>bo_Commands := r\<rparr>, h)
   }"

interpretation command_slices: copyable "view_box command_array (view_items view_command)"
  "copy_box command_array CommandArray (copy_items Command_DeepCopyInto)"
  by (rule copyable.box [OF commands.items]) (simp add: command_array_def)

interpretation builders: copyable view_builder Builder_DeepCopyInto
  by (rule field [OF command_slices.copyable_axioms, where get = bo_Commands
        and put = "\<lambda>r. bo_Commands_update (\<lambda>_. r)"
        and mk = "\<lambda>x v. Some \<lparr>bld_Branch = bo_Branch x, bld_Commands = elems v, bld_Debug = bo_Debug x,
          bld_Dir = bo_Dir x, bld_Image = bo_Image x, bld_ImageType = bo_ImageType x,
          bld_RepoURL = bo_RepoURL x, bld_Secret = bo_Secret x,
          bld_JobServiceAccountName = bo_JobServiceAccountName x\<rparr>"])
    (simp_all add: view_builder_def Builder_DeepCopyInto_def fun_eq_iff)

definition builder_cell :: "cell \<Rightarrow> builder_obj option" where
  "builder_cell c = (case c of BuilderCell x \<Rightarrow> Some x | _ \<Rightarrow> None)"

definition Builder_DeepCopy :: "ref \<Rightarrow> mem \<Rightarrow> (ref \<times> mem) option" where
  "Builder_DeepCopy = copy_box builder_cell BuilderCell Builder_DeepCopyInto"

interpretation builder_ptrs: copyable "view_box builder_cell view_builder" Builder_DeepCopy
  unfolding Builder_DeepCopy_def by (rule builders.box) (simp add: builder_cell_def)

section \<open>PackerBuilder\<close>

definition view_pb_spec :: "mem \<Rightarrow> pb_spec_obj \<Rightarrow> packer_builder_spec option" where
  "view_pb_spec h x = do {
     fs \<leftarrow> view_filters_slice h (pspo_AMIFilters x);
     n \<leftarrow> view_notify h (pspo_Notify x);
     b \<leftarrow> view_builder h (pspo_Builder x);
     Some \<lparr>sp_AMIFilters = fs, sp_ClusterName = pspo_ClusterName x, sp_TimeOuts = pspo_TimeOuts x,
       sp_GitSync = pspo_GitSync x, sp_Notify = n, sp_Region = pspo_Region x, sp_Builder = b\<rparr>
   }"

definition PackerBuilderSpec_DeepCopyInto :: "pb_spec_obj \<Rightarrow> mem \<Rightarrow> (pb_spec_obj \<times> mem) option"
  where
  "PackerBuilderSpec_DeepCopyInto x h = do {
     (fs, h) \<leftarrow> copy_filters (pspo_AMIFilters x) h;
     (n, h) \<leftarrow> Notify_DeepCopyInto (pspo_Notify x) h;
     (b, h) \<leftarrow> Builder_DeepCopyInto (pspo_Builder x) h;
     Some (x\<lparr>pspo_AMIFilters := fs, pspo_Notify := n, pspo_Builder := b\<rparr>, h)
   }"

interpretation pb_specs: copyable view_pb_spec PackerBuilderSpec_DeepCopyInto
  by (rule field [OF pair [OF filters_slices.copyable_axioms
          pair [OF notifies.copyable_axioms builders.copyable_axioms]],
        where get = "\<lambda>x. (pspo_AMIFilters x, pspo_Notify x, pspo_Builder x)"
        and put = "\<lambda>(fs, n, b) x. x\<lparr>pspo_AMIFilters := fs, pspo_Notify := n, pspo_Builder := b\<rparr>"
        and mk = "\<lambda>x (fs, n, b). Some \<lparr>sp_AMIFilters = fs, sp_ClusterName = pspo_ClusterName x,
          sp_TimeOuts = pspo_TimeOuts x, sp_GitSync = pspo_GitSync x, sp_Notify = n,
          sp_Region = pspo_Region x, sp_Builder = b\<rparr>"])
    (auto simp: view_pb_spec_def PackerBuilderSpec_DeepCopyInto_def view_pair_def copy_pair_def
      split_def)

definition pb_spec_cell :: "cell \<Rightarrow> pb_spec_obj option" where
  "pb_spec_cell c = (case c of PackerBuilderSpecCell x \<Rightarrow> Some x | _ \<Rightarrow> None)"

definition PackerBuilderSpec_DeepCopy :: "ref \<Rightarrow> mem \<Rightarrow> (ref \<times> mem) option" where
  "PackerBuilderSpec_DeepCopy = copy_box pb_spec_cell PackerBuilderSpecCell PackerBuilderSpec_DeepCopyInto"

interpretation pb_spec_ptrs: copyable "view_box pb_spec_cell view_pb_spec" PackerBuilderSpec_DeepCopy
  unfolding PackerBuilderSpec_DeepCopy_def by (rule pb_specs.box) (simp add: pb_spec_cell_def)

text \<open>
  The slice of pointers to conditions. A nil entry stays nil; a value has no nil entries (none is
  ever stored, and every loop over the conditions would panic on one), so \<open>those\<close> reads it.
\<close>

definition condition_ptr_array :: "cell \<Rightarrow> ref list option" where
  "condition_ptr_array c = (case c of ConditionPtrArray xs \<Rightarrow> Some xs | _ \<Rightarrow> None)"

abbreviation copy_conditions :: "ref \<Rightarrow> mem \<Rightarrow> (ref \<times> mem) option" where
  "copy_conditions \<equiv>
    copy_box condition_ptr_array ConditionPtrArray (copy_items OpsyCondition_DeepCopy)"

abbreviation view_conditions :: "mem \<Rightarrow> ref \<Rightarrow> opsy_condition option list option option" where
  "view_conditions \<equiv> view_box condition_ptr_array (view_items view_condition_ptr)"

interpretation condition_slices: copyable view_conditions copy_conditions
  by (rule copyable.box [OF condition_ptrs.items]) (simp add: condition_ptr_array_def)

definition view_pb_status :: "mem \<Rightarrow> pb_status_obj \<Rightarrow> packer_builder_status option" where
  "view_pb_status h x = do {
     act \<leftarrow> view_references h (pso_Active x);
     ps \<leftarrow> view_conditions h (pso_Conditions x);
     n \<leftarrow> view_int32 h (pso_FailedJobCount x);
     m \<leftarrow> view_int32 h (pso_MaxNumberOfFailedJobs x);
     cs \<leftarrow> those (elems ps);
     Some \<lparr>st_Active = elems act, st_BuildID = pso_BuildID x, st_Command = pso_Command x,
       st_Conditions = cs, st_FailedJobCount = n, st_JobID = pso_JobID x,
       st_JobName = pso_JobName x, st_JobStatus = pso_JobStatus x, st_LastRun = pso_LastRun x,
       st_LastRunBaseImageID = pso_LastRunBaseImageID x,
       st_LastRunBuiltImageID = pso_LastRunBuiltImageID x,
       st_LastRunMessage = pso_LastRunMessage x, st_LastRunStatus = pso_LastRunStatus x,
       st_LastRunSecurityGroupID = pso_LastRunSecurityGroupID x,
       st_LastRunKeyPair = pso_LastRunKeyPair x,
       st_LastTransitionTime = pso_LastTransitionTime x, st_MaxNumberOfFailedJobs = m,
       st_State = pso_State x\<rparr>
   }"

definition PackerBuilderStatus_DeepCopyInto ::
  "pb_status_obj \<Rightarrow> mem \<Rightarrow> (pb_status_obj \<times> mem) option" where
  "PackerBuilderStatus_DeepCopyInto x h = do {
     (act, h) \<leftarrow> copy_references (pso_Active x) h;
     (cs, h) \<leftarrow> copy_conditions (pso_Conditions x) h;
     (n, h) \<leftarrow> copy_int32 (pso_FailedJobCount x) h;
     (m, h) \<leftarrow> copy_int32 (pso_MaxNumberOfFailedJobs x) h;
     Some (x\<lparr>pso_Active := act, pso_Conditions := cs, pso_FailedJobCount := n,
       pso_MaxNumberOfFailedJobs := m\<rparr>, h)
   }"

interpretation pb_statuses: copyable view_pb_status PackerBuilderStatus_DeepCopyInto
  by (rule field [OF pair [OF references.copyable_axioms pair [OF condition_slices.copyable_axioms
          pair [OF int32s.copyable_axioms int32s.copyable_axioms]]],
        where get = "\<lambda>x. (pso_Active x, pso_Conditions x, pso_FailedJobCount x,
          pso_MaxNumberOfFailedJobs x)"
        and put = "\<lambda>(act, cs, n, m) x. x\<lparr>pso_Active := act, pso_Conditions := cs,
          pso_FailedJobCount := n, pso_MaxNumberOfFailedJobs := m\<rparr>"
        and mk = "\<lambda>x (act, ps, n, m). do {
          cs \<leftarrow> those (elems ps);
          Some \<lparr>st_Active = elems act, st_BuildID = pso_BuildID x, st_Command = pso_Command x,
            st_Conditions = cs, st_FailedJobCount = n, st_JobID = pso_JobID x,
            st_JobName = pso_JobName x, st_JobStatus = pso_JobStatus x,
            st_LastRun = pso_LastRun x, st_LastRunBaseImageID = pso_LastRunBaseImageID x,
            st_LastRunBuiltImageID = pso_LastRunBuiltImageID x,
            st_LastRunMessage = pso_LastRunMessage x, st_LastRunStatus = pso_LastRunStatus x,
            st_LastRunSecurityGroupID = pso_LastRunSecurityGroupID x,
            st_LastRunKeyPair = pso_LastRunKeyPair x,
            st_LastTransitionTime = pso_LastTransitionTime x, st_MaxNumberOfFailedJobs = m,
            st_State = pso_State x\<rparr> }"])
    (auto simp: view_pb_status_def PackerBuilderStatus_DeepCopyInto_def view_pair_def
      copy_pair_def split_def)

definition pb_status_cell :: "cell \<Rightarrow> pb_status_obj option" where
  "pb_status_cell c = (case c of PackerBuilderStatusCell x \<Rightarrow> Some x | _ \<Rightarrow> None)"

definition PackerBuilderStatus_DeepCopy :: "ref \<Rightarrow> mem \<Rightarrow> (ref \<times> mem) option" where
  "PackerBuilderStatus_DeepCopy = copy_box pb_status_cell PackerBuilderStatusCell PackerBuilderStatus_DeepCopyInto"

interpretation pb_status_ptrs: copyable "view_box pb_status_cell view_pb_status" PackerBuilderStatus_DeepCopy
  unfolding PackerBuilderStatus_DeepCopy_def by (rule pb_statuses.box) (simp add: pb_status_cell_def)

definition view_pb :: "mem \<Rightarrow> pb_obj \<Rightarrow> packer_builder option" where
  "view_pb h x = do {
     sp \<leftarrow> view_pb_spec h (bp_Spec x);
     st \<leftarrow> view_pb_status h (bp_Status x);
     Some \<lparr>pb_Meta = bp_Meta x, pb_Spec = sp, pb_Status = st\<rparr>
   }"

definition PackerBuilder_DeepCopyInto :: "pb_obj \<Rightarrow> mem \<Rightarrow> (pb_obj \<times> mem) option" where
  "PackerBuilder_DeepCopyInto x h = do {
     (sp, h) \<leftarrow> PackerBuilderSpec_DeepCopyInto (bp_Spec x) h;
     (st, h) \<leftarrow> PackerBuilderStatus_DeepCopyInto (bp_Status x) h;
     Some (x\<lparr>bp_Spec := sp, bp_Status := st\<rparr>, h)
   }"

interpretation pbs: copyable view_pb PackerBuilder_DeepCopyInto
  by (rule field [OF pair [OF pb_specs.copyable_axioms pb_statuses.copyable_axioms],
        where get = "\<lambda>x. (bp_Spec x, bp_Status x)"
        and put = "\<lambda>(sp, st) x. x\<lparr>bp_Spec := sp, bp_Status := st\<rparr>"
        and mk = "\<lambda>x (sp, st). Some \<lparr>pb_Meta = bp_Meta x, pb_Spec = sp, pb_Status = st\<rparr>"])
    (auto simp: view_pb_def PackerBuilder_DeepCopyInto_def view_pair_def copy_pair_def split_def)

definition pb_cell :: "cell \<Rightarrow> pb_obj option" where
  "pb_cell c = (case c of PackerBuilderCell x \<Rightarrow> Some x | _ \<Rightarrow> None)"

definition PackerBuilder_DeepCopy :: "ref \<Rightarrow> mem \<Rightarrow> (ref \<times> mem) option" where
  "PackerBuilder_DeepCopy = copy_box pb_cell PackerBuilderCell PackerBuilder_DeepCopyInto"

interpretation pb_ptrs: copyable "view_box pb_cell view_pb" PackerBuilder_DeepCopy
  unfolding PackerBuilder_DeepCopy_def by (rule pbs.box) (simp add: pb_cell_def)

text \<open>The list a \<open>List\<close> call fills: its items are structs, not pointers.\<close>

definition pb_array :: "cell \<Rightarrow> pb_obj list option" where
  "pb_array c = (case c of PackerBuilderArray xs \<Rightarrow> Some xs | _ \<Rightarrow> None)"

definition view_pb_list :: "mem \<Rightarrow> pb_list_obj \<Rightarrow> packer_builder list option option" where
  "view_pb_list h x = view_box pb_array (view_items view_pb) h (pl_Items x)"

definition PackerBuilderList_DeepCopyInto :: "pb_list_obj \<Rightarrow> mem \<Rightarrow> (pb_list_obj \<times> mem) option" where
  "PackerBuilderList_DeepCopyInto x h = do {
     (r, h) \<leftarrow> copy_box pb_array PackerBuilderArray (copy_items PackerBuilder_DeepCopyInto)
       (pl_Items x) h;
     Some (x\<lparr>pl_Items := r\<rparr>, h)
   }"

interpretation pb_slices: copyable "view_box pb_array (view_items view_pb)"
  "copy_box pb_array PackerBuilderArray (copy_items PackerBuilder_DeepCopyInto)"
  by (rule copyable.box [OF pbs.items]) (simp add: pb_array_def)

interpretation pb_lists: copyable view_pb_list PackerBuilderList_DeepCopyInto
  by (rule field [OF pb_slices.copyable_axioms, where get = pl_Items
        and put = "\<lambda>r. pl_Items_update (\<lambda>_. r)" and mk = "\<lambda>x v. Some v"])
    (simp_all add: view_pb_list_def PackerBuilderList_DeepCopyInto_def fun_eq_iff)

definition pb_list_cell :: "cell \<Rightarrow> pb_list_obj option" where
  "pb_list_cell c = (case c of PackerBuilderListCell x \<Rightarrow> Some x | _ \<Rightarrow> None)"

definition PackerBuilderList_DeepCopy :: "ref \<Rightarrow> mem \<Rightarrow> (ref \<times> mem) option" where
  "PackerBuilderList_DeepCopy = copy_box pb_list_cell PackerBuilderListCell PackerBuilderList_DeepCopyInto"

interpretation pb_list_ptrs: copyable "view_box pb_list_cell view_pb_list" PackerBuilderList_DeepCopy
  unfolding PackerBuilderList_DeepCopy_def by (rule pb_lists.box) (simp add: pb_list_cell_def)

section \<open>AMIRefresher\<close>

definition view_refresh :: "mem \<Rightarrow> refresh_obj \<Rightarrow> refresh_config option" where
  "view_refresh h x = do {
     n \<leftarrow> view_int32 h (ro_MaxUnavailable x);
     p \<leftarrow> view_int32 h (ro_MaxUnavailablePercentage x);
     Some \<lparr>rc_Enable = ro_Enable x, rc_Force = ro_Force x, rc_MaxUnavailable = n,
       rc_MaxUnavailablePercentage = p, rc_WaitForCompletion = ro_WaitForCompletion x\<rparr>
   }"

definition RefreshConfig_DeepCopyInto :: "refresh_obj \<Rightarrow> mem \<Rightarrow> (refresh_obj \<times> mem) option" where
  "RefreshConfig_DeepCopyInto x h = do {
     (n, h) \<leftarrow> copy_int32 (ro_MaxUnavailable x) h;
     (p, h) \<leftarrow> copy_int32 (ro_MaxUnavailablePercentage x) h;
     Some (x\<lparr>ro_MaxUnavailable := n, ro_MaxUnavailablePercentage := p\<rparr>, h)
   }"

interpretation refresh_configs: copyable view_refresh RefreshConfig_DeepCopyInto
  by (rule field [OF pair [OF int32s.copyable_axioms int32s.copyable_axioms],
        where get = "\<lambda>x. (ro_MaxUnavailable x, ro_MaxUnavailablePercentage x)"
        and put = "\<lambda>(n, p) x. x\<lparr>ro_MaxUnavailable := n, ro_MaxUnavailablePercentage := p\<rparr>"
        and mk = "\<lambda>x (n, p). Some \<lparr>rc_Enable = ro_Enable x, rc_Force = ro_Force x,
          rc_MaxUnavailable = n, rc_MaxUnavailablePercentage = p,
          rc_WaitForCompletion = ro_WaitForCompletion x\<rparr>"])
    (auto simp: view_refresh_def RefreshConfig_DeepCopyInto_def view_pair_def copy_pair_def
      split_def)

definition refresh_cell :: "cell \<Rightarrow> refresh_obj option" where
  "refresh_cell c = (case c of RefreshConfigCell x \<Rightarrow> Some x | _ \<Rightarrow> None)"

definition RefreshConfig_DeepCopy :: "ref \<Rightarrow> mem \<Rightarrow> (ref \<times> mem) option" where
  "RefreshConfig_DeepCopy = copy_box refresh_cell RefreshConfigCell RefreshConfig_DeepCopyInto"

interpretation refresh_ptrs: copyable "view_box refresh_cell view_refresh" RefreshConfig_DeepCopy
  unfolding RefreshConfig_DeepCopy_def by (rule refresh_configs.box) (simp add: refresh_cell_def)

definition view_ar_spec :: "mem \<Rightarrow> ar_spec_obj \<Rightarrow> ami_refresher_spec option" where
  "view_ar_spec h x = do {
     fs \<leftarrow> view_filters_slice h (ao_AMIFilters x);
     ex \<leftarrow> view_strings h (ao_Exclude x);
     rc \<leftarrow> view_refresh h (ao_RefreshConfig x);
     Some \<lparr>rs_Region = ao_Region x, rs_AMI = ao_AMI x, rs_AMIFilters = elems fs,
       rs_ClusterName = ao_ClusterName x, rs_Exclude = elems ex, rs_TimeOuts = ao_TimeOuts x,
       rs_RefreshConfig = rc\<rparr>
   }"

definition AMIRefresherSpec_DeepCopyInto :: "ar_spec_obj \<Rightarrow> mem \<Rightarrow> (ar_spec_obj \<times> mem) option" where
  "AMIRefresherSpec_DeepCopyInto x h = do {
     (fs, h) \<leftarrow> copy_filters (ao_AMIFilters x) h;
     (ex, h) \<leftarrow> copy_strings (ao_Exclude x) h;
     (rc, h) \<leftarrow> RefreshConfig_DeepCopyInto (ao_RefreshConfig x) h;
     Some (x\<lparr>ao_AMIFilters := fs, ao_Exclude := ex, ao_RefreshConfig := rc\<rparr>, h)
   }"

interpretation ar_specs: copyable view_ar_spec AMIRefresherSpec_DeepCopyInto
  by (rule field [OF pair [OF filters_slices.copyable_axioms
          pair [OF strings.copyable_axioms refresh_configs.copyable_axioms]],
        where get = "\<lambda>x. (ao_AMIFilters x, ao_Exclude x, ao_RefreshConfig x)"
        and put = "\<lambda>(fs, ex, rc) x. x\<lparr>ao_AMIFilters := fs, ao_Exclude := ex,
          ao_RefreshConfig := rc\<rparr>"
        and mk = "\<lambda>x (fs, ex, rc). Some \<lparr>rs_Region = ao_Region x, rs_AMI = ao_AMI x,
          rs_AMIFilters = elems fs, rs_ClusterName = ao_ClusterName x, rs_Exclude = elems ex,
          rs_TimeOuts = ao_TimeOuts x, rs_RefreshConfig = rc\<rparr>"])
    (auto simp: view_ar_spec_def AMIRefresherSpec_DeepCopyInto_def view_pair_def copy_pair_def
      split_def)

definition ar_spec_cell :: "cell \<Rightarrow> ar_spec_obj option" where
  "ar_spec_cell c = (case c of AMIRefresherSpecCell x \<Rightarrow> Some x | _ \<Rightarrow> None)"

definition AMIRefresherSpec_DeepCopy :: "ref \<Rightarrow> mem \<Rightarrow> (ref \<times> mem) option" where
  "AMIRefresherSpec_DeepCopy = copy_box ar_spec_cell AMIRefresherSpecCell AMIRefresherSpec_DeepCopyInto"

interpretation ar_spec_ptrs: copyable "view_box ar_spec_cell view_ar_spec" AMIRefresherSpec_DeepCopy
  unfolding AMIRefresherSpec_DeepCopy_def by (rule ar_specs.box) (simp add: ar_spec_cell_def)

definition view_ar_status :: "mem \<Rightarrow> ar_status_obj \<Rightarrow> ami_refresher_status option" where
  "view_ar_status h x = do {
     ps \<leftarrow> view_conditions h (aso_Conditions x);
     cs \<leftarrow> those (elems ps);
     Some \<lparr>ars_Conditions = cs, ars_LastRun = aso_LastRun x,
       ars_LastRunStatus = aso_LastRunStatus x\<rparr>
   }"

definition AMIRefresherStatus_DeepCopyInto ::
  "ar_status_obj \<Rightarrow> mem \<Rightarrow> (ar_status_obj \<times> mem) option" where
  "AMIRefresherStatus_DeepCopyInto x h = do {
     (r, h) \<leftarrow> copy_conditions (aso_Conditions x) h;
     Some (x\<lparr>aso_Conditions := r\<rparr>, h)
   }"

interpretation ar_statuses: copyable view_ar_status AMIRefresherStatus_DeepCopyInto
  by (rule field [OF condition_slices.copyable_axioms, where get = aso_Conditions
        and put = "\<lambda>r. aso_Conditions_update (\<lambda>_. r)"
        and mk = "\<lambda>x ps. do { cs \<leftarrow> those (elems ps);
          Some \<lparr>ars_Conditions = cs, ars_LastRun = aso_LastRun x,
            ars_LastRunStatus = aso_LastRunStatus x\<rparr> }"])
    (simp_all add: view_ar_status_def AMIRefresherStatus_DeepCopyInto_def fun_eq_iff)

definition ar_status_cell :: "cell \<Rightarrow> ar_status_obj option" where
  "ar_status_cell c = (case c of AMIRefresherStatusCell x \<Rightarrow> Some x | _ \<Rightarrow> None)"

definition AMIRefresherStatus_DeepCopy :: "ref \<Rightarrow> mem \<Rightarrow> (ref \<times> mem) option" where
  "AMIRefresherStatus_DeepCopy = copy_box ar_status_cell AMIRefresherStatusCell AMIRefresherStatus_DeepCopyInto"

interpretation ar_status_ptrs: copyable "view_box ar_status_cell view_ar_status" AMIRefresherStatus_DeepCopy
  unfolding AMIRefresherStatus_DeepCopy_def by (rule ar_statuses.box) (simp add: ar_status_cell_def)

definition view_ar :: "mem \<Rightarrow> ar_obj \<Rightarrow> ami_refresher option" where
  "view_ar h x = do {
     sp \<leftarrow> view_ar_spec h (arp_Spec x);
     st \<leftarrow> view_ar_status h (arp_Status x);
     Some \<lparr>ar_Meta = arp_Meta x, ar_Spec = sp, ar_Status = st\<rparr>
   }"

definition AMIRefresher_DeepCopyInto :: "ar_obj \<Rightarrow> mem \<Rightarrow> (ar_obj \<times> mem) option" where
  "AMIRefresher_DeepCopyInto x h = do {
     (sp, h) \<leftarrow> AMIRefresherSpec_DeepCopyInto (arp_Spec x) h;
     (st, h) \<leftarrow> AMIRefresherStatus_DeepCopyInto (arp_Status x) h;
     Some (x\<lparr>arp_Spec := sp, arp_Status := st\<rparr>, h)
   }"

interpretation ars: copyable view_ar AMIRefresher_DeepCopyInto
  by (rule field [OF pair [OF ar_specs.copyable_axioms ar_statuses.copyable_axioms],
        where get = "\<lambda>x. (arp_Spec x, arp_Status x)"
        and put = "\<lambda>(sp, st) x. x\<lparr>arp_Spec := sp, arp_Status := st\<rparr>"
        and mk = "\<lambda>x (sp, st). Some \<lparr>ar_Meta = arp_Meta x, ar_Spec = sp, ar_Status = st\<rparr>"])
    (auto simp: view_ar_def AMIRefresher_DeepCopyInto_def view_pair_def copy_pair_def split_def)

definition ar_cell :: "cell \<Rightarrow> ar_obj option" where
  "ar_cell c = (case c of AMIRefresherCell x \<Rightarrow> Some x | _ \<Rightarrow> None)"

definition AMIRefresher_DeepCopy :: "ref \<Rightarrow> mem \<Rightarrow> (ref \<times> mem) option" where
  "AMIRefresher_DeepCopy = copy_box ar_cell AMIRefresherCell AMIRefresher_DeepCopyInto"

interpretation ar_ptrs: copyable "view_box ar_cell view_ar" AMIRefresher_DeepCopy
  unfolding AMIRefresher_DeepCopy_def by (rule ars.box) (simp add: ar_cell_def)

definition ar_array :: "cell \<Rightarrow> ar_obj list option" where
  "ar_array c = (case c of AMIRefresherArray xs \<Rightarrow> Some xs | _ \<Rightarrow> None)"

definition view_ar_list :: "mem \<Rightarrow> ar_list_obj \<Rightarrow> ami_refresher list option option" where
  "view_ar_list h x = view_box ar_array (view_items view_ar) h (al_Items x)"

definition AMIRefresherList_DeepCopyInto :: "ar_list_obj \<Rightarrow> mem \<Rightarrow> (ar_list_obj \<times> mem) option" where
  "AMIRefresherList_DeepCopyInto x h = do {
     (r, h) \<leftarrow> copy_box ar_array AMIRefresherArray (copy_items AMIRefresher_DeepCopyInto)
       (al_Items x) h;
     Some (x\<lparr>al_Items := r\<rparr>, h)
   }"

interpretation ar_slices: copyable "view_box ar_array (view_items view_ar)"
  "copy_box ar_array AMIRefresherArray (copy_items AMIRefresher_DeepCopyInto)"
  by (rule copyable.box [OF ars.items]) (simp add: ar_array_def)

interpretation ar_lists: copyable view_ar_list AMIRefresherList_DeepCopyInto
  by (rule field [OF ar_slices.copyable_axioms, where get = al_Items
        and put = "\<lambda>r. al_Items_update (\<lambda>_. r)" and mk = "\<lambda>x v. Some v"])
    (simp_all add: view_ar_list_def AMIRefresherList_DeepCopyInto_def fun_eq_iff)

definition ar_list_cell :: "cell \<Rightarrow> ar_list_obj option" where
  "ar_list_cell c = (case c of AMIRefresherListCell x \<Rightarrow> Some x | _ \<Rightarrow> None)"

definition AMIRefresherList_DeepCopy :: "ref \<Rightarrow> mem \<Rightarrow> (ref \<times> mem) option" where
  "AMIRefresherList_DeepCopy = copy_box ar_list_cell AMIRefresherListCell AMIRefresherList_DeepCopyInto"

interpretation ar_list_ptrs: copyable "view_box ar_list_cell view_ar_list" AMIRefresherList_DeepCopy
  unfolding AMIRefresherList_DeepCopy_def by (rule ar_lists.box) (simp add: ar_list_cell_def)

section \<open>Runtime objects\<close>

text \<open>
  A \<open>runtime.Object\<close> is an interface: its dynamic type with a pointer, or the nil interface. The
  \<open>DeepCopyObject\<close> methods test the copy before they return it, because a nil pointer in an
  interface would not be equal to \<open>nil\<close>.
\<close>

datatype runtime_object =
    PackerBuilderObject addr
  | PackerBuilderListObject addr
  | AMIRefresherObject addr
  | AMIRefresherListObject addr

definition PackerBuilder_DeepCopyObject :: "ref \<Rightarrow> mem \<Rightarrow> (runtime_object option \<times> mem) option" where
  "PackerBuilder_DeepCopyObject r h = do {
     (c, h) \<leftarrow> PackerBuilder_DeepCopy r h;
     Some (case c of Some a \<Rightarrow> Some (PackerBuilderObject a) | None \<Rightarrow> None, h)
   }"

definition PackerBuilderList_DeepCopyObject ::
  "ref \<Rightarrow> mem \<Rightarrow> (runtime_object option \<times> mem) option" where
  "PackerBuilderList_DeepCopyObject r h = do {
     (c, h) \<leftarrow> PackerBuilderList_DeepCopy r h;
     Some (case c of Some a \<Rightarrow> Some (PackerBuilderListObject a) | None \<Rightarrow> None, h)
   }"

definition AMIRefresher_DeepCopyObject :: "ref \<Rightarrow> mem \<Rightarrow> (runtime_object option \<times> mem) option" where
  "AMIRefresher_DeepCopyObject r h = do {
     (c, h) \<leftarrow> AMIRefresher_DeepCopy r h;
     Some (case c of Some a \<Rightarrow> Some (AMIRefresherObject a) | None \<Rightarrow> None, h)
   }"

definition AMIRefresherList_DeepCopyObject ::
  "ref \<Rightarrow> mem \<Rightarrow> (runtime_object option \<times> mem) option" where
  "AMIRefresherList_DeepCopyObject r h = do {
     (c, h) \<leftarrow> AMIRefresherList_DeepCopy r h;
     Some (case c of Some a \<Rightarrow> Some (AMIRefresherListObject a) | None \<Rightarrow> None, h)
   }"

text \<open>The value behind a pointer to a resource; \<open>Some None\<close> for a nil pointer.\<close>

abbreviation pb_value :: "mem \<Rightarrow> ref \<Rightarrow> packer_builder option option" where
  "pb_value \<equiv> view_box pb_cell view_pb"

abbreviation ar_value :: "mem \<Rightarrow> ref \<Rightarrow> ami_refresher option option" where
  "ar_value \<equiv> view_box ar_cell view_ar"

text \<open>A copy is made with the first cell of the new ones, so the original never shares it.\<close>

lemma copy_box_address:
  "copy_box sel mk copy (Some a) h = Some (s, h') \<Longrightarrow> s = Some (length h)"
  by (auto simp: alloc_def bind_eq_Some_conv)

lemma DeepCopyObject_some:
  assumes "PackerBuilder_DeepCopyObject (Some a) h = Some (Some (PackerBuilderObject c), h')"
  shows "c = length h \<and> PackerBuilder_DeepCopy (Some a) h = Some (Some c, h')"
  using assms copy_box_address [of pb_cell PackerBuilderCell PackerBuilder_DeepCopyInto a h]
  by (auto simp: PackerBuilder_DeepCopyObject_def PackerBuilder_DeepCopy_def bind_eq_Some_conv
      split: option.splits)

section \<open>The status write in memory\<close>

text \<open>
  \<open>statusField.Set(...)\<close> in \<open>Status.Update\<close>: the status struct of the caller's object is assigned to
  that of the latest object, with its references; both then share the conditions.
\<close>

definition copy_status :: "addr \<Rightarrow> addr \<Rightarrow> mem \<Rightarrow> mem option" where
  "copy_status a c h = do {
     obj \<leftarrow> load pb_cell a h;
     latest \<leftarrow> load pb_cell c h;
     Some (h[c := PackerBuilderCell (latest\<lparr>bp_Status := bp_Status obj\<rparr>)])
   }"

text \<open>Overwriting a resource leaves alone what other structs refer to.\<close>

lemma load_other:
  assumes "load pb_cell c h = Some x" "\<And>z. sel (PackerBuilderCell z) = None"
  shows "load sel b (h[c := PackerBuilderCell y]) = load sel b h"
proof (cases "b = c")
  case True
  from assms(1) obtain z where "h ! c = PackerBuilderCell z"
    by (auto simp: load_def pb_cell_def split: if_splits cell.splits)
  with True assms show ?thesis
    by (auto simp: load_def)
next
  case False
  then show ?thesis by (simp add: load_def)
qed

lemma view_box_cong:
  "(\<And>a. load sel a h' = load sel a h) \<Longrightarrow> (\<And>x. view h' x = view h x) \<Longrightarrow>
     view_box sel view h' r = view_box sel view h r"
  by (cases r) simp_all

lemma view_items_cong: "(\<And>x. view h' x = view h x) \<Longrightarrow> view_items view h' xs = view_items view h xs"
  by (metis (no_types, lifting) map_eq_conv view_items_def)

lemma view_parts_other:
  assumes c: "load pb_cell c h = Some x"
  shows "view_strings (h[c := PackerBuilderCell y]) r = view_strings h r"
    "view_string_map (h[c := PackerBuilderCell y]) r = view_string_map h r"
    "view_int32 (h[c := PackerBuilderCell y]) r = view_int32 h r"
    "view_references (h[c := PackerBuilderCell y]) r = view_references h r"
    "view_condition_ptr (h[c := PackerBuilderCell y]) r = view_condition_ptr h r"
  unfolding view_condition_ptr_def
  by (rule view_box_cong [OF load_other [OF c]];
    simp add: view_plain_def string_array_def string_map_def int32_cell_def reference_array_def
      condition_cell_def)+

lemma view_conditions_other:
  assumes c: "load pb_cell c h = Some x"
  shows "view_conditions (h[c := PackerBuilderCell y]) r = view_conditions h r"
  by (rule view_box_cong [OF load_other [OF c] view_items_cong])
    (simp_all add: view_parts_other [OF c] condition_ptr_array_def)

lemma view_status_other:
  "load pb_cell c h = Some x \<Longrightarrow>
     view_pb_status (h[c := PackerBuilderCell y]) st = view_pb_status h st"
  by (simp add: view_pb_status_def view_parts_other view_conditions_other)

lemma view_spec_other:
  assumes c: "load pb_cell c h = Some x"
  shows "view_pb_spec (h[c := PackerBuilderCell y]) sp = view_pb_spec h sp"
proof -
  let ?h = "h[c := PackerBuilderCell y]"
  have "view_command ?h z = view_command h z" "view_filters ?h f = view_filters h f" for z f
    by (simp_all add: view_command_def view_filters_def view_parts_other [OF c])
  then have "view_box command_array (view_items view_command) ?h r =
      view_box command_array (view_items view_command) h r"
    "view_filters_slice ?h r = view_filters_slice h r" for r
    by (auto intro!: view_box_cong view_items_cong load_other [OF c]
        simp: command_array_def filters_array_def)
  then show ?thesis
    by (simp add: view_pb_spec_def view_notify_def view_slack_def view_builder_def
        view_parts_other [OF c])
qed

lemma copy_status_value:
  assumes obj: "pb_value h (Some a) = Some (Some pb)"
    and latest: "pb_value h (Some c) = Some (Some stored)" and "a \<noteq> c"
  shows "\<exists>h'. copy_status a c h = Some h' \<and>
    pb_value h' (Some c) = Some (Some (stored\<lparr>pb_Status := pb_Status pb\<rparr>)) \<and>
    pb_value h' (Some a) = Some (Some pb) \<and>
    map_option bp_Status (load pb_cell c h') = map_option bp_Status (load pb_cell a h')"
proof -
  from obj obtain x where x: "load pb_cell a h = Some x" and pb: "view_pb h x = Some pb"
    by (auto simp: bind_eq_Some_conv)
  from latest obtain y where y: "load pb_cell c h = Some y" and st: "view_pb h y = Some stored"
    by (auto simp: bind_eq_Some_conv)
  let ?y = "y\<lparr>bp_Status := bp_Status x\<rparr>"
  let ?h = "h[c := PackerBuilderCell ?y]"
  have views: "view_pb_spec ?h sp = view_pb_spec h sp" "view_pb_status ?h so = view_pb_status h so"
    for sp so
    by (rule view_spec_other [OF y], rule view_status_other [OF y])
  have "load pb_cell c ?h = Some ?y" "load pb_cell a ?h = Some x"
    using load_length [OF y] x \<open>a \<noteq> c\<close> by (simp_all add: load_def pb_cell_def split: if_splits)
  moreover have "view_pb ?h ?y = Some (stored\<lparr>pb_Status := pb_Status pb\<rparr>)" "view_pb ?h x = Some pb"
    using pb st by (auto simp: view_pb_def views bind_eq_Some_conv)
  ultimately show ?thesis
    using x y by (auto simp: copy_status_def)
qed

section \<open>Properties\<close>

text \<open>
  C36. A deep copy of a \<open>PackerBuilder\<close> is equal to the original and independent of it: whatever is
  allocated and written afterwards, writes to cells that existed before the copy are not seen through
  the copy, and writes to the cells the copy made are not seen through the original. The base of a
  merge patch and the object a status write reads into are such copies.
\<close>

theorem deep_copy_independent:
  assumes "pb_value h (Some a) = Some (Some pb)"
  shows "\<exists>b h'. PackerBuilder_DeepCopy (Some a) h = Some (Some b, h') \<and>
    pb_value h' (Some b) = Some (Some pb) \<and> pb_value h' (Some a) = Some (Some pb) \<and>
    (\<forall>steps. (\<forall>s \<in> set steps. writes_only (\<lambda>x. x < length h) s) \<longrightarrow>
       pb_value (mem_run steps h') (Some b) = Some (Some pb)) \<and>
    (\<forall>steps. (\<forall>s \<in> set steps. writes_only (\<lambda>x. length h \<le> x) s) \<longrightarrow>
       pb_value (mem_run steps h') (Some a) = Some (Some pb))"
proof -
  from pb_ptrs.independent [OF assms] obtain r h' where
    r: "PackerBuilder_DeepCopy (Some a) h = Some (r, h')" "pb_value h' r = Some (Some pb)"
    and rest: "pb_value h' (Some a) = Some (Some pb)"
      "\<forall>steps. (\<forall>s \<in> set steps. writes_only (\<lambda>x. x < length h) s) \<longrightarrow>
         pb_value (mem_run steps h') r = Some (Some pb)"
      "\<forall>steps. (\<forall>s \<in> set steps. writes_only (\<lambda>x. length h \<le> x) s) \<longrightarrow>
         pb_value (mem_run steps h') (Some a) = Some (Some pb)"
    by blast
  from r(2) obtain b where "r = Some b"
    by (cases r) auto
  with r rest show ?thesis by blast
qed

text \<open>A memory with one builder, its filters, a command with variables and two conditions.\<close>

definition example_condition :: "condition_type \<Rightarrow> opsy_condition" where
  "example_condition t = \<lparr>oc_Type = t, oc_Status = ConditionTrue, oc_LastTransitionTime = 0,
     oc_Reason = ''r'', oc_Message = ''m''\<rparr>"

definition example_pb_obj :: pb_obj where
  "example_pb_obj = \<lparr>
     bp_Meta = \<lparr>om_Name = ''b'', om_Namespace = ''ns'', om_DeletionTimestamp = None,
       om_Finalizers = []\<rparr>,
     bp_Spec = \<lparr>pspo_AMIFilters = Some 1, pspo_ClusterName = ''c'',
       pspo_TimeOuts = \<lparr>to_ExpiresIn = ''24h'', to_ControllerTimer = ''1h''\<rparr>,
       pspo_GitSync = \<lparr>gs_Image = '''', gs_Name = '''', gs_Secret = ''''\<rparr>,
       pspo_Notify = \<lparr>no_Slack = \<lparr>so_Channels = None, so_Secret = ''''\<rparr>\<rparr>,
       pspo_Region = ''eu-west-1'',
       pspo_Builder = \<lparr>bo_Branch = ''main'', bo_Commands = Some 3, bo_Debug = False, bo_Dir = '''',
         bo_Image = '''', bo_ImageType = ''ami'', bo_RepoURL = '''', bo_Secret = '''',
         bo_JobServiceAccountName = ''''\<rparr>\<rparr>,
     bp_Status = \<lparr>pso_Active = None, pso_BuildID = '''', pso_Command = '''',
       pso_Conditions = Some 5, pso_FailedJobCount = Some 8, pso_JobID = '''', pso_JobName = '''',
       pso_JobStatus = JobStatusUnset, pso_LastRun = 0, pso_LastRunBaseImageID = '''',
       pso_LastRunBuiltImageID = '''', pso_LastRunMessage = '''',
       pso_LastRunStatus = LastRunStatusUnset, pso_LastRunSecurityGroupID = '''',
       pso_LastRunKeyPair = '''', pso_LastTransitionTime = 0, pso_MaxNumberOfFailedJobs = None,
       pso_State = StateInitial\<rparr>\<rparr>"

definition example_mem :: mem where
  "example_mem = [
     PackerBuilderCell example_pb_obj,
     FiltersArray [\<lparr>afo_Name = ''name'', afo_Values = Some 2\<rparr>],
     StringArray [''base-*''],
     CommandArray [\<lparr>cmo_Args = None, cmo_Color = True, cmo_Debug = False, cmo_OnError = '''',
       cmo_SubCommand = ''build'', cmo_Variables = Some 4, cmo_VariablesFile = '''',
       cmo_WorkingDir = ''''\<rparr>],
     StringMap [(''region'', ''eu-west-1'')],
     ConditionPtrArray [Some 6, Some 7],
     OpsyConditionCell (example_condition ConditionTypeInitial),
     OpsyConditionCell (example_condition ConditionTypeJobCreated),
     Int32Cell 0]"

definition example_pb_value :: packer_builder where
  "example_pb_value = the (the (pb_value example_mem (Some 0)))"

lemma example_mem_value: "pb_value example_mem (Some 0) = Some (Some example_pb_value)"
  unfolding example_pb_value_def by code_simp

theorem deep_copy_independent_witness:
  "\<exists>b h'. PackerBuilder_DeepCopy (Some 0) example_mem = Some (Some b, h') \<and>
    pb_value h' (Some b) = Some (Some example_pb_value) \<and>
    pb_value h' (Some 0) = Some (Some example_pb_value) \<and>
    (\<forall>steps. (\<forall>s \<in> set steps. writes_only (\<lambda>x. x < length example_mem) s) \<longrightarrow>
       pb_value (mem_run steps h') (Some b) = Some (Some example_pb_value)) \<and>
    (\<forall>steps. (\<forall>s \<in> set steps. writes_only (\<lambda>x. length example_mem \<le> x) s) \<longrightarrow>
       pb_value (mem_run steps h') (Some 0) = Some (Some example_pb_value))"
  by (rule deep_copy_independent [OF example_mem_value])


text \<open>The stored object of the example has another state and has lost its conditions.\<close>

definition example_mem_read :: mem where
  "example_mem_read = (snd (the (PackerBuilder_DeepCopy (Some 0) example_mem)))[9 :=
     PackerBuilderCell (example_pb_obj\<lparr>bp_Status := (bp_Status example_pb_obj)
       \<lparr>pso_State := StateError, pso_Conditions := None\<rparr>\<rparr>)]"


end
