(* ===== verification/Operator_Main.thy ===== *)
theory Operator_Main
  imports Prelude
begin

text \<open>
  \<open>cmd/main.go\<close>: the flags of the operator as package \<open>flag\<close> parses them, the options of the
  manager, the colours of the log levels, the banner, and the order of the set-up steps with their exit codes. The
  steps themselves are controller-runtime and client-go calls, parameters of the model.
\<close>

section \<open>Flags\<close>

record operator_flags =
  fl_metricsAddr :: bytes
  fl_probeAddr :: bytes
  fl_enableLeaderElection :: bool
  fl_secureMetrics :: bool
  fl_enableHTTP2 :: bool

definition default_flags :: operator_flags where
  "default_flags = \<lparr>fl_metricsAddr = '':8080'', fl_probeAddr = '':8081'',
     fl_enableLeaderElection = False, fl_secureMetrics = False, fl_enableHTTP2 = False\<rparr>"

text \<open>\<open>strconv.ParseBool\<close>.\<close>

definition parse_bool :: "bytes \<Rightarrow> bool option" where
  "parse_bool s =
     (if s \<in> set [''1'', ''t'', ''T'', ''true'', ''TRUE'', ''True''] then Some True
      else if s \<in> set [''0'', ''f'', ''F'', ''false'', ''FALSE'', ''False''] then Some False
      else None)"

text \<open>A registered flag: of strings, of booleans, or one that an imported package registers.\<close>

datatype flag =
    StringVar "bytes \<Rightarrow> operator_flags \<Rightarrow> operator_flags"
  | BoolVar "bool \<Rightarrow> operator_flags \<Rightarrow> operator_flags"
  | ForeignVar bool "bytes \<Rightarrow> bool"

definition registered_flag :: "(bytes \<Rightarrow> flag option) \<Rightarrow> bytes \<Rightarrow> flag option" where
  "registered_flag foreign name =
     (if name = ''metrics-bind-address'' then Some (StringVar (\<lambda>v. fl_metricsAddr_update (\<lambda>x. v)))
      else if name = ''health-probe-bind-address'' then Some (StringVar (\<lambda>v. fl_probeAddr_update (\<lambda>x. v)))
      else if name = ''leader-elect'' then Some (BoolVar (\<lambda>v. fl_enableLeaderElection_update (\<lambda>x. v)))
      else if name = ''metrics-secure'' then Some (BoolVar (\<lambda>v. fl_secureMetrics_update (\<lambda>x. v)))
      else if name = ''enable-http2'' then Some (BoolVar (\<lambda>v. fl_enableHTTP2_update (\<lambda>x. v)))
      else foreign name)"

definition is_bool_flag :: "flag \<Rightarrow> bool" where
  "is_bool_flag f = (case f of StringVar g \<Rightarrow> False | BoolVar g \<Rightarrow> True | ForeignVar b g \<Rightarrow> b)"

text \<open>\<open>Set\<close>: a boolean that does not parse is an error.\<close>

definition set_flag :: "flag \<Rightarrow> bytes \<Rightarrow> operator_flags \<Rightarrow> operator_flags option" where
  "set_flag f v fs =
     (case f of
        StringVar g \<Rightarrow> Some (g v fs)
      | BoolVar g \<Rightarrow> map_option (\<lambda>b. g b fs) (parse_bool v)
      | ForeignVar b ok \<Rightarrow> (if ok v then Some fs else None))"

text \<open>An argument split at its first equals sign, which its first character is not.\<close>

definition split_value :: "bytes \<Rightarrow> bytes \<times> bytes option" where
  "split_value s =
     (case dropWhile (\<lambda>c. c \<noteq> CHR ''='') s of
        [] \<Rightarrow> (s, None)
      | eq # v \<Rightarrow> (takeWhile (\<lambda>c. c \<noteq> CHR ''='') s, Some v))"

text \<open>
  \<open>flag.Parse\<close> on the command line, which exits: with code 2 on an error and 0 after the help text.
  Parsing stops at the first argument that is no flag, and after two dashes alone.
\<close>

fun parse_flags ::
  "(bytes \<Rightarrow> flag option) \<Rightarrow> operator_flags \<Rightarrow> bytes list \<Rightarrow> nat + operator_flags" where
  "parse_flags foreign fs [] = Inr fs"
| "parse_flags foreign fs (s # args) =
     (if length s < 2 \<or> hd s \<noteq> CHR ''-'' \<or> s = ''--'' then Inr fs
      else
        let name0 = (if s ! 1 = CHR ''-'' then drop 2 s else drop 1 s)
        in if hd name0 = CHR ''-'' \<or> hd name0 = CHR ''='' then Inl 2
           else
             let (name, given) = split_value name0
             in case registered_flag foreign name of
                  None \<Rightarrow> Inl (if name = ''help'' \<or> name = ''h'' then 0 else 2)
                | Some f \<Rightarrow>
                    (case (given, is_bool_flag f, args) of
                       (Some v, b, _) \<Rightarrow>
                         (case set_flag f v fs of None \<Rightarrow> Inl 2 | Some fs' \<Rightarrow> parse_flags foreign fs' args)
                     | (None, True, _) \<Rightarrow>
                         (case set_flag f ''true'' fs of
                            None \<Rightarrow> Inl 2 | Some fs' \<Rightarrow> parse_flags foreign fs' args)
                     | (None, False, []) \<Rightarrow> Inl 2
                     | (None, False, v # rest) \<Rightarrow>
                         (case set_flag f v fs of None \<Rightarrow> Inl 2 | Some fs' \<Rightarrow> parse_flags foreign fs' rest)))"

section \<open>Options of the manager\<close>

text \<open>The protocols a TLS server offers: only HTTP/1.1, or what the library offers.\<close>

datatype next_protos = LibraryProtos | OnlyProtos "bytes list"

record manager_options =
  mo_MetricsBindAddress :: bytes
  mo_MetricsSecure :: bool
  mo_MetricsProtos :: next_protos
  mo_WebhookProtos :: next_protos
  mo_HealthProbeBindAddress :: bytes
  mo_LeaderElection :: bool
  mo_LeaderElectionID :: bytes

definition tls_protos :: "operator_flags \<Rightarrow> next_protos" where
  "tls_protos fs = (if \<not> fl_enableHTTP2 fs then OnlyProtos [''http/1.1''] else LibraryProtos)"

definition manager_options_of :: "operator_flags \<Rightarrow> manager_options" where
  "manager_options_of fs =
     \<lparr>mo_MetricsBindAddress = fl_metricsAddr fs, mo_MetricsSecure = fl_secureMetrics fs,
      mo_MetricsProtos = tls_protos fs, mo_WebhookProtos = tls_protos fs,
      mo_HealthProbeBindAddress = fl_probeAddr fs, mo_LeaderElection = fl_enableLeaderElection fs,
      mo_LeaderElectionID = ''40b3c27f.opsy.dev''\<rparr>"

section \<open>Colours and the banner\<close>

text \<open>The escape sequences of the terminal; the escape character is written as its code.\<close>

definition ansi :: "bytes \<Rightarrow> bytes" where
  "ansi code = CHR 0x1B # ''['' @ code @ ''m''"

definition red :: bytes where "red = ansi ''31''"
definition yellow :: bytes where "yellow = ansi ''33''"
definition green :: bytes where "green = ansi ''32''"
definition cyan :: bytes where "cyan = ansi ''36''"
definition blue :: bytes where "blue = ansi ''34''"
definition magenta :: bytes where "magenta = ansi ''35''"
definition reset :: bytes where "reset = ansi ''0''"

definition colorPrint :: "bytes \<Rightarrow> bytes \<Rightarrow> bytes" where
  "colorPrint color t = color @ t @ reset"

text \<open>\<open>strings.Split\<close> at line breaks, and the lines the banner is printed in, the first thirteen coloured.\<close>

fun split_lines :: "bytes \<Rightarrow> bytes list" where
  "split_lines [] = [[]]"
| "split_lines (c # cs) =
     (if c = CHR 0x0A then [] # split_lines cs
      else case split_lines cs of [] \<Rightarrow> [[c]] | l # ls \<Rightarrow> (c # l) # ls)"

fun print_lines :: "bytes list \<Rightarrow> bytes list \<Rightarrow> bytes" where
  "print_lines colors [] = []"
| "print_lines [] (l # ls) = l @ [CHR 0x0A] @ print_lines [] ls"
| "print_lines (c # cs) (l # ls) = colorPrint c (l @ [CHR 0x0A]) @ print_lines cs ls"

definition print_banner :: "bytes \<Rightarrow> bytes" where
  "print_banner brandBanner = print_lines (replicate 13 cyan) (split_lines brandBanner)"

lemma split_lines_print: "print_lines [] (split_lines b) = b @ [CHR 0x0A]"
proof (induction b rule: split_lines.induct)
  case (2 c cs)
  then show ?case by (cases "split_lines cs") auto
qed simp

text \<open>The colour of a log level, and the text the encoder appends for it.\<close>

datatype log_level =
  DebugLevel | InfoLevel | WarnLevel | ErrorLevel | DPanicLevel | PanicLevel | FatalLevel | OtherLevel

definition level_color :: "log_level \<Rightarrow> bytes" where
  "level_color l =
     (case l of
        DebugLevel \<Rightarrow> magenta
      | InfoLevel \<Rightarrow> green
      | WarnLevel \<Rightarrow> yellow
      | OtherLevel \<Rightarrow> reset
      | _ \<Rightarrow> red)"

definition encode_level :: "(log_level \<Rightarrow> bytes) \<Rightarrow> log_level \<Rightarrow> bytes" where
  "encode_level capital level = level_color level @ capital level @ ansi ''0''"

section \<open>The start of the operator\<close>

text \<open>
  The calls of \<open>main\<close>: the print of the banner, whose text is an argument, the logger, the configuration of the cluster (read twice, each time ending
  the process when it fails), the manager, the client, the two controllers with the names of their
  event recorders, the health checks, and the manager's run.
\<close>

record 'w main_api =
  mn_print :: "bytes \<Rightarrow> 'w \<Rightarrow> 'w"
  mn_build_logger :: "'w \<Rightarrow> bool \<times> 'w"
  mn_config :: "'w \<Rightarrow> bool \<times> 'w"
  mn_new_manager :: "manager_options \<Rightarrow> 'w \<Rightarrow> bool \<times> 'w"
  mn_clientset :: "'w \<Rightarrow> bool \<times> 'w"
  mn_setup_builder :: "bytes \<Rightarrow> 'w \<Rightarrow> bool \<times> 'w"
  mn_setup_refresher :: "bytes \<Rightarrow> 'w \<Rightarrow> bool \<times> 'w"
  mn_healthz :: "bytes \<Rightarrow> 'w \<Rightarrow> bool \<times> 'w"
  mn_readyz :: "bytes \<Rightarrow> 'w \<Rightarrow> bool \<times> 'w"
  mn_start :: "'w \<Rightarrow> bool \<times> 'w"

datatype process_end = ExitCode nat | Panicked

fun run_steps :: "('w \<Rightarrow> bool \<times> 'w) list \<Rightarrow> 'w \<Rightarrow> process_end \<times> 'w" where
  "run_steps [] w = (ExitCode 0, w)"
| "run_steps (c # cs) w =
     (case c w of (ok, w') \<Rightarrow> if ok then run_steps cs w' else (ExitCode 1, w'))"

definition setup_steps :: "'w main_api \<Rightarrow> operator_flags \<Rightarrow> ('w \<Rightarrow> bool \<times> 'w) list" where
  "setup_steps M fs =
     [mn_config M, mn_new_manager M (manager_options_of fs), mn_config M, mn_clientset M,
      mn_setup_builder M ''packerbuilder-controller'', mn_setup_refresher M ''ami-refresh-controller'',
      mn_healthz M ''healthz'', mn_readyz M ''readyz'']"

definition main ::
  "'w main_api \<Rightarrow> bytes \<Rightarrow> (bytes \<Rightarrow> flag option) \<Rightarrow> bytes list \<Rightarrow> 'w \<Rightarrow> process_end \<times> 'w" where
  "main M brandBanner foreign args w0 =
     (let w = mn_print M (print_banner brandBanner) w0 in
      case parse_flags foreign default_flags args of
        Inl code \<Rightarrow> (ExitCode code, w)
      | Inr fs \<Rightarrow>
          (case mn_build_logger M w of (ok, w1) \<Rightarrow>
             if ok then run_steps (setup_steps M fs @ [mn_start M]) w1 else (Panicked, w1)))"

section \<open>Properties\<close>

text \<open>The command line that sets every flag.\<close>

definition bool_text :: "bool \<Rightarrow> bytes" where
  "bool_text b = (if b then ''true'' else ''false'')"

definition render_flags :: "operator_flags \<Rightarrow> bytes list" where
  "render_flags fs =
     [''-metrics-bind-address='' @ fl_metricsAddr fs, ''--health-probe-bind-address='' @ fl_probeAddr fs,
      ''--leader-elect='' @ bool_text (fl_enableLeaderElection fs),
      ''-metrics-secure='' @ bool_text (fl_secureMetrics fs),
      ''--enable-http2='' @ bool_text (fl_enableHTTP2 fs)]"

lemma parse_bool_text [simp]: "parse_bool (bool_text b) = Some b"
  by (simp add: parse_bool_def bool_text_def)

text \<open>
  Flags round trip: the command line that sets every flag is parsed to the flags it was made from,
  whatever the two addresses are and whatever flags other packages register; arguments after the
  first one that is no flag are not looked at.
\<close>

theorem flags_roundtrip:
  "parse_flags foreign fs0 (render_flags fs @ ''x'' # rest) = Inr fs"
  by (cases fs) (simp add: render_flags_def split_value_def registered_flag_def is_bool_flag_def set_flag_def)

lemma run_steps_append:
  "run_steps (cs @ ds) w =
     (case run_steps cs w of (e, w') \<Rightarrow> if e = ExitCode 0 then run_steps ds w' else (e, w'))"
  by (induction cs arbitrary: w) (simp_all add: split_beta)

lemma run_steps_exit: "fst (run_steps cs w) \<in> {ExitCode 0, ExitCode 1}"
  by (induction cs arbitrary: w) (simp_all add: split_beta)

text \<open>
  The manager is only started after a complete set-up: the process ends with code 0 only when
  the logger, every step of the set-up and the run of the manager have succeeded, and when a step of
  the set-up fails it ends with code 1 in the world that step left, whatever the start would do.
\<close>

theorem start_after_setup:
  assumes "parse_flags foreign default_flags args = Inr fs" "w = mn_print M (print_banner brandBanner) w0"
    and "fst (mn_build_logger M w)"
  shows "main M brandBanner foreign args w0 =
    (case run_steps (setup_steps M fs) (snd (mn_build_logger M w)) of
       (e, w1) \<Rightarrow> if e = ExitCode 0 then (ExitCode (if fst (mn_start M w1) then 0 else 1), snd (mn_start M w1))
         else (ExitCode 1, w1))"
  using assms run_steps_exit [of "setup_steps M fs" "snd (mn_build_logger M w)"]
  by (auto simp: main_def Let_def run_steps_append split_beta prod_eq_iff)

theorem start_after_setup_witness:
  "main \<lparr>mn_print = (\<lambda>b w. w), mn_build_logger = Pair True, mn_config = Pair True, mn_new_manager = (\<lambda>m. Pair True),
      mn_clientset = Pair True, mn_setup_builder = (\<lambda>n. Pair True), mn_setup_refresher = (\<lambda>n. Pair False),
      mn_healthz = (\<lambda>n. Pair True), mn_readyz = (\<lambda>n. Pair True), mn_start = (\<lambda>w. (True, Suc w))\<rparr>
    [] (\<lambda>n. None) [''--leader-elect''] 0 = (ExitCode 1, 0)"
proof -
  have "parse_flags (\<lambda>n. None) default_flags [''--leader-elect''] =
      Inr (default_flags\<lparr>fl_enableLeaderElection := True\<rparr>)"
    by (simp add: split_value_def registered_flag_def is_bool_flag_def set_flag_def parse_bool_def)
  then show ?thesis by (subst start_after_setup) (simp_all add: setup_steps_def)
qed

end
