(* ===== verification/Eks_Manager.thy ===== *)
theory Eks_Manager
  imports Ami_Manager
begin

text \<open>
  \<open>pkg/manager_eks/eks.go\<close>: the update of the node groups of a cluster to a new image. The EKS and EC2
  clients, the state of the context and Go's choice in the waiting loop are one record of calls over
  the world.
\<close>

section \<open>The clients\<close>

datatype nodegroup_status =
    NodegroupActive
  | NodegroupDegraded
  | NodegroupCreating
  | NodegroupUpdating
  | NodegroupDeleting
  | NodegroupOther bytes

fun nodegroup_status_text :: "nodegroup_status \<Rightarrow> bytes" where
  "nodegroup_status_text NodegroupActive = ''ACTIVE''"
| "nodegroup_status_text NodegroupDegraded = ''DEGRADED''"
| "nodegroup_status_text NodegroupCreating = ''CREATING''"
| "nodegroup_status_text NodegroupUpdating = ''UPDATING''"
| "nodegroup_status_text NodegroupDeleting = ''DELETING''"
| "nodegroup_status_text (NodegroupOther s) = s"

text \<open>
  \<open>LaunchTemplateSpecification\<close>, and the part of \<open>Nodegroup\<close> that decides anything; the health issues
  are only logged.
\<close>

record launch_template =
  lt_Id :: "bytes option"
  lt_Name :: "bytes option"
  lt_Version :: "bytes option"

record nodegroup =
  ng_Status :: nodegroup_status
  ng_LaunchTemplate :: "launch_template option"

text \<open>
  A version of a launch template is its \<open>LaunchTemplateData\<close> with the image; a created version its
  number. Every pointer of the answers is an option.
\<close>

type_synonym lt_data = "bytes option option"
type_synonym lt_number = "64 word option option"

datatype wait_choice =
    WaitDone go_error
  | WaitTick
  | WaitFetch
  | WaitTake

record 'w eks_api =
  eks_ctx_err :: "('w, go_error option) call"
  eks_list_nodegroups :: "bytes \<Rightarrow> bytes \<Rightarrow> ('w, go_error + bytes list) call"
  eks_describe_nodegroup :: "bytes \<Rightarrow> bytes \<Rightarrow> bytes \<Rightarrow> ('w, go_error + nodegroup option) call"
  eks_update_config :: "bytes \<Rightarrow> bytes \<Rightarrow> bytes \<Rightarrow> int32 option \<Rightarrow> ('w, go_error option) call"
  eks_update_version :: "bytes \<Rightarrow> bytes \<Rightarrow> bytes \<Rightarrow> launch_template \<Rightarrow> ('w, go_error option) call"
  eks_describe_versions :: "bytes \<Rightarrow> bytes \<Rightarrow> bytes list \<Rightarrow> ('w, go_error + lt_data list) call"
  eks_create_version :: "bytes \<Rightarrow> bytes \<Rightarrow> bytes \<Rightarrow> bytes \<Rightarrow> ('w, go_error + lt_number) call"
  eks_wait_choice :: "('w, wait_choice) call"

text \<open>\<open>ManagerRefresh\<close>: the configuration of its clients and the cluster, \<open>None\<close> for nil.\<close>

type_synonym manager_eks = "(bytes \<times> bytes) option"

definition eks_New :: "'w env \<Rightarrow> bytes \<Rightarrow> bytes \<Rightarrow> ('w, manager_eks) call" where
  "eks_New E region clusterName w =
     (case ClientAWS E region w of
        (Inl err, w1) \<Rightarrow> (None, w1)
      | (Inr cfg, w1) \<Rightarrow> (Some (cfg, clusterName), w1))"

record update_config =
  uc_Enable :: bool
  uc_Force :: bool
  uc_WaitForCompletion :: bool
  uc_MaxUnavailable :: "int32 option"
  uc_MaxUnavailablePercentage :: "int32 option"

section \<open>Operations\<close>

text \<open>The excluded names as the keys of a map, in the order they are put in.\<close>

definition exclude_map :: "bytes list \<Rightarrow> (bytes \<times> unit) list" where
  "exclude_map names = fold (\<lambda>n m. AList.update n () m) names []"

fun trim_loop :: "(bytes \<times> unit) list \<Rightarrow> bytes list \<Rightarrow> bytes list \<Rightarrow> bytes list" where
  "trim_loop excluded trimmed [] = trimmed"
| "trim_loop excluded trimmed (nodeGroupName # names) =
     (case map_of excluded nodeGroupName of
        None \<Rightarrow> trim_loop excluded (trimmed @ [nodeGroupName]) names
      | Some u \<Rightarrow> trim_loop excluded trimmed names)"

text \<open>\<open>make([]string, 0, n)\<close> panics for a negative \<open>n\<close>.\<close>

definition TrimNodeGroups :: "bytes list \<Rightarrow> bytes list \<Rightarrow> bytes list outcome" where
  "TrimNodeGroups nodeGroups excludeNodeGroupNames =
     (if int (length nodeGroups) - int (length excludeNodeGroupNames) < 0
      then Panics ''makeslice: cap out of range''
      else Returns (trim_loop (exclude_map excludeNodeGroupNames) [] nodeGroups))"

definition ListNodeGroups ::
  "'w eks_api \<Rightarrow> manager_eks \<Rightarrow> bytes \<Rightarrow> ('w, go_error + bytes list) go" where
  "ListNodeGroups K m clusterName =
     go_bind (go_deref m) (\<lambda>(cfg, own).
     go_bind (go_call (eks_list_nodegroups K cfg clusterName)) (\<lambda>answer.
     go_return
       (case answer of
          Inl err \<Rightarrow>
            if aws_code err = Some ''ResourceNotFoundException''
            then Inl (ErrorString (''cluster '' @ clusterName @ '' not found''))
            else Inl (errorf ''failed to list node groups: '' err)
        | Inr nodeGroups \<Rightarrow> Inr nodeGroups)))"

text \<open>The default goes into the caller's configuration; the percentage is never sent.\<close>

definition updateNodeGroupConfig ::
  "'w eks_api \<Rightarrow> bytes \<Rightarrow> bytes \<Rightarrow> bytes \<Rightarrow> update_config \<Rightarrow> ('w, go_error option \<times> update_config) go" where
  "updateNodeGroupConfig K cfg cluster nodeGroupName updateConfig =
     (if uc_Enable updateConfig
      then let uc = (if uc_MaxUnavailable updateConfig = None \<and>
                        uc_MaxUnavailablePercentage updateConfig = None
                     then updateConfig\<lparr>uc_MaxUnavailable := Some 1\<rparr> else updateConfig)
           in go_bind (go_call (eks_update_config K cfg cluster nodeGroupName (uc_MaxUnavailable uc)))
                (\<lambda>err. go_return (err, uc))
      else go_return (None, updateConfig))"

definition getNodeGroupStatus ::
  "'w eks_api \<Rightarrow> bytes \<Rightarrow> bytes \<Rightarrow> bytes \<Rightarrow> ('w, go_error + nodegroup_status) go" where
  "getNodeGroupStatus K cfg cluster nodeGroupName =
     go_bind (go_call (eks_describe_nodegroup K cfg cluster nodeGroupName)) (\<lambda>answer.
     case answer of
       Inl err \<Rightarrow> go_return (Inl err)
     | Inr p \<Rightarrow> go_bind (go_deref p) (\<lambda>g. go_return (Inr (ng_Status g))))"

definition handleUpdateFailure ::
  "'w eks_api \<Rightarrow> bytes \<Rightarrow> bytes \<Rightarrow> bytes \<Rightarrow> ('w, go_error option) go" where
  "handleUpdateFailure K cfg cluster nodeGroupName =
     go_try (\<lambda>e. e) (go_call (eks_describe_nodegroup K cfg cluster nodeGroupName)) (\<lambda>p.
     go_bind (go_deref p) (\<lambda>g.
       go_return (Some (ErrorString (''node group update failed or degraded with status: '' @
         nodegroup_status_text (ng_Status g))))))"

text \<open>
  The waiting loop. A tick starts a goroutine that fetches the status and sends it; \<open>ws_started\<close> counts
  those that have not fetched yet, \<open>ws_sent\<close> is the channel with the goroutines that wait to send, in
  the order they came. \<open>None\<close> while the loop still runs after \<open>n\<close> choices.
\<close>

record wait_state =
  ws_started :: nat
  ws_sent :: "(go_error + nodegroup_status) list"

fun wait_loop ::
  "'w eks_api \<Rightarrow> bytes \<Rightarrow> bytes \<Rightarrow> bytes \<Rightarrow> nat \<Rightarrow> wait_state \<Rightarrow> ('w, go_error option option) go" where
  "wait_loop K cfg cluster name 0 ws = go_return None"
| "wait_loop K cfg cluster name (Suc n) ws =
     go_bind (go_call (eks_wait_choice K)) (\<lambda>choice.
     case choice of
       WaitDone err \<Rightarrow> go_return (Some (Some err))
     | WaitTick \<Rightarrow> wait_loop K cfg cluster name n (ws\<lparr>ws_started := Suc (ws_started ws)\<rparr>)
     | WaitFetch \<Rightarrow>
         if ws_started ws = 0 then wait_loop K cfg cluster name n ws
         else go_bind (getNodeGroupStatus K cfg cluster name) (\<lambda>result.
           wait_loop K cfg cluster name n
             (ws\<lparr>ws_started := ws_started ws - 1, ws_sent := ws_sent ws @ [result]\<rparr>))
     | WaitTake \<Rightarrow>
         (case ws_sent ws of
            [] \<Rightarrow> wait_loop K cfg cluster name n ws
          | Inl err # rest \<Rightarrow> wait_loop K cfg cluster name n (ws\<lparr>ws_sent := rest\<rparr>)
          | Inr NodegroupActive # rest \<Rightarrow> go_return (Some None)
          | Inr NodegroupDegraded # rest \<Rightarrow>
              go_bind (handleUpdateFailure K cfg cluster name) (\<lambda>err. go_return (Some err))
          | Inr status # rest \<Rightarrow> wait_loop K cfg cluster name n (ws\<lparr>ws_sent := rest\<rparr>)))"

definition waitForUpdateCompletion ::
  "'w eks_api \<Rightarrow> bytes \<Rightarrow> bytes \<Rightarrow> bytes \<Rightarrow> nat \<Rightarrow> ('w, go_error option option) go" where
  "waitForUpdateCompletion K cfg cluster name fuel =
     wait_loop K cfg cluster name fuel \<lparr>ws_started = 0, ws_sent = []\<rparr>"

text \<open>\<open>fmt.Sprintf("%d", n)\<close> and \<open>aws.ToInt64\<close>, \<open>aws.ToString\<close>.\<close>

definition int_text :: "int \<Rightarrow> bytes" where
  "int_text n = (if n < 0 then ''-'' @ decimal (nat (- n)) else decimal (nat n))"

definition ToInt64 :: "64 word option \<Rightarrow> int" where
  "ToInt64 p = (case p of None \<Rightarrow> 0 | Some n \<Rightarrow> sint n)"

definition ToString :: "bytes option \<Rightarrow> bytes" where
  "ToString p = (case p of None \<Rightarrow> '''' | Some s \<Rightarrow> s)"

text \<open>The test that spares an update; its dereferences are only reached without \<open>Force\<close>.\<close>

definition already_current :: "bool \<Rightarrow> lt_data \<Rightarrow> bytes \<Rightarrow> ('w, bool) go" where
  "already_current force currentVersion newAMIID =
     (if force then go_return False
      else go_bind (go_deref currentVersion) (\<lambda>data.
        go_bind (go_deref data) (\<lambda>imageId.
          go_return (trim_prefix imageId ''$Latest-'' = newAMIID))))"

text \<open>The part after the test: a new version of the template, and the update of the group to it.\<close>

definition roll_out ::
  "'w eks_api \<Rightarrow> nat \<Rightarrow> bytes \<Rightarrow> bytes \<Rightarrow> bytes \<Rightarrow> bytes \<Rightarrow> bytes \<Rightarrow> bytes \<Rightarrow> update_config \<Rightarrow>
   ('w, go_error option option) go" where
  "roll_out K fuel cfg cluster name ltName ltVersion newAMIID updateConfig =
     go_bind (go_call (eks_create_version K cfg ltName ltVersion newAMIID)) (\<lambda>answer.
     case answer of
       Inl err \<Rightarrow>
         go_return (Some (Some (WrapError ''failed to create new launch template version: '' err)))
     | Inr p \<Rightarrow>
         go_bind (go_deref p) (\<lambda>number.
         let spec = \<lparr>lt_Id = None, lt_Name = None, lt_Version = Some (int_text (ToInt64 number))\<rparr>
         in go_bind (go_call (eks_ctx_err K)) (\<lambda>cancelled.
         case cancelled of
           Some err \<Rightarrow> go_return (Some (Some err))
         | None \<Rightarrow>
             go_bind (go_call (eks_update_version K cfg cluster name spec)) (\<lambda>failed.
             case failed of
               Some err \<Rightarrow> go_return (Some (Some err))
             | None \<Rightarrow>
                 if uc_WaitForCompletion updateConfig
                 then go_bind (go_call (eks_ctx_err K)) (\<lambda>cancelled.
                   case cancelled of
                     Some err \<Rightarrow> go_return (Some (Some err))
                   | None \<Rightarrow> waitForUpdateCompletion K cfg cluster name fuel)
                 else go_return (Some None)))))"

definition template_of :: "nodegroup option \<Rightarrow> ('w, launch_template) go" where
  "template_of p = go_bind (go_deref p) (\<lambda>g. go_deref (ng_LaunchTemplate g))"

definition UpdateNodeGroupAMI ::
  "'w eks_api \<Rightarrow> nat \<Rightarrow> manager_eks \<Rightarrow> bytes \<Rightarrow> bytes \<Rightarrow> update_config \<Rightarrow>
   ('w, go_error option option) go" where
  "UpdateNodeGroupAMI K fuel m nodeGroupName newAMIID updateConfig =
     go_bind (go_deref m) (\<lambda>(cfg, cluster).
     go_bind (go_call (eks_ctx_err K)) (\<lambda>cancelled.
     case cancelled of
       Some err \<Rightarrow> go_return (Some (Some err))
     | None \<Rightarrow>
         go_bind (updateNodeGroupConfig K cfg cluster nodeGroupName updateConfig) (\<lambda>(failed, uc).
         case failed of
           Some err \<Rightarrow> go_return (Some (Some err))
         | None \<Rightarrow>
             go_bind (go_call (eks_describe_nodegroup K cfg cluster nodeGroupName)) (\<lambda>answer.
             case answer of
               Inl err \<Rightarrow> go_return (Some (Some err))
             | Inr p \<Rightarrow>
                 go_bind (go_call (eks_ctx_err K)) (\<lambda>cancelled.
                 case cancelled of
                   Some err \<Rightarrow> go_return (Some (Some err))
                 | None \<Rightarrow>
                     go_bind (template_of p) (\<lambda>lt.
                     go_bind (go_call (eks_describe_versions K cfg (ToString (lt_Name lt))
                       [ToString (lt_Version lt)])) (\<lambda>versions.
                     case versions of
                       Inl err \<Rightarrow>
                         go_return (Some (Some (WrapError
                           ''failed to describe launch template version: '' err)))
                     | Inr [] \<Rightarrow>
                         go_return (Some (Some (ErrorString ''no launch template versions found'')))
                     | Inr (currentVersion # others) \<Rightarrow>
                         go_bind (already_current (uc_Force uc) currentVersion newAMIID) (\<lambda>same.
                         if same then go_return (Some None)
                         else roll_out K fuel cfg cluster nodeGroupName (ToString (lt_Name lt))
                           (ToString (lt_Version lt)) newAMIID uc))))))))"

section \<open>The node groups that are updated\<close>

lemma exclude_map_lookup: "map_of (exclude_map names) n = None \<longleftrightarrow> n \<notin> set names"
proof -
  have "map_of (fold (\<lambda>n m. AList.update n () m) names m0) n = None \<longleftrightarrow>
      n \<notin> set names \<and> map_of m0 n = None" for m0
    by (induction names arbitrary: m0) (auto simp: update_conv')
  then show ?thesis by (simp add: exclude_map_def)
qed

lemma trim_loop_eq:
  "trim_loop excluded trimmed names = trimmed @ filter (\<lambda>n. map_of excluded n = None) names"
  by (induction excluded trimmed names rule: trim_loop.induct) (auto split: option.splits)

text \<open>
  C38. \<open>TrimNodeGroups\<close> computes the node groups that are not excluded, in their order, unless the
  exclusion list is longer than the list of node groups: then the capacity it asks for is negative and
  it panics, also when no excluded name is a node group.
\<close>

theorem trim_node_groups:
  "TrimNodeGroups nodeGroups excluded =
     (if length nodeGroups < length excluded then Panics ''makeslice: cap out of range''
      else Returns (filter (\<lambda>n. n \<notin> set excluded) nodeGroups))"
  by (simp add: TrimNodeGroups_def trim_loop_eq exclude_map_lookup)

section \<open>Waiting for an update\<close>

lemma getNodeGroupStatus_returns:
  assumes "getNodeGroupStatus K cfg cluster name w = (Returns (Inr st), w')"
  shows "\<exists>g. eks_describe_nodegroup K cfg cluster name w = (Inr (Some g), w') \<and> ng_Status g = st"
  using assms
  by (cases "eks_describe_nodegroup K cfg cluster name w")
    (auto simp: getNodeGroupStatus_def go_laws go_deref_def split: sum.splits option.splits)

lemma handleUpdateFailure_error:
  "fst (handleUpdateFailure K cfg cluster name w) \<noteq> Returns None"
  by (auto simp: handleUpdateFailure_def go_try_def go_laws go_deref_def
      split: sum.splits option.splits)

text \<open>A received answer other than \<open>ACTIVE\<close> never ends the loop with success.\<close>

lemma wait_take_other:
  assumes "wait_loop K cfg cluster name (Suc n) ws w = (Returns (Some None), w')"
    and "eks_wait_choice K w = (WaitTake, w1)" "ws_sent ws = x # rest" "x \<noteq> Inr NodegroupActive"
  shows "wait_loop K cfg cluster name n (ws\<lparr>ws_sent := rest\<rparr>) w1 = (Returns (Some None), w')"
  using assms handleUpdateFailure_error [of K cfg cluster name w1]
  by (auto simp: go_laws split: sum.splits nodegroup_status.splits outcome.splits)

lemma wait_loop_success:
  assumes "wait_loop K cfg cluster name n ws w = (Returns (Some None), w')"
    and "Inr NodegroupActive \<notin> set (ws_sent ws)"
  shows "\<exists>g v v'. eks_describe_nodegroup K cfg cluster name v = (Inr (Some g), v') \<and>
    ng_Status g = NodegroupActive"
  using assms
proof (induction n arbitrary: ws w)
  case 0
  then show ?case by (simp add: go_laws)
next
  case (Suc n)
  obtain choice w1 where c: "eks_wait_choice K w = (choice, w1)" by fastforce
  note run = Suc.prems(1) [unfolded wait_loop.simps go_bind_run go_run_simps c]
  show ?case
  proof (cases choice)
    case (WaitDone err)
    with run show ?thesis by (simp add: go_laws)
  next
    case WaitTick
    with run Suc.IH Suc.prems(2) show ?thesis by force
  next
    case WaitFetch
    show ?thesis
    proof (cases "ws_started ws = 0")
      case True
      with WaitFetch run Suc.IH Suc.prems(2) show ?thesis by force
    next
      case False
      obtain result v where r: "getNodeGroupStatus K cfg cluster name w1 = (Returns result, v)"
        and rest: "wait_loop K cfg cluster name n (ws\<lparr>ws_started := ws_started ws - 1,
          ws_sent := ws_sent ws @ [result]\<rparr>) v = (Returns (Some None), w')"
        using run WaitFetch False
        by (cases "getNodeGroupStatus K cfg cluster name w1")
          (auto simp: go_laws split: outcome.splits)
      show ?thesis
      proof (cases "result = Inr NodegroupActive")
        case True
        then show ?thesis using getNodeGroupStatus_returns [OF r [unfolded True]] by blast
      next
        case False
        with Suc.IH [OF rest] Suc.prems(2) show ?thesis by auto
      qed
    qed
  next
    case WaitTake
    show ?thesis
    proof (cases "ws_sent ws")
      case Nil
      with WaitTake run Suc.IH Suc.prems(2) show ?thesis by force
    next
      case (Cons x rest)
      then have "Inr NodegroupActive \<notin> set (ws_sent (ws\<lparr>ws_sent := rest\<rparr>))" "x \<noteq> Inr NodegroupActive"
        using Suc.prems(2) by auto
      moreover have "wait_loop K cfg cluster name n (ws\<lparr>ws_sent := rest\<rparr>) w1 = (Returns (Some None), w')"
        by (rule wait_take_other [OF Suc.prems(1) _ Cons calculation(2)]) (use c WaitTake in simp)
      ultimately show ?thesis using Suc.IH by blast
    qed
  qed
qed

text \<open>
  A wait that reports success has seen it: EKS has described the node group as active at some
  point of the wait; a degraded group, a failed query, or a context that ends never counts as success.
\<close>

theorem wait_success_seen:
  assumes "waitForUpdateCompletion K cfg cluster name fuel w = (Returns (Some None), w')"
  shows "\<exists>g v v'. eks_describe_nodegroup K cfg cluster name v = (Inr (Some g), v') \<and>
    ng_Status g = NodegroupActive"
  using wait_loop_success [OF assms [unfolded waitForUpdateCompletion_def]] by simp

text \<open>
  The wait ends: once a tick has started a query, the query finds the group active, and the loop
  takes the answer, three iterations are enough, whatever comes afterwards. A degraded group ends it
  with an error as soon as it is seen.
\<close>

theorem wait_ends:
  assumes "eks_wait_choice K w = (WaitTick, w1)" "eks_wait_choice K w1 = (WaitFetch, w2)"
    and "eks_describe_nodegroup K cfg cluster name w2 = (Inr (Some g), w3)"
    and "eks_wait_choice K w3 = (WaitTake, w4)"
  shows "(ng_Status g = NodegroupActive \<longrightarrow>
      waitForUpdateCompletion K cfg cluster name (3 + k) w = (Returns (Some None), w4)) \<and>
    (ng_Status g = NodegroupDegraded \<longrightarrow> eks_describe_nodegroup K cfg cluster name w4 = (Inr (Some g), w5) \<longrightarrow>
      waitForUpdateCompletion K cfg cluster name (3 + k) w =
        (Returns (Some (Some (ErrorString ''node group update failed or degraded with status: DEGRADED''))), w5))"
  using assms
  by (simp add: waitForUpdateCompletion_def numeral_3_eq_3 go_laws getNodeGroupStatus_def
      handleUpdateFailure_def go_try_def)

section \<open>Rolling out an image\<close>

text \<open>
  The documentation of \<open>LaunchTemplateSpecification\<close>: a template is named by its identifier or by its
  name; a request with neither is refused.
\<close>

definition template_required :: "'w eks_api \<Rightarrow> bool" where
  "template_required K \<longleftrightarrow>
     (\<forall>cfg cluster name spec w. lt_Id spec = None \<and> lt_Name spec = None \<longrightarrow>
        fst (eks_update_version K cfg cluster name spec w) \<noteq> None)"

lemma roll_out_refused:
  assumes "template_required K"
  shows "roll_out K fuel cfg cluster name ltName ltVersion ami uc w \<noteq> (Returns (Some None), w')"
proof
  have refused: "(eks_update_version K cfg cluster name \<lparr>lt_Id = None, lt_Name = None, lt_Version = v\<rparr> u =
      (None, u')) = False" for v u u'
    using assms [unfolded template_required_def, rule_format,
        of "\<lparr>lt_Id = None, lt_Name = None, lt_Version = v\<rparr>" cfg cluster name u] by auto
  assume "roll_out K fuel cfg cluster name ltName ltVersion ami uc w = (Returns (Some None), w')"
  then show False
    unfolding roll_out_def Let_def
    by (auto elim!: go_bindE simp: go_run_eq refused split: sum.splits option.splits)
qed

lemma already_current_image:
  assumes "already_current force data ami w = (Returns True, w')"
  shows "\<not> force \<and> w' = w \<and> (\<exists>image. data = Some (Some image) \<and> trim_prefix image ''$Latest-'' = ami)"
  using assms
  by (auto simp: already_current_def go_run_eq go_deref_returns elim!: go_bindE split: if_splits)

lemma updateNodeGroupConfig_force:
  "updateNodeGroupConfig K cfg cluster name uc w = (Returns (err, uc'), w') \<Longrightarrow> uc_Force uc' = uc_Force uc"
  by (auto simp: updateNodeGroupConfig_def go_run_eq Let_def elim!: go_bindE split: if_splits)

lemma update_success_cases:
  assumes "UpdateNodeGroupAMI K fuel (Some (cfg, cluster)) name ami uc w = (Returns (Some None), w')"
  shows "\<exists>ltName ltVersion v data others v1.
    eks_describe_versions K cfg ltName [ltVersion] v = (Inr (data # others), v1) \<and>
    (already_current (uc_Force uc) data ami v1 = (Returns True, w') \<or>
     (\<exists>uc' v2. roll_out K fuel cfg cluster name ltName ltVersion ami uc' v2 = (Returns (Some None), w')))"
  using assms
  unfolding UpdateNodeGroupAMI_def
  apply (simp only: go_deref_simps go_bind_return prod.case)
  apply (elim go_bindE)
  apply (clarsimp simp: go_run_eq split: option.splits elim!: go_bindE)
  apply (drule updateNodeGroupConfig_force)
  apply (clarsimp elim!: go_bindE simp: go_run_eq split: sum.splits option.splits list.splits)
  apply (clarsimp elim!: go_bindE simp: go_run_eq split: sum.splits option.splits list.splits if_splits; blast)
  done


section \<open>Examples\<close>

text \<open>A cluster with one template whose current version has image \<open>ami-2\<close>; the world is Go's choices.\<close>

definition eks_example :: "wait_choice list eks_api" where
  "eks_example =
     \<lparr>eks_ctx_err = (\<lambda>w. (None, w)),
      eks_list_nodegroups = (\<lambda>cfg cluster w. (Inr [''blue'', ''green''], w)),
      eks_describe_nodegroup = (\<lambda>cfg cluster name w. (Inr (Some \<lparr>ng_Status = NodegroupActive,
        ng_LaunchTemplate = Some \<lparr>lt_Id = None, lt_Name = Some ''lt'', lt_Version = Some ''3''\<rparr>\<rparr>), w)),
      eks_update_config = (\<lambda>cfg cluster name maximum w. (None, w)),
      eks_update_version = (\<lambda>cfg cluster name spec w.
        (if lt_Id spec = None \<and> lt_Name spec = None
         then Some (AwsError ''InvalidParameterException'' ''no launch template'') else None, w)),
      eks_describe_versions = (\<lambda>cfg name versions w. (Inr [Some (Some ''ami-2'')], w)),
      eks_create_version = (\<lambda>cfg name source image w. (Inr (Some (Some 4)), w)),
      eks_wait_choice = (\<lambda>w. case w of [] \<Rightarrow> (WaitTick, []) | c # cs \<Rightarrow> (c, cs))\<rparr>"

lemma eks_example_run:
  "waitForUpdateCompletion eks_example ''c'' ''k'' ''blue'' 3 [WaitTick, WaitFetch, WaitTake] =
     (Returns (Some None), [])"
  by (simp add: waitForUpdateCompletion_def numeral_3_eq_3 go_laws getNodeGroupStatus_def eks_example_def)

theorem wait_success_seen_witness:
  "\<exists>g v v'. eks_describe_nodegroup eks_example ''c'' ''k'' ''blue'' v = (Inr (Some g), v') \<and>
     ng_Status g = NodegroupActive"
  by (rule wait_success_seen [OF eks_example_run])

theorem wait_ends_witness:
  "waitForUpdateCompletion eks_example ''c'' ''k'' ''blue'' (3 + 4)
     [WaitTick, WaitFetch, WaitTake, WaitDone ContextCanceled] =
   (Returns (Some None), [WaitDone ContextCanceled])"
  using wait_ends [of eks_example "[WaitTick, WaitFetch, WaitTake, WaitDone ContextCanceled]"
      "[WaitFetch, WaitTake, WaitDone ContextCanceled]" "[WaitTake, WaitDone ContextCanceled]"
      "''c''" "''k''" "''blue''"
      "\<lparr>ng_Status = NodegroupActive, ng_LaunchTemplate =
         Some \<lparr>lt_Id = None, lt_Name = Some ''lt'', lt_Version = Some ''3''\<rparr>\<rparr>"
      "[WaitTake, WaitDone ContextCanceled]" "[WaitDone ContextCanceled]" 4 "[]"]
  by (simp add: eks_example_def)

definition no_update_config :: update_config where
  "no_update_config =
     \<lparr>uc_Enable = False, uc_Force = False, uc_WaitForCompletion = False, uc_MaxUnavailable = None,
      uc_MaxUnavailablePercentage = None\<rparr>"


end
