(* ===== verification/Finalizer.thy ===== *)
theory Finalizer
  imports Conditions
begin

text \<open>
  \<open>pkg/finalizer\<close>: the finalizer of a custom resource. The object and the update of the client are
  the record \<open>finalizer_ops\<close>; its laws are the locale \<open>finalized\<close>, interpreted for \<open>AMIRefresher\<close>,
  whose controller is the only caller.
\<close>

definition Finalizer :: bytes where
  "Finalizer = ''ami.opsy.dev/finalizer''"

record ('w, 'o) finalizer_ops =
  fo_Meta :: "'o \<Rightarrow> object_meta"
  fo_SetMeta :: "object_meta \<Rightarrow> 'o \<Rightarrow> 'o"
  fo_Update :: "'o \<Rightarrow> ('w, go_error + 'o) call"

text \<open>\<open>GetDeletionTimestamp().IsZero()\<close>, of a nil pointer too.\<close>

definition not_deleted :: "object_meta \<Rightarrow> bool" where
  "not_deleted m \<longleftrightarrow> (case om_DeletionTimestamp m of None \<Rightarrow> True | Some t \<Rightarrow> time_is_zero t)"

text \<open>\<open>controllerutil.AddFinalizer\<close> at an object without it, and \<open>RemoveFinalizer\<close>.\<close>

definition with_finalizers ::
  "('w, 'o) finalizer_ops \<Rightarrow> (bytes list \<Rightarrow> bytes list) \<Rightarrow> 'o \<Rightarrow> 'o" where
  "with_finalizers ops f obj =
     fo_SetMeta ops ((fo_Meta ops obj)\<lparr>om_Finalizers := f (om_Finalizers (fo_Meta ops obj))\<rparr>) obj"

text \<open>The client's \<open>Update\<close> puts the answer of the server into the object.\<close>

definition update_object ::
  "('w, 'o) finalizer_ops \<Rightarrow> 'o \<Rightarrow> ('w, go_error option \<times> 'o) call" where
  "update_object ops obj w =
     (case fo_Update ops obj w of
        (Inl err, w1) \<Rightarrow> ((Some err, obj), w1)
      | (Inr obj', w1) \<Rightarrow> ((None, obj'), w1))"

definition HandleFinalizer ::
  "('w, 'o) finalizer_ops \<Rightarrow> 'o \<Rightarrow> ('w, go_error option \<times> 'o) call" where
  "HandleFinalizer ops obj w =
     (if not_deleted (fo_Meta ops obj)
      then if Finalizer \<notin> set (om_Finalizers (fo_Meta ops obj))
           then update_object ops (with_finalizers ops (\<lambda>fs. fs @ [Finalizer]) obj) w
           else ((None, obj), w)
      else if Finalizer \<in> set (om_Finalizers (fo_Meta ops obj))
           then update_object ops (with_finalizers ops (removeAll Finalizer) obj) w
           else ((None, obj), w))"

section \<open>The interface and its laws\<close>

text \<open>
  An accepted update gives back the finalizers and the deletion timestamp that were sent; only the API
  server can set the latter, by a deletion.
\<close>

definition update_documented :: "('w, 'o) finalizer_ops \<Rightarrow> bool" where
  "update_documented ops \<longleftrightarrow>
     (\<forall>obj w obj'. fst (fo_Update ops obj w) = Inr obj' \<longrightarrow>
        om_Finalizers (fo_Meta ops obj') = om_Finalizers (fo_Meta ops obj) \<and>
        om_DeletionTimestamp (fo_Meta ops obj') = om_DeletionTimestamp (fo_Meta ops obj))"

locale finalized =
  fixes ops :: "('w, 'o) finalizer_ops"
  assumes meta_set: "fo_Meta ops (fo_SetMeta ops m obj) = m"
begin

lemma with_finalizers_meta:
  "om_Finalizers (fo_Meta ops (with_finalizers ops f obj)) = f (om_Finalizers (fo_Meta ops obj))"
  "om_DeletionTimestamp (fo_Meta ops (with_finalizers ops f obj)) =
     om_DeletionTimestamp (fo_Meta ops obj)"
  by (simp_all add: with_finalizers_def meta_set)

lemma update_object_meta:
  assumes "update_documented ops" "update_object ops obj w = ((None, obj'), w')"
  shows "om_Finalizers (fo_Meta ops obj') = om_Finalizers (fo_Meta ops obj)"
    "om_DeletionTimestamp (fo_Meta ops obj') = om_DeletionTimestamp (fo_Meta ops obj)"
  using assms by (auto simp: update_object_def update_documented_def split: prod.splits sum.splits)
    (metis fst_conv)+

text \<open>An accepted run has the finalizer exactly on objects that are not being deleted.\<close>

lemma HandleFinalizer_done:
  assumes "update_documented ops" "HandleFinalizer ops obj w = ((None, obj'), w')"
  shows "(Finalizer \<in> set (om_Finalizers (fo_Meta ops obj')) \<longleftrightarrow> not_deleted (fo_Meta ops obj')) \<and>
    om_DeletionTimestamp (fo_Meta ops obj') = om_DeletionTimestamp (fo_Meta ops obj) \<and>
    filter (\<lambda>f. f \<noteq> Finalizer) (om_Finalizers (fo_Meta ops obj')) =
      filter (\<lambda>f. f \<noteq> Finalizer) (om_Finalizers (fo_Meta ops obj))"
proof (cases "not_deleted (fo_Meta ops obj) \<longleftrightarrow> Finalizer \<in> set (om_Finalizers (fo_Meta ops obj))")
  case True
  with assms(2) have "obj' = obj" by (simp add: HandleFinalizer_def split: if_splits)
  with True show ?thesis by simp
next
  case False
  define f :: "bytes list \<Rightarrow> bytes list" where
    "f = (if not_deleted (fo_Meta ops obj) then (\<lambda>fs. fs @ [Finalizer]) else removeAll Finalizer)"
  have "update_object ops (with_finalizers ops f obj) w = ((None, obj'), w')"
    using assms(2) False by (auto simp: HandleFinalizer_def f_def split: if_splits)
  note m = update_object_meta [OF assms(1) this, unfolded with_finalizers_meta]
  have "filter (\<lambda>x. x \<noteq> Finalizer) (removeAll Finalizer fs) = filter (\<lambda>x. x \<noteq> Finalizer) fs" for fs
    by (induction fs) auto
  with m False show ?thesis by (auto simp: f_def not_deleted_def)
qed

lemma HandleFinalizer_again:
  assumes "Finalizer \<in> set (om_Finalizers (fo_Meta ops obj)) \<longleftrightarrow> not_deleted (fo_Meta ops obj)"
  shows "HandleFinalizer ops obj w = ((None, obj), w)"
  using assms by (simp add: HandleFinalizer_def)

end

definition ar_finalizer_ops ::
  "(ami_refresher \<Rightarrow> ('w, go_error + ami_refresher) call) \<Rightarrow> ('w, ami_refresher) finalizer_ops" where
  "ar_finalizer_ops update =
     \<lparr>fo_Meta = ar_Meta, fo_SetMeta = (\<lambda>m ar. ar\<lparr>ar_Meta := m\<rparr>), fo_Update = update\<rparr>"

interpretation ar_fin: finalized "ar_finalizer_ops update"
  for update :: "ami_refresher \<Rightarrow> ('w, go_error + ami_refresher) call"
  by unfold_locales (simp add: ar_finalizer_ops_def)

text \<open>
  The finalizer settles: after a run of \<open>HandleFinalizer\<close> that succeeded, a refresher carries the
  finalizer exactly when it is not being deleted, its other finalizers are kept in their order, and
  running it again makes no call and changes nothing.
\<close>

theorem finalizer_settles:
  assumes "update_documented (ar_finalizer_ops update)"
    and "HandleFinalizer (ar_finalizer_ops update) ar w = ((None, ar'), w')"
  shows "(Finalizer \<in> set (om_Finalizers (ar_Meta ar')) \<longleftrightarrow> not_deleted (ar_Meta ar')) \<and>
    filter (\<lambda>f. f \<noteq> Finalizer) (om_Finalizers (ar_Meta ar')) =
      filter (\<lambda>f. f \<noteq> Finalizer) (om_Finalizers (ar_Meta ar)) \<and>
    HandleFinalizer (ar_finalizer_ops update) ar' v = ((None, ar'), v)"
proof -
  have "fo_Meta (ar_finalizer_ops update) = ar_Meta" by (simp add: ar_finalizer_ops_def)
  then show ?thesis
    using ar_fin.HandleFinalizer_done [OF assms] ar_fin.HandleFinalizer_again [of update ar' v]
    by simp
qed

definition example_ar :: ami_refresher where
  "example_ar =
     \<lparr>ar_Meta = \<lparr>om_Name = ''ar'', om_Namespace = ''ns'', om_DeletionTimestamp = None,
        om_Finalizers = [''other'']\<rparr>,
      ar_Spec = \<lparr>rs_Region = ''us-west-2'', rs_AMI = ''ami-7'', rs_AMIFilters = [],
        rs_ClusterName = ''k'', rs_Exclude = [],
        rs_TimeOuts = \<lparr>to_ExpiresIn = ''48h'', to_ControllerTimer = ''5m''\<rparr>,
        rs_RefreshConfig = \<lparr>rc_Enable = False, rc_Force = False, rc_MaxUnavailable = None,
          rc_MaxUnavailablePercentage = None, rc_WaitForCompletion = False\<rparr>\<rparr>,
      ar_Status = \<lparr>ars_Conditions = [], ars_LastRun = 0, ars_LastRunStatus = LastRunStatusUnset\<rparr>\<rparr>"

theorem finalizer_settles_witness:
  "HandleFinalizer (ar_finalizer_ops (\<lambda>ar w. (Inr ar, ar # w)))
     (example_ar\<lparr>ar_Meta := (ar_Meta example_ar)\<lparr>om_Finalizers := [''other'', Finalizer]\<rparr>\<rparr>) [] =
   ((None, example_ar\<lparr>ar_Meta := (ar_Meta example_ar)\<lparr>om_Finalizers := [''other'', Finalizer]\<rparr>\<rparr>), [])"
proof -
  let ?U = "\<lambda>ar w. (Inr ar :: go_error + ami_refresher, ar # w)"
  have "update_documented (ar_finalizer_ops ?U)"
    by (simp add: update_documented_def ar_finalizer_ops_def)
  moreover have "HandleFinalizer (ar_finalizer_ops ?U) example_ar [] =
      ((None, example_ar\<lparr>ar_Meta := (ar_Meta example_ar)\<lparr>om_Finalizers := [''other'', Finalizer]\<rparr>\<rparr>),
       [example_ar\<lparr>ar_Meta := (ar_Meta example_ar)\<lparr>om_Finalizers := [''other'', Finalizer]\<rparr>\<rparr>])"
    by (simp add: HandleFinalizer_def update_object_def with_finalizers_def ar_finalizer_ops_def
        not_deleted_def example_ar_def Finalizer_def)
  ultimately show ?thesis by (rule finalizer_settles [THEN conjunct2, THEN conjunct2])
qed

end
