(* ===== verification/Refresher_Controller.thy ===== *)
theory Refresher_Controller
  imports Packer_Controller Eks_Manager Finalizer
begin

text \<open>
  \<open>internal/controller/ami/amirefresher_controller.go\<close>: one reconciliation of an \<open>AMIRefresher\<close>. The
  object is passed along explicitly; a step ends the reconciliation with a result or goes on.
\<close>

section \<open>Steps\<close>

text \<open>\<open>return ctrl.Result{}, client.IgnoreNotFound(err)\<close>.\<close>

definition IgnoreNotFound :: "go_error \<Rightarrow> ctrl_result" where
  "IgnoreNotFound err = (if is_not_found err then Done else Failed err)"

definition go_step ::
  "('w, ctrl_result + 'a) go \<Rightarrow> ('a \<Rightarrow> ('w, ctrl_result + 'b) go) \<Rightarrow> ('w, ctrl_result + 'b) go" where
  "go_step m k = go_bind m (\<lambda>a. case a of Inl r \<Rightarrow> go_return (Inl r) | Inr x \<Rightarrow> k x)"

definition setStatusCondition ::
  "'w env \<Rightarrow> ami_refresher \<Rightarrow> condition_type \<Rightarrow> condition_status \<Rightarrow> bytes \<Rightarrow> bytes \<Rightarrow>
   ('w, go_error option \<times> ami_refresher) go" where
  "setStatusCondition E ar conditionType condStatus reason message =
     go_call (SetCondition E (ar_ops E) ar conditionType condStatus reason message)"

text \<open>A condition whose failure ends the reconciliation with its error.\<close>

definition require_condition ::
  "'w env \<Rightarrow> ami_refresher \<Rightarrow> condition_type \<Rightarrow> condition_status \<Rightarrow> bytes \<Rightarrow> bytes \<Rightarrow>
   ('w, ctrl_result + ami_refresher) go" where
  "require_condition E ar t s reason message =
     go_bind (setStatusCondition E ar t s reason message) (\<lambda>(failed, ar').
     go_return (case failed of Some err \<Rightarrow> Inl (Failed err) | None \<Rightarrow> Inr ar'))"

text \<open>An error of the body: it goes into the condition \<open>Failed\<close> and ends the reconciliation.\<close>

definition report_failure ::
  "'w env \<Rightarrow> ami_refresher \<Rightarrow> go_error \<Rightarrow> ('w, ctrl_result + 'a) go" where
  "report_failure E ar err =
     go_step (require_condition E ar ConditionTypeFailed ConditionTrue ''Failed'' (error_text err))
       (\<lambda>ar'. go_return (Inl (Failed err)))"

definition read_refresher :: "'w env \<Rightarrow> object_key \<Rightarrow> ('w, ctrl_result + ami_refresher) go" where
  "read_refresher E req =
     go_bind (go_call (env_get_ar E req)) (\<lambda>answer.
     go_return (case answer of Inl err \<Rightarrow> Inl (IgnoreNotFound err) | Inr ar \<Rightarrow> Inr ar))"

definition start_condition ::
  "'w env \<Rightarrow> object_key \<Rightarrow> ami_refresher \<Rightarrow> ('w, ctrl_result + ami_refresher) go" where
  "start_condition E req ar =
     (if ars_Conditions (ar_Status ar) = []
      then go_step (require_condition E ar ConditionTypeInProgress ConditionUnknown ''Reconciling''
             ''Starting reconciliation'') (\<lambda>ar'. read_refresher E req)
      else go_return (Inr ar))"

definition require_finalizer ::
  "(ami_refresher \<Rightarrow> ('w, go_error + ami_refresher) call) \<Rightarrow> ami_refresher \<Rightarrow>
   ('w, ctrl_result + ami_refresher) go" where
  "require_finalizer update ar =
     go_bind (go_call (HandleFinalizer (ar_finalizer_ops update) ar)) (\<lambda>(failed, ar').
     go_return (case failed of Some err \<Rightarrow> Inl (Failed err) | None \<Rightarrow> Inr ar'))"

text \<open>The branch for an object marked for deletion; the object is looked up again and used.\<close>

definition finalize_deleted ::
  "'w env \<Rightarrow> (ami_refresher \<Rightarrow> ('w, go_error + ami_refresher) call) \<Rightarrow> object_key \<Rightarrow> ami_refresher \<Rightarrow>
   ('w, ctrl_result + ami_refresher) go" where
  "finalize_deleted E update req ar =
     (if om_DeletionTimestamp (ar_Meta ar) \<noteq> None
      then
        go_step (require_condition E ar ConditionTypeInProgress ConditionTrue ''Finalizing''
          ''Finalizer operations for custom resource %s name were successfully accomplished'') (\<lambda>ar'.
        go_step (require_finalizer update ar') (\<lambda>ar''.
          read_refresher E req))
      else go_return (Inr ar))"

section \<open>The refresh\<close>

text \<open>
  With filters in the spec the image is the one \<open>AMIChecks\<close> names, for no tags at all; only the error
  of its result is looked at.
\<close>

definition select_image ::
  "'w env \<Rightarrow> manager_ami \<Rightarrow> duration \<Rightarrow> ami_refresher \<Rightarrow> ('w, ctrl_result + bytes) go" where
  "select_image E am expiresIn ar =
     (if rs_AMIFilters (ar_Spec ar) \<noteq> []
      then go_bind (AMIChecks E am [] expiresIn AMIRefreshCheck) (\<lambda>results.
        case res_Error results of
          Some err \<Rightarrow> report_failure E ar err
        | None \<Rightarrow> go_return (Inr (res_Name results)))
      else go_return (Inr (rs_AMI (ar_Spec ar))))"

fun update_groups ::
  "'w eks_api \<Rightarrow> nat \<Rightarrow> manager_eks \<Rightarrow> bytes \<Rightarrow> update_config \<Rightarrow> bytes list \<Rightarrow>
   ('w, go_error option option) go" where
  "update_groups K fuel m ami uc [] = go_return (Some None)"
| "update_groups K fuel m ami uc (nodeGroupName # names) =
     go_bind (UpdateNodeGroupAMI K fuel m nodeGroupName ami uc) (\<lambda>answer.
     case answer of
       Some None \<Rightarrow> update_groups K fuel m ami uc names
     | _ \<Rightarrow> go_return answer)"

definition fixed_update_config :: update_config where
  "fixed_update_config =
     \<lparr>uc_Enable = False, uc_Force = False, uc_WaitForCompletion = False, uc_MaxUnavailable = None,
      uc_MaxUnavailablePercentage = None\<rparr>"

definition finish_refresh ::
  "'w env \<Rightarrow> duration \<Rightarrow> ami_refresher \<Rightarrow> ('w, ctrl_result) go" where
  "finish_refresh E retryAfter ar =
     go_bind (setStatusCondition E ar ConditionTypeAMIUpdated ConditionTrue ''Completed''
       ''Successfully Update AMI for all required node groups'') (\<lambda>(failed, ar').
     go_return (case failed of Some err \<Rightarrow> Failed err | None \<Rightarrow> RequeueAfter retryAfter))"

text \<open>
  The body: image, node groups, updates, final condition. \<open>None\<close> only while an update is waited for,
  which the fixed configuration rules out.
\<close>

definition refresh_groups ::
  "'w env \<Rightarrow> 'w eks_api \<Rightarrow> nat \<Rightarrow> manager_eks \<Rightarrow> bytes \<Rightarrow> ami_refresher \<Rightarrow>
   ('w, ctrl_result option) go" where
  "refresh_groups E K fuel ek8s ami ar =
     go_bind (ListNodeGroups K ek8s (rs_ClusterName (ar_Spec ar))) (\<lambda>listed.
     case listed of
       Inl err \<Rightarrow>
         go_bind (report_failure E ar err) (\<lambda>r. go_return (Some (case r of Inl x \<Rightarrow> x | Inr u \<Rightarrow> u)))
     | Inr nodeGroups \<Rightarrow>
         go_bind (go_outcome (TrimNodeGroups nodeGroups (rs_Exclude (ar_Spec ar)))) (\<lambda>trimNodeGroups.
         go_bind (update_groups K fuel ek8s ami fixed_update_config trimNodeGroups) (\<lambda>answer.
         case answer of
           None \<Rightarrow> go_return None
         | Some (Some err) \<Rightarrow>
             go_bind (report_failure E ar err) (\<lambda>r. go_return (Some (case r of Inl x \<Rightarrow> x | Inr u \<Rightarrow> u)))
         | Some None \<Rightarrow>
             go_bind (finish_refresh E
               (duration_or_zero (to_ControllerTimer (rs_TimeOuts (ar_Spec ar)))) ar)
               (\<lambda>r. go_return (Some r)))))"

definition refresh ::
  "'w env \<Rightarrow> 'w eks_api \<Rightarrow> nat \<Rightarrow> ami_refresher \<Rightarrow> ('w, ctrl_result option) go" where
  "refresh E K fuel ar =
     go_bind (go_call (ami_New E (rs_Region (ar_Spec ar)))) (\<lambda>am.
     go_bind (go_call (eks_New E (rs_Region (ar_Spec ar)) (rs_ClusterName (ar_Spec ar)))) (\<lambda>ek8s.
     go_bind (select_image E am (duration_or_zero (to_ExpiresIn (rs_TimeOuts (ar_Spec ar)))) ar)
       (\<lambda>selected.
     case selected of
       Inl r \<Rightarrow> go_return (Some r)
     | Inr ami \<Rightarrow> refresh_groups E K fuel ek8s ami ar)))"

definition Refresher_Reconcile ::
  "'w env \<Rightarrow> 'w eks_api \<Rightarrow> (ami_refresher \<Rightarrow> ('w, go_error + ami_refresher) call) \<Rightarrow> nat \<Rightarrow> object_key \<Rightarrow>
   ('w, ctrl_result option) go" where
  "Refresher_Reconcile E K update fuel req =
     go_bind
       (go_step (read_refresher E req) (\<lambda>ar.
        go_step (start_condition E req ar) (\<lambda>ar.
        go_step (require_finalizer update ar) (\<lambda>ar.
        finalize_deleted E update req ar)))) (\<lambda>prepared.
     case prepared of
       Inl r \<Rightarrow> go_return (Some r)
     | Inr ar \<Rightarrow> refresh E K fuel ar)"

section \<open>Which node groups are touched\<close>

text \<open>The EKS client with every call about some node groups replaced.\<close>

definition calls_replaced ::
  "bytes set \<Rightarrow> 'w eks_api \<Rightarrow> 'w eks_api \<Rightarrow> 'w eks_api" where
  "calls_replaced X K' K = K\<lparr>
     eks_describe_nodegroup := (\<lambda>cfg cluster n.
       if n \<in> X then eks_describe_nodegroup K' cfg cluster n else eks_describe_nodegroup K cfg cluster n),
     eks_update_config := (\<lambda>cfg cluster n.
       if n \<in> X then eks_update_config K' cfg cluster n else eks_update_config K cfg cluster n),
     eks_update_version := (\<lambda>cfg cluster n.
       if n \<in> X then eks_update_version K' cfg cluster n else eks_update_version K cfg cluster n)\<rparr>"

lemma calls_replaced_simps [simp]:
  "eks_ctx_err (calls_replaced X K' K) = eks_ctx_err K"
  "eks_list_nodegroups (calls_replaced X K' K) = eks_list_nodegroups K"
  "eks_describe_versions (calls_replaced X K' K) = eks_describe_versions K"
  "eks_create_version (calls_replaced X K' K) = eks_create_version K"
  "eks_wait_choice (calls_replaced X K' K) = eks_wait_choice K"
  "n \<notin> X \<Longrightarrow> eks_describe_nodegroup (calls_replaced X K' K) cfg c n = eks_describe_nodegroup K cfg c n"
  "n \<notin> X \<Longrightarrow> eks_update_config (calls_replaced X K' K) cfg c n = eks_update_config K cfg c n"
  "n \<notin> X \<Longrightarrow> eks_update_version (calls_replaced X K' K) cfg c n = eks_update_version K cfg c n"
  by (simp_all add: calls_replaced_def)

lemma wait_loop_replaced:
  assumes "n \<notin> X"
  shows "wait_loop (calls_replaced X K' K) cfg cluster n fuel ws = wait_loop K cfg cluster n fuel ws"
proof (induction fuel arbitrary: ws)
  case 0
  then show ?case by simp
next
  case (Suc fuel)
  have eq: "getNodeGroupStatus (calls_replaced X K' K) cfg cluster n = getNodeGroupStatus K cfg cluster n"
    "handleUpdateFailure (calls_replaced X K' K) cfg cluster n = handleUpdateFailure K cfg cluster n"
    using assms by (simp_all add: getNodeGroupStatus_def handleUpdateFailure_def)
  show ?case by (simp only: wait_loop.simps eq Suc.IH calls_replaced_simps)
qed

lemma UpdateNodeGroupAMI_replaced:
  assumes "n \<notin> X"
  shows "UpdateNodeGroupAMI (calls_replaced X K' K) fuel m n ami uc = UpdateNodeGroupAMI K fuel m n ami uc"
proof -
  have eq: "updateNodeGroupConfig (calls_replaced X K' K) cfg cluster n uc = updateNodeGroupConfig K cfg cluster n uc"
    "roll_out (calls_replaced X K' K) fuel cfg cluster n lt v ami uc' = roll_out K fuel cfg cluster n lt v ami uc'"
    for cfg cluster uc lt v uc'
    unfolding updateNodeGroupConfig_def roll_out_def waitForUpdateCompletion_def
      calls_replaced_simps(1-5) calls_replaced_simps(6-8) [OF assms] wait_loop_replaced [OF assms]
    by (rule refl)+
  show ?thesis
    unfolding UpdateNodeGroupAMI_def calls_replaced_simps(1-5) calls_replaced_simps(6-8) [OF assms] eq
    by (rule refl)
qed

lemma update_groups_replaced:
  "set names \<inter> X = {} \<Longrightarrow>
     update_groups (calls_replaced X K' K) fuel m ami uc names = update_groups K fuel m ami uc names"
  by (induction names) (simp_all add: UpdateNodeGroupAMI_replaced cong: split_cong)

lemma trim_keeps_out: "TrimNodeGroups groups ex = Returns names \<Longrightarrow> set names \<inter> set ex = {}"
  by (auto simp: TrimNodeGroups_def trim_loop_eq exclude_map_lookup split: if_splits)

text \<open>
  C15. Excluded node groups are left alone: whatever any call about them would do, the refresh is the
  same, so it neither reads nor changes a node group the spec excludes.
\<close>

theorem excluded_groups_untouched:
  "refresh E (calls_replaced (set (rs_Exclude (ar_Spec ar))) K' K) fuel ar = refresh E K fuel ar"
proof -
  let ?X = "set (rs_Exclude (ar_Spec ar))"
  have list: "ListNodeGroups (calls_replaced ?X K' K) = ListNodeGroups K"
    by (intro ext) (simp add: ListNodeGroups_def)
  have trim: "go_bind (go_outcome (TrimNodeGroups groups (rs_Exclude (ar_Spec ar))))
      (\<lambda>names. go_bind (update_groups (calls_replaced ?X K' K) fuel m ami uc names) k) =
    go_bind (go_outcome (TrimNodeGroups groups (rs_Exclude (ar_Spec ar))))
      (\<lambda>names. go_bind (update_groups K fuel m ami uc names) k)" for groups m ami uc and k :: "_ \<Rightarrow> ('a, _) go"
    by (cases "TrimNodeGroups groups (rs_Exclude (ar_Spec ar))")
      (simp_all add: fun_eq_iff go_bind_run go_outcome_def update_groups_replaced [OF trim_keeps_out])
  show ?thesis
    unfolding refresh_def refresh_groups_def list trim by (rule refl)
qed

section \<open>What the spec decides\<close>

text \<open>A changed spec of the object in memory does not show in what is written.\<close>

lemma SetCondition_spec:
  "SetCondition E (ar_ops E) (ar\<lparr>ar_Spec := sp\<rparr>) t s r m w =
     (let ((err, ar'), w') = SetCondition E (ar_ops E) ar t s r m w in ((err, ar'\<lparr>ar_Spec := sp\<rparr>), w'))"
proof -
  have "Status_attempt (ar_ops E) (ar\<lparr>ar_Spec := sp, ar_Status := c\<rparr>) =
      Status_attempt (ar_ops E) (ar\<lparr>ar_Status := c\<rparr>)" for c
    by (simp add: fun_eq_iff Status_attempt_def cong: split_cong)
  then show ?thesis
    by (simp add: SetCondition_def Status_Update_def Let_def split_beta ar_SetConditions_def
        ar_GetConditions_def)
qed

lemma report_failure_spec: "report_failure E (ar\<lparr>ar_Spec := sp\<rparr>) err = report_failure E ar err"
  by (simp add: fun_eq_iff report_failure_def require_condition_def setStatusCondition_def go_step_def
      go_bind_run go_run_simps SetCondition_spec Let_def split_beta split: option.split)

lemma finish_refresh_spec: "finish_refresh E d (ar\<lparr>ar_Spec := sp\<rparr>) = finish_refresh E d ar"
  by (simp add: fun_eq_iff finish_refresh_def setStatusCondition_def go_bind_run go_run_simps
      SetCondition_spec Let_def split_beta)

text \<open>
  Three parts of the spec do not matter: once there is any filter, the refresh is the same for every
  other non-empty list of filters, for every image named in the spec, and in any case for every refresh
  configuration. The image query is not restricted by the filters, the named image is not used, and the
  configuration never reaches EKS.
\<close>

theorem spec_parts_ignored:
  assumes "rs_AMIFilters (ar_Spec ar) \<noteq> []" "filters \<noteq> []"
  shows "refresh E K fuel (ar\<lparr>ar_Spec := (ar_Spec ar)\<lparr>rs_AMIFilters := filters, rs_AMI := ami,
      rs_RefreshConfig := config\<rparr>\<rparr>) = refresh E K fuel ar"
  unfolding refresh_def refresh_groups_def select_image_def
  by (simp add: assms report_failure_spec finish_refresh_spec cong: split_cong)

text \<open>An EKS client over the example world that finds one node group, already up to date.\<close>

definition quiet_eks :: "sim eks_api" where
  "quiet_eks =
     \<lparr>eks_ctx_err = (\<lambda>w. (None, w)),
      eks_list_nodegroups = (\<lambda>cfg cluster w. (Inr [''blue''], w)),
      eks_describe_nodegroup = (\<lambda>cfg cluster name w. (Inr (Some \<lparr>ng_Status = NodegroupActive,
        ng_LaunchTemplate = Some \<lparr>lt_Id = None, lt_Name = Some ''lt'', lt_Version = Some ''3''\<rparr>\<rparr>), w)),
      eks_update_config = (\<lambda>cfg cluster name maximum w. (None, w)),
      eks_update_version = (\<lambda>cfg cluster name spec w. (None, w)),
      eks_describe_versions = (\<lambda>cfg name versions w. (Inr [Some (Some ''ami-7'')], w)),
      eks_create_version = (\<lambda>cfg name source ami w. (Inr (Some (Some 4)), w)),
      eks_wait_choice = (\<lambda>w. (WaitTick, w))\<rparr>"

definition filtered_ar :: "bytes \<Rightarrow> ami_refresher" where
  "filtered_ar v = example_ar\<lparr>ar_Spec := (ar_Spec example_ar)\<lparr>rs_AMIFilters :=
     [\<lparr>flt_Name = ''name'', flt_Values = [v]\<rparr>], rs_AMI := '''',
     rs_RefreshConfig := rs_RefreshConfig (ar_Spec example_ar)\<rparr>\<rparr>"

theorem spec_parts_ignored_witness:
  "refresh sim_env quiet_eks 3 (filtered_ar ''al2023'') = refresh sim_env quiet_eks 3 (filtered_ar ''windows'')"
proof -
  have "filtered_ar v = (filtered_ar ''windows'')\<lparr>ar_Spec := (ar_Spec (filtered_ar ''windows''))\<lparr>
      rs_AMIFilters := [\<lparr>flt_Name = ''name'', flt_Values = [v]\<rparr>], rs_AMI := '''',
      rs_RefreshConfig := rs_RefreshConfig (ar_Spec example_ar)\<rparr>\<rparr>" for v
    by (simp add: filtered_ar_def)
  moreover have "rs_AMIFilters (ar_Spec (filtered_ar ''windows'')) \<noteq> []" by (simp add: filtered_ar_def)
  ultimately show ?thesis using spec_parts_ignored by (metis not_Cons_self2)
qed

text \<open>
  C33. When no image is found the refresh goes on without one: the check fails without an error, the
  result's empty name replaces the image of the spec, and the node groups are updated to the image
  with the empty identifier.
\<close>

theorem no_image_is_rolled_out:
  assumes "rs_AMIFilters (ar_Spec ar) \<noteq> []" "never_cut_off E"
    and "ami_New E (rs_Region (ar_Spec ar)) w = (Some cfg, w1)"
    and "eks_New E (rs_Region (ar_Spec ar)) (rs_ClusterName (ar_Spec ar)) w1 = (m, w2)"
    and "BuildFilters E [] w2 = (filters, w3)"
    and "env_describe_images E cfg filters w3 = (Inr [], w4)"
  shows "\<exists>w5. refresh E K fuel ar w = refresh_groups E K fuel m '''' ar w5"
  using assms
  by (auto simp: refresh_def select_image_def AMIChecks_def ami_runWithTimeout_def go_laws
      DescribeImagesWithFilters_def never_cut_off_def split_beta)

section \<open>What a success means\<close>

lemma report_failure_stops:
  "report_failure E ar err w = (Returns r, w') \<Longrightarrow> \<exists>e. r = Inl (Failed e)"
  unfolding report_failure_def go_step_def require_condition_def
  by (auto elim!: go_bindE simp: go_run_eq split: sum.splits option.splits)

lemma select_image_stops:
  "select_image E am d ar w = (Returns (Inl r), w') \<Longrightarrow> \<exists>e. r = Failed e"
  unfolding select_image_def
  by (auto elim!: go_bindE simp: go_run_eq dest!: report_failure_stops split: if_splits option.splits)

lemma update_groups_success:
  "update_groups K fuel m ami uc names w = (Returns (Some None), w') \<Longrightarrow> n \<in> set names \<Longrightarrow>
     \<exists>u u'. UpdateNodeGroupAMI K fuel m n ami uc u = (Returns (Some None), u')"
proof (induction names arbitrary: w)
  case Nil
  then show ?case by simp
next
  case (Cons x names)
  obtain y v where "UpdateNodeGroupAMI K fuel m x ami uc w = (Returns y, v)"
    and "(case y of Some None \<Rightarrow> update_groups K fuel m ami uc names | _ \<Rightarrow> go_return y) v =
      (Returns (Some None), w')"
    using Cons.prems(1) by (auto elim: go_bindE)
  then show ?case
    using Cons by (auto simp: go_run_eq split: option.splits)
qed

text \<open>
  C22. A refresh that asks to be run again after the controller timer has done its work: the node groups
  of the cluster were listed, and for each of them that is not excluded \<open>UpdateNodeGroupAMI\<close> has
  succeeded, all with the same image.
\<close>

theorem refresh_covers_groups:
  assumes "refresh E K fuel ar w = (Returns (Some (RequeueAfter d)), w')"
  shows "d = duration_or_zero (to_ControllerTimer (rs_TimeOuts (ar_Spec ar))) \<and>
    (\<exists>cfg groups v v' m ami. eks_list_nodegroups K cfg (rs_ClusterName (ar_Spec ar)) v = (Inr groups, v') \<and>
       m = Some (cfg, rs_ClusterName (ar_Spec ar)) \<and>
       (\<forall>n \<in> set groups. n \<notin> set (rs_Exclude (ar_Spec ar)) \<longrightarrow>
          (\<exists>u u'. UpdateNodeGroupAMI K fuel m n ami fixed_update_config u = (Returns (Some None), u'))))"
proof -
  let ?cluster = "rs_ClusterName (ar_Spec ar)"
  obtain m ami v v' where m: "m = None \<or> (\<exists>cfg. m = Some (cfg, ?cluster))"
    and run: "refresh_groups E K fuel m ami ar v = (Returns (Some (RequeueAfter d)), v')"
    using assms unfolding refresh_def
    by (auto elim!: go_bindE simp: go_run_eq eks_New_def dest!: select_image_stops
        split: sum.splits prod.splits) blast+
  then obtain cfg where m: "m = Some (cfg, ?cluster)"
    by (auto simp: refresh_groups_def ListNodeGroups_def go_bind_run go_run_simps)
  obtain groups names v1 v2 v3 v4 where
    list: "ListNodeGroups K m ?cluster v = (Returns (Inr groups), v1)"
    and trim: "TrimNodeGroups groups (rs_Exclude (ar_Spec ar)) = Returns names"
    and upd: "update_groups K fuel m ami fixed_update_config names v2 = (Returns (Some None), v3)"
    and fin: "finish_refresh E (duration_or_zero (to_ControllerTimer (rs_TimeOuts (ar_Spec ar)))) ar v3 =
      (Returns (RequeueAfter d), v4)"
    using run unfolding refresh_groups_def
    by (auto elim!: go_bindE simp: go_run_eq go_outcome_def dest!: report_failure_stops
        split: sum.splits option.splits)
  have "d = duration_or_zero (to_ControllerTimer (rs_TimeOuts (ar_Spec ar)))"
    using fin unfolding finish_refresh_def
    by (auto elim!: go_bindE simp: go_run_eq split: option.splits)
  moreover have "\<exists>u u'. eks_list_nodegroups K cfg ?cluster u = (Inr groups, u')"
    using list m unfolding ListNodeGroups_def
    by (auto simp: go_run_eq elim!: go_bindE split: sum.splits if_splits; blast)
  moreover have "set names = {n \<in> set groups. n \<notin> set (rs_Exclude (ar_Spec ar))}"
    using trim by (auto simp: TrimNodeGroups_def trim_loop_eq exclude_map_lookup split: if_splits)
  ultimately show ?thesis
    using update_groups_success [OF upd] m by blast
qed

section \<open>Deletion\<close>

lemma retried_fails:
  "retried f w r w' \<Longrightarrow> P w \<Longrightarrow> (\<And>v. P v \<Longrightarrow> fst (f v) \<noteq> None \<and> P (snd (f v))) \<Longrightarrow> r \<noteq> None"
  by (induction rule: retried.induct) (metis fst_conv snd_conv)+

lemma Status_Update_gone:
  assumes "retry_documented E" "gone w"
    and "\<And>k v. gone v \<Longrightarrow> (\<exists>err. fst (env_get_ar E k v) = Inl err) \<and> gone (snd (env_get_ar E k v))"
  shows "fst (Status_Update E (ar_ops E) ar w) \<noteq> None"
proof -
  have "fst (Status_attempt (ar_ops E) ar v) \<noteq> None \<and> gone (snd (Status_attempt (ar_ops E) ar v))"
    if "gone v" for v
    using assms(3) [OF that, of "object_key (ar_Meta ar)"]
    by (auto simp: Status_attempt_def split_beta split: sum.split)
  moreover have "retried (Status_attempt (ar_ops E) ar) w
      (fst (Status_Update E (ar_ops E) ar w)) (snd (Status_Update E (ar_ops E) ar w))"
    using assms(1) by (simp add: retry_documented_def Status_Update_def)
  ultimately show ?thesis using retried_fails [of _ w _ _ gone] assms(2) by blast
qed

text \<open>
  C34. Deleting a refresher ends in an error: the finalizer is taken off before the condition
  \<open>Finalizing\<close> is written, so when it was the last one the object is gone by then, its status cannot be
  written any more, and the reconciliation fails.
\<close>

theorem deletion_ends_in_error:
  assumes "retry_documented E" "env_get_ar E req w = (Inr ar, w1)" "ars_Conditions (ar_Status ar) \<noteq> []"
    and "om_DeletionTimestamp (ar_Meta ar) = Some t" "\<not> time_is_zero t"
    and "Finalizer \<in> set (om_Finalizers (ar_Meta ar))"
    and "update (ar\<lparr>ar_Meta := (ar_Meta ar)\<lparr>om_Finalizers := removeAll Finalizer
      (om_Finalizers (ar_Meta ar))\<rparr>\<rparr>) w1 = (Inr ar', w2)"
    and "om_DeletionTimestamp (ar_Meta ar') = Some t"
    and "gone w2" "\<And>v. gone v \<Longrightarrow> gone (snd (env_now E v))"
    and "\<And>k v. gone v \<Longrightarrow> (\<exists>err. fst (env_get_ar E k v) = Inl err) \<and> gone (snd (env_get_ar E k v))"
  shows "\<exists>err w'. Refresher_Reconcile E K update fuel req w = (Returns (Some (Failed err)), w')"
proof -
  have read: "read_refresher E req w = (Returns (Inr ar), w1)"
    using assms(2) by (simp add: read_refresher_def go_laws)
  have start: "start_condition E req ar = go_return (Inr ar)"
    using assms(3) by (simp add: start_condition_def)
  have fin: "require_finalizer update ar w1 = (Returns (Inr ar'), w2)"
    using assms(4-7)
    by (simp add: require_finalizer_def go_laws HandleFinalizer_def not_deleted_def update_object_def
        with_finalizers_def ar_finalizer_ops_def)
  have "\<exists>err w3. require_condition E ar' c s r m w2 = (Returns (Inl (Failed err)), w3)" for c s r m
  proof -
    obtain err where "fst (fst (SetCondition E (ar_ops E) ar' c s r m w2)) = Some err"
      using Status_Update_gone [OF assms(1) assms(10) [OF assms(9)] assms(11)]
      by (fastforce simp: SetCondition_def Let_def split_beta)
    then show ?thesis
      by (simp add: require_condition_def setStatusCondition_def go_laws split_beta)
  qed
  then obtain err w3 where "require_condition E ar' ConditionTypeInProgress ConditionTrue ''Finalizing''
      ''Finalizer operations for custom resource %s name were successfully accomplished'' w2 =
      (Returns (Inl (Failed err)), w3)"
    by blast
  then have "finalize_deleted E update req ar' w2 = (Returns (Inl (Failed err)), w3)"
    using assms(8) by (simp add: finalize_deleted_def go_step_def go_laws)
  with read start fin show ?thesis
    by (simp add: Refresher_Reconcile_def go_step_def go_laws)
qed

section \<open>Examples\<close>

definition ar_world :: sim where
  "ar_world = (sim_start example_pb)\<lparr>sim_ar := Some example_ar\<rparr>"

lemma quiet_update:
  "UpdateNodeGroupAMI quiet_eks 3 (Some (''us-west-2'', ''k'')) ''blue'' ''ami-7'' fixed_update_config w =
     (Returns (Some None), w)"
  by (simp add: UpdateNodeGroupAMI_def updateNodeGroupConfig_def template_of_def already_current_def
      fixed_update_config_def quiet_eks_def go_laws ToString_def trim_prefix_def)

lemma quiet_refresh:
  "\<exists>w'. refresh sim_env quiet_eks 3 example_ar ar_world =
     (Returns (Some (RequeueAfter (duration_or_zero ''5m''))), w')"
proof -
  have list: "ListNodeGroups quiet_eks (Some (''us-west-2'', ''k'')) ''k'' w = (Returns (Inr [''blue'']), w)" for w
    by (simp add: ListNodeGroups_def go_laws quiet_eks_def)
  have trim: "TrimNodeGroups [''blue''] [] = Returns [''blue'']"
    by (simp add: TrimNodeGroups_def trim_loop_eq exclude_map_def)
  have fields: "ar_Spec example_ar = \<lparr>rs_Region = ''us-west-2'', rs_AMI = ''ami-7'', rs_AMIFilters = [],
      rs_ClusterName = ''k'', rs_Exclude = [],
      rs_TimeOuts = \<lparr>to_ExpiresIn = ''48h'', to_ControllerTimer = ''5m''\<rparr>,
      rs_RefreshConfig = \<lparr>rc_Enable = False, rc_Force = False, rc_MaxUnavailable = None,
        rc_MaxUnavailablePercentage = None, rc_WaitForCompletion = False\<rparr>\<rparr>"
    by (simp add: example_ar_def)
  have fin: "\<exists>w'. finish_refresh sim_env d example_ar ar_world = (Returns (RequeueAfter d), w')" for d
    by (simp add: finish_refresh_def setStatusCondition_def go_laws SetCondition_def Status_Update_def
        Status_attempt_def sim_run ar_world_def sim_start_def Let_def)
  show ?thesis
    using fin [of "duration_or_zero ''5m''"]
    by (auto simp: refresh_def refresh_groups_def select_image_def fields ami_New_def eks_New_def
        ClientAWS_def sim_run go_laws list trim quiet_update go_outcome_def ar_world_def sim_start_def)
qed

theorem refresh_covers_groups_witness:
  "\<exists>m ami u u'. UpdateNodeGroupAMI quiet_eks 3 m ''blue'' ami fixed_update_config u =
     (Returns (Some None), u')"
proof -
  obtain w' where "refresh sim_env quiet_eks 3 example_ar ar_world =
      (Returns (Some (RequeueAfter (duration_or_zero ''5m''))), w')"
    using quiet_refresh by blast
  from refresh_covers_groups [OF this] obtain cfg groups v v' m ami where
    g: "eks_list_nodegroups quiet_eks cfg (rs_ClusterName (ar_Spec example_ar)) v = (Inr groups, v')"
    and u: "\<forall>n \<in> set groups. n \<notin> set (rs_Exclude (ar_Spec example_ar)) \<longrightarrow>
      (\<exists>u u'. UpdateNodeGroupAMI quiet_eks 3 m n ami fixed_update_config u = (Returns (Some None), u'))"
    by blast
  have "''blue'' \<in> set groups" "''blue'' \<notin> set (rs_Exclude (ar_Spec example_ar))"
    using g by (auto simp: quiet_eks_def example_ar_def)
  with u show ?thesis by blast
qed

theorem no_image_is_rolled_out_witness:
  "\<exists>w5. refresh sim_env quiet_eks 3 (filtered_ar ''al2023'') (example_world []) =
     refresh_groups sim_env quiet_eks 3 (Some (''us-west-2'', ''k'')) '''' (filtered_ar ''al2023'') w5"
  by (rule no_image_is_rolled_out [where cfg = "''us-west-2''" and filters = "[]"
        and ?w1.0 = "example_world []" and ?w2.0 = "example_world []" and ?w3.0 = "example_world []"
        and ?w4.0 = "example_world []"])
    (simp_all add: filtered_ar_def example_ar_def sim_env_never_cut_off ami_New_def eks_New_def
      ClientAWS_def sim_run example_world_def sim_start_def BuildFilters_def)

text \<open>A refresher on its way out, and the API server without it: the world is whether it is there.\<close>

definition leaving_ar :: ami_refresher where
  "leaving_ar = example_ar\<lparr>ar_Meta := (ar_Meta example_ar)\<lparr>om_DeletionTimestamp := Some 7,
       om_Finalizers := [Finalizer]\<rparr>,
     ar_Status := (ar_Status example_ar)\<lparr>ars_Conditions := [\<lparr>oc_Type = ConditionTypeAMIUpdated,
       oc_Status = ConditionTrue, oc_LastTransitionTime = 0, oc_Reason = '''', oc_Message = ''''\<rparr>]\<rparr>\<rparr>"

lemma leaving_ar_simps [simp]:
  "ars_Conditions (ar_Status leaving_ar) \<noteq> []"
  "om_DeletionTimestamp (ar_Meta leaving_ar) = Some 7"
  "om_Finalizers (ar_Meta leaving_ar) = [Finalizer]"
  by (simp_all add: leaving_ar_def)

definition leaving_env :: "sim env" where
  "leaving_env = sim_env\<lparr>env_get_ar := (\<lambda>k w. (option_found (sim_ar w), w))\<rparr>"

theorem deletion_ends_in_error_witness:
  "\<exists>err w'. Refresher_Reconcile leaving_env quiet_eks (\<lambda>ar w. (Inr ar, w\<lparr>sim_ar := None\<rparr>)) 3
     (''ns'', ''ar'') (ar_world\<lparr>sim_ar := Some leaving_ar\<rparr>) = (Returns (Some (Failed err)), w')"
proof (rule deletion_ends_in_error [where gone = "\<lambda>w. sim_ar w = None" and t = 7
      and ar = leaving_ar and ?w1.0 = "ar_world\<lparr>sim_ar := Some leaving_ar\<rparr>"
      and ar' = "leaving_ar\<lparr>ar_Meta := (ar_Meta leaving_ar)\<lparr>om_Finalizers := []\<rparr>\<rparr>"
      and ?w2.0 = "ar_world\<lparr>sim_ar := None\<rparr>"])
  show "retry_documented leaving_env"
    by (auto simp: retry_documented_def leaving_env_def sim_calls intro: retried.last)
qed (simp_all add: leaving_env_def option_found_def time_is_zero_def zero_time_def sim_calls)

end
