(* ===== verification/Notifications.thy ===== *)
theory Notifications
  imports Ami_Manager "HOL-Library.Multiset"
begin

text \<open>
  \<open>pkg/notifier\<close> apart from Slack: the SNS and SES services and the notifier that sends through several
  services at once. The publishing calls are a record over the world; a service is what its \<open>Send\<close>
  does with a subject and a message.
\<close>

record 'w notify_api =
  nt_Publish :: "bytes \<Rightarrow> bytes \<Rightarrow> bytes \<Rightarrow> bytes \<Rightarrow> ('w, go_error option) call"
  nt_SendEmail :: "bytes \<Rightarrow> bytes \<Rightarrow> bytes list \<Rightarrow> bytes \<Rightarrow> bytes \<Rightarrow> ('w, go_error option) call"

type_synonym 'w service = "bytes \<Rightarrow> bytes \<Rightarrow> ('w, go_error option) call"

record sns_service =
  sns_Client :: bytes
  sns_TopicARN :: bytes

definition NewSNSService :: "'w env \<Rightarrow> bytes \<Rightarrow> bytes \<Rightarrow> ('w, go_error + sns_service) call" where
  "NewSNSService E region topicARN w =
     (case env_aws_config E region w of
        (Inl err, w1) \<Rightarrow> (Inl (errorf ''unable to load SDK config: '' err), w1)
      | (Inr cfg, w1) \<Rightarrow> (Inr \<lparr>sns_Client = cfg, sns_TopicARN = topicARN\<rparr>, w1))"

definition SNS_Send :: "'w notify_api \<Rightarrow> sns_service \<Rightarrow> 'w service" where
  "SNS_Send N s subject message = nt_Publish N (sns_Client s) (sns_TopicARN s) subject message"

record ses_service =
  ses_Client :: bytes
  ses_Sender :: bytes
  ses_To :: "bytes list"

definition NewSESService :: "bytes \<Rightarrow> bytes \<Rightarrow> bytes list \<Rightarrow> ses_service" where
  "NewSESService cfg sender to = \<lparr>ses_Client = cfg, ses_Sender = sender, ses_To = to\<rparr>"

definition SES_Send :: "'w notify_api \<Rightarrow> ses_service \<Rightarrow> 'w service" where
  "SES_Send N s subject message =
     nt_SendEmail N (ses_Client s) (ses_Sender s) (ses_To s) subject message"

text \<open>\<open>MultiNotifier\<close>: its services, in the order they were added.\<close>

definition NewMultiNotifier :: "'w service list" where
  "NewMultiNotifier = []"

definition AddService :: "'w service \<Rightarrow> 'w service list \<Rightarrow> 'w service list" where
  "AddService service services = services @ [service]"

text \<open>
  One goroutine per service. \<open>schedule\<close> is the order in which their calls take effect, \<open>arrival\<close> the
  order in which their errors get into the channel, which has room for all of them; both are chosen
  by the runtime.
\<close>

fun send_all :: "'w service list \<Rightarrow> bytes \<Rightarrow> bytes \<Rightarrow> ('w, go_error list) call" where
  "send_all [] subject message w = ([], w)"
| "send_all (s # services) subject message w =
     (case s subject message w of
        (None, w1) \<Rightarrow> send_all services subject message w1
      | (Some err, w1) \<Rightarrow>
          (let (errs, w2) = send_all services subject message w1 in (err # errs, w2)))"

definition MultiNotifier_Send ::
  "('w service list \<Rightarrow> 'w service list) \<Rightarrow> (go_error list \<Rightarrow> go_error list) \<Rightarrow> 'w service list \<Rightarrow>
   'w service" where
  "MultiNotifier_Send schedule arrival services subject message w =
     (let (errs, w1) = send_all (schedule services) subject message w;
          errors = arrival errs
      in (if errors \<noteq> []
          then Some (ErrorString (''errors occurred while sending notifications: ['' @
            str_join (map error_text errors) '' '' @ '']''))
          else None, w1))"

lemma length_send_all: "length (fst (send_all services subject message w)) \<le> length services"
  by (induction services arbitrary: w) (auto simp: split_beta Let_def split: option.split intro: le_SucI)

lemma send_all_verdict:
  "(\<And>s v. s \<in> set services \<Longrightarrow> fst (s subject message v) = ok s) \<Longrightarrow>
     fst (send_all services subject message w) = List.map_filter ok services"
  by (induction services arbitrary: w)
    (auto simp: map_filter_simps split_beta Let_def split: option.split)

text \<open>
  A notification through several services fails exactly when one of them fails, in whatever order
  the runtime runs them and their errors arrive, for services whose answer does not depend on the
  others; and the channel for the errors has room for all of them, so no goroutine waits.
\<close>

theorem multi_send_verdict:
  assumes "\<And>xs. mset (schedule xs) = mset xs" "\<And>es. mset (arrival es) = mset es"
    and "\<And>s v. s \<in> set services \<Longrightarrow> fst (s subject message v) = ok s"
  shows "(fst (MultiNotifier_Send schedule arrival services subject message w) = None \<longleftrightarrow>
      (\<forall>s \<in> set services. ok s = None)) \<and>
    length (fst (send_all (schedule services) subject message w)) \<le> length services"
proof -
  have s: "set (schedule services) = set services" using assms(1) by (metis set_mset_mset)
  have "length (schedule services) = length services" using assms(1) by (metis size_mset)
  then have "length (fst (send_all (schedule services) subject message w)) \<le> length services"
    using length_send_all [of "schedule services" subject message w] by simp
  moreover have e: "fst (send_all (schedule services) subject message w) =
      List.map_filter ok (schedule services)"
    by (rule send_all_verdict) (simp add: s assms(3))
  moreover have "arrival es = [] \<longleftrightarrow> es = []" for es
    using assms(2) [of es] by (metis mset_zero_iff)
  moreover have "List.map_filter ok xs = [] \<longleftrightarrow> (\<forall>x \<in> set xs. ok x = None)" for xs
    by (induction xs) (auto simp: map_filter_simps split: option.split)
  ultimately show ?thesis
    by (simp add: MultiNotifier_Send_def split_beta Let_def s)
qed

theorem multi_send_verdict_witness:
  "fst (MultiNotifier_Send rev rev [\<lambda>s m w. (None, w), \<lambda>s m w. (Some ContextCanceled, w)] ''s'' ''m'' (0 :: nat))
     \<noteq> None"
proof -
  let ?ok = "\<lambda>s. fst (s ''s'' ''m'' (0 :: nat))"
  let ?services = "[\<lambda>s m w. (None, w), \<lambda>s m w. (Some ContextCanceled, w)] :: nat service list"
  have "(fst (MultiNotifier_Send rev rev ?services ''s'' ''m'' (0 :: nat)) = None \<longleftrightarrow>
      (\<forall>s \<in> set ?services. ?ok s = None)) \<and>
    length (fst (send_all (rev ?services) ''s'' ''m'' 0)) \<le> length ?services"
    by (rule multi_send_verdict) auto
  then show ?thesis by simp
qed

end
