(* ===== verification/Config_Store.thy ===== *)
theory Config_Store
  imports Prelude "HOL-Library.AList"
begin

text \<open>
  \<open>pkg/config/config.go\<close>: the configuration store. The YAML, JSON and dotenv readers, the file system
  and the process environment are the record \<open>config_api\<close>; a value of type \<open>interface{}\<close> is a value of
  an arbitrary type into which strings are put by \<open>cf_String\<close>. A Go map is a list of pairs whose keys
  are distinct.
\<close>

record ('w, 'v) config_api =
  cf_ReadFile :: "bytes \<Rightarrow> 'w \<Rightarrow> (go_error + bytes) \<times> 'w"
  cf_Yaml :: "bytes \<Rightarrow> go_error + (bytes \<times> 'v) list"
  cf_Json :: "bytes \<Rightarrow> go_error + (bytes \<times> 'v) list"
  cf_Dotenv :: "bytes \<Rightarrow> 'w \<Rightarrow> go_error option \<times> 'w"
  cf_Getenv :: "'w \<Rightarrow> bytes \<Rightarrow> bytes"
  cf_String :: "bytes \<Rightarrow> 'v"

type_synonym 'v config = "(bytes \<times> 'v) list"

definition NewConfig :: "'v config" where
  "NewConfig = []"

definition config_Set :: "bytes \<Rightarrow> 'v \<Rightarrow> 'v config \<Rightarrow> 'v config" where
  "config_Set key v c = AList.update key v c"

definition config_Get :: "bytes \<Rightarrow> 'v config \<Rightarrow> go_error + 'v" where
  "config_Get key c =
     (case map_of c key of
        None \<Rightarrow> Inl (ErrorString (''key not found: '' @ key))
      | Some v \<Rightarrow> Inr v)"

definition put_all :: "(bytes \<times> 'v) list \<Rightarrow> 'v config \<Rightarrow> 'v config" where
  "put_all tempMap c = fold (\<lambda>(key, v). config_Set key v) tempMap c"

definition loadFromYAML :: "('w, 'v) config_api \<Rightarrow> bytes \<Rightarrow> 'v config \<Rightarrow> go_error option \<times> 'v config" where
  "loadFromYAML A data c =
     (case cf_Yaml A data of Inl err \<Rightarrow> (Some err, c) | Inr tempMap \<Rightarrow> (None, put_all tempMap c))"

definition loadFromJSON :: "('w, 'v) config_api \<Rightarrow> bytes \<Rightarrow> 'v config \<Rightarrow> go_error option \<times> 'v config" where
  "loadFromJSON A data c =
     (case cf_Json A data of Inl err \<Rightarrow> (Some err, c) | Inr tempMap \<Rightarrow> (None, put_all tempMap c))"

text \<open>Every key of the store is looked up; the order of the iteration does not matter.\<close>

definition loadFromEnvVariables :: "('w, 'v) config_api \<Rightarrow> 'v config \<Rightarrow> 'w \<Rightarrow> 'v config" where
  "loadFromEnvVariables A c w =
     map (\<lambda>(key, v). (key, let envValue = cf_Getenv A w key
       in if envValue \<noteq> '''' then cf_String A envValue else v)) c"

definition loadFromDotEnv ::
  "('w, 'v) config_api \<Rightarrow> bytes \<Rightarrow> 'v config \<Rightarrow> 'w \<Rightarrow> (go_error option \<times> 'v config) \<times> 'w" where
  "loadFromDotEnv A filePath c w =
     (case cf_Dotenv A filePath w of
        (Some err, w1) \<Rightarrow> ((Some err, c), w1)
      | (None, w1) \<Rightarrow> ((None, loadFromEnvVariables A c w1), w1))"

definition LoadConfig ::
  "('w, 'v) config_api \<Rightarrow> bytes \<Rightarrow> 'v config \<Rightarrow> 'w \<Rightarrow> (go_error option \<times> 'v config) \<times> 'w" where
  "LoadConfig A filePath c w =
     (if filePath = '''' then ((None, loadFromEnvVariables A c w), w)
      else case cf_ReadFile A filePath w of
        (Inl err, w1) \<Rightarrow> ((Some (errorf ''failed to read the config file: '' err), c), w1)
      | (Inr data, w1) \<Rightarrow>
          (case loadFromYAML A data c of
             (None, c1) \<Rightarrow> ((None, loadFromEnvVariables A c1 w1), w1)
           | (Some yamlErr, c1) \<Rightarrow>
               (case loadFromJSON A data c1 of
                  (None, c2) \<Rightarrow> ((None, loadFromEnvVariables A c2 w1), w1)
                | (Some jsonErr, c2) \<Rightarrow>
                    (case loadFromDotEnv A filePath c2 w1 of
                       ((None, c3), w2) \<Rightarrow> ((None, loadFromEnvVariables A c3 w2), w2)
                     | ((Some envErr, c3), w2) \<Rightarrow>
                         ((Some (ErrorString
                           ''failed to determine the file format or load the configuration''), c3), w2)))))"

section \<open>The store as a map\<close>

lemma config_Set_map: "map_of (config_Set key v c) = (map_of c)(key \<mapsto> v)"
  by (simp add: config_Set_def update_conv')

lemma loadFromEnvVariables_map:
  "map_of (loadFromEnvVariables A c w) k =
     (case map_of c k of
        None \<Rightarrow> None
      | Some v \<Rightarrow> Some (if cf_Getenv A w k \<noteq> '''' then cf_String A (cf_Getenv A w k) else v))"
  by (induction c) (auto simp: loadFromEnvVariables_def Let_def)

lemma put_all_map: "map_of (put_all m c) = map_of c ++ map_of (rev m)"
  by (induction m arbitrary: c)
    (auto simp: put_all_def config_Set_map fun_eq_iff map_add_def split: option.splits)

lemma LoadConfig_success:
  assumes "LoadConfig A filePath c w = ((None, c'), w')"
  shows "\<exists>c0. c' = loadFromEnvVariables A c0 w' \<and> (filePath = '''' \<longrightarrow> c0 = c) \<and> dom (map_of c) \<subseteq> dom (map_of c0)"
proof -
  have "dom (map_of c) \<subseteq> dom (map_of (put_all m c))" for m
    by (simp add: put_all_map)
  moreover have "dom (map_of (loadFromEnvVariables A c v)) = dom (map_of c)" for v
    by (auto simp: loadFromEnvVariables_map dom_def split: option.splits)
  ultimately show ?thesis
    using assms
    by (auto simp: LoadConfig_def loadFromYAML_def loadFromJSON_def loadFromDotEnv_def
        split: if_splits prod.splits sum.splits option.splits) (metis subset_refl)+
qed

text \<open>
  The process environment has the last word, and only over what is there: after a load that
  succeeded, every key of the store whose variable is set has the variable's value; no key is lost;
  and a load without a file adds no key, so on a new store it loads nothing at all, whatever the
  environment holds.
\<close>

theorem environment_overrides:
  assumes "LoadConfig A filePath c w = ((None, c'), w')"
  shows "(k \<in> dom (map_of c') \<and> cf_Getenv A w' k \<noteq> '''' \<longrightarrow>
      config_Get k c' = Inr (cf_String A (cf_Getenv A w' k))) \<and>
    dom (map_of c) \<subseteq> dom (map_of c') \<and>
    (filePath = '''' \<longrightarrow> dom (map_of c') = dom (map_of c)) \<and>
    (filePath = '''' \<and> c = NewConfig \<longrightarrow> c' = NewConfig)"
proof -
  obtain c0 where c0: "c' = loadFromEnvVariables A c0 w'" "filePath = '''' \<longrightarrow> c0 = c"
    "dom (map_of c) \<subseteq> dom (map_of c0)"
    using LoadConfig_success [OF assms] by blast
  have "dom (map_of c') = dom (map_of c0)"
    by (auto simp: c0(1) loadFromEnvVariables_map dom_def split: option.splits)
  then show ?thesis
    using c0 by (auto simp: config_Get_def loadFromEnvVariables_map NewConfig_def
        loadFromEnvVariables_def [of _ "[]"] split: option.splits)
qed

theorem environment_overrides_witness:
  "config_Get ''REGION'' [(''REGION'', ''eu-west-1'')] = Inr ''eu-west-1''"
proof -
  let ?A = "\<lparr>cf_ReadFile = (\<lambda>p w. (Inl (ErrorString ''no file''), w)), cf_Yaml = (\<lambda>d. Inr []),
    cf_Json = (\<lambda>d. Inr []), cf_Dotenv = (\<lambda>p w. (None, w)), cf_Getenv = (\<lambda>w k. w),
    cf_String = (\<lambda>s. s)\<rparr> :: (bytes, bytes) config_api"
  have "LoadConfig ?A '''' [(''REGION'', ''us-west-2'')] ''eu-west-1'' =
      ((None, [(''REGION'', ''eu-west-1'')]), ''eu-west-1'')"
    by (simp add: LoadConfig_def loadFromEnvVariables_def)
  from environment_overrides [OF this, of "''REGION''"] show ?thesis by simp
qed

end
